(* ===== verification/Prelude.thy ===== *)
theory Prelude
  imports Main "HOL-Library.Word"
begin

text \<open>
  The vocabulary every component shares: Go's machine integers and byte slices, error values,
  the three ways a Go call can end (\<open>Ok\<close>, \<open>Err\<close>, \<open>Panic\<close>), symbolic request contexts, and the
  log of remote calls a client method makes.

  Signed and unsigned integers of one width are the same word type, because a Go conversion
  between them keeps the bit pattern; \<open>uint\<close> and \<open>sint\<close> say how a value is read.
\<close>

section \<open>Collections of facts\<close>

named_theorems go_simps \<open>equations that evaluate the Go outcome and call combinators\<close>
named_theorems rpc_intros \<open>rules that establish a call discipline of a client method\<close>

section \<open>Machine integers, bytes and strings\<close>

type_synonym byte = "8 word"
type_synonym bytes = "8 word list"
type_synonym u8 = "8 word"
type_synonym u16 = "16 word"
type_synonym u32 = "32 word"
type_synonym u64 = "64 word"
type_synonym i32 = "32 word"
type_synonym i64 = "64 word"

text \<open>Map of a Go enum type onto its \<open>n\<close> named constants leaves every other value to the
  constructor the rpc enums below call \<open>..._other\<close>.\<close>

text \<open>The builtin \<open>copy(dst[:], src)\<close> into a zeroed array of \<open>n\<close> bytes: a long source is cut,
  a short one leaves zero bytes behind.\<close>

definition copy_array :: "nat \<Rightarrow> bytes \<Rightarrow> bytes" where
  "copy_array n src = take n src @ replicate (n - length src) 0"

lemma length_copy_array [simp]: "length (copy_array n src) = n"
  by (simp add: copy_array_def)

lemma copy_array_exact [simp]: "length src = n \<Longrightarrow> copy_array n src = src"
  by (simp add: copy_array_def)

lemma copy_array_nth:
  "i < n \<Longrightarrow> copy_array n src ! i = (if i < length src then src ! i else 0)"
  by (auto simp: copy_array_def nth_append)

text \<open>Numbers in range are read back from a word as they were.\<close>

lemma sint_i64: "- (2 ^ 63) \<le> k \<Longrightarrow> k < 2 ^ 63 \<Longrightarrow> sint (word_of_int k :: 64 word) = k"
  by (simp add: int_word_sint)

lemma sint_i32: "- (2 ^ 31) \<le> k \<Longrightarrow> k < 2 ^ 31 \<Longrightarrow> sint (word_of_int k :: 32 word) = k"
  by (simp add: int_word_sint)

lemma uint_u64: "0 \<le> k \<Longrightarrow> k < 2 ^ 64 \<Longrightarrow> uint (word_of_int k :: 64 word) = k"
  by (simp add: uint_word_of_int)

lemma uint_u32: "0 \<le> k \<Longrightarrow> k < 2 ^ 32 \<Longrightarrow> uint (word_of_int k :: 32 word) = k"
  by (simp add: uint_word_of_int)

lemma uint_u16_u32 [simp]: "uint (ucast (w :: 16 word) :: 32 word) = uint w"
proof -
  have "uint w < 2 ^ 16" using unsigned_less [of w] by simp
  then have "uint w < 2 ^ 32" by simp
  then show ?thesis by (simp add: unsigned_ucast_eq take_bit_int_eq_self)
qed

lemma sint_i64_range: "- (2 ^ 63) \<le> sint (w :: 64 word)" "sint (w :: 64 word) < 2 ^ 63"
  using sint_ge [of w] sint_lt [of w] by simp_all

section \<open>Error values\<close>

text \<open>The status codes of gRPC the source names; \<open>GrpcOther\<close> is any other code.\<close>

datatype grpc_code =
    GrpcCanceled | GrpcUnknown | GrpcNotFound | GrpcAlreadyExists
  | GrpcUnimplemented | GrpcUnavailable | GrpcOther nat

text \<open>Package-level error variables, compared by identity.\<close>

datatype sentinel =
    ErrVersionCheckNotImplemented | ErrVersionIncompatible | ErrBuildTagsMissing
  | ErrRouterShuttingDown | ErrNoRouteFound
  | ErrPaymentNotInitiated | ErrAlreadyPaid | ErrClientConnClosing
  | ErrRetry

datatype num_reason = ErrSyntax | ErrRange

text \<open>
  An error is built by \<open>errors.New\<close> or an argument-free \<open>fmt.Errorf\<close> (\<open>NewErr\<close>), by
  \<open>fmt.Errorf\<close> around another error with \<open>%v\<close> (\<open>FmtErr\<close>, the cause survives as text only) or with
  \<open>%w\<close> (\<open>WrapErr\<close>, the cause can be unwrapped); \<open>FmtVal\<close> formats a string value. \<open>StatusErr\<close> is an
  error that carries a gRPC status, \<open>ExtErr\<close> any other error of code outside the library, both with
  the text \<open>Error()\<close> returns.
\<close>

datatype go_error =
    NewErr string
  | FmtErr string go_error
  | FmtVal string string
  | WrapErr string go_error
  | Sentinel sentinel
  | StatusErr grpc_code string
  | ExtErr string
  | NumError string num_reason
  | IoEOF
  | CtxCanceled
  | CtxDeadlineExceeded

section \<open>Outcomes\<close>

datatype 'a go = Ok 'a | Err go_error | Panic string

fun go_bind :: "'a go \<Rightarrow> ('a \<Rightarrow> 'b go) \<Rightarrow> 'b go" where
  "go_bind (Ok x) f = f x"
| "go_bind (Err e) f = Err e"
| "go_bind (Panic p) f = Panic p"

text \<open>\<open>if err != nil { return ..., wrap(err) }\<close>.\<close>

fun go_wrap :: "(go_error \<Rightarrow> go_error) \<Rightarrow> 'a go \<Rightarrow> 'a go" where
  "go_wrap w (Ok x) = Ok x"
| "go_wrap w (Err e) = Err (w e)"
| "go_wrap w (Panic p) = Panic p"

text \<open>A read through a pointer that may be nil.\<close>

definition deref :: "'a option \<Rightarrow> 'a go" where
  "deref p = (case p of None \<Rightarrow> Panic ''nil pointer dereference'' | Some x \<Rightarrow> Ok x)"

text \<open>\<open>for i, x := range xs { y, err := f(x); if err != nil { return nil, err }; ys[i] = y }\<close>.\<close>

fun go_map :: "('a \<Rightarrow> 'b go) \<Rightarrow> 'a list \<Rightarrow> 'b list go" where
  "go_map f [] = Ok []"
| "go_map f (x # xs) = go_bind (f x) (\<lambda>y. go_bind (go_map f xs) (\<lambda>ys. Ok (y # ys)))"

fun is_ok :: "'a go \<Rightarrow> bool" where
  "is_ok (Ok _) = True"
| "is_ok _ = False"

fun is_panic :: "'a go \<Rightarrow> bool" where
  "is_panic (Panic _) = True"
| "is_panic _ = False"

lemma is_okE: "is_ok r \<Longrightarrow> (\<And>x. r = Ok x \<Longrightarrow> P) \<Longrightarrow> P"
  by (cases r) auto

lemma go_bind_Ok_iff [simp]:
  "go_bind m f = Ok y \<longleftrightarrow> (\<exists>x. m = Ok x \<and> f x = Ok y)"
  by (cases m) auto

lemma go_bind_Err_iff:
  "go_bind m f = Err e \<longleftrightarrow> m = Err e \<or> (\<exists>x. m = Ok x \<and> f x = Err e)"
  by (cases m) auto

lemma go_bind_Panic_iff:
  "go_bind m f = Panic p \<longleftrightarrow> m = Panic p \<or> (\<exists>x. m = Ok x \<and> f x = Panic p)"
  by (cases m) auto

lemma go_bind_assoc:
  "go_bind (go_bind m f) g = go_bind m (\<lambda>x. go_bind (f x) g)"
  by (cases m) auto

lemma go_wrap_Ok_iff [simp]: "go_wrap w m = Ok x \<longleftrightarrow> m = Ok x"
  by (cases m) auto

lemma is_panic_bind [simp]:
  "is_panic (go_bind m f) \<longleftrightarrow> is_panic m \<or> (\<exists>x. m = Ok x \<and> is_panic (f x))"
  by (cases m) auto

lemma is_panic_wrap [simp]: "is_panic (go_wrap w m) = is_panic m"
  by (cases m) auto

lemma deref_simps [simp]:
  "deref None = Panic ''nil pointer dereference''" "deref (Some x) = Ok x"
  by (simp_all add: deref_def)

lemma go_map_Ok_iff:
  "go_map f xs = Ok ys \<longleftrightarrow> list_all2 (\<lambda>x y. f x = Ok y) xs ys"
proof (induction xs arbitrary: ys)
  case Nil
  show ?case by auto
next
  case (Cons x xs)
  then show ?case by (auto simp: list_all2_Cons1)
qed

lemma go_map_length: "go_map f xs = Ok ys \<Longrightarrow> length ys = length xs"
  by (simp add: go_map_Ok_iff list_all2_lengthD)

lemma go_map_pure [simp]: "go_map (\<lambda>x. Ok (f x)) xs = Ok (map f xs)"
  by (induction xs) auto

lemma go_map_no_panic:
  "(\<And>x. x \<in> set xs \<Longrightarrow> \<not> is_panic (f x)) \<Longrightarrow> \<not> is_panic (go_map f xs)"
  by (induction xs) (auto simp: go_bind_Panic_iff)

text \<open>The first failing element decides the error, as in the loop.\<close>

lemma go_map_Err_iff:
  "go_map f xs = Err e \<longleftrightarrow>
     (\<exists>us x vs. xs = us @ x # vs \<and> f x = Err e \<and> (\<forall>u \<in> set us. is_ok (f u)))"
proof (induction xs)
  case Nil
  show ?case by simp
next
  case (Cons a xs)
  show ?case
  proof (cases "f a")
    case (Ok y)
    then have "go_map f (a # xs) = Err e \<longleftrightarrow> go_map f xs = Err e"
      by (auto simp: go_bind_Err_iff)
    also have "\<dots> \<longleftrightarrow> (\<exists>us x vs. xs = us @ x # vs \<and> f x = Err e \<and> (\<forall>u \<in> set us. is_ok (f u)))"
      by (rule Cons.IH)
    also have "\<dots> \<longleftrightarrow>
        (\<exists>us x vs. a # xs = us @ x # vs \<and> f x = Err e \<and> (\<forall>u \<in> set us. is_ok (f u)))"
      (is "?L \<longleftrightarrow> ?R")
    proof
      assume ?L
      then obtain us x vs where "xs = us @ x # vs" "f x = Err e" "\<forall>u \<in> set us. is_ok (f u)"
        by blast
      with Ok show ?R by (intro exI [of _ "a # us"]) auto
    next
      assume ?R
      then obtain us x vs where *: "a # xs = us @ x # vs" "f x = Err e"
        "\<forall>u \<in> set us. is_ok (f u)" by blast
      with Ok obtain us' where "us = a # us'" by (cases us) auto
      with * show ?L by auto
    qed
    finally show ?thesis .
  next
    case (Err e')
    have "(\<exists>us x vs. a # xs = us @ x # vs \<and> f x = Err e \<and> (\<forall>u \<in> set us. is_ok (f u))) \<longleftrightarrow> e' = e"
      (is "?L \<longleftrightarrow> _")
    proof
      assume ?L
      then obtain us x vs where *: "a # xs = us @ x # vs" "f x = Err e"
        "\<forall>u \<in> set us. is_ok (f u)" by blast
      with Err have "us = []" by (cases us) auto
      with * Err show "e' = e" by simp
    next
      assume "e' = e"
      with Err show ?L by (intro exI [of _ "[]"]) auto
    qed
    with Err show ?thesis by simp
  next
    case (Panic p)
    have "\<not> (\<exists>us x vs. a # xs = us @ x # vs \<and> f x = Err e \<and> (\<forall>u \<in> set us. is_ok (f u)))"
    proof
      assume "\<exists>us x vs. a # xs = us @ x # vs \<and> f x = Err e \<and> (\<forall>u \<in> set us. is_ok (f u))"
      then obtain us x vs where *: "a # xs = us @ x # vs" "f x = Err e"
        "\<forall>u \<in> set us. is_ok (f u)" by blast
      with Panic have "us = []" by (cases us) auto
      with * Panic show False by simp
    qed
    with Panic show ?thesis by simp
  qed
qed

section \<open>Request contexts\<close>

text \<open>
  A \<open>context.Context\<close> is the term of the operations that built it, from a context of the caller
  or \<open>context.Background()\<close>: \<open>context.WithTimeout\<close>, \<open>context.WithCancel\<close> and
  \<open>metadata.AppendToOutgoingContext\<close>. What a server sees of it is read off the term.
\<close>

datatype ctx =
    CallerCtx nat
  | BackgroundCtx
  | TimeoutCtx ctx i64
  | CancelCtx ctx
  | MetaCtx ctx string string
  | RootKeyCtx ctx

text \<open>The macaroons attached to a context, oldest first.\<close>

primrec ctx_macaroons :: "ctx \<Rightarrow> string list" where
  "ctx_macaroons (CallerCtx n) = []"
| "ctx_macaroons BackgroundCtx = []"
| "ctx_macaroons (TimeoutCtx c d) = ctx_macaroons c"
| "ctx_macaroons (CancelCtx c) = ctx_macaroons c"
| "ctx_macaroons (MetaCtx c k v) = ctx_macaroons c @ (if k = ''macaroon'' then [v] else [])"
| "ctx_macaroons (RootKeyCtx c) = ctx_macaroons c"

text \<open>The timeouts that bound a context, innermost first.\<close>

primrec ctx_timeouts :: "ctx \<Rightarrow> i64 list" where
  "ctx_timeouts (CallerCtx n) = []"
| "ctx_timeouts BackgroundCtx = []"
| "ctx_timeouts (TimeoutCtx c d) = d # ctx_timeouts c"
| "ctx_timeouts (CancelCtx c) = ctx_timeouts c"
| "ctx_timeouts (MetaCtx c k v) = ctx_timeouts c"
| "ctx_timeouts (RootKeyCtx c) = ctx_timeouts c"

section \<open>Methods that make remote calls\<close>

text \<open>
  A client method runs against a server that may answer each call by any function of the calls
  made so far. Its effect on the world is the log of the calls: the context and the request of
  each, in order.
\<close>

type_synonym 'c rpclog = "(ctx \<times> 'c) list"
type_synonym ('c, 'a) io = "'c rpclog \<Rightarrow> 'a go \<times> 'c rpclog"
type_synonym ('c, 'q, 'r) server = "'c rpclog \<Rightarrow> ctx \<Rightarrow> 'q \<Rightarrow> 'r go"

definition io_lift :: "'a go \<Rightarrow> ('c, 'a) io" where
  "io_lift r h = (r, h)"

definition io_ret :: "'a \<Rightarrow> ('c, 'a) io" where
  "io_ret x = io_lift (Ok x)"

definition io_err :: "go_error \<Rightarrow> ('c, 'a) io" where
  "io_err e = io_lift (Err e)"

definition io_bind :: "('c, 'a) io \<Rightarrow> ('a \<Rightarrow> ('c, 'b) io) \<Rightarrow> ('c, 'b) io" where
  "io_bind m f h = (case m h of
       (Ok x, h') \<Rightarrow> f x h'
     | (Err e, h') \<Rightarrow> (Err e, h')
     | (Panic p, h') \<Rightarrow> (Panic p, h'))"

text \<open>The caller looks at the error itself instead of returning it.\<close>

definition io_try :: "('c, 'a) io \<Rightarrow> ('a go \<Rightarrow> ('c, 'b) io) \<Rightarrow> ('c, 'b) io" where
  "io_try m f h = (case m h of
       (Ok x, h') \<Rightarrow> f (Ok x) h'
     | (Err e, h') \<Rightarrow> f (Err e) h'
     | (Panic p, h') \<Rightarrow> (Panic p, h'))"

definition rpc :: "('c, 'q, 'r) server \<Rightarrow> ('q \<Rightarrow> 'c) \<Rightarrow> ctx \<Rightarrow> 'q \<Rightarrow> ('c, 'r) io" where
  "rpc srv tag c q h = (srv h c q, h @ [(c, tag q)])"

lemma io_eval [go_simps]:
  "io_lift r h = (r, h)"
  "io_ret x h = (Ok x, h)"
  "io_err e h = (Err e, h)"
  "rpc srv tag c q h = (srv h c q, h @ [(c, tag q)])"
  by (simp_all add: io_lift_def io_ret_def io_err_def rpc_def)

lemma io_bind_eval [go_simps]:
  "m h = (Ok x, h') \<Longrightarrow> io_bind m f h = f x h'"
  "m h = (Err e, h') \<Longrightarrow> io_bind m f h = (Err e, h')"
  "m h = (Panic p, h') \<Longrightarrow> io_bind m f h = (Panic p, h')"
  by (simp_all add: io_bind_def)

text \<open>What a sequence that succeeded went through.\<close>

lemma io_bind_OkE:
  assumes "io_bind m f h = (Ok y, h')"
  obtains x h1 where "m h = (Ok x, h1)" "f x h1 = (Ok y, h')"
  using assms by (auto simp: io_bind_def split: prod.splits go.splits)

lemma io_lift_Ok: "io_lift r h = (Ok x, h') \<longleftrightarrow> r = Ok x \<and> h' = h"
  by (auto simp: io_lift_def)

lemma io_bind_lift [go_simps]:
  "io_bind (io_ret x) f h = f x h"
  "io_bind (io_err e) f h = (Err e, h)"
  by (simp_all add: io_bind_def io_ret_def io_err_def io_lift_def)

section \<open>Call disciplines\<close>

text \<open>
  \<open>calls_ok P m\<close>: whatever the server answers, the method only extends the log, and every call it
  adds satisfies \<open>P\<close>.
\<close>

definition calls_ok :: "(ctx \<Rightarrow> 'c \<Rightarrow> bool) \<Rightarrow> ('c, 'a) io \<Rightarrow> bool" where
  "calls_ok P m \<longleftrightarrow> (\<forall>h. \<exists>es. snd (m h) = h @ es \<and> (\<forall>(c, q) \<in> set es. P c q))"

text \<open>\<open>calls_max n m\<close>: the method makes at most \<open>n\<close> calls.\<close>

definition calls_max :: "nat \<Rightarrow> ('c, 'a) io \<Rightarrow> bool" where
  "calls_max n m \<longleftrightarrow> (\<forall>h. length (snd (m h)) \<le> length h + n)"

lemma calls_ok_lift [rpc_intros]: "calls_ok P (io_lift r)"
  by (auto simp: calls_ok_def io_lift_def)

lemma calls_ok_ret [rpc_intros]: "calls_ok P (io_ret x)"
  by (simp add: io_ret_def calls_ok_lift)

lemma calls_ok_err [rpc_intros]: "calls_ok P (io_err e)"
  by (simp add: io_err_def calls_ok_lift)

lemma calls_ok_rpc [rpc_intros]: "P c (tag q) \<Longrightarrow> calls_ok P (rpc srv tag c q)"
  by (auto simp: calls_ok_def rpc_def)

lemma calls_ok_seq:
  assumes "calls_ok P m" and "\<And>x. calls_ok P (f x)" and "m h = (r, h')"
  shows "\<exists>es. snd (f x h') = h @ es \<and> (\<forall>(c, q) \<in> set es. P c q)"
proof -
  obtain es where es: "h' = h @ es" "\<forall>(c, q) \<in> set es. P c q"
    using assms(1,3) unfolding calls_ok_def by (metis snd_conv)
  obtain fs where fs: "snd (f x h') = h' @ fs" "\<forall>(c, q) \<in> set fs. P c q"
    using assms(2) unfolding calls_ok_def by blast
  from es fs show ?thesis by (intro exI [of _ "es @ fs"]) auto
qed

lemma calls_ok_bind [rpc_intros]:
  assumes "calls_ok P m" and "\<And>x. calls_ok P (f x)"
  shows "calls_ok P (io_bind m f)"
  unfolding calls_ok_def
proof
  fix h
  obtain r h' where m: "m h = (r, h')" by fastforce
  then have "\<exists>es. h' = h @ es \<and> (\<forall>(c, q) \<in> set es. P c q)"
    using assms(1) unfolding calls_ok_def by (metis snd_conv)
  then show "\<exists>es. snd (io_bind m f h) = h @ es \<and> (\<forall>(c, q) \<in> set es. P c q)"
    using calls_ok_seq [OF assms m] m by (cases r) (auto simp: io_bind_def)
qed

lemma calls_ok_try [rpc_intros]:
  assumes "calls_ok P m" and "\<And>x. calls_ok P (f x)"
  shows "calls_ok P (io_try m f)"
  unfolding calls_ok_def
proof
  fix h
  obtain r h' where m: "m h = (r, h')" by fastforce
  then have "\<exists>es. h' = h @ es \<and> (\<forall>(c, q) \<in> set es. P c q)"
    using assms(1) unfolding calls_ok_def by (metis snd_conv)
  then show "\<exists>es. snd (io_try m f h) = h @ es \<and> (\<forall>(c, q) \<in> set es. P c q)"
    using calls_ok_seq [OF assms m] m by (cases r) (auto simp: io_try_def)
qed

lemma calls_ok_if [rpc_intros]:
  "(b \<Longrightarrow> calls_ok P m) \<Longrightarrow> (\<not> b \<Longrightarrow> calls_ok P n) \<Longrightarrow> calls_ok P (if b then m else n)"
  by simp

lemma calls_ok_option [rpc_intros]:
  "calls_ok P m \<Longrightarrow> (\<And>x. calls_ok P (f x)) \<Longrightarrow> calls_ok P (case v of None \<Rightarrow> m | Some x \<Rightarrow> f x)"
  by (simp split: option.split)

lemma calls_ok_mono: "calls_ok P m \<Longrightarrow> (\<And>c q. P c q \<Longrightarrow> Q c q) \<Longrightarrow> calls_ok Q m"
  unfolding calls_ok_def by (metis (mono_tags, lifting) case_prodD case_prodI2)

lemma calls_okD:
  "calls_ok P m \<Longrightarrow> m h = (r, h') \<Longrightarrow> \<exists>es. h' = h @ es \<and> (\<forall>(c, q) \<in> set es. P c q)"
  unfolding calls_ok_def by (metis snd_conv)

end
