(* ===== verification/Streams.thy ===== *)
theory Streams
  imports Prelude "HOL-Library.Sublist"
begin

text \<open>
  The goroutine behind every subscription: a loop that receives a message of an lnd stream and
  runs a body of channel operations on it. The body of a loop is translated to a \<open>script\<close>, a tree of
  the channel operations with a branch for each way a \<open>select\<close> can continue; \<open>sub\<close> adds the
  capacities of the two channels and what the goroutine has deferred. The step relations interleave
  the goroutine with the consumer of its channels, the cancellation of its context and the stream.

  The locale \<open>subscription\<close> states the discipline such a loop has to follow and proves what follows
  from it; each client theory interprets it for the loops of its file.
\<close>

section \<open>Loops\<close>

datatype 'm recv = RecvOk 'm | RecvErr go_error

datatype 'u script =
    Loop                                  \<comment> \<open>the end of the body: receive again\<close>
  | Return
  | Fault string                          \<comment> \<open>a panic of the conversion code\<close>
  | SendUpd 'u "'u script" "'u script"    \<comment> \<open>select on the update channel and \<open>ctx.Done()\<close>:
                                              the script when done, and when sent\<close>
  | SendErr go_error "'u script"          \<comment> \<open>\<open>errChan <- err\<close>\<close>
  | SendCtxErr "'u script"                \<comment> \<open>\<open>errChan <- ctx.Err()\<close>\<close>
  | SelErr go_error "'u script" "'u script"  \<comment> \<open>select on the error channel and \<open>ctx.Done()\<close>\<close>
  | Signal "'u script" "'u script"        \<comment> \<open>select on the re-org channel and \<open>ctx.Done()\<close>\<close>
  | CloseUpd "'u script"
  | CloseErr "'u script"

datatype deferred = DeferCloseUpd | DeferCloseErr

record ('m, 'u) sub =
  sub_body :: "'m recv \<Rightarrow> 'u script"
  sub_ucap :: nat
  sub_ecap :: nat
  sub_defers :: "deferred list"

text \<open>\<open>x, err := convert(...); if err != nil { errChan <- err; return }\<close>.\<close>

fun on_go :: "(go_error \<Rightarrow> go_error) \<Rightarrow> 'a go \<Rightarrow> ('a \<Rightarrow> 'u script) \<Rightarrow> 'u script" where
  "on_go w (Ok x) f = f x"
| "on_go w (Err e) f = SendErr (w e) Return"
| "on_go w (Panic p) f = Fault p"

section \<open>Machine\<close>

record 'a chan =
  ch_buf :: "'a list"
  ch_closed :: bool
  ch_got :: "'a list"

definition new_chan :: "'a chan" where
  "new_chan = \<lparr>ch_buf = [], ch_closed = False, ch_got = []\<rparr>"

definition ch_push :: "'a \<Rightarrow> 'a chan \<Rightarrow> 'a chan" where
  "ch_push x ch = ch\<lparr>ch_buf := ch_buf ch @ [x]\<rparr>"

definition ch_hand :: "'a \<Rightarrow> 'a chan \<Rightarrow> 'a chan" where
  "ch_hand x ch = ch\<lparr>ch_got := ch_got ch @ [x]\<rparr>"

definition ch_pop :: "'a chan \<Rightarrow> 'a chan" where
  "ch_pop ch = (case ch_buf ch of [] \<Rightarrow> ch
     | x # xs \<Rightarrow> ch\<lparr>ch_buf := xs, ch_got := ch_got ch @ [x]\<rparr>)"

definition ch_close :: "'a chan \<Rightarrow> 'a chan" where
  "ch_close ch = ch\<lparr>ch_closed := True\<rparr>"

definition ch_sent :: "'a chan \<Rightarrow> 'a list" where
  "ch_sent ch = ch_got ch @ ch_buf ch"

lemma ch_simps [simp]:
  "ch_closed (ch_push x ch) = ch_closed ch" "ch_closed (ch_hand x ch) = ch_closed ch"
  "ch_closed (ch_pop ch) = ch_closed ch" "ch_closed (ch_close ch)"
  "ch_buf (ch_push x ch) = ch_buf ch @ [x]" "ch_buf (ch_hand x ch) = ch_buf ch"
  "ch_buf (ch_close ch) = ch_buf ch" "ch_got (ch_push x ch) = ch_got ch"
  "ch_got (ch_hand x ch) = ch_got ch @ [x]" "ch_got (ch_close ch) = ch_got ch"
  "ch_sent (ch_push x ch) = ch_sent ch @ [x]" "ch_sent (ch_pop ch) = ch_sent ch"
  "ch_sent (ch_close ch) = ch_sent ch"
  "ch_buf ch = [] \<Longrightarrow> ch_sent (ch_hand x ch) = ch_sent ch @ [x]"
  "ch_sent new_chan = []" "ch_buf new_chan = []" "\<not> ch_closed new_chan"
  by (auto simp: ch_push_def ch_hand_def ch_pop_def ch_close_def ch_sent_def new_chan_def
      split: list.split)

datatype 'u pc =
    AtRecv
  | Run "'u script"
  | Deferred "deferred list"
  | Exited
  | Faulted string
  | Misused          \<comment> \<open>a send on or a close of a closed channel\<close>

record ('m, 'u) gor =
  g_pc :: "'u pc"
  g_upd :: "'u chan"
  g_err :: "go_error chan"
  g_ctx :: "go_error option"   \<comment> \<open>\<open>ctx.Err()\<close>\<close>
  g_hist :: "'m recv list"
  g_signals :: nat

definition g_init :: "('m, 'u) gor" where
  "g_init = \<lparr>g_pc = AtRecv, g_upd = new_chan, g_err = new_chan, g_ctx = None, g_hist = [],
     g_signals = 0\<rparr>"

text \<open>Steps the goroutine can take by itself.\<close>

inductive lstep :: "('m, 'u) sub \<Rightarrow> ('m, 'u) gor \<Rightarrow> ('m, 'u) gor \<Rightarrow> bool" for P where
  loop: "g_pc s = Run Loop \<Longrightarrow> lstep P s (s\<lparr>g_pc := AtRecv\<rparr>)"
| return: "g_pc s = Run Return \<Longrightarrow> lstep P s (s\<lparr>g_pc := Deferred (sub_defers P)\<rparr>)"
| fault: "g_pc s = Run (Fault p) \<Longrightarrow> lstep P s (s\<lparr>g_pc := Faulted p\<rparr>)"
| upd_buffer: "g_pc s = Run (SendUpd u d k) \<Longrightarrow> \<not> ch_closed (g_upd s) \<Longrightarrow>
    length (ch_buf (g_upd s)) < sub_ucap P \<Longrightarrow>
    lstep P s (s\<lparr>g_pc := Run k, g_upd := ch_push u (g_upd s)\<rparr>)"
| upd_closed: "g_pc s = Run (SendUpd u d k) \<Longrightarrow> ch_closed (g_upd s) \<Longrightarrow>
    lstep P s (s\<lparr>g_pc := Misused\<rparr>)"
| upd_done: "g_pc s = Run (SendUpd u d k) \<Longrightarrow> g_ctx s \<noteq> None \<Longrightarrow> lstep P s (s\<lparr>g_pc := Run d\<rparr>)"
| err_buffer: "g_pc s = Run (SendErr e k) \<Longrightarrow> \<not> ch_closed (g_err s) \<Longrightarrow>
    length (ch_buf (g_err s)) < sub_ecap P \<Longrightarrow>
    lstep P s (s\<lparr>g_pc := Run k, g_err := ch_push e (g_err s)\<rparr>)"
| err_closed: "g_pc s = Run (SendErr e k) \<Longrightarrow> ch_closed (g_err s) \<Longrightarrow>
    lstep P s (s\<lparr>g_pc := Misused\<rparr>)"
| ctxerr: "g_pc s = Run (SendCtxErr k) \<Longrightarrow> g_ctx s = Some e \<Longrightarrow>
    lstep P s (s\<lparr>g_pc := Run (SendErr e k)\<rparr>)"
| sel_buffer: "g_pc s = Run (SelErr e d k) \<Longrightarrow> \<not> ch_closed (g_err s) \<Longrightarrow>
    length (ch_buf (g_err s)) < sub_ecap P \<Longrightarrow>
    lstep P s (s\<lparr>g_pc := Run k, g_err := ch_push e (g_err s)\<rparr>)"
| sel_closed: "g_pc s = Run (SelErr e d k) \<Longrightarrow> ch_closed (g_err s) \<Longrightarrow>
    lstep P s (s\<lparr>g_pc := Misused\<rparr>)"
| sel_done: "g_pc s = Run (SelErr e d k) \<Longrightarrow> g_ctx s \<noteq> None \<Longrightarrow> lstep P s (s\<lparr>g_pc := Run d\<rparr>)"
| signal_done: "g_pc s = Run (Signal d k) \<Longrightarrow> g_ctx s \<noteq> None \<Longrightarrow> lstep P s (s\<lparr>g_pc := Run d\<rparr>)"
| close_upd: "g_pc s = Run (CloseUpd k) \<Longrightarrow>
    lstep P s (if ch_closed (g_upd s) then s\<lparr>g_pc := Misused\<rparr>
               else s\<lparr>g_pc := Run k, g_upd := ch_close (g_upd s)\<rparr>)"
| close_err: "g_pc s = Run (CloseErr k) \<Longrightarrow>
    lstep P s (if ch_closed (g_err s) then s\<lparr>g_pc := Misused\<rparr>
               else s\<lparr>g_pc := Run k, g_err := ch_close (g_err s)\<rparr>)"
| defer_upd: "g_pc s = Deferred (DeferCloseUpd # ds) \<Longrightarrow>
    lstep P s (if ch_closed (g_upd s) then s\<lparr>g_pc := Misused\<rparr>
               else s\<lparr>g_pc := Deferred ds, g_upd := ch_close (g_upd s)\<rparr>)"
| defer_err: "g_pc s = Deferred (DeferCloseErr # ds) \<Longrightarrow>
    lstep P s (if ch_closed (g_err s) then s\<lparr>g_pc := Misused\<rparr>
               else s\<lparr>g_pc := Deferred ds, g_err := ch_close (g_err s)\<rparr>)"
| exit: "g_pc s = Deferred [] \<Longrightarrow> lstep P s (s\<lparr>g_pc := Exited\<rparr>)"

text \<open>The stream delivers a message or an error.\<close>

inductive rstep ::
  "('m, 'u) sub \<Rightarrow> 'm recv \<Rightarrow> ('m, 'u) gor \<Rightarrow> ('m, 'u) gor \<Rightarrow> bool" for P r where
  recv: "g_pc s = AtRecv \<Longrightarrow>
    rstep P r s (s\<lparr>g_pc := Run (sub_body P r), g_hist := g_hist s @ [r]\<rparr>)"

text \<open>Steps of the consumer: a receive from a buffer, a rendezvous with the goroutine, and the end
  of the context.\<close>

inductive cstep :: "('m, 'u) sub \<Rightarrow> ('m, 'u) gor \<Rightarrow> ('m, 'u) gor \<Rightarrow> bool" for P where
  pop_upd: "ch_buf (g_upd s) \<noteq> [] \<Longrightarrow> cstep P s (s\<lparr>g_upd := ch_pop (g_upd s)\<rparr>)"
| pop_err: "ch_buf (g_err s) \<noteq> [] \<Longrightarrow> cstep P s (s\<lparr>g_err := ch_pop (g_err s)\<rparr>)"
| hand_upd: "g_pc s = Run (SendUpd u d k) \<Longrightarrow> sub_ucap P = 0 \<Longrightarrow> \<not> ch_closed (g_upd s) \<Longrightarrow>
    ch_buf (g_upd s) = [] \<Longrightarrow> cstep P s (s\<lparr>g_pc := Run k, g_upd := ch_hand u (g_upd s)\<rparr>)"
| hand_err: "g_pc s = Run (SendErr e k) \<Longrightarrow> sub_ecap P = 0 \<Longrightarrow> \<not> ch_closed (g_err s) \<Longrightarrow>
    ch_buf (g_err s) = [] \<Longrightarrow> cstep P s (s\<lparr>g_pc := Run k, g_err := ch_hand e (g_err s)\<rparr>)"
| hand_sel: "g_pc s = Run (SelErr e d k) \<Longrightarrow> sub_ecap P = 0 \<Longrightarrow> \<not> ch_closed (g_err s) \<Longrightarrow>
    ch_buf (g_err s) = [] \<Longrightarrow> cstep P s (s\<lparr>g_pc := Run k, g_err := ch_hand e (g_err s)\<rparr>)"
| hand_signal: "g_pc s = Run (Signal d k) \<Longrightarrow>
    cstep P s (s\<lparr>g_pc := Run k, g_signals := Suc (g_signals s)\<rparr>)"
| cancel: "g_ctx s = None \<Longrightarrow> e = CtxCanceled \<or> e = CtxDeadlineExceeded \<Longrightarrow>
    cstep P s (s\<lparr>g_ctx := Some e\<rparr>)"

inductive gstep :: "('m, 'u) sub \<Rightarrow> ('m, 'u) gor \<Rightarrow> ('m, 'u) gor \<Rightarrow> bool" for P where
  local: "lstep P s t \<Longrightarrow> gstep P s t"
| receive: "rstep P r s t \<Longrightarrow> gstep P s t"
| consume: "cstep P s t \<Longrightarrow> gstep P s t"

inductive reachable :: "('m, 'u) sub \<Rightarrow> ('m, 'u) gor \<Rightarrow> bool" for P where
  init: "reachable P g_init"
| step: "reachable P s \<Longrightarrow> gstep P s t \<Longrightarrow> reachable P t"

text \<open>
  After the end of its context a stream returns an error from \<open>Recv\<close>, as gRPC documents; \<open>wstep\<close> are
  the steps a goroutine then has without any help of the consumer.
\<close>

inductive wstep :: "('m, 'u) sub \<Rightarrow> ('m, 'u) gor \<Rightarrow> ('m, 'u) gor \<Rightarrow> bool" for P where
  own: "lstep P s t \<Longrightarrow> wstep P s t"
| ended: "g_ctx s \<noteq> None \<Longrightarrow> rstep P (RecvErr e) s t \<Longrightarrow> wstep P s t"

section \<open>The discipline\<close>

text \<open>
  \<open>disciplined ds n k uo eo fresh\<close>: run with the channels open as \<open>uo\<close> and \<open>eo\<close> say and, when
  \<open>fresh\<close>, no error sent yet, the script \<open>k\<close> uses only open channels, sends at most one error and
  that one into a buffer of capacity \<open>n\<close> with room, and loops only while everything is still as at
  the start.
\<close>

primrec defer_ok :: "deferred list \<Rightarrow> bool \<Rightarrow> bool \<Rightarrow> bool" where
  "defer_ok [] uo eo = True"
| "defer_ok (d # ds) uo eo = (case d of
     DeferCloseUpd \<Rightarrow> uo \<and> defer_ok ds False eo
   | DeferCloseErr \<Rightarrow> eo \<and> defer_ok ds uo False)"

primrec disciplined ::
  "deferred list \<Rightarrow> nat \<Rightarrow> 'u script \<Rightarrow> bool \<Rightarrow> bool \<Rightarrow> bool \<Rightarrow> bool" where
  "disciplined ds n Loop uo eo fresh = (uo \<and> eo \<and> fresh)"
| "disciplined ds n Return uo eo fresh = defer_ok ds uo eo"
| "disciplined ds n (Fault p) uo eo fresh = True"
| "disciplined ds n (SendUpd u d k) uo eo fresh =
     (uo \<and> disciplined ds n d uo eo fresh \<and> disciplined ds n k uo eo fresh)"
| "disciplined ds n (SendErr e k) uo eo fresh =
     (eo \<and> fresh \<and> 0 < n \<and> disciplined ds n k uo eo False)"
| "disciplined ds n (SendCtxErr k) uo eo fresh =
     (eo \<and> fresh \<and> 0 < n \<and> disciplined ds n k uo eo False)"
| "disciplined ds n (SelErr e d k) uo eo fresh =
     (eo \<and> fresh \<and> disciplined ds n d uo eo fresh \<and> disciplined ds n k uo eo False)"
| "disciplined ds n (Signal d k) uo eo fresh =
     (disciplined ds n d uo eo fresh \<and> disciplined ds n k uo eo fresh)"
| "disciplined ds n (CloseUpd k) uo eo fresh = (uo \<and> disciplined ds n k False eo fresh)"
| "disciplined ds n (CloseErr k) uo eo fresh = (eo \<and> disciplined ds n k uo False fresh)"

text \<open>The updates a script hands out when the context does not end, in order.\<close>

primrec emits :: "'u script \<Rightarrow> 'u list" where
  "emits Loop = []"
| "emits Return = []"
| "emits (Fault p) = []"
| "emits (SendUpd u d k) = u # emits k"
| "emits (SendErr e k) = emits k"
| "emits (SendCtxErr k) = emits k"
| "emits (SelErr e d k) = emits k"
| "emits (Signal d k) = emits k"
| "emits (CloseUpd k) = emits k"
| "emits (CloseErr k) = emits k"

text \<open>A branch taken when the context is done hands out no update, and \<open>SendCtxErr\<close> occurs on such a
  branch only.\<close>

primrec ctx_sound :: "'u script \<Rightarrow> bool \<Rightarrow> bool" where
  "ctx_sound Loop c = True"
| "ctx_sound Return c = True"
| "ctx_sound (Fault p) c = True"
| "ctx_sound (SendUpd u d k) c = (emits d = [] \<and> ctx_sound d True \<and> ctx_sound k c)"
| "ctx_sound (SendErr e k) c = ctx_sound k c"
| "ctx_sound (SendCtxErr k) c = (c \<and> ctx_sound k c)"
| "ctx_sound (SelErr e d k) c = (emits d = [] \<and> ctx_sound d True \<and> ctx_sound k c)"
| "ctx_sound (Signal d k) c = (emits d = [] \<and> ctx_sound d True \<and> ctx_sound k c)"
| "ctx_sound (CloseUpd k) c = ctx_sound k c"
| "ctx_sound (CloseErr k) c = ctx_sound k c"

text \<open>Every path through the script ends the goroutine.\<close>

primrec ends :: "'u script \<Rightarrow> bool" where
  "ends Loop = False"
| "ends Return = True"
| "ends (Fault p) = True"
| "ends (SendUpd u d k) = (ends d \<and> ends k)"
| "ends (SendErr e k) = ends k"
| "ends (SendCtxErr k) = ends k"
| "ends (SelErr e d k) = (ends d \<and> ends k)"
| "ends (Signal d k) = (ends d \<and> ends k)"
| "ends (CloseUpd k) = ends k"
| "ends (CloseErr k) = ends k"

text \<open>A script panics on some path.\<close>

primrec faults :: "'u script \<Rightarrow> bool" where
  "faults Loop = False"
| "faults Return = False"
| "faults (Fault p) = True"
| "faults (SendUpd u d k) = (faults d \<or> faults k)"
| "faults (SendErr e k) = faults k"
| "faults (SendCtxErr k) = faults k"
| "faults (SelErr e d k) = (faults d \<or> faults k)"
| "faults (Signal d k) = (faults d \<or> faults k)"
| "faults (CloseUpd k) = faults k"
| "faults (CloseErr k) = faults k"

lemma disciplined_mono:
  "disciplined ds n k uo eo False \<Longrightarrow> disciplined ds n k uo eo fresh"
  by (induction k arbitrary: uo eo) (cases fresh; auto)+

lemma ctx_sound_mono: "ctx_sound k c \<Longrightarrow> ctx_sound k True"
  by (induction k) auto

lemma ctx_sound_any: "ctx_sound k False \<Longrightarrow> ctx_sound k c"
  by (cases c) (auto intro: ctx_sound_mono)

lemma on_go_disciplined:
  "disciplined ds n (on_go w r f) True True True \<longleftrightarrow>
     (case r of Ok x \<Rightarrow> disciplined ds n (f x) True True True
      | Err e \<Rightarrow> 0 < n \<and> defer_ok ds True True | Panic p \<Rightarrow> True)"
  by (cases r) auto

lemma on_go_ctx_sound:
  "ctx_sound (on_go w r f) c \<longleftrightarrow> (\<forall>x. r = Ok x \<longrightarrow> ctx_sound (f x) c)"
  by (cases r) auto

lemma on_go_faults:
  "faults (on_go w r f) \<longleftrightarrow> is_panic r \<or> (\<exists>x. r = Ok x \<and> faults (f x))"
  by (cases r) auto


section \<open>The goroutine invariant\<close>

abbreviation uopen :: "('m, 'u) gor \<Rightarrow> bool" where "uopen s \<equiv> \<not> ch_closed (g_upd s)"
abbreviation eopen :: "('m, 'u) gor \<Rightarrow> bool" where "eopen s \<equiv> \<not> ch_closed (g_err s)"
abbreviation fresh :: "('m, 'u) gor \<Rightarrow> bool" where "fresh s \<equiv> ch_sent (g_err s) = []"

definition pending :: "('m, 'u) gor \<Rightarrow> 'u list" where
  "pending s = (case g_pc s of Run k \<Rightarrow> emits k | _ \<Rightarrow> [])"

definition handed_out :: "('m, 'u) sub \<Rightarrow> ('m, 'u) gor \<Rightarrow> 'u list" where
  "handed_out P s = concat (map (\<lambda>r. emits (sub_body P r)) (g_hist s))"

definition faulty :: "('m, 'u) sub \<Rightarrow> ('m, 'u) gor \<Rightarrow> bool" where
  "faulty P s \<longleftrightarrow> (\<exists>r \<in> set (g_hist s). faults (sub_body P r))"

definition pc_ok :: "('m, 'u) sub \<Rightarrow> ('m, 'u) gor \<Rightarrow> bool" where
  "pc_ok P s = (case g_pc s of
       AtRecv \<Rightarrow> uopen s \<and> eopen s \<and> fresh s
     | Run k \<Rightarrow> disciplined (sub_defers P) (sub_ecap P) k (uopen s) (eopen s) (fresh s)
                 \<and> ctx_sound k (g_ctx s \<noteq> None) \<and> (faults k \<longrightarrow> faulty P s)
     | Deferred ds \<Rightarrow> defer_ok ds (uopen s) (eopen s)
     | Exited \<Rightarrow> True
     | Faulted p \<Rightarrow> faulty P s
     | Misused \<Rightarrow> False)"

definition g_inv :: "('m, 'u) sub \<Rightarrow> ('m, 'u) gor \<Rightarrow> bool" where
  "g_inv P s \<longleftrightarrow> pc_ok P s \<and> length (ch_sent (g_err s)) \<le> 1
     \<and> subseq (ch_sent (g_upd s) @ pending s) (handed_out P s)
     \<and> (g_ctx s = None \<longrightarrow> ch_sent (g_upd s) @ pending s = handed_out P s)"

lemmas g_inv_defs = g_inv_def pc_ok_def pending_def handed_out_def faulty_def

lemma subseq_drop: "subseq (xs @ ys) zs \<Longrightarrow> subseq xs zs"
  using subseq_order.trans subseq_rev_drop_many by blast

lemma g_inv_init: "g_inv P g_init"
  by (simp add: g_inv_defs g_init_def)

lemma lstep_inv: "lstep P s t \<Longrightarrow> g_inv P s \<Longrightarrow> g_inv P t"
  by (induction rule: lstep.induct)
    (auto simp: g_inv_defs split: deferred.splits dest: subseq_drop)

lemma cstep_inv: "cstep P s t \<Longrightarrow> g_inv P s \<Longrightarrow> g_inv P t"
proof (induction rule: cstep.induct)
  case (hand_sel s e d k)
  then show ?case by (auto simp: g_inv_defs)
next
  case (cancel s e)
  then show ?case by (auto simp: g_inv_defs split: pc.splits dest: ctx_sound_mono)
qed (auto simp: g_inv_defs split: pc.splits)

text \<open>The loop body is disciplined for every answer of the stream, and an error of the stream ends
  the goroutine.\<close>

locale subscription =
  fixes P :: "('m, 'u) sub"
  assumes body_disciplined:
      "disciplined (sub_defers P) (sub_ecap P) (sub_body P r) True True True"
    and body_ctx_sound: "ctx_sound (sub_body P r) False"
    and err_ends: "ends (sub_body P (RecvErr e))"
begin

lemma rstep_inv: "rstep P r s t \<Longrightarrow> g_inv P s \<Longrightarrow> g_inv P t"
  by (induction rule: rstep.induct)
    (use body_disciplined body_ctx_sound [THEN ctx_sound_any] in
      \<open>auto simp: g_inv_defs intro: subseq_append' [THEN iffD2]\<close>)

lemma gstep_inv: "gstep P s t \<Longrightarrow> g_inv P s \<Longrightarrow> g_inv P t"
  by (induction rule: gstep.induct) (auto intro: lstep_inv rstep_inv cstep_inv)

lemma reachable_inv: "reachable P s \<Longrightarrow> g_inv P s"
  by (induction rule: reachable.induct) (auto intro: g_inv_init gstep_inv)

text \<open>No send on a closed channel and no second close, whatever the schedule.\<close>

lemma no_misuse: "reachable P s \<Longrightarrow> g_pc s \<noteq> Misused"
  using reachable_inv [of s] by (auto simp: g_inv_defs)

lemma fault_source: "reachable P s \<Longrightarrow> g_pc s = Faulted p \<Longrightarrow> faulty P s"
  using reachable_inv [of s] by (auto simp: g_inv_def pc_ok_def)

lemma one_error: "reachable P s \<Longrightarrow> length (ch_sent (g_err s)) \<le> 1"
  using reachable_inv [of s] by (simp add: g_inv_def)

text \<open>What the consumer gets are the converted messages, in order.\<close>

lemma updates_subseq: "reachable P s \<Longrightarrow> subseq (ch_sent (g_upd s)) (handed_out P s)"
  using reachable_inv [of s] by (auto simp: g_inv_def dest: subseq_drop)

lemma updates_exact:
  "reachable P s \<Longrightarrow> g_ctx s = None \<Longrightarrow> ch_sent (g_upd s) @ pending s = handed_out P s"
  using reachable_inv [of s] by (simp add: g_inv_def)

end

section \<open>The end of a goroutine\<close>

definition gone :: "('m, 'u) gor \<Rightarrow> bool" where
  "gone s \<longleftrightarrow> g_pc s = Exited \<or> (\<exists>p. g_pc s = Faulted p)"

text \<open>
  \<open>must_exit P s\<close>: in \<open>s\<close> the goroutine is gone, or it can move without the consumer and every move,
  its own, the consumer's or an error of the ended stream, leads to a state that must exit.
\<close>

inductive must_exit :: "('m, 'u) sub \<Rightarrow> ('m, 'u) gor \<Rightarrow> bool" for P where
  gone: "gone s \<Longrightarrow> must_exit P s"
| more: "wstep P s t \<Longrightarrow> (\<And>t. wstep P s t \<Longrightarrow> must_exit P t) \<Longrightarrow>
    (\<And>t. cstep P s t \<Longrightarrow> must_exit P t) \<Longrightarrow> must_exit P s"

primrec weight :: "'u script \<Rightarrow> nat" where
  "weight Loop = 1"
| "weight Return = 1"
| "weight (Fault p) = 1"
| "weight (SendUpd u d k) = weight d + weight k + 1"
| "weight (SendErr e k) = weight k + 1"
| "weight (SendCtxErr k) = weight k + 2"
| "weight (SelErr e d k) = weight d + weight k + 1"
| "weight (Signal d k) = weight d + weight k + 1"
| "weight (CloseUpd k) = weight k + 1"
| "weight (CloseErr k) = weight k + 1"

definition phase :: "('m, 'u) gor \<Rightarrow> nat" where
  "phase s = (case g_pc s of
       Run k \<Rightarrow> if ends k then 2 else 4 | AtRecv \<Rightarrow> 3 | Deferred ds \<Rightarrow> 1 | _ \<Rightarrow> 0)"

definition effort :: "('m, 'u) gor \<Rightarrow> nat" where
  "effort s = (case g_pc s of Run k \<Rightarrow> weight k | Deferred ds \<Rightarrow> length ds | _ \<Rightarrow> 0)"

definition buffered :: "('m, 'u) gor \<Rightarrow> nat" where
  "buffered s = length (ch_buf (g_upd s)) + length (ch_buf (g_err s))"

definition exit_order :: "(('m, 'u) gor \<times> ('m, 'u) gor) set" where
  "exit_order = measures [phase, effort, buffered]"

lemma weight_pos [simp]: "0 < weight k"
  by (induction k) auto

lemmas exit_order_defs = exit_order_def phase_def effort_def buffered_def

lemma lstep_decreases: "lstep P s t \<Longrightarrow> (t, s) \<in> exit_order"
  by (induction rule: lstep.induct) (auto simp: exit_order_defs)

lemma ch_pop_shorter: "ch_buf ch \<noteq> [] \<Longrightarrow> length (ch_buf (ch_pop ch)) < length (ch_buf ch)"
  by (cases "ch_buf ch") (auto simp: ch_pop_def)

lemma cstep_decreases: "cstep P s t \<Longrightarrow> g_ctx s \<noteq> None \<Longrightarrow> (t, s) \<in> exit_order"
  by (induction rule: cstep.induct)
    (auto simp: exit_order_defs dest: ch_pop_shorter split: pc.split)

lemma lstep_ctx: "lstep P s t \<Longrightarrow> g_ctx t = g_ctx s"
  by (induction rule: lstep.induct) auto

lemma cstep_ctx: "cstep P s t \<Longrightarrow> g_ctx s \<noteq> None \<Longrightarrow> g_ctx t = g_ctx s"
  by (induction rule: cstep.induct) auto

lemma run_progress:
  assumes "g_inv P s" and "g_pc s = Run k" and "g_ctx s \<noteq> None"
  shows "\<exists>t. lstep P s t"
proof (cases k)
  case (SendErr e k')
  with assms have "eopen s" "length (ch_buf (g_err s)) < sub_ecap P"
    by (auto simp: g_inv_defs ch_sent_def)
  with SendErr assms show ?thesis by (auto intro: lstep.err_buffer)
next
  case (SendCtxErr k')
  with assms show ?thesis by (auto intro: lstep.ctxerr)
qed (use assms in \<open>blast intro: lstep.intros\<close>)+

lemma deferred_progress: "g_pc s = Deferred ds \<Longrightarrow> \<exists>t. lstep P s t"
proof (cases ds)
  case (Cons d ds')
  then show "g_pc s = Deferred ds \<Longrightarrow> ?thesis" by (cases d) (auto intro: lstep.intros)
qed (auto intro: lstep.intros)

lemma exit_progress:
  assumes "g_inv P s" and "g_ctx s \<noteq> None" and "\<not> gone s"
  shows "\<exists>t. wstep P s t"
proof (cases "g_pc s")
  case AtRecv
  with assms show ?thesis by (blast intro: wstep.ended rstep.recv)
next
  case (Run k)
  with assms run_progress show ?thesis by (blast intro: wstep.own)
next
  case (Deferred ds)
  with deferred_progress show ?thesis by (blast intro: wstep.own)
qed (use assms in \<open>auto simp: gone_def g_inv_defs\<close>)

context subscription begin

lemma wstep_decreases: "wstep P s t \<Longrightarrow> (t, s) \<in> exit_order"
proof (induction rule: wstep.induct)
  case (ended s e t)
  from ended(2) err_ends show ?case
    by (cases rule: rstep.cases) (auto simp: exit_order_defs)
qed (rule lstep_decreases)

lemma wstep_keeps:
  "wstep P s t \<Longrightarrow> g_inv P s \<Longrightarrow> g_ctx s \<noteq> None \<Longrightarrow> g_inv P t \<and> g_ctx t \<noteq> None"
proof (induction rule: wstep.induct)
  case (own s t)
  then show ?case using lstep_inv lstep_ctx by metis
next
  case (ended s e t)
  then show ?case using rstep_inv by (auto elim: rstep.cases)
qed

lemma must_exit_inv:
  assumes "g_inv P s" and "g_ctx s \<noteq> None"
  shows "must_exit P s"
proof -
  have "wf (exit_order :: (('m, 'u) gor \<times> ('m, 'u) gor) set)" by (simp add: exit_order_def)
  then show ?thesis using assms
  proof (induction s rule: wf_induct_rule)
    case (less s)
    show ?case
    proof (cases "gone s")
      case False
      with less.prems exit_progress obtain t where "wstep P s t" by blast
      then show ?thesis
      proof (rule must_exit.more)
        fix t assume "wstep P s t"
        then show "must_exit P t"
          using less wstep_decreases wstep_keeps by blast
      next
        fix t assume "cstep P s t"
        then show "must_exit P t"
          using less cstep_decreases cstep_inv cstep_ctx by metis
      qed
    qed (rule must_exit.gone)
  qed
qed

text \<open>Once its context has ended, the goroutine exits whatever the consumer does.\<close>

lemma no_leak: "reachable P s \<Longrightarrow> g_ctx s \<noteq> None \<Longrightarrow> must_exit P s"
  by (rule must_exit_inv [OF reachable_inv])

end

section \<open>Loops that end at a final update\<close>

text \<open>A quiet script neither sends an update nor receives again; \<open>ends_at F\<close> scripts are quiet once they
  have sent an update for which \<open>F\<close> holds.\<close>

primrec quiet :: "'u script \<Rightarrow> bool" where
  "quiet Loop = False"
| "quiet Return = True"
| "quiet (Fault p) = True"
| "quiet (SendUpd u d k) = False"
| "quiet (SendErr e k) = quiet k"
| "quiet (SendCtxErr k) = quiet k"
| "quiet (SelErr e d k) = (quiet d \<and> quiet k)"
| "quiet (Signal d k) = (quiet d \<and> quiet k)"
| "quiet (CloseUpd k) = quiet k"
| "quiet (CloseErr k) = quiet k"

primrec ends_at :: "('u \<Rightarrow> bool) \<Rightarrow> 'u script \<Rightarrow> bool" where
  "ends_at F Loop = True"
| "ends_at F Return = True"
| "ends_at F (Fault p) = True"
| "ends_at F (SendUpd u d k) = (ends_at F d \<and> ends_at F k \<and> (F u \<longrightarrow> quiet k))"
| "ends_at F (SendErr e k) = ends_at F k"
| "ends_at F (SendCtxErr k) = ends_at F k"
| "ends_at F (SelErr e d k) = (ends_at F d \<and> ends_at F k)"
| "ends_at F (Signal d k) = (ends_at F d \<and> ends_at F k)"
| "ends_at F (CloseUpd k) = ends_at F k"
| "ends_at F (CloseErr k) = ends_at F k"

lemma on_go_ends_at: "ends_at F (on_go w r f) \<longleftrightarrow> (\<forall>x. r = Ok x \<longrightarrow> ends_at F (f x))"
  by (cases r) auto

definition final_inv :: "('u \<Rightarrow> bool) \<Rightarrow> ('m, 'u) gor \<Rightarrow> bool" where
  "final_inv F s \<longleftrightarrow> (case g_pc s of
      Run k \<Rightarrow> ends_at F k \<and> ((\<forall>u \<in> set (ch_sent (g_upd s)). \<not> F u) \<or> quiet k)
    | AtRecv \<Rightarrow> \<forall>u \<in> set (ch_sent (g_upd s)). \<not> F u
    | _ \<Rightarrow> True) \<and> (\<forall>u \<in> set (butlast (ch_sent (g_upd s))). \<not> F u)"

lemma lstep_final: "lstep P s t \<Longrightarrow> final_inv F s \<Longrightarrow> final_inv F t"
  by (induction rule: lstep.induct) (auto simp: final_inv_def dest: in_set_butlastD)

lemma cstep_final: "cstep P s t \<Longrightarrow> final_inv F s \<Longrightarrow> final_inv F t"
  by (induction rule: cstep.induct) (auto simp: final_inv_def split: pc.splits dest: in_set_butlastD)

lemma rstep_final:
  "rstep P r s t \<Longrightarrow> ends_at F (sub_body P r) \<Longrightarrow> final_inv F s \<Longrightarrow> final_inv F t"
  by (induction rule: rstep.induct) (auto simp: final_inv_def)

lemma reachable_final:
  assumes "\<And>r. ends_at F (sub_body P r)"
  shows "reachable P s \<Longrightarrow> final_inv F s"
proof (induction rule: reachable.induct)
  case init
  show ?case by (simp add: final_inv_def g_init_def)
next
  case (step s t)
  from step.hyps(2) step.IH assms show ?case
    by cases (auto intro: lstep_final cstep_final rstep_final)
qed

text \<open>A final update is the last one, and the loop does not receive after it.\<close>

lemma final_update_last:
  "(\<And>r. ends_at F (sub_body P r)) \<Longrightarrow> reachable P s \<Longrightarrow>
     (\<forall>u \<in> set (butlast (ch_sent (g_upd s))). \<not> F u)
     \<and> ((\<exists>u \<in> set (ch_sent (g_upd s)). F u) \<longrightarrow> g_pc s \<noteq> AtRecv)"
  using reachable_final [of F P s] by (auto simp: final_inv_def)

lemma delivers_once:
  assumes "\<And>r. ends_at (\<lambda>_. True) (sub_body P r)" and "reachable P s"
  shows "length (ch_sent (g_upd s)) \<le> 1 \<and> (ch_sent (g_upd s) \<noteq> [] \<longrightarrow> g_pc s \<noteq> AtRecv)"
proof -
  from final_update_last [OF assms] have "butlast (ch_sent (g_upd s)) = []"
    and 2: "ch_sent (g_upd s) \<noteq> [] \<longrightarrow> g_pc s \<noteq> AtRecv"
    by (cases "butlast (ch_sent (g_upd s))"; auto simp: ex_in_conv [symmetric])+
  then have "length (ch_sent (g_upd s)) \<le> 1"
    by (cases "ch_sent (g_upd s)" rule: rev_cases) simp_all
  with 2 show ?thesis by blast
qed

lemma on_go_emits: "emits (on_go w r f) = (case r of Ok x \<Rightarrow> emits (f x) | _ \<Rightarrow> [])"
  by (cases r) auto

text \<open>A first message whose script starts with an update is delivered by some run.\<close>

lemma first_update:
  fixes P :: "('m, 'u) sub"
  assumes "sub_body P r = SendUpd u d k"
  shows "\<exists>s. reachable P s \<and> ch_sent (g_upd s) = [u] \<and> g_hist s = [r] \<and> g_ctx s = None"
proof -
  let ?i = "g_init :: ('m, 'u) gor"
  let ?s = "?i\<lparr>g_pc := Run (SendUpd u d k), g_hist := [r]\<rparr>"
  have "rstep P r ?i (?i\<lparr>g_pc := Run (sub_body P r), g_hist := g_hist ?i @ [r]\<rparr>)"
    by (rule rstep.recv) (simp add: g_init_def)
  then have s: "reachable P ?s"
    using assms by (auto intro: reachable.step [OF reachable.init gstep.receive] simp: g_init_def)
  show ?thesis
  proof (cases "sub_ucap P = 0")
    case True
    have "cstep P ?s (?s\<lparr>g_pc := Run k, g_upd := ch_hand u (g_upd ?s)\<rparr>)"
      by (rule cstep.hand_upd) (use True in \<open>simp_all add: g_init_def\<close>)
    with s have "reachable P (?s\<lparr>g_pc := Run k, g_upd := ch_hand u (g_upd ?s)\<rparr>)" (is "reachable P ?t")
      by (blast intro: reachable.step gstep.consume)
    then show ?thesis by (intro exI [of _ ?t]) (simp add: g_init_def)
  next
    case False
    have "lstep P ?s (?s\<lparr>g_pc := Run k, g_upd := ch_push u (g_upd ?s)\<rparr>)"
      by (rule lstep.upd_buffer) (use False in \<open>simp_all add: g_init_def\<close>)
    with s have "reachable P (?s\<lparr>g_pc := Run k, g_upd := ch_push u (g_upd ?s)\<rparr>)" (is "reachable P ?t")
      by (blast intro: reachable.step gstep.local)
    then show ?thesis by (intro exI [of _ ?t]) (simp add: g_init_def)
  qed
qed

lemma subseq_in_set: "subseq xs ys \<Longrightarrow> x \<in> set xs \<Longrightarrow> x \<in> set ys"
  by (induction rule: list_emb.induct) auto

text \<open>What was delivered was emitted for a message of the stream.\<close>

context subscription begin

lemma update_source:
  assumes "reachable P s" and "x \<in> set (ch_sent (g_upd s))"
  shows "\<exists>r \<in> set (g_hist s). x \<in> set (emits (sub_body P r))"
  using subseq_in_set [OF updates_subseq [OF assms(1)] assms(2)] by (auto simp: handed_out_def)

end

text \<open>A goroutine with open channels, by its program counter, what the consumer has got, the unread
  errors, its context and the messages so far; and some of its steps.\<close>

definition open_gor ::
  "'u pc \<Rightarrow> 'u list \<Rightarrow> go_error list \<Rightarrow> go_error option \<Rightarrow> 'm recv list \<Rightarrow> ('m, 'u) gor" where
  "open_gor pc us errs c h = \<lparr>g_pc = pc,
     g_upd = \<lparr>ch_buf = [], ch_closed = False, ch_got = us\<rparr>,
     g_err = \<lparr>ch_buf = errs, ch_closed = False, ch_got = []\<rparr>, g_ctx = c, g_hist = h,
     g_signals = 0\<rparr>"

lemma open_gor_steps:
  "reachable P (open_gor AtRecv us errs c h) \<Longrightarrow> sub_body P r = k \<Longrightarrow> h' = h @ [r] \<Longrightarrow>
     reachable P (open_gor (Run k) us errs c h')"
  "reachable P (open_gor (Run (SendErr e k)) us [] c h) \<Longrightarrow> 0 < sub_ecap P \<Longrightarrow>
     reachable P (open_gor (Run k) us [e] c h)"
  "reachable P (open_gor (Run (SendUpd u d k)) us errs c h) \<Longrightarrow> sub_ucap P = 0 \<Longrightarrow>
     reachable P (open_gor (Run k) (us @ [u]) errs c h)"
  "reachable P (open_gor (Run Loop) us errs c h) \<Longrightarrow> reachable P (open_gor AtRecv us errs c h)"
  "reachable P (open_gor pc us errs None h) \<Longrightarrow>
     reachable P (open_gor pc us errs (Some CtxCanceled) h)"
proof -
  show "reachable P (open_gor (Run k) us errs c h')"
    if "reachable P (open_gor AtRecv us errs c h)" "sub_body P r = k" "h' = h @ [r]"
    using reachable.step [OF that(1) gstep.receive [OF rstep.recv, of _ P r]] that(2,3)
    by (simp add: open_gor_def)
  show "reachable P (open_gor (Run k) us [e] c h)"
    if "reachable P (open_gor (Run (SendErr e k)) us [] c h)" "0 < sub_ecap P"
    using reachable.step [OF that(1) gstep.local [OF lstep.err_buffer, of _ e k P]] that(2)
    by (simp add: open_gor_def ch_push_def)
  show "reachable P (open_gor (Run k) (us @ [u]) errs c h)"
    if "reachable P (open_gor (Run (SendUpd u d k)) us errs c h)" "sub_ucap P = 0"
    using reachable.step [OF that(1) gstep.consume [OF cstep.hand_upd, of _ u d k P]] that(2)
    by (simp add: open_gor_def ch_hand_def)
  show "reachable P (open_gor AtRecv us errs c h)" if "reachable P (open_gor (Run Loop) us errs c h)"
    using reachable.step [OF that gstep.local [OF lstep.loop, of _ P]]
    by (simp add: open_gor_def)
  show "reachable P (open_gor pc us errs (Some CtxCanceled) h)"
    if "reachable P (open_gor pc us errs None h)"
    using reachable.step [OF that gstep.consume [OF cstep.cancel, of _ CtxCanceled P]]
    by (simp add: open_gor_def)
qed

section \<open>Channels closed after a final update\<close>

text \<open>The script closes a channel only when an update for which \<open>F\<close> holds has been sent, by the
  script itself or before it.\<close>

primrec closes_after :: "('u \<Rightarrow> bool) \<Rightarrow> 'u script \<Rightarrow> bool \<Rightarrow> bool" where
  "closes_after F Loop seen = True"
| "closes_after F Return seen = True"
| "closes_after F (Fault p) seen = True"
| "closes_after F (SendUpd u d k) seen = (closes_after F d seen \<and> closes_after F k (F u \<or> seen))"
| "closes_after F (SendErr e k) seen = closes_after F k seen"
| "closes_after F (SendCtxErr k) seen = closes_after F k seen"
| "closes_after F (SelErr e d k) seen = (closes_after F d seen \<and> closes_after F k seen)"
| "closes_after F (Signal d k) seen = (closes_after F d seen \<and> closes_after F k seen)"
| "closes_after F (CloseUpd k) seen = (seen \<and> closes_after F k seen)"
| "closes_after F (CloseErr k) seen = (seen \<and> closes_after F k seen)"

definition sent_final :: "('u \<Rightarrow> bool) \<Rightarrow> ('m, 'u) gor \<Rightarrow> bool" where
  "sent_final F s \<longleftrightarrow> (\<exists>u \<in> set (ch_sent (g_upd s)). F u)"

definition close_inv :: "('u \<Rightarrow> bool) \<Rightarrow> ('m, 'u) gor \<Rightarrow> bool" where
  "close_inv F s \<longleftrightarrow> (case g_pc s of
       Run k \<Rightarrow> closes_after F k (sent_final F s) | Deferred ds \<Rightarrow> ds = [] | _ \<Rightarrow> True)
     \<and> (ch_closed (g_upd s) \<or> ch_closed (g_err s) \<longrightarrow> sent_final F s)"

lemma closes_after_mono: "closes_after F k a \<Longrightarrow> (a \<Longrightarrow> b) \<Longrightarrow> closes_after F k b"
proof (induction k arbitrary: a b)
  case (SendUpd u d k)
  from SendUpd.prems SendUpd.IH(1) [of a b] SendUpd.IH(2) [of "F u \<or> a" "F u \<or> b"]
  show ?case by auto
qed auto

lemma on_go_closes_after:
  "closes_after F (on_go w r f) seen \<longleftrightarrow> (\<forall>x. r = Ok x \<longrightarrow> closes_after F (f x) seen)"
  by (cases r) auto

lemmas close_inv_defs = close_inv_def sent_final_def

lemma lstep_close: "lstep P s t \<Longrightarrow> sub_defers P = [] \<Longrightarrow> close_inv F s \<Longrightarrow> close_inv F t"
  by (induction rule: lstep.induct) (auto simp: close_inv_defs elim: closes_after_mono)

lemma cstep_close: "cstep P s t \<Longrightarrow> close_inv F s \<Longrightarrow> close_inv F t"
  by (induction rule: cstep.induct) (auto simp: close_inv_defs split: pc.splits)

lemma rstep_close:
  "rstep P r s t \<Longrightarrow> closes_after F (sub_body P r) False \<Longrightarrow> close_inv F s \<Longrightarrow> close_inv F t"
  by (induction rule: rstep.induct) (auto simp: close_inv_defs elim: closes_after_mono)

lemma closed_after_final:
  assumes "sub_defers P = []" and "\<And>r. closes_after F (sub_body P r) False"
  shows "reachable P s \<Longrightarrow> ch_closed (g_upd s) \<or> ch_closed (g_err s) \<Longrightarrow> sent_final F s"
proof -
  have "reachable P s \<Longrightarrow> close_inv F s"
  proof (induction rule: reachable.induct)
    case init
    show ?case by (simp add: close_inv_def g_init_def)
  next
    case (step s t)
    from step.hyps(2) step.IH assms show ?case
      by cases (auto intro: lstep_close cstep_close rstep_close)
  qed
  then show "reachable P s \<Longrightarrow> ch_closed (g_upd s) \<or> ch_closed (g_err s) \<Longrightarrow> sent_final F s"
    by (simp add: close_inv_def)
qed

section \<open>Refinement of a sequential loop\<close>

text \<open>The errors a script reports when the context does not end, and whether it then receives again.\<close>

primrec reports :: "'u script \<Rightarrow> go_error list" where
  "reports Loop = []"
| "reports Return = []"
| "reports (Fault p) = []"
| "reports (SendUpd u d k) = reports k"
| "reports (SendErr e k) = e # reports k"
| "reports (SendCtxErr k) = reports k"
| "reports (SelErr e d k) = e # reports k"
| "reports (Signal d k) = reports k"
| "reports (CloseUpd k) = reports k"
| "reports (CloseErr k) = reports k"

primrec goes_on :: "'u script \<Rightarrow> bool" where
  "goes_on Loop = True"
| "goes_on Return = False"
| "goes_on (Fault p) = False"
| "goes_on (SendUpd u d k) = goes_on k"
| "goes_on (SendErr e k) = goes_on k"
| "goes_on (SendCtxErr k) = goes_on k"
| "goes_on (SelErr e d k) = goes_on k"
| "goes_on (Signal d k) = goes_on k"
| "goes_on (CloseUpd k) = goes_on k"
| "goes_on (CloseErr k) = goes_on k"

text \<open>The loop without channels and goroutines: the updates and errors of the messages in turn, up to
  the first message that ends it.\<close>

fun serve :: "('m recv \<Rightarrow> 'u script) \<Rightarrow> 'm recv list \<Rightarrow> 'u list \<times> go_error list" where
  "serve body [] = ([], [])"
| "serve body (r # rs) = (let (us, es) = (if goes_on (body r) then serve body rs else ([], []))
     in (emits (body r) @ us, reports (body r) @ es))"

lemma serve_snoc:
  "\<forall>r' \<in> set rs. goes_on (body r') \<Longrightarrow>
     serve body (rs @ [r]) = (fst (serve body rs) @ emits (body r), snd (serve body rs) @ reports (body r))"
  by (induction rs) (auto simp: Let_def split: prod.split)

definition pending_errs :: "('m, 'u) gor \<Rightarrow> go_error list" where
  "pending_errs s = (case g_pc s of Run k \<Rightarrow> reports k | _ \<Rightarrow> [])"

definition in_turn :: "('m, 'u) sub \<Rightarrow> ('m, 'u) gor \<Rightarrow> bool" where
  "in_turn P s \<longleftrightarrow> (let more = \<lambda>r. goes_on (sub_body P r); h = g_hist s in case g_pc s of
       AtRecv \<Rightarrow> \<forall>r \<in> set h. more r
     | Run k \<Rightarrow> h \<noteq> [] \<and> (\<forall>r \<in> set (butlast h). more r) \<and> more (last h) = goes_on k
     | _ \<Rightarrow> h \<noteq> [] \<and> (\<forall>r \<in> set (butlast h). more r) \<and> \<not> more (last h))"

definition serves :: "('m, 'u) sub \<Rightarrow> ('m, 'u) gor \<Rightarrow> bool" where
  "serves P s \<longleftrightarrow> g_ctx s = None \<longrightarrow> in_turn P s
     \<and> serve (sub_body P) (g_hist s)
         = (ch_sent (g_upd s) @ pending s, ch_sent (g_err s) @ pending_errs s)"

lemmas serves_defs = serves_def in_turn_def pending_def pending_errs_def Let_def

lemma all_butlast: "xs \<noteq> [] \<Longrightarrow> \<forall>x \<in> set (butlast xs). p x \<Longrightarrow> p (last xs) \<Longrightarrow> \<forall>x \<in> set xs. p x"
  by (induction xs rule: rev_induct) auto

lemma lstep_serves: "lstep P s t \<Longrightarrow> g_pc t \<noteq> Misused \<Longrightarrow> serves P s \<Longrightarrow> serves P t"
  by (induction rule: lstep.induct) (auto simp: serves_defs dest: all_butlast split: if_splits)

lemma cstep_serves: "cstep P s t \<Longrightarrow> serves P s \<Longrightarrow> serves P t"
  by (induction rule: cstep.induct) (auto simp: serves_defs split: pc.splits)

lemma rstep_serves: "rstep P r s t \<Longrightarrow> serves P s \<Longrightarrow> serves P t"
  by (induction rule: rstep.induct) (auto simp: serves_defs serve_snoc)

context subscription begin

text \<open>While its context lives the goroutine does what the sequential loop does; when it has exited, the
  consumer has been sent all of it and the last message was the one that ended the loop.\<close>

lemma refines_serve:
  assumes "reachable P s" and "g_ctx s = None"
  shows "serve (sub_body P) (g_hist s)
           = (ch_sent (g_upd s) @ pending s, ch_sent (g_err s) @ pending_errs s) \<and> in_turn P s"
proof -
  from assms(1) have "serves P s"
  proof (induction rule: reachable.induct)
    case init
    show ?case by (simp add: serves_defs g_init_def)
  next
    case (step s t)
    then have "g_pc t \<noteq> Misused" using no_misuse reachable.step by blast
    with step.hyps(2) step.IH show ?case
      by cases (auto intro: lstep_serves cstep_serves rstep_serves)
  qed
  with assms(2) show ?thesis by (simp add: serves_def)
qed

end
text \<open>What most subscriptions promise: every message is converted and handed out, up to the first one
  that does not convert or the error of the stream, which is reported.\<close>

fun piped :: "('m recv \<Rightarrow> 'u go) \<Rightarrow> 'm recv list \<Rightarrow> 'u list \<times> go_error option" where
  "piped conv [] = ([], None)"
| "piped conv (r # rs) = (case conv r of
       Ok u \<Rightarrow> let (us, e) = piped conv rs in (u # us, e)
     | Err e \<Rightarrow> ([], Some e)
     | Panic p \<Rightarrow> ([], None))"

definition err_list :: "go_error option \<Rightarrow> go_error list" where
  "err_list e = (case e of None \<Rightarrow> [] | Some e \<Rightarrow> [e])"

text \<open>The goroutine implements the pipe: while its context lives, what was sent is what the pipe gives
  for the messages so far, but for what it is about to send; all of it once the goroutine has exited,
  and then there is an error unless a conversion panics.\<close>

definition implements :: "('m, 'u) sub \<Rightarrow> ('m recv \<Rightarrow> 'u go) \<Rightarrow> bool" where
  "implements P conv \<longleftrightarrow> (\<forall>s. reachable P s \<longrightarrow> g_ctx s = None \<longrightarrow>
     (let (us, e) = piped conv (g_hist s)
      in (\<exists>us'. us = ch_sent (g_upd s) @ us' \<and> length us' \<le> 1)
         \<and> (\<exists>es'. err_list e = ch_sent (g_err s) @ es')
         \<and> (g_pc s = AtRecv \<longrightarrow> us = ch_sent (g_upd s) \<and> e = None)
         \<and> (g_pc s = Exited \<longrightarrow> us = ch_sent (g_upd s) \<and> err_list e = ch_sent (g_err s)
              \<and> ((\<forall>r. \<not> is_panic (conv r)) \<longrightarrow> e \<noteq> None))))"

definition pipe_script :: "'u script \<Rightarrow> 'u go \<Rightarrow> 'u script" where
  "pipe_script d r = on_go id r (\<lambda>u. SendUpd u d Loop)"

lemma pipe_script_simps [simp]:
  "goes_on (pipe_script d r) = is_ok r"
  "reports (pipe_script d r) = (case r of Err e \<Rightarrow> [e] | _ \<Rightarrow> [])"
  "emits (pipe_script d r) = (case r of Ok u \<Rightarrow> [u] | _ \<Rightarrow> [])"
  by (cases r; simp add: pipe_script_def)+

lemma serve_piped:
  "serve (\<lambda>r. pipe_script d (conv r)) rs
     = (fst (piped conv rs), err_list (snd (piped conv rs)))"
  by (induction rs) (auto simp: err_list_def Let_def split: go.split prod.split)

lemma piped_ends:
  "rs \<noteq> [] \<Longrightarrow> \<forall>r \<in> set (butlast rs). is_ok (conv r) \<Longrightarrow> \<not> is_ok (conv (last rs)) \<Longrightarrow>
     \<forall>r. \<not> is_panic (conv r) \<Longrightarrow> snd (piped conv rs) \<noteq> None"
proof (induction rs)
  case (Cons r rs)
  then have "\<not> is_panic (conv r)" by blast
  with Cons show ?case
    by (cases "conv r") (auto split: prod.split if_splits)
qed simp

lemma piped_alive:
  "\<forall>r \<in> set rs. is_ok (conv r) \<Longrightarrow> snd (piped conv rs) = None"
  by (induction rs) (auto split: go.split prod.split)

text \<open>At any time at most one update is pending when a script sends at most one.\<close>

context subscription begin

lemma pending_bound:
  assumes "\<And>r. length (emits (sub_body P r)) \<le> 1"
  shows "reachable P s \<Longrightarrow> g_ctx s = None \<Longrightarrow> length (pending s) \<le> 1"
proof -
  have l: "length (pending t) \<le> length (pending s)" if "lstep P s t" "g_ctx s = None" for s t
    using that by (induction rule: lstep.induct) (auto simp: pending_def)
  have c: "length (pending t) \<le> length (pending s)" if "cstep P s t" for s t
    using that by (induction rule: cstep.induct) (auto simp: pending_def split: pc.splits)
  have r: "length (pending t) \<le> 1" if "rstep P r s t" for r s t
    using that assms by (induction rule: rstep.induct) (auto simp: pending_def)
  show "reachable P s \<Longrightarrow> g_ctx s = None \<Longrightarrow> length (pending s) \<le> 1"
  proof (induction rule: reachable.induct)
    case init
    show ?case by (simp add: pending_def g_init_def)
  next
    case (step s t)
    from step.hyps(2) show ?case
    proof cases
      case local
      with step lstep_ctx [of P s t] l [of s t] show ?thesis by fastforce
    next
      case receive
      with r show ?thesis by blast
    next
      case consume
      then have "g_ctx s = None"
        using step.prems cstep_ctx [of P s t] by (cases "g_ctx s") auto
      with consume step.IH c [of s t] show ?thesis by fastforce
    qed
  qed
qed

lemma pipe_implements:
  assumes "sub_body P = (\<lambda>r. pipe_script d (conv r))"
  shows "implements P conv"
  unfolding implements_def
proof (intro allI impI)
  fix s assume s: "reachable P s" "g_ctx s = None"
  note turn = refines_serve [OF s, unfolded assms serve_piped in_turn_def, simplified]
  have "length (pending s) \<le> 1"
    by (rule pending_bound [OF _ s]) (simp add: assms split: go.split)
  moreover have "g_pc s = AtRecv \<Longrightarrow> snd (piped conv (g_hist s)) = None \<and> pending s = []"
    using turn piped_alive [of "g_hist s" conv] by (simp add: pending_def assms)
  moreover have "g_pc s = Exited \<Longrightarrow> pending s = [] \<and> pending_errs s = []
      \<and> ((\<forall>r. \<not> is_panic (conv r)) \<longrightarrow> snd (piped conv (g_hist s)) \<noteq> None)"
    using turn piped_ends [of "g_hist s" conv] by (simp add: pending_def pending_errs_def assms Let_def)
  ultimately show "let (us, e) = piped conv (g_hist s)
      in (\<exists>us'. us = ch_sent (g_upd s) @ us' \<and> length us' \<le> 1)
         \<and> (\<exists>es'. err_list e = ch_sent (g_err s) @ es')
         \<and> (g_pc s = AtRecv \<longrightarrow> us = ch_sent (g_upd s) \<and> e = None)
         \<and> (g_pc s = Exited \<longrightarrow> us = ch_sent (g_upd s) \<and> err_list e = ch_sent (g_err s)
              \<and> ((\<forall>r. \<not> is_panic (conv r)) \<longrightarrow> e \<noteq> None))"
    using turn by (auto simp: Let_def split: prod.split)
qed

end

end
