(* ===== verification/Reactions.thy ===== *)
theory Reactions
  imports Streams
begin

text \<open>
  What a subscription promises its consumer, without scripts and channels: how it reacts to each
  message of its stream. A loop of \<open>Streams\<close> follows a reaction when what it has sent at any time is
  what the reactions to the messages received so far give, in order and without loss, but for what it
  is about to send.
\<close>

section \<open>Reactions\<close>

datatype 'u reaction =
    Hand 'u                   \<comment> \<open>hand out an update and go on\<close>
  | Notify                    \<comment> \<open>signal on the re-org channel and go on\<close>
  | Ignore                    \<comment> \<open>go on\<close>
  | Finish "'u option" "go_error option" bool
      \<comment> \<open>hand out an update, report an error, and end; the channels are closed or not\<close>
  | Crash                     \<comment> \<open>panic\<close>

primrec handed :: "'u reaction \<Rightarrow> 'u list" where
  "handed (Hand u) = [u]"
| "handed Notify = []"
| "handed Ignore = []"
| "handed (Finish u e c) = (case u of None \<Rightarrow> [] | Some u \<Rightarrow> [u])"
| "handed Crash = []"

primrec reported :: "'u reaction \<Rightarrow> go_error list" where
  "reported (Hand u) = []"
| "reported Notify = []"
| "reported Ignore = []"
| "reported (Finish u e c) = (case e of None \<Rightarrow> [] | Some e \<Rightarrow> [e])"
| "reported Crash = []"

primrec signalled :: "'u reaction \<Rightarrow> nat" where
  "signalled (Hand u) = 0"
| "signalled Notify = 1"
| "signalled Ignore = 0"
| "signalled (Finish u e c) = 0"
| "signalled Crash = 0"

primrec continues :: "'u reaction \<Rightarrow> bool" where
  "continues (Hand u) = True"
| "continues Notify = True"
| "continues Ignore = True"
| "continues (Finish u e c) = False"
| "continues Crash = False"

text \<open>The reaction to a message that has to be converted: an error is reported and ends the loop.\<close>

fun on_ok :: "bool \<Rightarrow> 'a go \<Rightarrow> ('a \<Rightarrow> 'u reaction) \<Rightarrow> 'u reaction" where
  "on_ok closed (Ok x) f = f x"
| "on_ok closed (Err e) f = Finish None (Some e) closed"
| "on_ok closed (Panic p) f = Crash"

text \<open>
  The goroutine follows \<open>react\<close>: while its context lives, it has sent a prefix of the updates, errors
  and signals of the reactions to its messages, at most one update less than all, and all of them when
  it waits for the next message or has exited. It has gone on after every message but the last, has
  exited only at a final reaction, whose channels are then closed or open as it says, and has panicked
  only at a panic of the conversion.
\<close>

definition follows :: "('m recv \<Rightarrow> 'u reaction) \<Rightarrow> ('m, 'u) gor \<Rightarrow> bool" where
  "follows react s \<longleftrightarrow>
     (let rs = map react (g_hist s); us = concat (map handed rs); es = concat (map reported rs);
          n = sum_list (map signalled rs)
      in (\<exists>us'. us = ch_sent (g_upd s) @ us' \<and> length us' \<le> 1)
         \<and> (\<exists>es'. es = ch_sent (g_err s) @ es') \<and> g_signals s \<le> n
         \<and> (\<forall>r \<in> set (butlast rs). continues r)
         \<and> (g_pc s = AtRecv \<or> g_pc s = Exited \<longrightarrow>
              us = ch_sent (g_upd s) \<and> es = ch_sent (g_err s) \<and> g_signals s = n)
         \<and> (g_pc s = AtRecv \<longrightarrow> (\<forall>r \<in> set rs. continues r))
         \<and> (g_pc s = Exited \<longrightarrow> rs \<noteq> [] \<and> (\<exists>u e. last rs = Finish u e (ch_closed (g_upd s)))
              \<and> ch_closed (g_err s) = ch_closed (g_upd s))
         \<and> (\<forall>p. g_pc s = Faulted p \<longrightarrow> rs \<noteq> [] \<and> last rs = Crash))"

text \<open>
  A subscription keeps its promises: it never sends on or closes a closed channel, it follows its
  reactions, after the end of its context it still hands out only what they give, in order, it reports
  at most one error, and it exits once the context has ended, without help of the consumer.
\<close>

definition well_behaved :: "('m, 'u) sub \<Rightarrow> ('m recv \<Rightarrow> 'u reaction) \<Rightarrow> bool" where
  "well_behaved P react \<longleftrightarrow> (\<forall>s. reachable P s \<longrightarrow>
     g_pc s \<noteq> Misused \<and> length (ch_sent (g_err s)) \<le> 1
     \<and> subseq (ch_sent (g_upd s)) (concat (map (\<lambda>r. handed (react r)) (g_hist s)))
     \<and> (g_ctx s = None \<longrightarrow> follows react s)
     \<and> (g_ctx s \<noteq> None \<longrightarrow> must_exit P s))"

section \<open>Scripts and reactions\<close>

text \<open>What else a script does when the context does not end: its signals, the channels it closes and
  whether it panics.\<close>

primrec signals :: "'u script \<Rightarrow> nat" where
  "signals Loop = 0"
| "signals Return = 0"
| "signals (Fault p) = 0"
| "signals (SendUpd u d k) = signals k"
| "signals (SendErr e k) = signals k"
| "signals (SendCtxErr k) = signals k"
| "signals (SelErr e d k) = signals k"
| "signals (Signal d k) = Suc (signals k)"
| "signals (CloseUpd k) = signals k"
| "signals (CloseErr k) = signals k"

primrec shuts_upd :: "'u script \<Rightarrow> bool" where
  "shuts_upd Loop = False"
| "shuts_upd Return = False"
| "shuts_upd (Fault p) = False"
| "shuts_upd (SendUpd u d k) = shuts_upd k"
| "shuts_upd (SendErr e k) = shuts_upd k"
| "shuts_upd (SendCtxErr k) = shuts_upd k"
| "shuts_upd (SelErr e d k) = shuts_upd k"
| "shuts_upd (Signal d k) = shuts_upd k"
| "shuts_upd (CloseUpd k) = True"
| "shuts_upd (CloseErr k) = shuts_upd k"

primrec shuts_err :: "'u script \<Rightarrow> bool" where
  "shuts_err Loop = False"
| "shuts_err Return = False"
| "shuts_err (Fault p) = False"
| "shuts_err (SendUpd u d k) = shuts_err k"
| "shuts_err (SendErr e k) = shuts_err k"
| "shuts_err (SendCtxErr k) = shuts_err k"
| "shuts_err (SelErr e d k) = shuts_err k"
| "shuts_err (Signal d k) = shuts_err k"
| "shuts_err (CloseUpd k) = shuts_err k"
| "shuts_err (CloseErr k) = True"

primrec crashes :: "'u script \<Rightarrow> bool" where
  "crashes Loop = False"
| "crashes Return = False"
| "crashes (Fault p) = True"
| "crashes (SendUpd u d k) = crashes k"
| "crashes (SendErr e k) = crashes k"
| "crashes (SendCtxErr k) = crashes k"
| "crashes (SelErr e d k) = crashes k"
| "crashes (Signal d k) = crashes k"
| "crashes (CloseUpd k) = crashes k"
| "crashes (CloseErr k) = crashes k"

text \<open>A script, followed by the deferred closes of its goroutine, carries out a reaction.\<close>

definition carries_out :: "deferred list \<Rightarrow> 'u script \<Rightarrow> 'u reaction \<Rightarrow> bool" where
  "carries_out ds k r \<longleftrightarrow> emits k = handed r \<and> reports k = reported r \<and> signals k = signalled r
     \<and> goes_on k = continues r \<and> crashes k = (r = Crash)
     \<and> (\<forall>u e c. r = Finish u e c \<longrightarrow> (shuts_upd k \<or> DeferCloseUpd \<in> set ds) = c
          \<and> (shuts_err k \<or> DeferCloseErr \<in> set ds) = c)"

lemmas carries_out_simps =
  carries_out_def [of ds k "Hand u" for ds k u] carries_out_def [of ds k Notify for ds k]
  carries_out_def [of ds k Ignore for ds k] carries_out_def [of ds k "Finish u e c" for ds k u e c]
  carries_out_def [of ds k Crash for ds k]

lemma carries_out_on_go:
  assumes "\<And>x. r = Ok x \<Longrightarrow> carries_out ds (f x) (g x)"
    and "(DeferCloseUpd \<in> set ds) = c" and "(DeferCloseErr \<in> set ds) = c"
  shows "carries_out ds (on_go id r f) (on_ok c r g)"
  using assms by (cases r) (auto simp: carries_out_def)

section \<open>The last message\<close>

text \<open>What the script of the last message still has to do, next to what is done.\<close>

definition signal_inv :: "('m, 'u) sub \<Rightarrow> ('m, 'u) gor \<Rightarrow> bool" where
  "signal_inv P s \<longleftrightarrow> g_ctx s = None \<longrightarrow>
     g_signals s + (case g_pc s of Run k \<Rightarrow> signals k | _ \<Rightarrow> 0)
       = sum_list (map (\<lambda>r. signals (sub_body P r)) (g_hist s))"

definition shut_inv :: "('m, 'u) sub \<Rightarrow> ('m, 'u) gor \<Rightarrow> bool" where
  "shut_inv P s \<longleftrightarrow> g_ctx s = None \<longrightarrow> (let k0 = sub_body P (last (g_hist s)); ds0 = set (sub_defers P)
     in case g_pc s of
       Run k \<Rightarrow> ((ch_closed (g_upd s) \<or> shuts_upd k) = shuts_upd k0)
         \<and> ((ch_closed (g_err s) \<or> shuts_err k) = shuts_err k0) \<and> crashes k = crashes k0
     | Deferred ds \<Rightarrow> ((ch_closed (g_upd s) \<or> DeferCloseUpd \<in> set ds)
           = (shuts_upd k0 \<or> DeferCloseUpd \<in> ds0))
         \<and> ((ch_closed (g_err s) \<or> DeferCloseErr \<in> set ds) = (shuts_err k0 \<or> DeferCloseErr \<in> ds0))
         \<and> \<not> crashes k0
     | Exited \<Rightarrow> ch_closed (g_upd s) = (shuts_upd k0 \<or> DeferCloseUpd \<in> ds0)
         \<and> ch_closed (g_err s) = (shuts_err k0 \<or> DeferCloseErr \<in> ds0) \<and> \<not> crashes k0
     | Faulted p \<Rightarrow> crashes k0
     | _ \<Rightarrow> True)"

lemmas last_defs = signal_inv_def shut_inv_def Let_def

lemma lstep_last:
  "lstep P s t \<Longrightarrow> g_pc t \<noteq> Misused \<Longrightarrow> signal_inv P s \<and> shut_inv P s \<Longrightarrow>
     signal_inv P t \<and> shut_inv P t"
  by (induction rule: lstep.induct) (simp_all add: last_defs split: if_splits, (elim exE, simp)+)

lemma cstep_last: "cstep P s t \<Longrightarrow> signal_inv P s \<and> shut_inv P s \<Longrightarrow> signal_inv P t \<and> shut_inv P t"
proof (induction rule: cstep.induct)
  case (pop_upd s)
  then show ?case by (cases "g_pc s") (simp_all add: last_defs)
next
  case (pop_err s)
  then show ?case by (cases "g_pc s") (simp_all add: last_defs)
qed (simp_all add: last_defs)

lemma rstep_last:
  "rstep P r s t \<Longrightarrow> g_inv P s \<Longrightarrow> signal_inv P s \<and> shut_inv P s \<Longrightarrow> signal_inv P t \<and> shut_inv P t"
  by (induction rule: rstep.induct) (auto simp: last_defs g_inv_def pc_ok_def)

lemma reachable_last:
  assumes "subscription P"
  shows "reachable P s \<Longrightarrow> signal_inv P s \<and> shut_inv P s"
proof (induction rule: reachable.induct)
  case init
  show ?case by (simp add: last_defs g_init_def)
next
  case (step s t)
  have inv: "g_inv P s" using subscription.reachable_inv [OF assms step.hyps(1)] .
  have "g_pc t \<noteq> Misused"
    using subscription.no_misuse [OF assms reachable.step [OF step.hyps]] .
  with step.hyps(2) inv step.IH show ?case
    by cases (blast dest: lstep_last cstep_last rstep_last)+
qed

section \<open>Loops follow their reactions\<close>

lemma serve_concat:
  "\<forall>r \<in> set (butlast rs). goes_on (body r) \<Longrightarrow>
     serve body rs = (concat (map (\<lambda>r. emits (body r)) rs), concat (map (\<lambda>r. reports (body r)) rs))"
proof (induction rs)
  case (Cons r rs)
  then show ?case by (cases "rs = []") auto
qed simp

lemma in_turn_butlast:
  "in_turn P s \<Longrightarrow> \<forall>r \<in> set (butlast (g_hist s)). goes_on (sub_body P r)"
  by (auto simp: in_turn_def Let_def dest: in_set_butlastD split: pc.splits)

lemma reachable_follows:
  assumes sub: "subscription P"
    and react: "\<And>r. carries_out (sub_defers P) (sub_body P r) (react r)"
    and s: "reachable P s" "g_ctx s = None"
  shows "follows react s"
proof -
  note turn = subscription.refines_serve [OF sub s]
  note last = reachable_last [OF sub s(1), unfolded last_defs, simplified s(2) simp_thms]
  have eff: "emits (sub_body P r) = handed (react r)" "reports (sub_body P r) = reported (react r)"
    "signals (sub_body P r) = signalled (react r)" "goes_on (sub_body P r) = continues (react r)"
    "crashes (sub_body P r) \<longleftrightarrow> react r = Crash"
    and shut: "react r = Finish u e c \<Longrightarrow> (shuts_upd (sub_body P r) \<or> DeferCloseUpd \<in> set (sub_defers P)) = c
      \<and> (shuts_err (sub_body P r) \<or> DeferCloseErr \<in> set (sub_defers P)) = c" for r u e c
    using react [of r] by (simp_all add: carries_out_def)
  have "length (handed x) \<le> 1" for x :: "'b reaction"
    by (cases x) (auto split: option.split)
  with subscription.pending_bound [OF sub _ s] have bound: "length (pending s) \<le> 1"
    by (simp add: eff)
  have sent: "concat (map (\<lambda>r. handed (react r)) (g_hist s)) = ch_sent (g_upd s) @ pending s"
    "concat (map (\<lambda>r. reported (react r)) (g_hist s)) = ch_sent (g_err s) @ pending_errs s"
    using turn serve_concat [OF in_turn_butlast [of P s]] by (simp_all add: eff)
  have butlast: "\<forall>r \<in> set (butlast (g_hist s)). continues (react r)"
    using in_turn_butlast [of P s] turn by (simp add: eff)
  show ?thesis
  proof (cases "g_pc s")
    case (Run k)
    with sent bound butlast last show ?thesis
      by (simp add: follows_def Let_def comp_def eff map_butlast [symmetric])
  next
    case Exited
    then have h: "g_hist s \<noteq> []" "\<not> continues (react (last (g_hist s)))" "react (last (g_hist s)) \<noteq> Crash"
      using turn last by (simp_all add: in_turn_def eff Let_def)
    then obtain u e c where "react (last (g_hist s)) = Finish u e c"
      by (cases "react (last (g_hist s))") auto
    with shut [OF this] Exited h sent butlast last show ?thesis
      by (simp add: follows_def Let_def comp_def eff map_butlast [symmetric] last_map pending_def
          pending_errs_def)
  qed (use sent butlast last turn in \<open>auto simp: follows_def Let_def comp_def eff
    map_butlast [symmetric] last_map pending_def pending_errs_def in_turn_def\<close>)
qed

lemma keeps_promises:
  assumes "subscription P" and "\<And>r. carries_out (sub_defers P) (sub_body P r) (react r)"
  shows "well_behaved P react"
proof -
  have "handed_out P s = concat (map (\<lambda>r. handed (react r)) (g_hist s))" for s
    using assms(2) by (simp add: handed_out_def carries_out_def)
  then show ?thesis
    using subscription.no_misuse [OF assms(1)] subscription.one_error [OF assms(1)]
      subscription.updates_subseq [OF assms(1)] subscription.no_leak [OF assms(1)]
      reachable_follows [OF assms]
    unfolding well_behaved_def by metis
qed

end
