(* ===== verification/GoStd.thy ===== *)
theory GoStd
  imports Prelude
begin

text \<open>
  The parts of Go's standard library the sources use, as functions on byte strings
  (\<open>strings.Split\<close>, \<open>strings.Contains\<close>, \<open>strings.Join\<close>, \<open>strconv.Atoi\<close>, decimal printing,
  \<open>encoding/hex\<close>), the text of an error, and \<open>time.Time\<close> and \<open>time.Duration\<close>.
\<close>

section \<open>Strings\<close>

text \<open>\<open>strings.Split(s, sep)\<close> for a separator of one byte.\<close>

fun split_on :: "char \<Rightarrow> string \<Rightarrow> string list" where
  "split_on c [] = [[]]"
| "split_on c (x # xs) =
     (if x = c then [] # split_on c xs
      else (case split_on c xs of [] \<Rightarrow> [[x]] | p # ps \<Rightarrow> (x # p) # ps))"

fun is_prefix :: "string \<Rightarrow> string \<Rightarrow> bool" where
  "is_prefix [] ys = True"
| "is_prefix (x # xs) [] = False"
| "is_prefix (x # xs) (y # ys) = (x = y \<and> is_prefix xs ys)"

text \<open>\<open>strings.Contains(s, sub)\<close>.\<close>

fun contains :: "string \<Rightarrow> string \<Rightarrow> bool" where
  "contains [] sub = (sub = [])"
| "contains (x # xs) sub = (is_prefix sub (x # xs) \<or> contains xs sub)"

text \<open>\<open>strings.Join(parts, sep)\<close>.\<close>

fun join :: "string list \<Rightarrow> string \<Rightarrow> string" where
  "join [] sep = []"
| "join [p] sep = p"
| "join (p # ps) sep = p @ sep @ join ps sep"

lemma split_on_nonempty [simp]: "split_on c s \<noteq> []"
  by (induction s) (auto split: list.splits)

lemma split_on_no_sep: "c \<notin> set s \<Longrightarrow> split_on c s = [s]"
  by (induction s) auto

lemma split_on_append:
  "c \<notin> set p \<Longrightarrow> split_on c (p @ c # s) = p # split_on c s"
  by (induction p) auto

lemma join_split_on: "join (split_on c s) [c] = s"
proof (induction s)
  case Nil
  show ?case by simp
next
  case (Cons x xs)
  obtain p ps where ps: "split_on c xs = p # ps"
    by (cases "split_on c xs") auto
  with Cons show ?case by (cases ps) auto
qed

lemma split_on_parts: "p \<in> set (split_on c s) \<Longrightarrow> c \<notin> set p"
proof (induction s arbitrary: p)
  case Nil
  then show ?case by simp
next
  case (Cons x xs)
  obtain q qs where "split_on c xs = q # qs" by (cases "split_on c xs") auto
  with Cons show ?case by (auto split: if_splits)
qed

lemma is_prefix_iff: "is_prefix xs ys \<longleftrightarrow> (\<exists>zs. ys = xs @ zs)"
  by (induction xs ys rule: is_prefix.induct) auto

lemma contains_iff: "contains s sub \<longleftrightarrow> (\<exists>p q. s = p @ sub @ q)"
proof (induction s)
  case Nil
  show ?case by auto
next
  case (Cons x xs)
  show ?case
  proof
    assume "contains (x # xs) sub"
    then consider "is_prefix sub (x # xs)" | "contains xs sub" by auto
    then show "\<exists>p q. x # xs = p @ sub @ q"
    proof cases
      case 1
      then obtain zs where "x # xs = sub @ zs" by (auto simp: is_prefix_iff)
      then have "x # xs = [] @ sub @ zs" by simp
      then show ?thesis by blast
    next
      case 2
      with Cons.IH obtain p q where "xs = p @ sub @ q" by blast
      then have "x # xs = (x # p) @ sub @ q" by simp
      then show ?thesis by blast
    qed
  next
    assume "\<exists>p q. x # xs = p @ sub @ q"
    then obtain p q where pq: "x # xs = p @ sub @ q" by blast
    show "contains (x # xs) sub"
    proof (cases p)
      case Nil
      with pq have "is_prefix sub (x # xs)" by (auto simp: is_prefix_iff)
      then show ?thesis by simp
    next
      case (Cons y p')
      with pq have "xs = p' @ sub @ q" by simp
      with Cons.IH have "contains xs sub" by blast
      then show ?thesis by simp
    qed
  qed
qed

section \<open>path/filepath\<close>

text \<open>
  \<open>filepath.Clean\<close> on Unix: empty and \<open>.\<close> segments go, \<open>..\<close> removes the segment before it, or is
  dropped at the root. The accumulator holds the segments kept so far, last first.
\<close>

fun clean_segs :: "bool \<Rightarrow> string list \<Rightarrow> string list \<Rightarrow> string list" where
  "clean_segs rooted acc [] = rev acc"
| "clean_segs rooted acc (s # ss) =
     (if s = [] \<or> s = ''.'' then clean_segs rooted acc ss
      else if s = ''..'' then
        (case acc of
           [] \<Rightarrow> clean_segs rooted (if rooted then [] else [s]) ss
         | t # ts \<Rightarrow> clean_segs rooted (if t = ''..'' then s # acc else ts) ss)
      else clean_segs rooted (s # acc) ss)"

definition path_Clean :: "string \<Rightarrow> string" where
  "path_Clean p =
     (let rooted = (p \<noteq> [] \<and> hd p = CHR ''/'');
          segs = clean_segs rooted [] (split_on (CHR ''/'') p)
      in if rooted then CHR ''/'' # join segs ''/''
         else if segs = [] then ''.'' else join segs ''/'')"

text \<open>\<open>filepath.Join\<close> drops the leading empty elements and cleans the rest.\<close>

definition path_Join :: "string list \<Rightarrow> string" where
  "path_Join elems = (case dropWhile (\<lambda>e. e = []) elems of
       [] \<Rightarrow> []
     | es \<Rightarrow> path_Clean (join es ''/''))"

lemma clean_segs_id:
  "\<forall>s \<in> set ss. s \<noteq> [] \<and> s \<noteq> ''.'' \<and> s \<noteq> ''..'' \<Longrightarrow> clean_segs r acc ss = rev acc @ ss"
  by (induction ss arbitrary: acc) auto

section \<open>Decimal numbers\<close>

definition is_digit :: "char \<Rightarrow> bool" where
  "is_digit c \<longleftrightarrow> 48 \<le> (of_char c :: nat) \<and> (of_char c :: nat) \<le> 57"

definition digit_val :: "char \<Rightarrow> nat" where
  "digit_val c = of_char c - 48"

definition digit_char :: "nat \<Rightarrow> char" where
  "digit_char d = char_of (d + 48)"

text \<open>\<open>fmt.Sprintf("%d", n)\<close> for a value that is not negative.\<close>

fun show_nat :: "nat \<Rightarrow> string" where
  "show_nat n = (if n < 10 then [digit_char n] else show_nat (n div 10) @ [digit_char (n mod 10)])"

declare show_nat.simps [simp del]

definition show_int :: "int \<Rightarrow> string" where
  "show_int i = (if i < 0 then ''-'' @ show_nat (nat (- i)) else show_nat (nat i))"

definition digits_val :: "string \<Rightarrow> nat" where
  "digits_val s = foldl (\<lambda>v c. 10 * v + digit_val c) 0 s"

text \<open>
  \<open>strconv.Atoi(s)\<close>: an optional sign and at least one decimal digit, with a value that fits an
  \<open>int\<close> of 64 bits.
\<close>

definition atoi_sign :: "string \<Rightarrow> bool \<times> string" where
  "atoi_sign s = (case s of
       [] \<Rightarrow> (False, [])
     | c # cs \<Rightarrow> if c = CHR ''-'' then (True, cs) else if c = CHR ''+'' then (False, cs)
                else (False, s))"

definition Atoi :: "string \<Rightarrow> int go" where
  "Atoi s =
     (let (neg, ds) = atoi_sign s; v = int (digits_val ds)
      in if ds = [] \<or> \<not> list_all is_digit ds then Err (NumError s ErrSyntax)
         else if neg then (if v \<le> 2 ^ 63 then Ok (- v) else Err (NumError s ErrRange))
         else (if v < 2 ^ 63 then Ok v else Err (NumError s ErrRange)))"

lemma of_char_digit_char [simp]: "d < 10 \<Longrightarrow> of_char (digit_char d) = d + 48"
  by (simp add: digit_char_def)

lemma is_digit_digit_char [simp]: "d < 10 \<Longrightarrow> is_digit (digit_char d)"
  by (simp add: is_digit_def)

lemma digit_val_digit_char [simp]: "d < 10 \<Longrightarrow> digit_val (digit_char d) = d"
  by (simp add: digit_val_def)

lemma show_nat_digits: "list_all is_digit (show_nat n)"
proof (induction n rule: show_nat.induct)
  case (1 n)
  then show ?case by (subst show_nat.simps) auto
qed

lemma show_nat_nonempty [simp]: "show_nat n \<noteq> []"
  by (subst show_nat.simps) auto

lemma digits_val_snoc: "digits_val (ds @ [c]) = 10 * digits_val ds + digit_val c"
  by (simp add: digits_val_def)

lemma digits_val_show_nat [simp]: "digits_val (show_nat n) = n"
proof (induction n rule: show_nat.induct)
  case (1 n)
  show ?case
  proof (cases "n < 10")
    case True
    then show ?thesis by (subst show_nat.simps) (simp add: digits_val_def)
  next
    case False
    with "1.IH" have "digits_val (show_nat (n div 10)) = n div 10" by simp
    with False show ?thesis
      by (subst show_nat.simps) (simp add: digits_val_snoc)
  qed
qed

lemma show_nat_inj: "show_nat m = show_nat n \<longleftrightarrow> m = n"
  by (metis digits_val_show_nat)

lemma digit_not_sign: "is_digit c \<Longrightarrow> c \<noteq> CHR ''-'' \<and> c \<noteq> CHR ''+'' \<and> c \<noteq> CHR '':''"
  by (auto simp: is_digit_def)

lemma show_nat_chars: "c \<in> set (show_nat n) \<Longrightarrow> is_digit c"
  using show_nat_digits [of n] by (auto simp: list_all_iff)

lemma atoi_sign_show_nat: "atoi_sign (show_nat n) = (False, show_nat n)"
proof -
  obtain c cs where *: "show_nat n = c # cs" by (cases "show_nat n") auto
  then have "is_digit c" by (metis list.set_intros(1) show_nat_chars)
  with * show ?thesis by (auto simp: atoi_sign_def dest: digit_not_sign)
qed

lemma Atoi_show_nat: "n < 2 ^ 63 \<Longrightarrow> Atoi (show_nat n) = Ok (int n)"
  by (simp add: Atoi_def atoi_sign_show_nat show_nat_digits)

lemma Atoi_range: "Atoi s = Ok v \<Longrightarrow> - (2 ^ 63) \<le> v \<and> v < 2 ^ 63"
  by (auto simp: Atoi_def Let_def split: prod.splits if_splits)

lemma Atoi_no_panic [simp]: "\<not> is_panic (Atoi s)"
  by (simp add: Atoi_def Let_def split: prod.split)

section \<open>encoding/hex\<close>

definition hex_digit :: "nat \<Rightarrow> char" where
  "hex_digit d = (if d < 10 then char_of (d + 48) else char_of (d + 87))"

text \<open>\<open>hex.EncodeToString\<close>.\<close>

definition hex_encode :: "bytes \<Rightarrow> string" where
  "hex_encode bs = concat (map (\<lambda>b. [hex_digit (unat b div 16), hex_digit (unat b mod 16)]) bs)"

definition from_hex :: "char \<Rightarrow> nat option" where
  "from_hex c = (let n = of_char c :: nat in
     if 48 \<le> n \<and> n \<le> 57 then Some (n - 48)
     else if 97 \<le> n \<and> n \<le> 102 then Some (n - 87)
     else if 65 \<le> n \<and> n \<le> 70 then Some (n - 55)
     else None)"

text \<open>\<open>hex.DecodeString\<close>: an error for a byte that is no hex digit or for an odd length.\<close>

fun hex_decode :: "string \<Rightarrow> bytes go" where
  "hex_decode [] = Ok []"
| "hex_decode [c] = (case from_hex c of
       None \<Rightarrow> Err (FmtVal ''encoding/hex: invalid byte: '' [c])
     | Some _ \<Rightarrow> Err (NewErr ''encoding/hex: odd length hex string''))"
| "hex_decode (c # d # s) = (case from_hex c of
       None \<Rightarrow> Err (FmtVal ''encoding/hex: invalid byte: '' [c])
     | Some a \<Rightarrow> (case from_hex d of
         None \<Rightarrow> Err (FmtVal ''encoding/hex: invalid byte: '' [d])
       | Some b \<Rightarrow> go_bind (hex_decode s) (\<lambda>bs. Ok (of_nat (16 * a + b) # bs))))"

lemma from_hex_digit: "d < 16 \<Longrightarrow> from_hex (hex_digit d) = Some d"
  by (auto simp: from_hex_def hex_digit_def Let_def)

lemma hex_digit_pair: "of_nat (16 * (unat b div 16) + unat b mod 16) = (b :: byte)"
proof -
  have "16 * (unat b div 16) + unat b mod 16 = unat b" by simp
  then show ?thesis by (simp only: of_nat_unat unsigned_ucast_eq ucast_id)
qed

lemma unat_byte_bound: "unat (b :: byte) div 16 < 16"
proof -
  have "unat b < 256" using unsigned_less [of b] by simp
  then show ?thesis by (simp add: less_mult_imp_div_less)
qed

lemma hex_roundtrip: "hex_decode (hex_encode bs) = Ok bs"
proof (induction bs)
  case Nil
  show ?case by (simp add: hex_encode_def)
next
  case (Cons b bs)
  have "hex_encode (b # bs)
      = hex_digit (unat b div 16) # hex_digit (unat b mod 16) # hex_encode bs"
    by (simp add: hex_encode_def)
  moreover have "from_hex (hex_digit (unat b div 16)) = Some (unat b div 16)"
    using unat_byte_bound by (rule from_hex_digit)
  moreover have "from_hex (hex_digit (unat b mod 16)) = Some (unat b mod 16)"
    by (rule from_hex_digit) simp
  ultimately show ?case
    using Cons hex_digit_pair [of b] by (auto simp del: of_nat_add of_nat_mult)
qed

lemma hex_encode_inj: "hex_encode xs = hex_encode ys \<Longrightarrow> xs = ys"
  by (metis go.inject(1) hex_roundtrip)

lemma length_hex_encode [simp]: "length (hex_encode bs) = 2 * length bs"
  by (induction bs) (auto simp: hex_encode_def)

lemma hex_encode_Nil_iff [simp]: "hex_encode bs = [] \<longleftrightarrow> bs = []"
  by (cases bs) (auto simp: hex_encode_def)

lemma hex_decode_no_panic [simp]: "\<not> is_panic (hex_decode s)"
  by (induction s rule: hex_decode.induct) (auto split: option.splits)

section \<open>The text of an error\<close>

fun sentinel_text :: "sentinel \<Rightarrow> string" where
  "sentinel_text ErrVersionCheckNotImplemented =
     ''version check not implemented, need minimum lnd version of v0.10.0-beta''"
| "sentinel_text ErrVersionIncompatible = ''version incompatible''"
| "sentinel_text ErrBuildTagsMissing = ''build tags missing''"
| "sentinel_text ErrRouterShuttingDown = ''router shutting down''"
| "sentinel_text ErrNoRouteFound = ''no route found''"
| "sentinel_text ErrPaymentNotInitiated = ''payment isn't initiated''"
| "sentinel_text ErrAlreadyPaid = ''invoice is already paid''"
| "sentinel_text ErrClientConnClosing = ''grpc: the client connection is closing''"
| "sentinel_text ErrRetry = ''retry RegisterBlockEpochNtfn''"

text \<open>\<open>err.Error()\<close>. A number error prints its input between plain quotes (\<open>strconv.Quote\<close>'s
  escapes are left out; nothing in the model reads that text).\<close>

fun err_text :: "go_error \<Rightarrow> string" where
  "err_text (NewErr m) = m"
| "err_text (FmtErr m e) = m @ err_text e"
| "err_text (FmtVal m v) = m @ v"
| "err_text (WrapErr m e) = m @ err_text e"
| "err_text (Sentinel s) = sentinel_text s"
| "err_text (StatusErr c m) = m"
| "err_text (ExtErr m) = m"
| "err_text (NumError s r) = ''strconv.Atoi: parsing '' @ s @
     (case r of ErrSyntax \<Rightarrow> '': invalid syntax'' | ErrRange \<Rightarrow> '': value out of range'')"
| "err_text IoEOF = ''EOF''"
| "err_text CtxCanceled = ''context canceled''"
| "err_text CtxDeadlineExceeded = ''context deadline exceeded''"

text \<open>\<open>errors.Is(err, target)\<close>: the error itself or one it wraps with \<open>%w\<close>.\<close>

fun errors_Is :: "go_error \<Rightarrow> go_error \<Rightarrow> bool" where
  "errors_Is (WrapErr m e) t = (WrapErr m e = t \<or> errors_Is e t)"
| "errors_Is e t = (e = t)"

section \<open>time\<close>

text \<open>
  A \<open>time.Time\<close> is a count of seconds since the Unix epoch, in 64 bits, and the nanoseconds
  within that second. The zero \<open>time.Time\<close> is January 1, year 1.
\<close>

datatype gotime = GoTime (unix_sec: i64) (nsec: int)

definition zero_time :: gotime where
  "zero_time = GoTime (word_of_int (- 62135596800)) 0"

definition time_Unix :: "i64 \<Rightarrow> i64 \<Rightarrow> gotime" where
  "time_Unix s n = GoTime (s + word_of_int (sint n div 1000000000)) (sint n mod 1000000000)"

definition IsZero :: "gotime \<Rightarrow> bool" where
  "IsZero t \<longleftrightarrow> t = zero_time"

text \<open>\<open>t.Add(d)\<close> for a duration \<open>d\<close> in nanoseconds.\<close>

definition time_Add :: "gotime \<Rightarrow> i64 \<Rightarrow> gotime" where
  "time_Add t d = (let n = nsec t + sint d in
     GoTime (unix_sec t + word_of_int (n div 1000000000)) (n mod 1000000000))"

definition Second :: i64 where "Second = 1000000000"
definition Microsecond :: i64 where "Microsecond = 1000"

lemma unix_sec_time_Unix [simp]: "unix_sec (time_Unix s 0) = s"
  by (simp add: time_Unix_def)

lemma nsec_time_Unix [simp]: "nsec (time_Unix s 0) = 0"
  by (simp add: time_Unix_def)

lemma time_Unix_zero_iff: "IsZero (time_Unix s 0) \<longleftrightarrow> s = word_of_int (- 62135596800)"
  by (simp add: IsZero_def zero_time_def time_Unix_def)

lemma nsec_bound: "0 \<le> nsec (time_Unix s n) \<and> nsec (time_Unix s n) < 1000000000"
  by (simp add: time_Unix_def)

section \<open>Conversions through float64\<close>

text \<open>
  A positive rational below \<open>2^53\<close> as the nearest \<open>float64\<close>: a mantissa of 53 bits over a power of two,
  ties to even. \<open>scale_up\<close> looks for the power; a quotient of at least \<open>10^-9\<close> needs at most 82 steps.
\<close>

definition round_even :: "int \<Rightarrow> int \<Rightarrow> int" where
  "round_even n d = (let q = n div d; r = n mod d in
     if 2 * r < d then q else if 2 * r > d then q + 1 else if even q then q else q + 1)"

fun scale_up :: "nat \<Rightarrow> int \<Rightarrow> int \<Rightarrow> nat \<Rightarrow> nat" where
  "scale_up 0 p q k = k"
| "scale_up (Suc n) p q k = (if 2 ^ 52 * q \<le> p * 2 ^ k then k else scale_up n p q (Suc k))"

definition double_of :: "int \<Rightarrow> int \<Rightarrow> int \<times> nat" where
  "double_of p q = (if p = 0 then (0, 0)
     else let k = scale_up 100 p q 0 in (round_even (p * 2 ^ k) q, k))"

text \<open>
  The integer part of \<open>d.Seconds()\<close>, which adds the whole seconds and the quotient of the
  nanoseconds by \<open>1e9\<close> as \<open>float64\<close> values, each operation rounded.
\<close>

definition seconds_sum :: "int \<Rightarrow> int \<Rightarrow> int" where
  "seconds_sum sec ns =
     (let (m, k) = double_of ns 1000000000;
          (s, j) = double_of (sec * 2 ^ k + m) (2 ^ k)
      in s div 2 ^ j)"

definition Seconds_trunc :: "i64 \<Rightarrow> int" where
  "Seconds_trunc d =
     (let a = abs (sint d); t = seconds_sum (a div 1000000000) (a mod 1000000000)
      in if sint d < 0 then - t else t)"

lemma round_even_exact: "0 < d \<Longrightarrow> round_even (n * d) d = n"
  by (simp add: round_even_def)

lemma double_of_int: "fst (double_of n 1) div 2 ^ snd (double_of n 1) = n"
  using round_even_exact [of 1 "n * 2 ^ scale_up 100 n 1 0"] by (simp add: double_of_def Let_def)

text \<open>A whole number of seconds comes out exactly.\<close>

lemma seconds_sum_whole: "seconds_sum n 0 = n"
proof -
  have "double_of 0 1000000000 = (0, 0)" by (simp add: double_of_def)
  then show ?thesis using double_of_int [of n] by (simp add: seconds_sum_def split_def)
qed

lemma Seconds_trunc_whole:
  assumes "sint d = n * 1000000000"
  shows "Seconds_trunc d = n"
proof -
  have "abs (sint d) div 1000000000 = abs n" "abs (sint d) mod 1000000000 = 0"
    using assms by (simp_all add: abs_mult)
  then have "Seconds_trunc d = (if sint d < 0 then - abs n else abs n)"
    unfolding Seconds_trunc_def Let_def by (simp only: seconds_sum_whole split: if_split)
  with assms show ?thesis by auto
qed

end
