(* ===== verification/TxUtils.thy ===== *)
theory TxUtils
  imports GoStd
begin

text \<open>
  \<open>tx_utils.go\<close>: encoding and decoding of transactions and blocks, and outpoints from text.

  The codecs of \<open>btcd/wire\<close> and \<open>chainhash.NewHashFromStr\<close> are code of another module, so they are
  arguments; a codec that writes to a buffer is a function to the bytes it wrote.
\<close>

record OutPoint =
  op_Hash :: bytes
  op_Index :: u32

definition encodeTx :: "('tx \<Rightarrow> bytes go) \<Rightarrow> 'tx \<Rightarrow> bytes go" where
  "encodeTx BtcEncode tx = go_bind (BtcEncode tx) Ok"

definition decodeTx :: "(bytes \<Rightarrow> 'tx go) \<Rightarrow> bytes \<Rightarrow> 'tx go" where
  "decodeTx BtcDecode rawTx = go_bind (BtcDecode rawTx) Ok"

definition decodeBlock :: "(bytes \<Rightarrow> 'block go) \<Rightarrow> bytes \<Rightarrow> 'block go" where
  "decodeBlock Deserialize rawBlock = go_bind (Deserialize rawBlock) Ok"

lemma encodeTx_eq: "encodeTx BtcEncode tx = BtcEncode tx"
  by (cases "BtcEncode tx") (auto simp: encodeTx_def)

lemma decodeTx_eq: "decodeTx BtcDecode rawTx = BtcDecode rawTx"
  by (cases "BtcDecode rawTx") (auto simp: decodeTx_def)

lemma decodeBlock_eq: "decodeBlock Deserialize rawBlock = Deserialize rawBlock"
  by (cases "Deserialize rawBlock") (auto simp: decodeBlock_def)

text \<open>The conversion \<open>uint32(outputIndex)\<close> keeps the low 32 bits of the parsed \<open>int\<close>.\<close>

definition NewOutpointFromStr :: "(string \<Rightarrow> bytes go) \<Rightarrow> string \<Rightarrow> OutPoint go" where
  "NewOutpointFromStr NewHashFromStr outpoint =
     (let parts = split_on (CHR '':'') outpoint
      in if length parts \<noteq> 2 then Err (NewErr ''outpoint should be of the form txid:index'')
         else go_bind (NewHashFromStr (parts ! 0)) (\<lambda>hash.
              go_bind (go_wrap (FmtErr ''invalid output index: '') (Atoi (parts ! 1))) (\<lambda>outputIndex.
                Ok \<lparr>op_Hash = hash, op_Index = word_of_int outputIndex\<rparr>)))"

text \<open>The text form of an outpoint, as \<open>wire.OutPoint.String\<close> documents it: the hash, a colon and
  the index in decimal, over any printing of hashes.\<close>

definition outpoint_text :: "(bytes \<Rightarrow> string) \<Rightarrow> OutPoint \<Rightarrow> string" where
  "outpoint_text hash_text op = hash_text (op_Hash op) @ '':'' @ show_nat (unat (op_Index op))"

lemma colon_not_in_show_nat [simp]: "CHR '':'' \<notin> set (show_nat n)"
  using show_nat_chars digit_not_sign by blast

lemma split_on_two:
  "c \<notin> set p \<Longrightarrow> c \<notin> set q \<Longrightarrow> split_on c (p @ c # q) = [p, q]"
  by (simp add: split_on_append split_on_no_sep)

lemma split_on_length2:
  "length (split_on c s) = 2 \<longleftrightarrow> (\<exists>p q. s = p @ c # q \<and> c \<notin> set p \<and> c \<notin> set q)"
proof
  assume "length (split_on c s) = 2"
  then obtain p q where pq: "split_on c s = [p, q]"
    by (auto simp: numeral_2_eq_2 length_Suc_conv)
  have "s = join (split_on c s) [c]" by (simp add: join_split_on)
  with pq have "s = p @ c # q" by simp
  moreover have "c \<notin> set p" "c \<notin> set q"
    using split_on_parts [of p c s] split_on_parts [of q c s] pq by auto
  ultimately show "\<exists>p q. s = p @ c # q \<and> c \<notin> set p \<and> c \<notin> set q" by blast
next
  assume "\<exists>p q. s = p @ c # q \<and> c \<notin> set p \<and> c \<notin> set q"
  then show "length (split_on c s) = 2" by (auto simp: split_on_two)
qed

lemma NewOutpointFromStr_two:
  assumes "CHR '':'' \<notin> set p" and "CHR '':'' \<notin> set q"
  shows "NewOutpointFromStr H (p @ CHR '':'' # q) =
     go_bind (H p) (\<lambda>hash.
       go_bind (go_wrap (FmtErr ''invalid output index: '') (Atoi q)) (\<lambda>i.
         Ok \<lparr>op_Hash = hash, op_Index = word_of_int i\<rparr>))"
  using split_on_two [OF assms] by (simp add: NewOutpointFromStr_def)

lemma Atoi_show_u32: "Atoi (show_nat (unat (i :: u32))) = Ok (uint i)"
proof -
  have "unat i < 2 ^ 32" using unsigned_less [of i] by simp
  then have "unat i < 2 ^ 63" by simp
  then show ?thesis by (simp add: Atoi_show_nat)
qed

text \<open>The result decides the pieces: whatever parses is a hash, one colon and a number.\<close>

lemma NewOutpointFromStr_OkD:
  assumes "NewOutpointFromStr H s = Ok op"
  shows "\<exists>p q i. s = p @ CHR '':'' # q \<and> H p = Ok (op_Hash op) \<and> Atoi q = Ok i
           \<and> op_Index op = word_of_int i"
proof -
  have len: "length (split_on (CHR '':'') s) = 2"
    using assms by (simp add: NewOutpointFromStr_def Let_def split: if_splits)
  then obtain p q where s: "s = p @ CHR '':'' # q" "CHR '':'' \<notin> set p" "CHR '':'' \<notin> set q"
    by (auto simp: split_on_length2)
  with assms obtain hash i where
    "H p = Ok hash" "Atoi q = Ok i" "op = \<lparr>op_Hash = hash, op_Index = word_of_int i\<rparr>"
    by (auto simp: NewOutpointFromStr_two)
  with s(1) show ?thesis by (intro exI [of _ p] exI [of _ q] exI [of _ i]) simp
qed

lemma Outpoint_roundtrip_aux:
  assumes "CHR '':'' \<notin> set (hash_text (op_Hash op))"
    and "NewHashFromStr (hash_text (op_Hash op)) = Ok (op_Hash op)"
  shows "NewOutpointFromStr NewHashFromStr (outpoint_text hash_text op) = Ok op"
proof -
  have "NewOutpointFromStr NewHashFromStr (outpoint_text hash_text op)
      = NewOutpointFromStr NewHashFromStr
          (hash_text (op_Hash op) @ CHR '':'' # show_nat (unat (op_Index op)))"
    by (simp add: outpoint_text_def)
  also have "\<dots> = Ok \<lparr>op_Hash = op_Hash op, op_Index = word_of_int (uint (op_Index op))\<rparr>"
    using assms by (simp add: NewOutpointFromStr_two Atoi_show_u32)
  finally show ?thesis by simp
qed

section \<open>Main theorems\<close>

text \<open>C38: parsing the text of an outpoint gives it back, for every printing of hashes that has no colon
  and that the hash parser inverts.\<close>

theorem Outpoint_roundtrip:
  assumes "CHR '':'' \<notin> set (hash_text (op_Hash op))"
    and "NewHashFromStr (hash_text (op_Hash op)) = Ok (op_Hash op)"
  shows "NewOutpointFromStr NewHashFromStr (outpoint_text hash_text op) = Ok op"
  using assms by (rule Outpoint_roundtrip_aux)

theorem Outpoint_roundtrip_witness:
  "NewOutpointFromStr (\<lambda>s. if s = ''ab'' then Ok [171] else Err (ExtErr ''hash''))
     (outpoint_text (\<lambda>h. ''ab'') \<lparr>op_Hash = [171], op_Index = 4294967295\<rparr>)
     = Ok \<lparr>op_Hash = [171], op_Index = 4294967295\<rparr>"
  by (rule Outpoint_roundtrip) simp_all

text \<open>C39: an output index of 32 bits or more is not refused but wraps around: the text with the index
  \<open>i + 2 ^ 32\<close> parses to the same outpoint as the text with the index \<open>i\<close>.\<close>

theorem NewOutpointFromStr_wraps:
  assumes "CHR '':'' \<notin> set txid" and "NewHashFromStr txid = Ok hash" and "i < 2 ^ 62"
  shows "NewOutpointFromStr NewHashFromStr (txid @ '':'' @ show_nat (i + 2 ^ 32))
       = NewOutpointFromStr NewHashFromStr (txid @ '':'' @ show_nat i)
     \<and> is_ok (NewOutpointFromStr NewHashFromStr (txid @ '':'' @ show_nat (i + 2 ^ 32)))"
proof -
  have two: "NewOutpointFromStr NewHashFromStr (txid @ '':'' @ show_nat n)
      = Ok \<lparr>op_Hash = hash, op_Index = word_of_int (int n)\<rparr>" if "n < 2 ^ 63" for n
    using NewOutpointFromStr_two [OF assms(1), of "show_nat n" NewHashFromStr] Atoi_show_nat [OF that]
      assms(2) by simp
  have "(word_of_int (int (i + 2 ^ 32)) :: u32) = word_of_int (int i)"
    by (simp add: word_of_int_eq_iff take_bit_eq_mod)
  with two [of i] two [of "i + 2 ^ 32"] assms(3) show ?thesis by simp
qed

theorem NewOutpointFromStr_wraps_witness:
  "NewOutpointFromStr (\<lambda>s. Ok [1]) (''ab'' @ '':'' @ show_nat (5 + 2 ^ 32))
     = NewOutpointFromStr (\<lambda>s. Ok [1]) (''ab'' @ '':'' @ show_nat 5)"
  using NewOutpointFromStr_wraps [of "''ab''" "\<lambda>s. Ok [1]" "[1]" 5] by simp

end
