(* ===== verification/MacaroonPouch.thy ===== *)
theory MacaroonPouch
  imports GoStd
begin

text \<open>
  \<open>macaroon_pouch.go\<close>: the macaroons of the sub-servers, read from a directory, or one custom
  macaroon that stands for all of them, and how a request is authenticated.

  The file system is the argument \<open>ReadFile\<close>, the content or the error \<open>os.ReadFile\<close> returns for a
  path. A read of a missing key of the pouch gives the empty macaroon, as for any Go map.
\<close>

type_synonym LnrpcServiceMac = string
type_synonym serializedMacaroon = string

definition AdminServiceMac :: LnrpcServiceMac where "AdminServiceMac = ''admin.macaroon''"
definition InvoiceServiceMac :: LnrpcServiceMac where "InvoiceServiceMac = ''invoices.macaroon''"
definition ChainNotifierServiceMac :: LnrpcServiceMac where
  "ChainNotifierServiceMac = ''chainnotifier.macaroon''"
definition WalletKitServiceMac :: LnrpcServiceMac where
  "WalletKitServiceMac = ''walletkit.macaroon''"
definition RouterServiceMac :: LnrpcServiceMac where "RouterServiceMac = ''router.macaroon''"
definition SignerServiceMac :: LnrpcServiceMac where "SignerServiceMac = ''signer.macaroon''"
definition ReadOnlyServiceMac :: LnrpcServiceMac where
  "ReadOnlyServiceMac = ''readonly.macaroon''"

lemmas service_mac_defs = AdminServiceMac_def InvoiceServiceMac_def ChainNotifierServiceMac_def
  WalletKitServiceMac_def RouterServiceMac_def SignerServiceMac_def ReadOnlyServiceMac_def

definition macaroonServices :: "LnrpcServiceMac list" where
  "macaroonServices = [InvoiceServiceMac, ChainNotifierServiceMac, SignerServiceMac,
     WalletKitServiceMac, RouterServiceMac, AdminServiceMac, ReadOnlyServiceMac]"

text \<open>The default of every client's timeout, from \<open>lnd_services.go\<close>.\<close>

definition default_RPCTimeout :: i64 where "default_RPCTimeout = 30 * Second"

type_synonym macaroonPouch = "LnrpcServiceMac \<rightharpoonup> serializedMacaroon"

definition pouch_get :: "macaroonPouch \<Rightarrow> LnrpcServiceMac \<Rightarrow> serializedMacaroon" where
  "pouch_get m k = (case m k of None \<Rightarrow> [] | Some v \<Rightarrow> v)"

definition newSerializedMacaroon ::
  "(string \<Rightarrow> bytes go) \<Rightarrow> string \<Rightarrow> serializedMacaroon go" where
  "newSerializedMacaroon ReadFile macaroonPath =
     go_bind (ReadFile macaroonPath) (\<lambda>macBytes. Ok (hex_encode macBytes))"

definition loadMacaroon ::
  "(string \<Rightarrow> bytes go) \<Rightarrow> string \<Rightarrow> string \<Rightarrow> string \<Rightarrow> serializedMacaroon go" where
  "loadMacaroon ReadFile defaultMacDir defaultMacFileName customMacPath =
     (if customMacPath \<noteq> [] then newSerializedMacaroon ReadFile customMacPath
      else newSerializedMacaroon ReadFile (path_Join [defaultMacDir, defaultMacFileName]))"

definition WithMacaroonAuth :: "serializedMacaroon \<Rightarrow> ctx \<Rightarrow> ctx" where
  "WithMacaroonAuth s c = MetaCtx c ''macaroon'' s"

definition custom_macaroon ::
  "(string \<Rightarrow> bytes go) \<Rightarrow> string \<Rightarrow> string \<Rightarrow> serializedMacaroon go" where
  "custom_macaroon ReadFile customMacPath customMacHex =
     (if customMacPath \<noteq> [] then loadMacaroon ReadFile [] [] customMacPath
      else if customMacHex \<noteq> [] then Ok customMacHex else Ok [])"

definition one_macaroon :: "serializedMacaroon \<Rightarrow> macaroonPouch" where
  "one_macaroon mac = [InvoiceServiceMac \<mapsto> mac, ChainNotifierServiceMac \<mapsto> mac,
     SignerServiceMac \<mapsto> mac, WalletKitServiceMac \<mapsto> mac, RouterServiceMac \<mapsto> mac,
     AdminServiceMac \<mapsto> mac, ReadOnlyServiceMac \<mapsto> mac]"

primrec load_all ::
  "(LnrpcServiceMac \<Rightarrow> serializedMacaroon go) \<Rightarrow> LnrpcServiceMac list \<Rightarrow> macaroonPouch
     \<Rightarrow> macaroonPouch go" where
  "load_all load [] m = Ok m"
| "load_all load (macName # names) m =
     go_bind (load macName) (\<lambda>mac. load_all load names (m(macName \<mapsto> mac)))"

definition newMacaroonPouch ::
  "(string \<Rightarrow> bytes go) \<Rightarrow> string \<Rightarrow> string \<Rightarrow> string \<Rightarrow> macaroonPouch go" where
  "newMacaroonPouch ReadFile macaroonDir customMacPath customMacHex =
     go_bind (custom_macaroon ReadFile customMacPath customMacHex) (\<lambda>mac.
       if mac \<noteq> [] then Ok (one_macaroon mac)
       else load_all (\<lambda>n. loadMacaroon ReadFile macaroonDir n customMacPath)
              macaroonServices Map.empty)"

section \<open>What a pouch holds\<close>

lemma services_distinct: "distinct macaroonServices"
  by (simp add: macaroonServices_def service_mac_defs)

lemma one_macaroon_apply:
  "one_macaroon mac n = (if n \<in> set macaroonServices then Some mac else None)"
  unfolding one_macaroon_def macaroonServices_def fun_upd_apply list.set insert_iff empty_iff
  by presburger

lemma load_all_Ok:
  "load_all load names m = Ok p \<Longrightarrow> distinct names \<Longrightarrow>
     (\<forall>n \<in> set names. \<exists>mac. load n = Ok mac \<and> p n = Some mac) \<and>
     (\<forall>n. n \<notin> set names \<longrightarrow> p n = m n)"
proof (induction names arbitrary: m)
  case Nil
  then show ?case by simp
next
  case (Cons a names)
  then obtain mac where a: "load a = Ok mac" "load_all load names (m(a \<mapsto> mac)) = Ok p"
    by auto
  from Cons.IH [OF a(2)] Cons.prems(2) a(1) show ?case by fastforce
qed

lemma load_all_complete:
  "(\<And>n. n \<in> set names \<Longrightarrow> is_ok (load n)) \<Longrightarrow> is_ok (load_all load names m)"
proof (induction names arbitrary: m)
  case Nil
  then show ?case by simp
next
  case (Cons a names)
  then obtain mac where "load a = Ok mac" by (cases "load a") force+
  with Cons show ?case by simp
qed

lemma newSerializedMacaroon_Ok:
  "newSerializedMacaroon ReadFile p = Ok mac \<longleftrightarrow>
     (\<exists>bs. ReadFile p = Ok bs \<and> mac = hex_encode bs)"
  by (auto simp: newSerializedMacaroon_def)

lemma newSerializedMacaroon_ok [simp]: "is_ok (newSerializedMacaroon ReadFile p) = is_ok (ReadFile p)"
  by (cases "ReadFile p") (auto simp: newSerializedMacaroon_def)

text \<open>The file a service's macaroon comes from.\<close>

definition macaroon_file :: "string \<Rightarrow> string \<Rightarrow> LnrpcServiceMac \<Rightarrow> string" where
  "macaroon_file dir customMacPath n = (if customMacPath \<noteq> [] then customMacPath else path_Join [dir, n])"

lemma loadMacaroon_file:
  "loadMacaroon ReadFile dir n path = newSerializedMacaroon ReadFile (macaroon_file dir path n)"
  by (simp add: loadMacaroon_def macaroon_file_def)

lemma pouch_from_files_aux:
  assumes "newMacaroonPouch ReadFile dir path hexmac = Ok p"
    and "path \<noteq> [] \<or> hexmac = []" and n: "n \<in> set macaroonServices"
  shows "\<exists>bs. ReadFile (macaroon_file dir path n) = Ok bs \<and> p n = Some (hex_encode bs)"
proof (cases "path = []")
  case True
  with assms have "load_all (\<lambda>n. loadMacaroon ReadFile dir n path) macaroonServices Map.empty = Ok p"
    by (simp add: newMacaroonPouch_def custom_macaroon_def)
  from load_all_Ok [OF this services_distinct] n show ?thesis
    by (auto simp: loadMacaroon_file newSerializedMacaroon_Ok)
next
  case False
  then obtain bs where bs: "ReadFile path = Ok bs"
    using assms(1)
    by (auto simp: newMacaroonPouch_def custom_macaroon_def loadMacaroon_def newSerializedMacaroon_Ok)
  show ?thesis
  proof (cases "bs = []")
    case True
    with assms(1) False bs
    have "load_all (\<lambda>n. loadMacaroon ReadFile dir n path) macaroonServices Map.empty = Ok p"
      by (simp add: newMacaroonPouch_def custom_macaroon_def loadMacaroon_def
          newSerializedMacaroon_def)
    from load_all_Ok [OF this services_distinct] n show ?thesis
      by (auto simp: loadMacaroon_file newSerializedMacaroon_Ok)
  next
    case nonempty: False
    with assms(1) False bs have "p = one_macaroon (hex_encode bs)"
      by (simp add: newMacaroonPouch_def custom_macaroon_def loadMacaroon_def
          newSerializedMacaroon_def)
    with n bs False show ?thesis by (simp add: one_macaroon_apply macaroon_file_def)
  qed
qed

lemma pouch_dom_aux:
  assumes "newMacaroonPouch ReadFile dir path hexmac = Ok p"
  shows "dom p = set macaroonServices"
proof -
  from assms obtain mac where mac:
    "(if mac \<noteq> [] then Ok (one_macaroon mac)
      else load_all (\<lambda>n. loadMacaroon ReadFile dir n path) macaroonServices Map.empty) = Ok p"
    by (auto simp: newMacaroonPouch_def)
  show ?thesis
  proof (cases "mac = []")
    case True
    with mac have "load_all (\<lambda>n. loadMacaroon ReadFile dir n path) macaroonServices Map.empty = Ok p"
      by simp
    from load_all_Ok [OF this services_distinct] show ?thesis by (force simp: dom_def)
  next
    case False
    with mac show ?thesis by (auto simp: dom_def one_macaroon_apply split: if_splits)
  qed
qed

section \<open>Authenticated requests\<close>

lemma macaroons_WithMacaroonAuth [simp]:
  "ctx_macaroons (WithMacaroonAuth s c) = ctx_macaroons c @ [s]"
  by (simp add: WithMacaroonAuth_def)

lemma timeouts_WithMacaroonAuth [simp]: "ctx_timeouts (WithMacaroonAuth s c) = ctx_timeouts c"
  by (simp add: WithMacaroonAuth_def)

text \<open>
  A call made for \<open>parent\<close> is authenticated when it carries the macaroons of \<open>parent\<close> and then the
  client's own, once; it is bounded when the client's timeout limits it as well.
\<close>

definition authed :: "serializedMacaroon \<Rightarrow> ctx \<Rightarrow> ctx \<Rightarrow> bool" where
  "authed mac parent c \<longleftrightarrow> ctx_macaroons c = ctx_macaroons parent @ [mac]"

definition bounded :: "i64 \<Rightarrow> ctx \<Rightarrow> bool" where
  "bounded t c \<longleftrightarrow> t \<in> set (ctx_timeouts c)"

lemma authed_simps [simp]:
  "authed mac c (WithMacaroonAuth mac c)"
  "authed mac c (WithMacaroonAuth mac (TimeoutCtx c t))"
  "authed mac c (TimeoutCtx (WithMacaroonAuth mac c) t)"
  "authed mac c (WithMacaroonAuth mac (CancelCtx c))"
  by (simp_all add: authed_def)

lemma bounded_simps [simp]:
  "bounded t (TimeoutCtx c t)" "bounded t (WithMacaroonAuth mac (TimeoutCtx c t))"
  by (simp_all add: bounded_def)

section \<open>Main theorems\<close>

text \<open>C11: a macaroon pouch that was built holds a macaroon for each of the seven services and for no
  other name. A custom macaroon given as hex text is what every service gets; otherwise each service
  gets the hex text of the file the configuration names for it, the custom file or the service's own
  file in the macaroon directory.\<close>

theorem newMacaroonPouch_complete:
  assumes "newMacaroonPouch ReadFile dir customPath customHex = Ok p"
  shows "dom p = set macaroonServices
     \<and> (\<forall>n \<in> set macaroonServices.
          if customPath = [] \<and> customHex \<noteq> [] then p n = Some customHex
          else \<exists>bs. ReadFile (macaroon_file dir customPath n) = Ok bs \<and> p n = Some (hex_encode bs))"
proof (intro conjI ballI)
  show "dom p = set macaroonServices" using assms by (rule pouch_dom_aux)
  fix n assume n: "n \<in> set macaroonServices"
  show "if customPath = [] \<and> customHex \<noteq> [] then p n = Some customHex
    else \<exists>bs. ReadFile (macaroon_file dir customPath n) = Ok bs \<and> p n = Some (hex_encode bs)"
  proof (cases "customPath = [] \<and> customHex \<noteq> []")
    case True
    with assms have "p = one_macaroon customHex"
      by (simp add: newMacaroonPouch_def custom_macaroon_def)
    with n True show ?thesis by (simp add: one_macaroon_apply)
  next
    case False
    with pouch_from_files_aux [OF assms _ n] show ?thesis by auto
  qed
qed

theorem newMacaroonPouch_complete_witness:
  "\<exists>p. newMacaroonPouch (\<lambda>f. if f = ''/d/admin.macaroon'' then Ok [171] else Ok [7]) ''/d'' [] [] = Ok p
     \<and> dom p = set macaroonServices \<and> p AdminServiceMac = Some ''ab''"
proof -
  let ?R = "\<lambda>f. if f = ''/d/admin.macaroon'' then Ok [171] else Ok [7 :: byte]"
  have "is_ok (newMacaroonPouch ?R ''/d'' [] [])"
    by (simp add: newMacaroonPouch_def custom_macaroon_def load_all_complete loadMacaroon_file)
  then obtain p where p: "newMacaroonPouch ?R ''/d'' [] [] = Ok p"
    by (cases "newMacaroonPouch ?R ''/d'' [] []") auto
  have admin: "AdminServiceMac \<in> set macaroonServices" by (simp add: macaroonServices_def)
  have "macaroon_file ''/d'' [] AdminServiceMac = ''/d/admin.macaroon''"
    by (simp add: macaroon_file_def AdminServiceMac_def path_Join_def path_Clean_def)
  moreover have "hex_encode [171] = ''ab''" by code_simp
  ultimately show ?thesis
    using newMacaroonPouch_complete [OF p] admin p by auto
qed

end
