(* ===== verification/RouterTypes.thy ===== *)
theory RouterTypes
  imports TxUtils Streams MacaroonPouch
begin

text \<open>
  The data of \<open>router_client.go\<close> and its conversions from and to the messages of lnd: payment
  attempts and states, route hints, interceptor answers and mission control.

  A message pointer that the code compares with nil, or reads through without a check, is an
  \<open>option\<close>; the messages inside a repeated field are never nil, as on the wire. A slice that the
  code compares with nil is an \<open>option\<close> of a list. Functions of other modules (\<open>lntypes\<close>, \<open>route\<close>,
  \<open>btcec\<close>) are arguments.
\<close>

section \<open>Payments\<close>

datatype PaymentState =
    Payment_SUCCEEDED | Payment_FAILED | Payment_IN_FLIGHT | Payment_other i32

datatype HTLCStatus = HTLCAttempt_IN_FLIGHT | HTLCAttempt_other i32

type_synonym PaymentFailureReason = i32
type_synonym FailureCode = i32
type_synonym MilliSatoshi = u64
type_synonym Amount = i64
type_synonym Vertex = bytes

record rpcHop =
  hop_ChanId :: u64
  hop_Expiry :: u32
  hop_AmtToForwardMsat :: i64
  hop_FeeMsat :: i64
  hop_PubKey :: string

record rpcRoute =
  rt_TotalTimeLock :: u32
  rt_Hops :: "rpcHop list option"
  rt_TotalFeesMsat :: i64
  rt_TotalAmtMsat :: i64

record rpcFailure =
  rf_Code :: FailureCode
  rf_FailureSourceIndex :: u32

record rpcHTLCAttempt =
  rha_Status :: HTLCStatus
  rha_Route :: "rpcRoute option"
  rha_AttemptTimeNs :: i64
  rha_ResolveTimeNs :: i64
  rha_Failure :: "rpcFailure option"
  rha_Preimage :: "bytes option"

type_synonym custom_records = "(u64 \<rightharpoonup> bytes) option"

record rpcPayment =
  rpay_PaymentHash :: string
  rpay_PaymentRequest :: string
  rpay_PaymentIndex :: u64
  rpay_FirstHopCustomRecords :: custom_records
  rpay_Status :: PaymentState
  rpay_PaymentPreimage :: string
  rpay_FeeMsat :: i64
  rpay_ValueMsat :: i64
  rpay_FailureReason :: PaymentFailureReason
  rpay_Htlcs :: "rpcHTLCAttempt list"

record HtlcFailure =
  hf_Code :: FailureCode
  hf_FailureSourceIndex :: u32

record HtlcAttempt =
  ha_Status :: HTLCStatus
  ha_Route :: "rpcRoute option"
  ha_AttemptTime :: gotime
  ha_ResolveTime :: gotime
  ha_Failure :: "HtlcFailure option"
  ha_Preimage :: bytes

record PaymentStatus =
  ps_State :: PaymentState
  ps_FailureReason :: PaymentFailureReason
  ps_Preimage :: bytes
  ps_Fee :: MilliSatoshi
  ps_Value :: MilliSatoshi
  ps_InFlightAmt :: MilliSatoshi
  ps_InFlightHtlcs :: nat
  ps_Htlcs :: "HtlcAttempt list"

text \<open>The text of a payment state and of an amount are those of the generated code and of
  \<open>lnwire\<close>.\<close>

definition PaymentStatus_String ::
  "(PaymentState \<Rightarrow> string) \<Rightarrow> (MilliSatoshi \<Rightarrow> string) \<Rightarrow> PaymentStatus \<Rightarrow> string" where
  "PaymentStatus_String state_text msat_text p =
     (let t = ''state='' @ state_text (ps_State p)
      in if ps_State p = Payment_IN_FLIGHT
         then t @ '', inflight_htlcs='' @ show_nat (ps_InFlightHtlcs p) @ '', inflight_amt=''
                @ msat_text (ps_InFlightAmt p)
         else t)"

definition NewHtlcFailure :: "rpcFailure option \<Rightarrow> HtlcFailure option" where
  "NewHtlcFailure rpcFailure = (case rpcFailure of
       None \<Rightarrow> None
     | Some f \<Rightarrow> Some \<lparr>hf_Code = rf_Code f, hf_FailureSourceIndex = rf_FailureSourceIndex f\<rparr>)"

definition NewHtlcAttempt :: "(bytes \<Rightarrow> bytes go) \<Rightarrow> rpcHTLCAttempt \<Rightarrow> HtlcAttempt go" where
  "NewHtlcAttempt MakePreimage rpcAttempt =
     (let attempt = \<lparr>ha_Status = rha_Status rpcAttempt, ha_Route = rha_Route rpcAttempt,
            ha_AttemptTime = zero_time, ha_ResolveTime = zero_time, ha_Failure = None,
            ha_Preimage = replicate 32 0\<rparr>;
          attempt = (if rha_AttemptTimeNs rpcAttempt \<noteq> 0
            then attempt\<lparr>ha_AttemptTime := time_Unix 0 (rha_AttemptTimeNs rpcAttempt)\<rparr>
            else attempt);
          attempt = (if rha_ResolveTimeNs rpcAttempt \<noteq> 0
            then attempt\<lparr>ha_ResolveTime := time_Unix 0 (rha_ResolveTimeNs rpcAttempt)\<rparr>
            else attempt);
          attempt = (if rha_Failure rpcAttempt \<noteq> None
            then attempt\<lparr>ha_Failure := NewHtlcFailure (rha_Failure rpcAttempt)\<rparr>
            else attempt)
      in case rha_Preimage rpcAttempt of
           None \<Rightarrow> Ok attempt
         | Some p \<Rightarrow> go_bind (MakePreimage p) (\<lambda>preimage. Ok (attempt\<lparr>ha_Preimage := preimage\<rparr>)))"

text \<open>The last hop of a route is read at index \<open>len(Hops) - 1\<close>, which is \<open>-1\<close> for a route with an
  empty slice of hops.\<close>

definition AmountInFlight :: "HtlcAttempt \<Rightarrow> MilliSatoshi go" where
  "AmountInFlight h =
     (if ha_Status h \<noteq> HTLCAttempt_IN_FLIGHT then Ok 0
      else case ha_Route h of
        None \<Rightarrow> Ok 0
      | Some route \<Rightarrow> (case rt_Hops route of
          None \<Rightarrow> Ok 0
        | Some hops \<Rightarrow>
            if hops = [] then Panic ''index out of range [-1]''
            else Ok (hop_AmtToForwardMsat (hops ! (length hops - 1)))))"

text \<open>The loop over the attempts, which also sums up what is in flight.\<close>

fun add_htlcs ::
  "(bytes \<Rightarrow> bytes go) \<Rightarrow> rpcHTLCAttempt list \<Rightarrow> PaymentStatus \<Rightarrow> PaymentStatus go" where
  "add_htlcs MakePreimage [] status = Ok status"
| "add_htlcs MakePreimage (htlc # htlcs) status =
     go_bind (NewHtlcAttempt MakePreimage htlc) (\<lambda>attempt.
       let status = status\<lparr>ps_Htlcs := ps_Htlcs status @ [attempt]\<rparr>
       in if rha_Status htlc \<noteq> HTLCAttempt_IN_FLIGHT then add_htlcs MakePreimage htlcs status
          else go_bind (AmountInFlight attempt) (\<lambda>amt.
            add_htlcs MakePreimage htlcs
              (status\<lparr>ps_InFlightHtlcs := ps_InFlightHtlcs status + 1,
                      ps_InFlightAmt := ps_InFlightAmt status + amt\<rparr>)))"

definition unmarshallPaymentStatus ::
  "(bytes \<Rightarrow> bytes go) \<Rightarrow> (string \<Rightarrow> bytes go) \<Rightarrow> rpcPayment \<Rightarrow> PaymentStatus go" where
  "unmarshallPaymentStatus MakePreimage MakePreimageFromStr rpcPayment =
     (let status = \<lparr>ps_State = rpay_Status rpcPayment, ps_FailureReason = 0,
            ps_Preimage = replicate 32 0, ps_Fee = 0, ps_Value = 0, ps_InFlightAmt = 0,
            ps_InFlightHtlcs = 0, ps_Htlcs = []\<rparr>
      in go_bind
          (case ps_State status of
             Payment_SUCCEEDED \<Rightarrow>
               go_bind (if rpay_PaymentPreimage rpcPayment \<noteq> []
                        then go_bind (MakePreimageFromStr (rpay_PaymentPreimage rpcPayment))
                               (\<lambda>preimage. Ok (status\<lparr>ps_Preimage := preimage\<rparr>))
                        else Ok status) (\<lambda>status.
                 Ok (status\<lparr>ps_Fee := rpay_FeeMsat rpcPayment,
                            ps_Value := rpay_ValueMsat rpcPayment\<rparr>))
           | Payment_FAILED \<Rightarrow> Ok (status\<lparr>ps_FailureReason := rpay_FailureReason rpcPayment\<rparr>)
           | _ \<Rightarrow> Ok status)
          (add_htlcs MakePreimage (rpay_Htlcs rpcPayment)))"

subsection \<open>What a payment status says\<close>

lemma NewHtlcAttempt_status:
  "NewHtlcAttempt M h = Ok a \<Longrightarrow> ha_Status a = rha_Status h \<and> ha_Route a = rha_Route h"
  by (auto simp: NewHtlcAttempt_def Let_def split: option.splits if_splits)

lemma NewHtlcAttempt_fields:
  assumes "NewHtlcAttempt M h = Ok a"
  shows "ha_Failure a = NewHtlcFailure (rha_Failure h)"
    and "rha_AttemptTimeNs h = 0 \<longleftrightarrow> IsZero (ha_AttemptTime a)"
proof -
  have nz: "\<not> IsZero (time_Unix 0 n)" for n :: i64
  proof
    assume "IsZero (time_Unix 0 n)"
    then have eq: "word_of_int (sint n div 1000000000) = (word_of_int (- 62135596800) :: i64)"
      by (simp add: IsZero_def zero_time_def time_Unix_def)
    have "(- (2 ^ 63)) div 1000000000 \<le> sint n div 1000000000"
      using sint_i64_range(1) by (rule zdiv_mono1) simp
    moreover have "sint n div 1000000000 \<le> (2 ^ 63) div 1000000000"
      using less_imp_le [OF sint_i64_range(2)] by (rule zdiv_mono1) simp
    ultimately have lo: "- 62135596800 < sint n div 1000000000"
      and hi: "sint n div 1000000000 < 2 ^ 63" by simp_all
    have "sint n div 1000000000 = sint (word_of_int (sint n div 1000000000) :: i64)"
      using lo hi by (intro sint_i64 [symmetric]) simp_all
    also have "\<dots> = - 62135596800" unfolding eq by (rule sint_i64) simp_all
    finally show False using lo by simp
  qed
  show "ha_Failure a = NewHtlcFailure (rha_Failure h)"
    using assms
    by (auto simp: NewHtlcAttempt_def NewHtlcFailure_def Let_def split: option.splits if_splits)
  show "rha_AttemptTimeNs h = 0 \<longleftrightarrow> IsZero (ha_AttemptTime a)"
    using assms nz
    by (auto simp: NewHtlcAttempt_def Let_def IsZero_def split: option.splits if_splits)
qed

definition in_flight :: "rpcHTLCAttempt \<Rightarrow> bool" where
  "in_flight h \<longleftrightarrow> rha_Status h = HTLCAttempt_IN_FLIGHT"

text \<open>What an attempt contributes to the amount in flight: the amount its last hop forwards.\<close>

definition last_hop_amount :: "rpcHTLCAttempt \<Rightarrow> MilliSatoshi" where
  "last_hop_amount h = (case rha_Route h of
       None \<Rightarrow> 0
     | Some r \<Rightarrow> (case rt_Hops r of None \<Rightarrow> 0 | Some hops \<Rightarrow> hop_AmtToForwardMsat (last hops)))"

lemma AmountInFlight_amount:
  assumes "NewHtlcAttempt M h = Ok a" and "AmountInFlight a = Ok amt"
  shows "amt = (if in_flight h then last_hop_amount h else 0)"
proof -
  have s: "ha_Status a = rha_Status h" "ha_Route a = rha_Route h"
    using NewHtlcAttempt_status [OF assms(1)] by auto
  show ?thesis
    using assms(2) unfolding AmountInFlight_def s in_flight_def last_hop_amount_def
    by (auto split: option.splits if_splits simp: last_conv_nth)
qed

lemma add_htlcs_step:
  assumes "add_htlcs M (h # htlcs) st = Ok st'"
  shows "\<exists>a. NewHtlcAttempt M h = Ok a \<and> add_htlcs M htlcs
     (st\<lparr>ps_Htlcs := ps_Htlcs st @ [a],
         ps_InFlightHtlcs := ps_InFlightHtlcs st + (if in_flight h then 1 else 0),
         ps_InFlightAmt := ps_InFlightAmt st + (if in_flight h then last_hop_amount h else 0)\<rparr>)
     = Ok st'"
proof -
  obtain a where a: "NewHtlcAttempt M h = Ok a" using assms by auto
  show ?thesis
  proof (cases "in_flight h")
    case True
    with assms a obtain amt where "AmountInFlight a = Ok amt"
      "add_htlcs M htlcs (st\<lparr>ps_Htlcs := ps_Htlcs st @ [a],
         ps_InFlightHtlcs := ps_InFlightHtlcs st + 1,
         ps_InFlightAmt := ps_InFlightAmt st + amt\<rparr>) = Ok st'"
      by (auto simp: in_flight_def)
    with True AmountInFlight_amount [OF a] a show ?thesis by (intro exI [of _ a]) simp
  next
    case False
    with assms a show ?thesis by (intro exI [of _ a]) (simp add: in_flight_def)
  qed
qed

definition htlcs_summary ::
  "(bytes \<Rightarrow> bytes go) \<Rightarrow> rpcHTLCAttempt list \<Rightarrow> PaymentStatus \<Rightarrow> PaymentStatus \<Rightarrow> bool" where
  "htlcs_summary M htlcs st st' \<longleftrightarrow> (\<exists>as.
     list_all2 (\<lambda>h a. NewHtlcAttempt M h = Ok a) htlcs as \<and> ps_Htlcs st' = ps_Htlcs st @ as
     \<and> ps_InFlightHtlcs st' = ps_InFlightHtlcs st + length (filter in_flight htlcs)
     \<and> ps_InFlightAmt st' = ps_InFlightAmt st
          + sum_list (map last_hop_amount (filter in_flight htlcs))
     \<and> ps_State st' = ps_State st \<and> ps_Preimage st' = ps_Preimage st \<and> ps_Fee st' = ps_Fee st
     \<and> ps_Value st' = ps_Value st \<and> ps_FailureReason st' = ps_FailureReason st)"

lemma add_htlcs_summary: "add_htlcs M htlcs st = Ok st' \<Longrightarrow> htlcs_summary M htlcs st st'"
proof (induction htlcs arbitrary: st)
  case Nil
  then show ?case by (simp add: htlcs_summary_def)
next
  case (Cons h htlcs)
  then obtain a where a: "NewHtlcAttempt M h = Ok a"
    and rest: "add_htlcs M htlcs
     (st\<lparr>ps_Htlcs := ps_Htlcs st @ [a],
         ps_InFlightHtlcs := ps_InFlightHtlcs st + (if in_flight h then 1 else 0),
         ps_InFlightAmt := ps_InFlightAmt st + (if in_flight h then last_hop_amount h else 0)\<rparr>)
     = Ok st'"
    using add_htlcs_step by blast
  from Cons.IH [OF rest] obtain as where
    as: "list_all2 (\<lambda>h a. NewHtlcAttempt M h = Ok a) htlcs as" "ps_Htlcs st' = ps_Htlcs st @ a # as"
    and eqs: "ps_InFlightHtlcs st' = ps_InFlightHtlcs st + (if in_flight h then 1 else 0)
         + length (filter in_flight htlcs)"
      "ps_InFlightAmt st' = ps_InFlightAmt st + (if in_flight h then last_hop_amount h else 0)
         + sum_list (map last_hop_amount (filter in_flight htlcs))"
      "ps_State st' = ps_State st" "ps_Preimage st' = ps_Preimage st" "ps_Fee st' = ps_Fee st"
      "ps_Value st' = ps_Value st" "ps_FailureReason st' = ps_FailureReason st"
    by (auto simp: htlcs_summary_def)
  show ?case
    unfolding htlcs_summary_def
    by (rule exI [of _ "a # as"]) (use a as eqs in \<open>auto simp: add.assoc\<close>)
qed

text \<open>Without a route that has an empty slice of hops nothing panics.\<close>

definition routes_ok :: "rpcHTLCAttempt list \<Rightarrow> bool" where
  "routes_ok htlcs \<longleftrightarrow> (\<forall>h \<in> set htlcs. \<forall>r. rha_Route h = Some r \<longrightarrow> rt_Hops r \<noteq> Some [])"

lemma NewHtlcAttempt_no_panic:
  "(\<And>p. \<not> is_panic (M p)) \<Longrightarrow> \<not> is_panic (NewHtlcAttempt M h)"
  by (auto simp: NewHtlcAttempt_def Let_def split: option.split)

lemma add_htlcs_no_panic:
  assumes "\<And>p. \<not> is_panic (M p)"
  shows "routes_ok htlcs \<Longrightarrow> \<not> is_panic (add_htlcs M htlcs st)"
proof (induction htlcs arbitrary: st)
  case Nil
  then show ?case by simp
next
  case (Cons h htlcs)
  have "\<not> is_panic (AmountInFlight a)" if "NewHtlcAttempt M h = Ok a" for a
    using NewHtlcAttempt_status [OF that] Cons.prems
    by (auto simp: AmountInFlight_def routes_ok_def split: option.split)
  with Cons assms NewHtlcAttempt_no_panic [of M h] show ?case
    by (auto simp: Let_def routes_ok_def)
qed

end
