(* ===== verification/Router.thy ===== *)
theory Router
  imports RouterTypes
begin

text \<open>
  \<open>router_client.go\<close>: the methods of the router client. Each method takes the server it calls as an
  argument and returns what the Go method returns; a method that starts a goroutine returns its loop.
\<close>

record routerClient =
  router_mac :: serializedMacaroon
  router_timeout :: i64

definition newRouterClient :: "serializedMacaroon \<Rightarrow> i64 \<Rightarrow> routerClient" where
  "newRouterClient routerKitMac timeout = \<lparr>router_mac = routerKitMac, router_timeout = timeout\<rparr>"

definition router_RawClientWithMacAuth :: "routerClient \<Rightarrow> ctx \<Rightarrow> ctx \<times> i64" where
  "router_RawClientWithMacAuth r parentCtx =
     (WithMacaroonAuth (router_mac r) parentCtx, router_timeout r)"

section \<open>Route hints\<close>

text \<open>The public key of a hint is a key of \<open>btcec\<close>.\<close>

record 'key HopHint =
  hh_NodeID :: 'key
  hh_ChannelID :: u64
  hh_FeeBaseMSat :: u32
  hh_FeeProportionalMillionths :: u32
  hh_CLTVExpiryDelta :: u16

record rpcHopHint =
  rhh_NodeId :: string
  rhh_ChanId :: u64
  rhh_FeeBaseMsat :: u32
  rhh_FeeProportionalMillionths :: u32
  rhh_CltvExpiryDelta :: u32

type_synonym rpcRouteHint = "rpcHopHint list"

text \<open>The functions of \<open>btcec\<close> and \<open>route\<close> the hints use.\<close>

record 'key hint_fns =
  SerializeCompressed :: "'key \<Rightarrow> bytes"
  NewVertexFromBytes :: "bytes \<Rightarrow> Vertex go"
  Vertex_String :: "Vertex \<Rightarrow> string"

definition marshallHopHint :: "'key hint_fns \<Rightarrow> 'key HopHint \<Rightarrow> rpcHopHint go" where
  "marshallHopHint fns hint =
     go_bind (NewVertexFromBytes fns (SerializeCompressed fns (hh_NodeID hint))) (\<lambda>nodeID.
       Ok \<lparr>rhh_NodeId = Vertex_String fns nodeID,
           rhh_ChanId = hh_ChannelID hint,
           rhh_FeeBaseMsat = hh_FeeBaseMSat hint,
           rhh_FeeProportionalMillionths = hh_FeeProportionalMillionths hint,
           rhh_CltvExpiryDelta = ucast (hh_CLTVExpiryDelta hint)\<rparr>)"

definition marshallRouteHints ::
  "'key hint_fns \<Rightarrow> 'key HopHint list list \<Rightarrow> rpcRouteHint list go" where
  "marshallRouteHints fns routeHints = go_map (go_map (marshallHopHint fns)) routeHints"

text \<open>The hints keep their shape: as many routes, and as many hops in each, in order.\<close>

lemma marshallRouteHints_shape_aux:
  assumes "marshallRouteHints fns hints = Ok rpcHints"
  shows "list_all2 (list_all2 (\<lambda>h r. rhh_ChanId r = hh_ChannelID h
     \<and> rhh_FeeBaseMsat r = hh_FeeBaseMSat h
     \<and> rhh_FeeProportionalMillionths r = hh_FeeProportionalMillionths h
     \<and> uint (rhh_CltvExpiryDelta r) = uint (hh_CLTVExpiryDelta h))) hints rpcHints"
proof -
  have hop: "marshallHopHint fns h = Ok r \<Longrightarrow> rhh_ChanId r = hh_ChannelID h
     \<and> rhh_FeeBaseMsat r = hh_FeeBaseMSat h
     \<and> rhh_FeeProportionalMillionths r = hh_FeeProportionalMillionths h
     \<and> uint (rhh_CltvExpiryDelta r) = uint (hh_CLTVExpiryDelta h)" for h r
    by (auto simp: marshallHopHint_def)
  have "list_all2 (\<lambda>hs rs. go_map (marshallHopHint fns) hs = Ok rs) hints rpcHints"
    using assms by (simp add: marshallRouteHints_def go_map_Ok_iff)
  then show ?thesis
    by (rule list_all2_mono) (auto simp: go_map_Ok_iff elim!: list_all2_mono dest: hop)
qed

section \<open>Remote calls\<close>

record rpcSendPaymentRequest =
  rsp_Dest :: bytes
  rsp_Amt :: i64
  rsp_AmtMsat :: i64
  rsp_PaymentHash :: bytes
  rsp_PaymentAddr :: bytes
  rsp_FinalCltvDelta :: i32
  rsp_DestFeatures :: "i32 list"
  rsp_RouteHints :: "rpcRouteHint list"
  rsp_FeeLimitSat :: i64
  rsp_FeeLimitMsat :: i64
  rsp_PaymentRequest :: string
  rsp_TimeoutSeconds :: i32
  rsp_MaxParts :: u32
  rsp_OutgoingChanIds :: "u64 list"
  rsp_AllowSelfPayment :: bool
  rsp_Amp :: bool
  rsp_TimePref :: u64        \<comment> \<open>the bits of a \<open>float64\<close>\<close>
  rsp_Cancelable :: bool
  rsp_FirstHopCustomRecords :: custom_records
  rsp_CltvLimit :: i32
  rsp_LastHopPubkey :: bytes
  rsp_DestCustomRecords :: custom_records

record RouteFeeRequest =
  rfr_Dest :: bytes
  rfr_AmtSat :: i64
  rfr_PaymentRequest :: string
  rfr_Timeout :: u32

record RouteFeeResponse =
  rfs_RoutingFeeMsat :: i64
  rfs_TimeLockDelay :: i64
  rfs_FailureReason :: PaymentFailureReason

record rpcPairData =
  pd_FailTime :: i64
  pd_FailAmtMsat :: i64
  pd_SuccessTime :: i64
  pd_SuccessAmtMsat :: i64

record rpcPairHistory =
  ph_NodeFrom :: bytes
  ph_NodeTo :: bytes
  ph_History :: "rpcPairData option"

datatype router_req =
    SendPaymentV2Req rpcSendPaymentRequest
  | TrackPaymentV2Req bytes
  | EstimateRouteFeeReq RouteFeeRequest
  | SubscribeHtlcEventsReq
  | HtlcInterceptorReq
  | QueryMissionControlReq
  | XImportMissionControlReq "rpcPairHistory list" bool
  | ResetMissionControlReq
  | UpdateChanStatusReq bytes u32 i32
  | XAddLocalChanAliasesReq "(u64 \<times> u64 list) list"
  | XDeleteLocalChanAliasesReq "(u64 \<times> u64 list) list"
  | XFindBaseLocalChanAliasReq u64

type_synonym ('q, 'r) router_srv = "(router_req, 'q, 'r) server"

section \<open>Payments\<close>

record 'key SendPaymentRequest =
  sp_Invoice :: string
  sp_MaxFee :: Amount
  sp_MaxFeeMsat :: MilliSatoshi
  sp_MaxCltv :: "i32 option"
  sp_OutgoingChanIds :: "u64 list"
  sp_Timeout :: i64
  sp_Target :: Vertex
  sp_Amount :: Amount
  sp_AmountMsat :: MilliSatoshi
  sp_PaymentHash :: "bytes option"
  sp_PaymentAddr :: "bytes option"
  sp_FinalCLTVDelta :: u16
  sp_RouteHints :: "'key HopHint list list"
  sp_DestFeatures :: "i32 list"
  sp_LastHopPubkey :: "Vertex option"
  sp_MaxParts :: u32
  sp_KeySend :: bool
  sp_CustomRecords :: custom_records
  sp_AllowSelfPayment :: bool
  sp_TimePref :: u64
  sp_AMP :: bool
  sp_Cancelable :: bool
  sp_FirstHopCustomRecords :: custom_records

text \<open>
  The conversion of the seconds, a \<open>float64\<close>, to an \<open>int32\<close>. Outside of the range of \<open>int32\<close> the result
  depends on the implementation of Go; it is the argument \<open>conv32\<close>.
\<close>

definition seconds_int32 :: "(int \<Rightarrow> i32) \<Rightarrow> i64 \<Rightarrow> i32" where
  "seconds_int32 conv32 d = (let t = Seconds_trunc d in
     if - (2 ^ 31) \<le> t \<and> t < 2 ^ 31 then word_of_int t else conv32 t)"

text \<open>What \<open>SendPayment\<close> uses of other modules: the random source, the hash of a preimage
  (\<open>lntypes\<close>), and the record type of key send (\<open>record.KeySendType\<close>).\<close>

record 'key pay_fns =
  pf_hints :: "'key hint_fns"
  pf_conv32 :: "int \<Rightarrow> i32"
  pf_rand :: "bytes go"
  pf_Hash :: "bytes \<Rightarrow> bytes"
  pf_KeySendType :: u64

text \<open>The first part of the request, before key send and the individual parameters.\<close>

definition base_request :: "'key pay_fns \<Rightarrow> 'key SendPaymentRequest \<Rightarrow> rpcSendPaymentRequest" where
  "base_request fns request =
     \<lparr>rsp_Dest = [], rsp_Amt = 0, rsp_AmtMsat = 0, rsp_PaymentHash = [], rsp_PaymentAddr = [],
      rsp_FinalCltvDelta = 0, rsp_DestFeatures = [], rsp_RouteHints = [],
      rsp_FeeLimitSat = sp_MaxFee request,
      rsp_FeeLimitMsat = sp_MaxFeeMsat request,
      rsp_PaymentRequest = sp_Invoice request,
      rsp_TimeoutSeconds = seconds_int32 (pf_conv32 fns) (sp_Timeout request),
      rsp_MaxParts = sp_MaxParts request,
      rsp_OutgoingChanIds = sp_OutgoingChanIds request,
      rsp_AllowSelfPayment = sp_AllowSelfPayment request,
      rsp_Amp = sp_AMP request,
      rsp_TimePref = sp_TimePref request,
      rsp_Cancelable = sp_Cancelable request,
      rsp_FirstHopCustomRecords = sp_FirstHopCustomRecords request,
      rsp_CltvLimit = (case sp_MaxCltv request of None \<Rightarrow> 0 | Some c \<Rightarrow> c),
      rsp_LastHopPubkey = (case sp_LastHopPubkey request of None \<Rightarrow> [] | Some v \<Rightarrow> v),
      rsp_DestCustomRecords = sp_CustomRecords request\<rparr>"

text \<open>
  Key send: a fresh preimage goes into the custom records and its hash replaces the payment hash.
  A Go map is a reference, so with records given by the caller the preimage is also written to the
  caller's map: the last component is what the caller's variable holds afterwards.
\<close>

definition keysend_step ::
  "'key pay_fns \<Rightarrow> 'key SendPaymentRequest \<Rightarrow> rpcSendPaymentRequest
     \<Rightarrow> ('key SendPaymentRequest \<times> rpcSendPaymentRequest \<times> custom_records) go" where
  "keysend_step fns request rpcReq =
     (if \<not> sp_KeySend request then Ok (request, rpcReq, sp_CustomRecords request)
      else if sp_PaymentHash request \<noteq> None then
        Err (NewErr ''keysend payment must not include a preset payment hash'')
      else go_bind (pf_rand fns) (\<lambda>preimage.
        let given = (rsp_DestCustomRecords rpcReq \<noteq> None);
            recs = (case rsp_DestCustomRecords rpcReq of None \<Rightarrow> Map.empty | Some m \<Rightarrow> m);
            recs' = recs(pf_KeySendType fns \<mapsto> preimage)
        in Ok (request\<lparr>sp_PaymentHash := Some (pf_Hash fns preimage)\<rparr>,
               rpcReq\<lparr>rsp_DestCustomRecords := Some recs'\<rparr>,
               if given then Some recs' else None)))"

text \<open>The individual parameters, used only without an invoice.\<close>

definition params_step ::
  "'key pay_fns \<Rightarrow> 'key SendPaymentRequest \<Rightarrow> rpcSendPaymentRequest \<Rightarrow> rpcSendPaymentRequest go"
where
  "params_step fns request rpcReq =
     (if sp_Invoice request \<noteq> [] then Ok rpcReq
      else
        let rpcReq = rpcReq\<lparr>rsp_Dest := sp_Target request, rsp_Amt := sp_Amount request,
              rsp_AmtMsat := sp_AmountMsat request,
              rsp_PaymentHash := (case sp_PaymentHash request of None \<Rightarrow> rsp_PaymentHash rpcReq
                                  | Some h \<Rightarrow> h),
              rsp_PaymentAddr := (case sp_PaymentAddr request of None \<Rightarrow> rsp_PaymentAddr rpcReq
                                  | Some a \<Rightarrow> a),
              rsp_FinalCltvDelta := ucast (sp_FinalCLTVDelta request),
              rsp_DestFeatures := sp_DestFeatures request\<rparr>
        in go_bind (marshallRouteHints (pf_hints fns) (sp_RouteHints request)) (\<lambda>routeHints.
             Ok (rpcReq\<lparr>rsp_RouteHints := routeHints\<rparr>)))"

definition payment_request ::
  "'key pay_fns \<Rightarrow> 'key SendPaymentRequest \<Rightarrow> (rpcSendPaymentRequest \<times> custom_records) go" where
  "payment_request fns request =
     go_bind (keysend_step fns request (base_request fns request)) (\<lambda>(request, rpcReq, callerRecs).
     go_bind (params_step fns request rpcReq) (\<lambda>rpcReq. Ok (rpcReq, callerRecs)))"

text \<open>The conversion functions a payment stream uses: \<open>lntypes\<close> and \<open>status.Convert(err).Code()\<close>.\<close>

record track_fns =
  tf_MakePreimage :: "bytes \<Rightarrow> bytes go"
  tf_MakePreimageFromStr :: "string \<Rightarrow> bytes go"
  tf_Code :: "go_error \<Rightarrow> grpc_code"

definition track_error :: "track_fns \<Rightarrow> go_error \<Rightarrow> go_error" where
  "track_error fns err = (case tf_Code fns err of
       GrpcNotFound \<Rightarrow> Sentinel ErrPaymentNotInitiated
     | GrpcAlreadyExists \<Rightarrow> Sentinel ErrAlreadyPaid
     | _ \<Rightarrow> err)"

definition track_body :: "track_fns \<Rightarrow> rpcPayment recv \<Rightarrow> PaymentStatus script" where
  "track_body fns r = (case r of
       RecvErr err \<Rightarrow>
         if err = IoEOF then CloseUpd (CloseErr Return) else SendErr (track_error fns err) Return
     | RecvOk payment \<Rightarrow>
         on_go id (unmarshallPaymentStatus (tf_MakePreimage fns) (tf_MakePreimageFromStr fns) payment)
           (\<lambda>status. SendUpd status Return Loop))"

definition trackPayment :: "track_fns \<Rightarrow> (rpcPayment, PaymentStatus) sub" where
  "trackPayment fns = \<lparr>sub_body = track_body fns, sub_ucap = 0, sub_ecap = 1, sub_defers = []\<rparr>"

definition SendPayment ::
  "routerClient \<Rightarrow> 'key pay_fns \<Rightarrow> track_fns \<Rightarrow> (rpcSendPaymentRequest, unit) router_srv \<Rightarrow> ctx
     \<Rightarrow> 'key SendPaymentRequest \<Rightarrow> (router_req, (rpcPayment, PaymentStatus) sub) io" where
  "SendPayment r fns tfns srv c request =
     (let rpcCtx = WithMacaroonAuth (router_mac r) c
      in io_bind (io_lift (payment_request fns request)) (\<lambda>(rpcReq, _).
         io_bind (rpc srv SendPaymentV2Req rpcCtx rpcReq) (\<lambda>_. io_ret (trackPayment tfns))))"

definition TrackPayment ::
  "routerClient \<Rightarrow> track_fns \<Rightarrow> (bytes, unit) router_srv \<Rightarrow> ctx \<Rightarrow> bytes
     \<Rightarrow> (router_req, (rpcPayment, PaymentStatus) sub) io" where
  "TrackPayment r tfns srv c hash =
     io_bind (rpc srv TrackPaymentV2Req (WithMacaroonAuth (router_mac r) c) hash)
       (\<lambda>_. io_ret (trackPayment tfns))"

section \<open>Fee estimates\<close>

record EstimateRouteFeeWithProbeResponse =
  erf_RoutingFee :: MilliSatoshi
  erf_TimeLockDelay :: i64
  erf_FailureReason :: PaymentFailureReason

definition estimateRouteFee ::
  "routerClient \<Rightarrow> (RouteFeeRequest, RouteFeeResponse) router_srv \<Rightarrow> ctx \<Rightarrow> RouteFeeRequest
     \<Rightarrow> (router_req, EstimateRouteFeeWithProbeResponse) io" where
  "estimateRouteFee r srv c rpcReq =
     io_bind (rpc srv EstimateRouteFeeReq (WithMacaroonAuth (router_mac r) c) rpcReq) (\<lambda>rpcRes.
       io_ret \<lparr>erf_RoutingFee = rfs_RoutingFeeMsat rpcRes,
               erf_TimeLockDelay = rfs_TimeLockDelay rpcRes,
               erf_FailureReason = rfs_FailureReason rpcRes\<rparr>)"

definition EstimateRouteFee ::
  "routerClient \<Rightarrow> (RouteFeeRequest, RouteFeeResponse) router_srv \<Rightarrow> ctx \<Rightarrow> Vertex \<Rightarrow> Amount
     \<Rightarrow> (router_req, MilliSatoshi) io" where
  "EstimateRouteFee r srv c dest amt =
     io_bind (estimateRouteFee r srv c
       \<lparr>rfr_Dest = dest, rfr_AmtSat = amt, rfr_PaymentRequest = [], rfr_Timeout = 0\<rparr>)
       (\<lambda>res. io_ret (erf_RoutingFee res))"

definition maxTimeout :: i64 where
  "maxTimeout = 4294967295 * Second"

text \<open>The timeout is positive where it is divided, so that Go's quotient is that of \<open>div\<close>.\<close>

definition probe_request :: "string \<Rightarrow> i64 \<Rightarrow> RouteFeeRequest go" where
  "probe_request invoice timeout =
     (let rpcReq = \<lparr>rfr_Dest = [], rfr_AmtSat = 0, rfr_PaymentRequest = invoice, rfr_Timeout = 0\<rparr>
      in if sint timeout < 0 then Err (NewErr ''timeout must not be negative'')
         else if sint timeout > 0 then
           (if sint timeout > sint maxTimeout then
              Err (NewErr ''timeout exceeds maximum of 1193046h28m15s'')
            else Ok (rpcReq\<lparr>rfr_Timeout :=
                   word_of_int (sint (timeout + Second - 1) div sint Second)\<rparr>))
         else Ok rpcReq)"

definition EstimateRouteFeeWithProbe ::
  "routerClient \<Rightarrow> (RouteFeeRequest, RouteFeeResponse) router_srv \<Rightarrow> ctx \<Rightarrow> string \<Rightarrow> i64
     \<Rightarrow> (router_req, EstimateRouteFeeWithProbeResponse) io" where
  "EstimateRouteFeeWithProbe r srv c invoice timeout =
     io_bind (io_lift (probe_request invoice timeout)) (\<lambda>rpcReq. estimateRouteFee r srv c rpcReq)"

section \<open>Paying an invoice\<close>

record PaymentResult =
  pr_Err :: "go_error option"
  pr_Preimage :: bytes
  pr_PaidFee :: Amount
  pr_PaidAmt :: Amount

text \<open>\<open>PayNil\<close> is the nil result of a canceled payment, \<open>PayWaiting\<close> a stream that has not delivered
  anything more yet.\<close>

datatype pay_outcome = PayWaiting | PayNil | PayResult PaymentResult | PayPanic string

definition pay_error :: "go_error \<Rightarrow> pay_outcome" where
  "pay_error e = PayResult \<lparr>pr_Err = Some e, pr_Preimage = replicate 32 0, pr_PaidFee = 0,
     pr_PaidAmt = 0\<rparr>"

text \<open>The invoice decoder \<open>zpay32.Decode\<close> gives the two fields the code reads; \<open>ToSatoshis\<close> and the text
  of a failure reason belong to lnd too.\<close>

record decoded_invoice =
  di_MilliSat :: "MilliSatoshi option"
  di_PaymentHash :: "bytes option"

record invoice_fns =
  if_track :: track_fns
  if_Decode :: "string \<Rightarrow> decoded_invoice go"
  if_ToSatoshis :: "MilliSatoshi \<Rightarrow> Amount"
  if_reason_text :: "PaymentFailureReason \<Rightarrow> string"

fun paymentResultFromStream :: "invoice_fns \<Rightarrow> rpcPayment recv list \<Rightarrow> pay_outcome" where
  "paymentResultFromStream fns [] = PayWaiting"
| "paymentResultFromStream fns (RecvErr err # rest) =
     (if tf_Code (if_track fns) err = GrpcCanceled then PayNil
      else if err = IoEOF then pay_error (NewErr ''payment stream closed'')
      else pay_error err)"
| "paymentResultFromStream fns (RecvOk payResp # rest) =
     (case unmarshallPaymentStatus (tf_MakePreimage (if_track fns))
             (tf_MakePreimageFromStr (if_track fns)) payResp of
        Err err \<Rightarrow> pay_error err
      | Panic p \<Rightarrow> PayPanic p
      | Ok status \<Rightarrow> (case ps_State status of
          Payment_SUCCEEDED \<Rightarrow> PayResult \<lparr>pr_Err = None, pr_Preimage = ps_Preimage status,
            pr_PaidFee = if_ToSatoshis fns (ps_Fee status),
            pr_PaidAmt = if_ToSatoshis fns (ps_Value status)\<rparr>
        | Payment_FAILED \<Rightarrow> pay_error (NewErr (if_reason_text fns (ps_FailureReason status)))
        | Payment_IN_FLIGHT \<Rightarrow> paymentResultFromStream fns rest
        | Payment_other n \<Rightarrow> paymentResultFromStream fns rest))"

text \<open>The request for an invoice: the fields that are not set keep their zero value.\<close>

definition invoice_request ::
  "string \<Rightarrow> Amount \<Rightarrow> u64 option \<Rightarrow> custom_records \<Rightarrow> rpcSendPaymentRequest" where
  "invoice_request invoice maxFee outgoingChannel customRecords =
     \<lparr>rsp_Dest = [], rsp_Amt = 0, rsp_AmtMsat = 0, rsp_PaymentHash = [], rsp_PaymentAddr = [],
      rsp_FinalCltvDelta = 0, rsp_DestFeatures = [], rsp_RouteHints = [], rsp_FeeLimitSat = maxFee,
      rsp_FeeLimitMsat = 0, rsp_PaymentRequest = invoice, rsp_TimeoutSeconds = 0, rsp_MaxParts = 0,
      rsp_OutgoingChanIds = (case outgoingChannel of None \<Rightarrow> [] | Some ch \<Rightarrow> [ch]),
      rsp_AllowSelfPayment = False, rsp_Amp = False, rsp_TimePref = 0, rsp_Cancelable = False,
      rsp_FirstHopCustomRecords = None, rsp_CltvLimit = 0, rsp_LastHopPubkey = [],
      rsp_DestCustomRecords = customRecords\<rparr>"

text \<open>The answer of the server to \<open>SendPaymentV2\<close> and \<open>TrackPaymentV2\<close> is the stream of events it will
  deliver.\<close>

definition router_payInvoice ::
  "routerClient \<Rightarrow> invoice_fns \<Rightarrow> (rpcSendPaymentRequest, rpcPayment recv list) router_srv
     \<Rightarrow> (bytes, rpcPayment recv list) router_srv \<Rightarrow> ctx \<Rightarrow> string \<Rightarrow> Amount \<Rightarrow> u64 option
     \<Rightarrow> custom_records \<Rightarrow> (router_req, pay_outcome) io" where
  "router_payInvoice r fns send_srv track_srv c invoice maxFee outgoingChannel customRecords =
     (case if_Decode fns invoice of
        Err err \<Rightarrow> io_ret (pay_error (FmtErr ''invoice decode: '' err))
      | Panic p \<Rightarrow> io_ret (PayPanic p)
      | Ok payReq \<Rightarrow>
        if di_MilliSat payReq = None then io_ret (pay_error (NewErr ''no amount in invoice''))
        else case di_PaymentHash payReq of
          None \<Rightarrow> io_ret (PayPanic ''nil pointer dereference'')
        | Some hash \<Rightarrow>
          let c = WithMacaroonAuth (router_mac r) c;
              req = invoice_request invoice maxFee outgoingChannel customRecords
          in io_try (rpc send_srv SendPaymentV2Req c req) (\<lambda>res. case res of
               Ok stream \<Rightarrow> io_ret (paymentResultFromStream fns stream)
             | Panic p \<Rightarrow> io_lift (Panic p)
             | Err err \<Rightarrow>
                 if tf_Code (if_track fns) err = GrpcCanceled then io_ret PayNil
                 else if tf_Code (if_track fns) err = GrpcAlreadyExists then
                   io_try (rpc track_srv TrackPaymentV2Req c hash) (\<lambda>res. case res of
                     Ok stream \<Rightarrow> io_ret (paymentResultFromStream fns stream)
                   | Panic p \<Rightarrow> io_lift (Panic p)
                   | Err err \<Rightarrow>
                       if tf_Code (if_track fns) err = GrpcCanceled then io_ret PayNil
                       else io_ret (pay_error err))
                 else io_ret (pay_error err)))"

section \<open>Mission control\<close>

record MissionControlEntry =
  mc_NodeFrom :: Vertex
  mc_NodeTo :: Vertex
  mc_FailTime :: gotime
  mc_FailAmt :: MilliSatoshi
  mc_SuccessTime :: gotime
  mc_SuccessAmt :: MilliSatoshi

definition mission_entry :: "Vertex \<Rightarrow> Vertex \<Rightarrow> rpcPairData \<Rightarrow> MissionControlEntry" where
  "mission_entry nodeFrom nodeTo history =
     \<lparr>mc_NodeFrom = nodeFrom, mc_NodeTo = nodeTo,
      mc_FailTime = (if pd_FailTime history \<noteq> 0 then time_Unix (pd_FailTime history) 0
                     else zero_time),
      mc_FailAmt = pd_FailAmtMsat history,
      mc_SuccessTime = (if pd_SuccessTime history \<noteq> 0
                        then time_Unix (pd_SuccessTime history) 0 else zero_time),
      mc_SuccessAmt = pd_SuccessAmtMsat history\<rparr>"

fun mission_entries ::
  "(bytes \<Rightarrow> Vertex go) \<Rightarrow> rpcPairHistory list \<Rightarrow> MissionControlEntry list go" where
  "mission_entries NewVertex [] = Ok []"
| "mission_entries NewVertex (pair # pairs) = (case ph_History pair of
       None \<Rightarrow> mission_entries NewVertex pairs
     | Some history \<Rightarrow>
         go_bind (NewVertex (ph_NodeFrom pair)) (\<lambda>nodeFrom.
         go_bind (NewVertex (ph_NodeTo pair)) (\<lambda>nodeTo.
         go_bind (mission_entries NewVertex pairs) (\<lambda>entries.
           Ok (mission_entry nodeFrom nodeTo history # entries)))))"

definition QueryMissionControl ::
  "routerClient \<Rightarrow> (bytes \<Rightarrow> Vertex go) \<Rightarrow> (unit, rpcPairHistory list) router_srv \<Rightarrow> ctx
     \<Rightarrow> (router_req, MissionControlEntry list) io" where
  "QueryMissionControl r NewVertex srv c =
     (let rpcCtx = TimeoutCtx c (router_timeout r)
      in io_bind (rpc srv (\<lambda>_. QueryMissionControlReq) (WithMacaroonAuth (router_mac r) rpcCtx) ())
           (\<lambda>pairs. io_lift (mission_entries NewVertex pairs)))"

definition mission_pair :: "MissionControlEntry \<Rightarrow> rpcPairHistory" where
  "mission_pair entry =
     \<lparr>ph_NodeFrom = mc_NodeFrom entry, ph_NodeTo = mc_NodeTo entry,
      ph_History = Some \<lparr>
        pd_FailTime = (if \<not> IsZero (mc_FailTime entry) then unix_sec (mc_FailTime entry) else 0),
        pd_FailAmtMsat = mc_FailAmt entry,
        pd_SuccessTime = (if \<not> IsZero (mc_SuccessTime entry) then unix_sec (mc_SuccessTime entry)
                          else 0),
        pd_SuccessAmtMsat = mc_SuccessAmt entry\<rparr>\<rparr>"

definition ImportMissionControl ::
  "routerClient \<Rightarrow> (rpcPairHistory list \<times> bool, unit) router_srv \<Rightarrow> ctx \<Rightarrow> MissionControlEntry list
     \<Rightarrow> bool \<Rightarrow> (router_req, unit) io" where
  "ImportMissionControl r srv c entries force =
     rpc srv (\<lambda>(pairs, f). XImportMissionControlReq pairs f)
       (WithMacaroonAuth (router_mac r) (TimeoutCtx c (router_timeout r)))
       (map mission_pair entries, force)"

definition ResetMissionControl ::
  "routerClient \<Rightarrow> (unit, unit) router_srv \<Rightarrow> ctx \<Rightarrow> (router_req, unit) io" where
  "ResetMissionControl r srv c =
     rpc srv (\<lambda>_. ResetMissionControlReq)
       (WithMacaroonAuth (router_mac r) (TimeoutCtx c (router_timeout r))) ()"

text \<open>A nil outpoint panics before the call is made.\<close>

definition UpdateChanStatus ::
  "routerClient \<Rightarrow> (bytes \<times> u32 \<times> i32, unit) router_srv \<Rightarrow> ctx \<Rightarrow> OutPoint option \<Rightarrow> i32
     \<Rightarrow> (router_req, unit) io" where
  "UpdateChanStatus r srv c channel action =
     io_bind (io_lift (deref channel)) (\<lambda>channel.
       rpc srv (\<lambda>(txid, i, a). UpdateChanStatusReq txid i a)
         (WithMacaroonAuth (router_mac r) (TimeoutCtx c (router_timeout r)))
         (op_Hash channel, op_Index channel, action))"

text \<open>Short channel ids are a type of \<open>lnwire\<close> with its conversions from and to 64 bits.\<close>

definition XAddLocalChanAlias ::
  "routerClient \<Rightarrow> ('scid \<Rightarrow> u64) \<Rightarrow> ((u64 \<times> u64 list) list, unit) router_srv \<Rightarrow> ctx \<Rightarrow> 'scid
     \<Rightarrow> 'scid \<Rightarrow> (router_req, unit) io" where
  "XAddLocalChanAlias r ToUint64 srv c alias baseScid =
     rpc srv XAddLocalChanAliasesReq
       (WithMacaroonAuth (router_mac r) (TimeoutCtx c (router_timeout r)))
       [(ToUint64 baseScid, [ToUint64 alias])]"

definition XDeleteLocalChanAlias ::
  "routerClient \<Rightarrow> ('scid \<Rightarrow> u64) \<Rightarrow> ((u64 \<times> u64 list) list, unit) router_srv \<Rightarrow> ctx \<Rightarrow> 'scid
     \<Rightarrow> 'scid \<Rightarrow> (router_req, unit) io" where
  "XDeleteLocalChanAlias r ToUint64 srv c alias baseScid =
     rpc srv XDeleteLocalChanAliasesReq
       (WithMacaroonAuth (router_mac r) (TimeoutCtx c (router_timeout r)))
       [(ToUint64 baseScid, [ToUint64 alias])]"

definition XFindBaseLocalChanAlias ::
  "routerClient \<Rightarrow> ('scid \<Rightarrow> u64) \<Rightarrow> (u64 \<Rightarrow> 'scid) \<Rightarrow> (u64, u64) router_srv \<Rightarrow> ctx \<Rightarrow> 'scid
     \<Rightarrow> (router_req, 'scid) io" where
  "XFindBaseLocalChanAlias r ToUint64 NewShortChanIDFromInt srv c alias =
     io_bind (rpc srv XFindBaseLocalChanAliasReq
       (WithMacaroonAuth (router_mac r) (TimeoutCtx c (router_timeout r))) (ToUint64 alias))
       (\<lambda>base. io_ret (NewShortChanIDFromInt base))"

section \<open>Htlc events\<close>

definition htlc_events_body :: "'ev recv \<Rightarrow> 'ev script" where
  "htlc_events_body r = (case r of
       RecvErr err \<Rightarrow> SendErr err Return
     | RecvOk htlc \<Rightarrow> SendUpd htlc (SendCtxErr Return) Loop)"

text \<open>The deferred closes run in reverse order.\<close>

definition htlc_events_sub :: "('ev, 'ev) sub" where
  "htlc_events_sub = \<lparr>sub_body = htlc_events_body, sub_ucap = 0, sub_ecap = 1,
     sub_defers = [DeferCloseUpd, DeferCloseErr]\<rparr>"

definition SubscribeHtlcEvents ::
  "routerClient \<Rightarrow> (unit, unit) router_srv \<Rightarrow> ctx \<Rightarrow> (router_req, ('ev, 'ev) sub) io" where
  "SubscribeHtlcEvents r srv c =
     io_bind (rpc srv (\<lambda>_. SubscribeHtlcEventsReq) (WithMacaroonAuth (router_mac r) c) ())
       (\<lambda>_. io_ret htlc_events_sub)"

section \<open>Interceptor answers\<close>

record 'scid CircuitKey =
  ck_ChanID :: 'scid
  ck_HtlcID :: u64

record 'scid InterceptedHtlc =
  ih_IncomingCircuitKey :: "'scid CircuitKey"
  ih_Hash :: bytes
  ih_AmountInMsat :: MilliSatoshi
  ih_AmountOutMsat :: MilliSatoshi
  ih_IncomingExpiryHeight :: u32
  ih_OutgoingExpiryHeight :: u32
  ih_OutgoingChannelID :: 'scid
  ih_CustomRecords :: custom_records
  ih_OnionBlob :: bytes
  ih_InWireCustomRecords :: custom_records

type_synonym InterceptorAction = u8

definition InterceptorActionSettle :: InterceptorAction where "InterceptorActionSettle = 0"
definition InterceptorActionFail :: InterceptorAction where "InterceptorActionFail = 1"
definition InterceptorActionResume :: InterceptorAction where "InterceptorActionResume = 2"
definition InterceptorActionResumeModified :: InterceptorAction where
  "InterceptorActionResumeModified = 3"

lemmas interceptor_action_defs = InterceptorActionSettle_def InterceptorActionFail_def
  InterceptorActionResume_def InterceptorActionResumeModified_def

record InterceptedHtlcResponse =
  ir_Preimage :: "bytes option"
  ir_Action :: InterceptorAction
  ir_FailureMessage :: bytes
  ir_FailureCode :: FailureCode
  ir_IncomingAmount :: MilliSatoshi
  ir_OutgoingAmount :: MilliSatoshi
  ir_CustomRecords :: custom_records

text \<open>\<open>SETTLE\<close> is the zero value of the enum, as in \<open>routerrpc\<close>.\<close>

datatype ResolveHoldForwardAction =
    ResolveHold_SETTLE | ResolveHold_FAIL | ResolveHold_RESUME | ResolveHold_RESUME_MODIFIED

record ForwardHtlcInterceptResponse =
  fr_ChanId :: u64
  fr_HtlcId :: u64
  fr_Action :: ResolveHoldForwardAction
  fr_Preimage :: bytes
  fr_FailureMessage :: bytes
  fr_FailureCode :: FailureCode
  fr_InAmountMsat :: u64
  fr_OutAmountMsat :: u64
  fr_OutWireCustomRecords :: custom_records

definition rpcInterceptorResponse ::
  "('scid \<Rightarrow> u64) \<Rightarrow> 'scid InterceptedHtlc \<Rightarrow> InterceptedHtlcResponse option
     \<Rightarrow> ForwardHtlcInterceptResponse go" where
  "rpcInterceptorResponse ToUint64 request response =
     go_bind (deref response) (\<lambda>response.
       let rpcResp = \<lparr>fr_ChanId = ToUint64 (ck_ChanID (ih_IncomingCircuitKey request)),
             fr_HtlcId = ck_HtlcID (ih_IncomingCircuitKey request),
             fr_Action = ResolveHold_SETTLE, fr_Preimage = [], fr_FailureMessage = [],
             fr_FailureCode = 0, fr_InAmountMsat = 0, fr_OutAmountMsat = 0,
             fr_OutWireCustomRecords = None\<rparr>;
           havePreimage = (ir_Preimage response \<noteq> None);
           rpcResp = (case ir_Preimage response of None \<Rightarrow> rpcResp
                      | Some p \<Rightarrow> rpcResp\<lparr>fr_Preimage := p\<rparr>)
       in if ir_Action response = InterceptorActionSettle then
            (if \<not> havePreimage then Err (NewErr ''preimage required for settle'')
             else Ok (rpcResp\<lparr>fr_Action := ResolveHold_SETTLE\<rparr>))
          else if ir_Action response = InterceptorActionFail then
            (if ir_FailureMessage response \<noteq> [] \<and> ir_FailureCode response \<noteq> 0 then
               Err (NewErr ''failure_message and failure_code are mutually exclusive'')
             else
               let rpcResp = rpcResp\<lparr>fr_Action := ResolveHold_FAIL\<rparr>;
                   rpcResp = (if ir_FailureMessage response \<noteq> []
                     then rpcResp\<lparr>fr_FailureMessage := ir_FailureMessage response\<rparr> else rpcResp);
                   rpcResp = (if ir_FailureCode response \<noteq> 0
                     then rpcResp\<lparr>fr_FailureCode := ir_FailureCode response\<rparr> else rpcResp)
               in Ok rpcResp)
          else if ir_Action response = InterceptorActionResume then
            Ok (rpcResp\<lparr>fr_Action := ResolveHold_RESUME\<rparr>)
          else if ir_Action response = InterceptorActionResumeModified then
            Ok (rpcResp\<lparr>fr_Action := ResolveHold_RESUME_MODIFIED,
                  fr_InAmountMsat := ir_IncomingAmount response,
                  fr_OutAmountMsat := ir_OutgoingAmount response,
                  fr_OutWireCustomRecords := ir_CustomRecords response\<rparr>)
          else Err (FmtVal ''unknown action: '' (show_nat (unat (ir_Action response)))))"

end
