(* ===== verification/RouterFacts.thy ===== *)
theory RouterFacts
  imports Router
begin

text \<open>
  What the methods of the router client guarantee: the discipline of their calls, the requests they
  build, the loops behind their streams, the result of a payment, and mission control round trips.
\<close>

section \<open>Calls\<close>

abbreviation router_authed :: "routerClient \<Rightarrow> ctx \<Rightarrow> ctx \<Rightarrow> router_req \<Rightarrow> bool" where
  "router_authed r c c' q \<equiv> authed (router_mac r) c c'"

abbreviation router_bounded :: "routerClient \<Rightarrow> ctx \<Rightarrow> ctx \<Rightarrow> router_req \<Rightarrow> bool" where
  "router_bounded r c c' q \<equiv> authed (router_mac r) c c' \<and> bounded (router_timeout r) c'"

lemma router_calls_authed:
  "calls_ok (router_authed r c) (SendPayment r fns tfns srv c request)"
  "calls_ok (router_authed r c) (TrackPayment r tfns tsrv c hash)"
  "calls_ok (router_authed r c) (EstimateRouteFee r esrv c dest amt)"
  "calls_ok (router_authed r c) (EstimateRouteFeeWithProbe r esrv c invoice timeout)"
  "calls_ok (router_authed r c) (SubscribeHtlcEvents r hsrv c)"
  by (auto simp: SendPayment_def TrackPayment_def EstimateRouteFee_def estimateRouteFee_def
      EstimateRouteFeeWithProbe_def SubscribeHtlcEvents_def Let_def split: prod.split
      intro!: rpc_intros)

lemma router_calls_bounded:
  "calls_ok (router_bounded r c) (QueryMissionControl r nv qsrv c)"
  "calls_ok (router_bounded r c) (ImportMissionControl r isrv c entries force)"
  "calls_ok (router_bounded r c) (ResetMissionControl r rsrv c)"
  "calls_ok (router_bounded r c) (UpdateChanStatus r usrv c channel action)"
  "calls_ok (router_bounded r c) (XAddLocalChanAlias r toU asrv c alias base)"
  "calls_ok (router_bounded r c) (XDeleteLocalChanAlias r toU asrv c alias base)"
  "calls_ok (router_bounded r c) (XFindBaseLocalChanAlias r toU fromU fsrv c alias)"
  by (auto simp: QueryMissionControl_def ImportMissionControl_def ResetMissionControl_def
      UpdateChanStatus_def XAddLocalChanAlias_def XDeleteLocalChanAlias_def
      XFindBaseLocalChanAlias_def Let_def split: prod.split intro!: rpc_intros)

lemma router_payInvoice_authed:
  "calls_ok (router_authed r c) (router_payInvoice r fns ssrv tsrv c invc fee ch recs)"
  unfolding router_payInvoice_def Let_def
  by (auto split: go.split option.split intro!: rpc_intros)

section \<open>Fee estimates\<close>

lemma maxTimeout_value: "sint maxTimeout = 4294967295000000000"
  by (simp add: maxTimeout_def Second_def)

lemma probe_sum:
  assumes "0 < sint t" and "sint t \<le> 4294967295000000000"
  shows "sint (t + Second - 1) = sint t + 999999999"
proof -
  have sum: "t + Second - 1 = word_of_int (sint t + 999999999)"
    by (simp add: Second_def)
  show ?thesis
    unfolding sum by (rule sint_i64) (use assms in simp_all)
qed

lemma probe_request_timeout:
  assumes "0 < sint t" and "sint t \<le> 4294967295000000000"
  shows "\<exists>req. probe_request invc t = Ok req \<and> rfr_PaymentRequest req = invc
     \<and> 0 < uint (rfr_Timeout req)
     \<and> sint t \<le> uint (rfr_Timeout req) * 1000000000
     \<and> uint (rfr_Timeout req) * 1000000000 < sint t + 1000000000"
proof -
  define n where "n = (sint t + 999999999) div 1000000000"
  have n: "0 < n" "n < 2 ^ 32" "sint t \<le> n * 1000000000" "n * 1000000000 < sint t + 1000000000"
    unfolding n_def using assms by simp_all
  have "sint (t + Second - 1) div sint Second = n"
    unfolding probe_sum [OF assms] n_def by (simp add: Second_def)
  then have "probe_request invc t = Ok \<lparr>rfr_Dest = [], rfr_AmtSat = 0, rfr_PaymentRequest = invc,
      rfr_Timeout = word_of_int n\<rparr>"
    using assms by (simp add: probe_request_def maxTimeout_value)
  moreover have "uint (word_of_int n :: u32) = n"
    using n by (intro uint_u32) simp_all
  ultimately show ?thesis using n by simp
qed

lemma probe_request_rejects:
  "sint t < 0 \<or> sint t > 4294967295000000000 \<Longrightarrow> \<exists>e. probe_request invc t = Err e"
  by (auto simp: probe_request_def maxTimeout_value)

lemma EstimateRouteFeeWithProbe_rejects:
  "sint t < 0 \<or> sint t > 4294967295000000000 \<Longrightarrow>
     \<exists>e. EstimateRouteFeeWithProbe r srv c invc t h = (Err e, h)"
  using probe_request_rejects [of t invc]
  by (auto simp: EstimateRouteFeeWithProbe_def io_bind_def io_lift_def)

section \<open>Requests of payments\<close>

lemma keysend_preset_hash:
  "sp_KeySend req \<Longrightarrow> sp_PaymentHash req \<noteq> None \<Longrightarrow>
     \<exists>e. payment_request fns req = Err e"
  by (simp add: payment_request_def keysend_step_def)

lemma payment_request_keysend:
  assumes "payment_request fns req = Ok (rpcReq, callerRecs)" and "sp_KeySend req"
  shows "\<exists>pre recs. pf_rand fns = Ok pre \<and> rsp_DestCustomRecords rpcReq = Some recs
     \<and> recs (pf_KeySendType fns) = Some pre
     \<and> (\<forall>k. k \<noteq> pf_KeySendType fns \<longrightarrow>
          recs k = (case sp_CustomRecords req of None \<Rightarrow> None | Some m \<Rightarrow> m k))
     \<and> (sp_Invoice req = [] \<longrightarrow> rsp_PaymentHash rpcReq = pf_Hash fns pre)
     \<and> callerRecs = (if sp_CustomRecords req = None then None else Some recs)"
proof -
  define recs0 where "recs0 = (case sp_CustomRecords req of None \<Rightarrow> Map.empty | Some m \<Rightarrow> m)"
  obtain req' r' where ks: "keysend_step fns req (base_request fns req) = Ok (req', r', callerRecs)"
    and ps: "params_step fns req' r' = Ok rpcReq"
    using assms(1) unfolding payment_request_def by (auto simp: go_bind_Ok_iff)
  from ks assms(2) obtain pre where pre: "pf_rand fns = Ok pre"
    and req': "req' = req\<lparr>sp_PaymentHash := Some (pf_Hash fns pre)\<rparr>"
    and r': "rsp_DestCustomRecords r' = Some (recs0(pf_KeySendType fns \<mapsto> pre))"
    and caller: "callerRecs = (if sp_CustomRecords req = None then None
        else Some (recs0(pf_KeySendType fns \<mapsto> pre)))"
    by (auto simp: keysend_step_def base_request_def recs0_def Let_def go_bind_Ok_iff
        split: if_splits)
  have "rsp_DestCustomRecords rpcReq = rsp_DestCustomRecords r'
      \<and> (sp_Invoice req = [] \<longrightarrow> rsp_PaymentHash rpcReq = pf_Hash fns pre)"
    using ps by (auto simp: params_step_def req' Let_def go_bind_Ok_iff split: if_splits)
  with pre r' caller show ?thesis by (auto simp: recs0_def split: option.splits)
qed

lemma keysend_step_keeps:
  "keysend_step fns req r = Ok (req', r', recs) \<Longrightarrow>
     (\<exists>h. req' = req\<lparr>sp_PaymentHash := h\<rparr>) \<and> (\<exists>d. r' = r\<lparr>rsp_DestCustomRecords := d\<rparr>)"
  by (cases req; cases r) (auto simp: keysend_step_def Let_def split: if_splits)

lemma payment_request_steps:
  assumes "payment_request fns req = Ok (rpcReq, callerRecs)"
  obtains h d where
    "params_step fns (req\<lparr>sp_PaymentHash := h\<rparr>)
       ((base_request fns req)\<lparr>rsp_DestCustomRecords := d\<rparr>) = Ok rpcReq"
  using assms by (auto simp: payment_request_def dest: keysend_step_keeps)

lemma params_step_keeps:
  assumes "params_step fns req r = Ok r'"
  shows "rsp_PaymentRequest r' = rsp_PaymentRequest r \<and> rsp_FeeLimitSat r' = rsp_FeeLimitSat r
     \<and> rsp_FeeLimitMsat r' = rsp_FeeLimitMsat r \<and> rsp_OutgoingChanIds r' = rsp_OutgoingChanIds r
     \<and> rsp_MaxParts r' = rsp_MaxParts r \<and> rsp_TimeoutSeconds r' = rsp_TimeoutSeconds r
     \<and> (sp_Invoice req \<noteq> [] \<longrightarrow> r' = r)
     \<and> (sp_Invoice req = [] \<longrightarrow> rsp_Dest r' = sp_Target req \<and> rsp_Amt r' = sp_Amount req
         \<and> rsp_AmtMsat r' = sp_AmountMsat req
         \<and> rsp_FinalCltvDelta r' = ucast (sp_FinalCLTVDelta req)
         \<and> marshallRouteHints (pf_hints fns) (sp_RouteHints req) = Ok (rsp_RouteHints r'))"
proof (cases "sp_Invoice req = []")
  case True
  with assms obtain hints where "marshallRouteHints (pf_hints fns) (sp_RouteHints req) = Ok hints"
    by (auto simp: params_step_def Let_def)
  with True assms show ?thesis by (clarsimp simp: params_step_def Let_def)
qed (use assms in \<open>simp add: params_step_def\<close>)

lemma payment_request_invoice:
  assumes "payment_request fns req = Ok (rpcReq, callerRecs)" and "sp_Invoice req \<noteq> []"
  shows "rsp_PaymentRequest rpcReq = sp_Invoice req \<and> rsp_Dest rpcReq = [] \<and> rsp_Amt rpcReq = 0
     \<and> rsp_AmtMsat rpcReq = 0 \<and> rsp_PaymentHash rpcReq = [] \<and> rsp_RouteHints rpcReq = []"
proof -
  obtain h d where "params_step fns (req\<lparr>sp_PaymentHash := h\<rparr>)
     ((base_request fns req)\<lparr>rsp_DestCustomRecords := d\<rparr>) = Ok rpcReq"
    using assms(1) by (rule payment_request_steps)
  from params_step_keeps [OF this] assms(2) show ?thesis by (simp add: base_request_def)
qed

lemma payment_request_params:
  assumes "payment_request fns req = Ok (rpcReq, callerRecs)" and "sp_Invoice req = []"
  shows "rsp_Dest rpcReq = sp_Target req \<and> rsp_Amt rpcReq = sp_Amount req
     \<and> rsp_AmtMsat rpcReq = sp_AmountMsat req
     \<and> uint (rsp_FinalCltvDelta rpcReq) = uint (sp_FinalCLTVDelta req)
     \<and> marshallRouteHints (pf_hints fns) (sp_RouteHints req) = Ok (rsp_RouteHints rpcReq)"
proof -
  obtain h d where "params_step fns (req\<lparr>sp_PaymentHash := h\<rparr>)
     ((base_request fns req)\<lparr>rsp_DestCustomRecords := d\<rparr>) = Ok rpcReq"
    using assms(1) by (rule payment_request_steps)
  from params_step_keeps [OF this] assms(2) show ?thesis by simp
qed

lemma payment_request_limits:
  assumes "payment_request fns req = Ok (rpcReq, callerRecs)"
  shows "rsp_FeeLimitSat rpcReq = sp_MaxFee req \<and> rsp_FeeLimitMsat rpcReq = sp_MaxFeeMsat req
     \<and> rsp_OutgoingChanIds rpcReq = sp_OutgoingChanIds req
     \<and> rsp_MaxParts rpcReq = sp_MaxParts req
     \<and> rsp_TimeoutSeconds rpcReq = seconds_int32 (pf_conv32 fns) (sp_Timeout req)"
proof -
  obtain h d where "params_step fns (req\<lparr>sp_PaymentHash := h\<rparr>)
     ((base_request fns req)\<lparr>rsp_DestCustomRecords := d\<rparr>) = Ok rpcReq"
    using assms(1) by (rule payment_request_steps)
  from params_step_keeps [OF this] show ?thesis by (simp add: base_request_def)
qed

lemma seconds_int32_whole:
  assumes "sint d = n * 1000000000" and "- (2 ^ 31) \<le> n" and "n < 2 ^ 31"
  shows "sint (seconds_int32 conv d) = n"
  using assms sint_i32 [of n] by (simp add: seconds_int32_def Seconds_trunc_whole)

section \<open>Payment streams\<close>

interpretation payment_stream: subscription "trackPayment fns" for fns
proof
  show "disciplined (sub_defers (trackPayment fns)) (sub_ecap (trackPayment fns))
     (sub_body (trackPayment fns) r) True True True" for r
    by (simp add: trackPayment_def track_body_def on_go_disciplined split: recv.split go.split)
  show "ctx_sound (sub_body (trackPayment fns) r) False" for r
    by (simp add: trackPayment_def track_body_def on_go_ctx_sound split: recv.split)
  show "ends (sub_body (trackPayment fns) (RecvErr e))" for e
    by (simp add: trackPayment_def track_body_def)
qed

interpretation htlc_stream: subscription htlc_events_sub
  by unfold_locales (simp_all add: htlc_events_sub_def htlc_events_body_def split: recv.split)

section \<open>The result of a payment\<close>

definition final_state :: "PaymentState \<Rightarrow> bool" where
  "final_state s \<longleftrightarrow> s = Payment_SUCCEEDED \<or> s = Payment_FAILED"

definition unmarshall_with :: "invoice_fns \<Rightarrow> rpcPayment \<Rightarrow> PaymentStatus go" where
  "unmarshall_with fns =
     unmarshallPaymentStatus (tf_MakePreimage (if_track fns)) (tf_MakePreimageFromStr (if_track fns))"

lemma unmarshall_summary:
  assumes "unmarshallPaymentStatus M MS p = Ok st"
  shows "\<exists>st0. htlcs_summary M (rpay_Htlcs p) st0 st \<and> ps_Htlcs st0 = [] \<and> ps_InFlightHtlcs st0 = 0
     \<and> ps_InFlightAmt st0 = 0 \<and> ps_State st0 = rpay_Status p
     \<and> (rpay_Status p = Payment_SUCCEEDED \<longrightarrow> ps_Fee st0 = rpay_FeeMsat p
          \<and> ps_Value st0 = rpay_ValueMsat p
          \<and> (if rpay_PaymentPreimage p = [] then ps_Preimage st0 = replicate 32 0
             else MS (rpay_PaymentPreimage p) = Ok (ps_Preimage st0)))
     \<and> (rpay_Status p = Payment_FAILED \<longrightarrow> ps_FailureReason st0 = rpay_FailureReason p)
     \<and> (rpay_Status p \<noteq> Payment_SUCCEEDED \<longrightarrow> ps_Fee st0 = 0 \<and> ps_Value st0 = 0
          \<and> ps_Preimage st0 = replicate 32 0)
     \<and> (rpay_Status p \<noteq> Payment_FAILED \<longrightarrow> ps_FailureReason st0 = 0)"
proof -
  from assms obtain st0 where "add_htlcs M (rpay_Htlcs p) st0 = Ok st"
    and "ps_Htlcs st0 = [] \<and> ps_InFlightHtlcs st0 = 0 \<and> ps_InFlightAmt st0 = 0
      \<and> ps_State st0 = rpay_Status p
     \<and> (rpay_Status p = Payment_SUCCEEDED \<longrightarrow> ps_Fee st0 = rpay_FeeMsat p
          \<and> ps_Value st0 = rpay_ValueMsat p
          \<and> (if rpay_PaymentPreimage p = [] then ps_Preimage st0 = replicate 32 0
             else MS (rpay_PaymentPreimage p) = Ok (ps_Preimage st0)))
     \<and> (rpay_Status p = Payment_FAILED \<longrightarrow> ps_FailureReason st0 = rpay_FailureReason p)
     \<and> (rpay_Status p \<noteq> Payment_SUCCEEDED \<longrightarrow> ps_Fee st0 = 0 \<and> ps_Value st0 = 0
          \<and> ps_Preimage st0 = replicate 32 0)
     \<and> (rpay_Status p \<noteq> Payment_FAILED \<longrightarrow> ps_FailureReason st0 = 0)"
    unfolding unmarshallPaymentStatus_def Let_def
    by (cases "rpay_Status p") (auto split: if_splits)
  then show ?thesis using add_htlcs_summary by blast
qed

lemma unmarshall_state:
  "unmarshallPaymentStatus M MS p = Ok st \<Longrightarrow> ps_State st = rpay_Status p"
  by (drule unmarshall_summary) (auto simp: htlcs_summary_def)

text \<open>Updates of a payment that is not final are passed over.\<close>

lemma paymentResult_skip:
  assumes "\<And>p. p \<in> set ps \<Longrightarrow> is_ok (unmarshall_with fns p) \<and> \<not> final_state (rpay_Status p)"
  shows "paymentResultFromStream fns (map RecvOk ps @ rest) = paymentResultFromStream fns rest"
  using assms
proof (induction ps)
  case Nil
  show ?case by simp
next
  case (Cons p ps)
  then obtain st where st: "unmarshall_with fns p = Ok st"
    by (cases "unmarshall_with fns p") force+
  then have "ps_State st = rpay_Status p"
    by (simp add: unmarshall_with_def unmarshall_state)
  with st Cons show ?case
    by (cases "rpay_Status p") (auto simp: unmarshall_with_def final_state_def)
qed

lemma paymentResult_success:
  assumes "unmarshall_with fns p = Ok st" and "rpay_Status p = Payment_SUCCEEDED"
  shows "paymentResultFromStream fns (RecvOk p # rest) = PayResult \<lparr>pr_Err = None,
     pr_Preimage = ps_Preimage st, pr_PaidFee = if_ToSatoshis fns (ps_Fee st),
     pr_PaidAmt = if_ToSatoshis fns (ps_Value st)\<rparr>"
  using assms unmarshall_state by (fastforce simp: unmarshall_with_def)

section \<open>Mission control\<close>

definition pair_ok :: "(bytes \<Rightarrow> Vertex go) \<Rightarrow> rpcPairHistory \<Rightarrow> bool" where
  "pair_ok nv p \<longleftrightarrow> (\<forall>hist. ph_History p = Some hist \<longrightarrow>
     nv (ph_NodeFrom p) = Ok (ph_NodeFrom p) \<and> nv (ph_NodeTo p) = Ok (ph_NodeTo p)
     \<and> pd_FailTime hist \<noteq> word_of_int (- 62135596800)
     \<and> pd_SuccessTime hist \<noteq> word_of_int (- 62135596800))"

lemma IsZero_zero_time [simp]: "IsZero zero_time"
  by (simp add: IsZero_def)

lemma mission_pair_entry:
  assumes "ph_History p = Some hist" and "pd_FailTime hist \<noteq> word_of_int (- 62135596800)"
    and "pd_SuccessTime hist \<noteq> word_of_int (- 62135596800)"
  shows "mission_pair (mission_entry (ph_NodeFrom p) (ph_NodeTo p) hist) = p"
proof (cases p; cases hist)
  fix nf nt ho ft fa st sa
  assume "p = \<lparr>ph_NodeFrom = nf, ph_NodeTo = nt, ph_History = ho\<rparr>"
    and "hist = \<lparr>pd_FailTime = ft, pd_FailAmtMsat = fa, pd_SuccessTime = st,
      pd_SuccessAmtMsat = sa\<rparr>"
  with assms show ?thesis by (auto simp: mission_pair_def mission_entry_def time_Unix_zero_iff)
qed

lemma mission_roundtrip_aux:
  "(\<And>p. p \<in> set pairs \<Longrightarrow> pair_ok nv p) \<Longrightarrow>
     \<exists>entries. mission_entries nv pairs = Ok entries
       \<and> map mission_pair entries = filter (\<lambda>p. ph_History p \<noteq> None) pairs"
proof (induction pairs)
  case Nil
  show ?case by simp
next
  case (Cons p pairs)
  then obtain entries where e: "mission_entries nv pairs = Ok entries"
    "map mission_pair entries = filter (\<lambda>p. ph_History p \<noteq> None) pairs"
    by auto
  show ?case
  proof (cases "ph_History p")
    case None
    with e show ?thesis by simp
  next
    case (Some hist)
    with Cons.prems [of p] have "nv (ph_NodeFrom p) = Ok (ph_NodeFrom p)"
      "nv (ph_NodeTo p) = Ok (ph_NodeTo p)"
      "pd_FailTime hist \<noteq> word_of_int (- 62135596800)"
      "pd_SuccessTime hist \<noteq> word_of_int (- 62135596800)"
      by (auto simp: pair_ok_def)
    with Some e mission_pair_entry [OF Some] show ?thesis by simp
  qed
qed

section \<open>Interceptor answers\<close>

lemma interceptor_no_panic:
  "is_panic (rpcInterceptorResponse toU req resp) \<longleftrightarrow> resp = None"
  by (cases resp) (auto simp: rpcInterceptorResponse_def Let_def)

lemma interceptor_answer:
  assumes "rpcInterceptorResponse toU req (Some resp) = Ok out"
  shows "fr_ChanId out = toU (ck_ChanID (ih_IncomingCircuitKey req))
     \<and> fr_HtlcId out = ck_HtlcID (ih_IncomingCircuitKey req)
     \<and> (fr_Action out = ResolveHold_SETTLE \<longleftrightarrow> ir_Action resp = InterceptorActionSettle)
     \<and> (fr_Action out = ResolveHold_FAIL \<longleftrightarrow> ir_Action resp = InterceptorActionFail)
     \<and> (fr_Action out = ResolveHold_SETTLE \<longrightarrow> ir_Preimage resp = Some (fr_Preimage out))
     \<and> (fr_Action out \<noteq> ResolveHold_FAIL \<longrightarrow> fr_FailureMessage out = [] \<and> fr_FailureCode out = 0)
     \<and> (fr_FailureMessage out = [] \<or> fr_FailureCode out = 0)
     \<and> (fr_Action out \<noteq> ResolveHold_RESUME_MODIFIED \<longrightarrow>
          fr_InAmountMsat out = 0 \<and> fr_OutAmountMsat out = 0
          \<and> fr_OutWireCustomRecords out = None)"
  using assms
  by (auto simp: rpcInterceptorResponse_def Let_def interceptor_action_defs
      split: if_splits option.splits)

lemma interceptor_rejects:
  "ir_Action resp = InterceptorActionSettle \<Longrightarrow> ir_Preimage resp = None \<Longrightarrow>
     rpcInterceptorResponse toU req (Some resp) = Err (NewErr ''preimage required for settle'')"
  "ir_Action resp > InterceptorActionResumeModified \<Longrightarrow>
     \<exists>e. rpcInterceptorResponse toU req (Some resp) = Err e"
  by (auto simp: rpcInterceptorResponse_def Let_def interceptor_action_defs)

section \<open>Main theorems\<close>

text \<open>C12: a key send payment that was handed to lnd was given without a payment hash; the one request
  sent carries the fresh preimage under the key send record type, every other custom record of the
  caller unchanged, and, without an invoice, the hash of that preimage as payment hash.\<close>

theorem SendPayment_keysend:
  assumes "SendPayment r fns tfns srv c request h = (Ok sub, h')" and "sp_KeySend request"
  shows "sp_PaymentHash request = None \<and> (\<exists>preimage recs rpcReq. pf_rand fns = Ok preimage
     \<and> h' = h @ [(WithMacaroonAuth (router_mac r) c, SendPaymentV2Req rpcReq)]
     \<and> rsp_DestCustomRecords rpcReq = Some recs
     \<and> recs (pf_KeySendType fns) = Some preimage
     \<and> (\<forall>k. k \<noteq> pf_KeySendType fns \<longrightarrow> recs k = Option.bind (sp_CustomRecords request) (\<lambda>m. m k))
     \<and> (sp_Invoice request = [] \<longrightarrow> rsp_PaymentHash rpcReq = pf_Hash fns preimage))"
proof -
  from assms(1) obtain rpcReq recs where p: "payment_request fns request = Ok (rpcReq, recs)"
    and h': "h' = h @ [(WithMacaroonAuth (router_mac r) c, SendPaymentV2Req rpcReq)]"
    by (auto simp: SendPayment_def io_bind_def go_simps split: go.splits)
  have "sp_PaymentHash request = None"
    using keysend_preset_hash [OF assms(2), of fns] p by fastforce
  with payment_request_keysend [OF p assms(2)] h' show ?thesis
    by (auto simp: bind_split split: option.splits)
qed

definition example_pay_fns :: "unit pay_fns" where
  "example_pay_fns = \<lparr>pf_hints = \<lparr>SerializeCompressed = (\<lambda>_. [2]), NewVertexFromBytes = Ok,
     Vertex_String = (\<lambda>_. ''02'')\<rparr>, pf_conv32 = (\<lambda>_. 0), pf_rand = Ok (replicate 32 5),
     pf_Hash = rev, pf_KeySendType = 5482373484\<rparr>"

definition example_track_fns :: track_fns where
  "example_track_fns = \<lparr>tf_MakePreimage = Ok, tf_MakePreimageFromStr = (\<lambda>_. Ok (replicate 32 9)),
     tf_Code = (\<lambda>e. case e of StatusErr code m \<Rightarrow> code | _ \<Rightarrow> GrpcUnknown)\<rparr>"

definition example_payment :: "custom_records \<Rightarrow> unit SendPaymentRequest" where
  "example_payment recs = \<lparr>sp_Invoice = [], sp_MaxFee = 10, sp_MaxFeeMsat = 0, sp_MaxCltv = None,
     sp_OutgoingChanIds = [], sp_Timeout = 60000000000, sp_Target = replicate 33 2, sp_Amount = 1000,
     sp_AmountMsat = 0, sp_PaymentHash = None, sp_PaymentAddr = None, sp_FinalCLTVDelta = 40,
     sp_RouteHints = [], sp_DestFeatures = [], sp_LastHopPubkey = None, sp_MaxParts = 1,
     sp_KeySend = True, sp_CustomRecords = recs, sp_AllowSelfPayment = False, sp_TimePref = 0,
     sp_AMP = False, sp_Cancelable = False, sp_FirstHopCustomRecords = None\<rparr>"

lemma example_payment_sent:
  "is_ok (payment_request example_pay_fns (example_payment recs))"
  by (simp add: payment_request_def keysend_step_def example_payment_def example_pay_fns_def
      base_request_def params_step_def marshallRouteHints_def Let_def)

lemma example_SendPayment_Ok:
  assumes "is_ok (payment_request fns request)"
  shows "is_ok (fst (SendPayment r fns tfns (\<lambda>h c q. Ok ()) c request h))"
  using assms by (auto simp: SendPayment_def io_bind_def go_simps elim!: is_okE split: prod.splits)

lemma fst_okE: "is_ok (fst p) \<Longrightarrow> (\<And>x h. p = (Ok x, h) \<Longrightarrow> P) \<Longrightarrow> P"
  by (cases p) (auto elim: is_okE)

theorem SendPayment_keysend_witness:
  "\<exists>sub h'. SendPayment (newRouterClient ''m'' 1) example_pay_fns example_track_fns (\<lambda>h c q. Ok ()) BackgroundCtx
      (example_payment None) [] = (Ok sub, h')
     \<and> (\<exists>c rpcReq recs. h' = [(c, SendPaymentV2Req rpcReq)] \<and> rsp_DestCustomRecords rpcReq = Some recs
          \<and> recs 5482373484 = Some (replicate 32 5))"
proof -
  obtain sub h' where s: "SendPayment (newRouterClient ''m'' 1) example_pay_fns example_track_fns
      (\<lambda>h c q. Ok ()) BackgroundCtx (example_payment None) [] = (Ok sub, h')"
    using example_SendPayment_Ok [OF example_payment_sent] by (rule fst_okE)
  have "sp_KeySend (example_payment None)" by (simp add: example_payment_def)
  from SendPayment_keysend [OF s this] s show ?thesis by (auto simp: example_pay_fns_def)
qed

text \<open>C13: the request of an accepted payment without an invoice carries the caller's target, amounts,
  final delta and route hints, and always the caller's fee limits, part count and outgoing channels; a
  timeout of a whole number of seconds that fits 32 bits is that number.\<close>

theorem SendPayment_parameters:
  assumes "SendPayment r fns tfns srv c request h = (Ok sub, h')"
  shows "\<exists>rpcReq. h' = h @ [(WithMacaroonAuth (router_mac r) c, SendPaymentV2Req rpcReq)]
     \<and> rsp_FeeLimitSat rpcReq = sp_MaxFee request \<and> rsp_FeeLimitMsat rpcReq = sp_MaxFeeMsat request
     \<and> rsp_MaxParts rpcReq = sp_MaxParts request
     \<and> rsp_OutgoingChanIds rpcReq = sp_OutgoingChanIds request
     \<and> rsp_PaymentRequest rpcReq = sp_Invoice request
     \<and> (\<forall>n. sint (sp_Timeout request) = n * 1000000000 \<and> - (2 ^ 31) \<le> n \<and> n < 2 ^ 31
          \<longrightarrow> sint (rsp_TimeoutSeconds rpcReq) = n)
     \<and> (if sp_Invoice request = []
        then rsp_Dest rpcReq = sp_Target request \<and> rsp_Amt rpcReq = sp_Amount request
          \<and> rsp_AmtMsat rpcReq = sp_AmountMsat request
          \<and> uint (rsp_FinalCltvDelta rpcReq) = uint (sp_FinalCLTVDelta request)
          \<and> marshallRouteHints (pf_hints fns) (sp_RouteHints request) = Ok (rsp_RouteHints rpcReq)
        else rsp_Dest rpcReq = [] \<and> rsp_Amt rpcReq = 0 \<and> rsp_AmtMsat rpcReq = 0
          \<and> rsp_PaymentHash rpcReq = [] \<and> rsp_RouteHints rpcReq = [])"
proof -
  from assms obtain rpcReq recs where p: "payment_request fns request = Ok (rpcReq, recs)"
    and h': "h' = h @ [(WithMacaroonAuth (router_mac r) c, SendPaymentV2Req rpcReq)]"
    by (auto simp: SendPayment_def io_bind_def go_simps split: go.splits)
  obtain hash d where "params_step fns (request\<lparr>sp_PaymentHash := hash\<rparr>)
      ((base_request fns request)\<lparr>rsp_DestCustomRecords := d\<rparr>) = Ok rpcReq"
    using p by (rule payment_request_steps)
  from params_step_keeps [OF this] have "rsp_PaymentRequest rpcReq = sp_Invoice request"
    by (simp add: base_request_def)
  with h' payment_request_limits [OF p] payment_request_invoice [OF p] payment_request_params [OF p]
  show ?thesis
    by (intro exI [of _ rpcReq]) (auto simp: seconds_int32_whole)
qed

theorem SendPayment_parameters_witness:
  "\<exists>sub c rpcReq. SendPayment (newRouterClient ''m'' 1) example_pay_fns example_track_fns
       (\<lambda>h c q. Ok ()) BackgroundCtx (example_payment None) [] = (Ok sub, [(c, SendPaymentV2Req rpcReq)])
     \<and> rsp_FeeLimitSat rpcReq = 10 \<and> rsp_Amt rpcReq = 1000 \<and> sint (rsp_TimeoutSeconds rpcReq) = 60"
proof -
  obtain sub h' where s: "SendPayment (newRouterClient ''m'' 1) example_pay_fns example_track_fns
      (\<lambda>h c q. Ok ()) BackgroundCtx (example_payment None) [] = (Ok sub, h')"
    using example_SendPayment_Ok [OF example_payment_sent] by (rule fst_okE)
  have "sint (sp_Timeout (example_payment None)) = 60 * 1000000000"
    "sp_Invoice (example_payment None) = []" "sp_MaxFee (example_payment None) = 10"
    "sp_Amount (example_payment None) = 1000" by (simp_all add: example_payment_def)
  with SendPayment_parameters [OF s] s show ?thesis by (auto simp del: example_payment_def)
qed

text \<open>C37: key send writes the preimage into the map of custom records the caller passed in: after the
  request is built the caller's map has the preimage under the key send record type.\<close>

theorem keysend_writes_callers_map:
  assumes "payment_request fns request = Ok (rpcReq, callerRecs)" and "sp_KeySend request"
    and "sp_CustomRecords request = Some m"
  shows "\<exists>preimage. pf_rand fns = Ok preimage
     \<and> callerRecs = Some (m(pf_KeySendType fns \<mapsto> preimage))"
proof -
  from payment_request_keysend [OF assms(1,2)] assms(3) obtain pre recs where
    "pf_rand fns = Ok pre" "callerRecs = Some recs" "recs (pf_KeySendType fns) = Some pre"
    "\<forall>k. k \<noteq> pf_KeySendType fns \<longrightarrow> recs k = m k" by auto
  moreover from this have "recs = m(pf_KeySendType fns \<mapsto> pre)" by auto
  ultimately show ?thesis by blast
qed

theorem keysend_writes_callers_map_witness:
  "\<exists>rpcReq. payment_request example_pay_fns (example_payment (Some Map.empty))
     = Ok (rpcReq, Some [5482373484 \<mapsto> replicate 32 5])"
proof -
  obtain rpcReq recs where p: "payment_request example_pay_fns (example_payment (Some Map.empty))
     = Ok (rpcReq, recs)"
    using example_payment_sent [of "Some Map.empty"] by (auto elim!: is_okE)
  from keysend_writes_callers_map [OF this, of Map.empty] p show ?thesis
    by (auto simp: example_payment_def example_pay_fns_def)
qed

text \<open>C25: a payment status converted from lnd's update keeps its state and all its attempts in order;
  the number of attempts in flight and their amount, modulo \<open>2^64\<close>, are those of the update's own
  attempts in flight; fee, value and preimage are set only for a successful payment and the failure
  reason only for a failed one.\<close>

theorem unmarshallPaymentStatus_summary:
  assumes "unmarshallPaymentStatus MakePreimage MakePreimageFromStr p = Ok st"
  shows "ps_State st = rpay_Status p
     \<and> list_all2 (\<lambda>htlc a. NewHtlcAttempt MakePreimage htlc = Ok a) (rpay_Htlcs p) (ps_Htlcs st)
     \<and> ps_InFlightHtlcs st = length (filter in_flight (rpay_Htlcs p))
     \<and> ps_InFlightAmt st = sum_list (map last_hop_amount (filter in_flight (rpay_Htlcs p)))
     \<and> (if rpay_Status p = Payment_SUCCEEDED
        then ps_Fee st = rpay_FeeMsat p \<and> ps_Value st = rpay_ValueMsat p
          \<and> (if rpay_PaymentPreimage p = [] then ps_Preimage st = replicate 32 0
             else MakePreimageFromStr (rpay_PaymentPreimage p) = Ok (ps_Preimage st))
        else ps_Fee st = 0 \<and> ps_Value st = 0 \<and> ps_Preimage st = replicate 32 0)
     \<and> ps_FailureReason st = (if rpay_Status p = Payment_FAILED then rpay_FailureReason p else 0)"
proof -
  obtain st0 where sum: "htlcs_summary MakePreimage (rpay_Htlcs p) st0 st"
    and z: "ps_Htlcs st0 = []" "ps_InFlightHtlcs st0 = 0" "ps_InFlightAmt st0 = 0"
      "ps_State st0 = rpay_Status p"
    and ok: "rpay_Status p = Payment_SUCCEEDED \<longrightarrow> ps_Fee st0 = rpay_FeeMsat p
       \<and> ps_Value st0 = rpay_ValueMsat p
       \<and> (if rpay_PaymentPreimage p = [] then ps_Preimage st0 = replicate 32 0
          else MakePreimageFromStr (rpay_PaymentPreimage p) = Ok (ps_Preimage st0))"
    and failed: "rpay_Status p = Payment_FAILED \<longrightarrow> ps_FailureReason st0 = rpay_FailureReason p"
    and other: "rpay_Status p \<noteq> Payment_SUCCEEDED \<longrightarrow> ps_Fee st0 = 0 \<and> ps_Value st0 = 0
         \<and> ps_Preimage st0 = replicate 32 0"
      "rpay_Status p \<noteq> Payment_FAILED \<longrightarrow> ps_FailureReason st0 = 0"
    using unmarshall_summary [OF assms] by blast
  from sum obtain as where
    "list_all2 (\<lambda>h a. NewHtlcAttempt MakePreimage h = Ok a) (rpay_Htlcs p) as"
    and "ps_Htlcs st = ps_Htlcs st0 @ as"
    and "ps_InFlightHtlcs st = ps_InFlightHtlcs st0 + length (filter in_flight (rpay_Htlcs p))"
    and "ps_InFlightAmt st = ps_InFlightAmt st0
          + sum_list (map last_hop_amount (filter in_flight (rpay_Htlcs p)))"
    and "ps_State st = ps_State st0" "ps_Preimage st = ps_Preimage st0" "ps_Fee st = ps_Fee st0"
      "ps_Value st = ps_Value st0" "ps_FailureReason st = ps_FailureReason st0"
    unfolding htlcs_summary_def by blast
  with z ok failed other show ?thesis by (cases "rpay_Status p") simp_all
qed

definition example_attempt :: "HTLCStatus \<Rightarrow> i64 \<Rightarrow> rpcHTLCAttempt" where
  "example_attempt s amt = \<lparr>rha_Status = s, rha_Route = Some \<lparr>rt_TotalTimeLock = 10,
       rt_Hops = Some [\<lparr>hop_ChanId = 1, hop_Expiry = 9, hop_AmtToForwardMsat = amt, hop_FeeMsat = 0,
         hop_PubKey = ''02''\<rparr>], rt_TotalFeesMsat = 0, rt_TotalAmtMsat = amt\<rparr>,
     rha_AttemptTimeNs = 1, rha_ResolveTimeNs = 0, rha_Failure = None, rha_Preimage = None\<rparr>"

definition example_update :: "PaymentState \<Rightarrow> rpcPayment" where
  "example_update s = \<lparr>rpay_PaymentHash = ''aa'', rpay_PaymentRequest = [], rpay_PaymentIndex = 1,
     rpay_FirstHopCustomRecords = None, rpay_Status = s, rpay_PaymentPreimage = ''0a'',
     rpay_FeeMsat = 3, rpay_ValueMsat = 700, rpay_FailureReason = 2,
     rpay_Htlcs = [example_attempt HTLCAttempt_IN_FLIGHT 400,
                   example_attempt (HTLCAttempt_other 1) 100,
                   example_attempt HTLCAttempt_IN_FLIGHT 300]\<rparr>"

lemma example_update_ok: "is_ok (unmarshallPaymentStatus Ok (\<lambda>_. Ok b) (example_update s))"
  by (cases s) (simp_all add: unmarshallPaymentStatus_def example_update_def example_attempt_def
      NewHtlcAttempt_def AmountInFlight_def Let_def NewHtlcFailure_def)

theorem unmarshallPaymentStatus_summary_witness:
  "\<exists>st. unmarshallPaymentStatus Ok (\<lambda>_. Ok []) (example_update Payment_IN_FLIGHT) = Ok st
     \<and> ps_InFlightHtlcs st = 2 \<and> ps_InFlightAmt st = 700 \<and> ps_FailureReason st = 0"
proof -
  obtain st where st: "unmarshallPaymentStatus Ok (\<lambda>_. Ok []) (example_update Payment_IN_FLIGHT) = Ok st"
    using example_update_ok by (rule is_okE)
  from unmarshallPaymentStatus_summary [OF st] st show ?thesis
    by (simp add: example_update_def example_attempt_def in_flight_def last_hop_amount_def)
qed
text \<open>C15: the result of a payment is decided by the first event of its stream that is not an update of
  a payment still under way: a successful update gives its fee, amount and preimage, a failed one the
  text of its reason, an update that does not convert the error or the panic of the conversion, a
  canceled stream no result, the end of the stream the error \<open>payment stream closed\<close> and every other
  error of the stream that error. Without such an event there is no result yet.\<close>

theorem paymentResultFromStream_first_final:
  assumes "\<And>p. p \<in> set ps \<Longrightarrow> is_ok (unmarshall_with fns p) \<and> \<not> final_state (rpay_Status p)"
  shows "paymentResultFromStream fns (map RecvOk ps) = PayWaiting
     \<and> (\<forall>e rest. paymentResultFromStream fns (map RecvOk ps @ RecvErr e # rest)
          = (if tf_Code (if_track fns) e = GrpcCanceled then PayNil
             else pay_error (if e = IoEOF then NewErr ''payment stream closed'' else e)))
     \<and> (\<forall>p rest. case unmarshall_with fns p of
          Ok st \<Rightarrow> (rpay_Status p = Payment_SUCCEEDED \<longrightarrow>
              paymentResultFromStream fns (map RecvOk ps @ RecvOk p # rest)
                = PayResult \<lparr>pr_Err = None, pr_Preimage = ps_Preimage st,
                    pr_PaidFee = if_ToSatoshis fns (ps_Fee st),
                    pr_PaidAmt = if_ToSatoshis fns (ps_Value st)\<rparr>)
            \<and> (rpay_Status p = Payment_FAILED \<longrightarrow>
              paymentResultFromStream fns (map RecvOk ps @ RecvOk p # rest)
                = pay_error (NewErr (if_reason_text fns (ps_FailureReason st))))
        | Err e \<Rightarrow> paymentResultFromStream fns (map RecvOk ps @ RecvOk p # rest) = pay_error e
        | Panic t \<Rightarrow> paymentResultFromStream fns (map RecvOk ps @ RecvOk p # rest) = PayPanic t)"
proof (intro conjI allI)
  note skip = paymentResult_skip [OF assms]
  show "paymentResultFromStream fns (map RecvOk ps) = PayWaiting"
    using skip [where rest = "[]"] by simp
  show "paymentResultFromStream fns (map RecvOk ps @ RecvErr e # rest)
      = (if tf_Code (if_track fns) e = GrpcCanceled then PayNil
         else pay_error (if e = IoEOF then NewErr ''payment stream closed'' else e))" for e rest
    by (simp add: skip)
  fix p rest
  have first: "paymentResultFromStream fns (map RecvOk ps @ RecvOk p # rest)
      = paymentResultFromStream fns (RecvOk p # rest)"
    by (rule skip)
  have state: "unmarshall_with fns p = Ok st \<Longrightarrow> ps_State st = rpay_Status p" for st
    by (auto simp: unmarshall_with_def dest: unmarshall_state)
  show "case unmarshall_with fns p of
      Ok st \<Rightarrow> (rpay_Status p = Payment_SUCCEEDED \<longrightarrow>
          paymentResultFromStream fns (map RecvOk ps @ RecvOk p # rest)
            = PayResult \<lparr>pr_Err = None, pr_Preimage = ps_Preimage st,
                pr_PaidFee = if_ToSatoshis fns (ps_Fee st),
                pr_PaidAmt = if_ToSatoshis fns (ps_Value st)\<rparr>)
        \<and> (rpay_Status p = Payment_FAILED \<longrightarrow>
          paymentResultFromStream fns (map RecvOk ps @ RecvOk p # rest)
            = pay_error (NewErr (if_reason_text fns (ps_FailureReason st))))
    | Err e \<Rightarrow> paymentResultFromStream fns (map RecvOk ps @ RecvOk p # rest) = pay_error e
    | Panic t \<Rightarrow> paymentResultFromStream fns (map RecvOk ps @ RecvOk p # rest) = PayPanic t"
    unfolding first using state by (auto simp: unmarshall_with_def split: go.split)
qed

definition example_invoice_fns :: invoice_fns where
  "example_invoice_fns = \<lparr>if_track = example_track_fns,
     if_Decode = (\<lambda>s. Ok \<lparr>di_MilliSat = Some 700000, di_PaymentHash = Some (replicate 32 4)\<rparr>),
     if_ToSatoshis = (\<lambda>m. m div 1000), if_reason_text = (\<lambda>n. ''no route'')\<rparr>"

theorem paymentResultFromStream_first_final_witness:
  "paymentResultFromStream example_invoice_fns
     (map RecvOk [example_update Payment_IN_FLIGHT] @ [RecvErr IoEOF])
     = pay_error (NewErr ''payment stream closed'')"
proof -
  have "is_ok (unmarshall_with example_invoice_fns (example_update Payment_IN_FLIGHT))"
    by (simp add: unmarshall_with_def example_invoice_fns_def example_track_fns_def example_update_ok)
  then have "p \<in> set [example_update Payment_IN_FLIGHT] \<Longrightarrow>
      is_ok (unmarshall_with example_invoice_fns p) \<and> \<not> final_state (rpay_Status p)" for p
    by (auto simp: final_state_def example_update_def)
  then have "paymentResultFromStream example_invoice_fns
      (map RecvOk [example_update Payment_IN_FLIGHT] @ RecvErr IoEOF # [])
      = (if tf_Code (if_track example_invoice_fns) IoEOF = GrpcCanceled then PayNil
         else pay_error (if IoEOF = IoEOF then NewErr ''payment stream closed'' else IoEOF))"
    using paymentResultFromStream_first_final
      [of "[example_update Payment_IN_FLIGHT]" example_invoice_fns] by blast
  then show ?thesis by (simp add: example_invoice_fns_def example_track_fns_def)
qed

text \<open>C14: paying an invoice sends the payment at most once: beyond the calls made before there is
  nothing, or the payment, or, only when lnd answered the payment with \<open>AlreadyExists\<close>, the payment and
  one request to track it by the invoice's hash.\<close>

theorem router_payInvoice_sends_once:
  "let log = snd (router_payInvoice r fns send_srv track_srv c invoice maxFee ch recs h);
       rpcCtx = WithMacaroonAuth (router_mac r) c;
       req = invoice_request invoice maxFee ch recs
   in log = h \<or> log = h @ [(rpcCtx, SendPaymentV2Req req)]
      \<or> (\<exists>e payReq hash. send_srv h rpcCtx req = Err e
          \<and> tf_Code (if_track fns) e = GrpcAlreadyExists
          \<and> if_Decode fns invoice = Ok payReq \<and> di_PaymentHash payReq = Some hash
          \<and> log = h @ [(rpcCtx, SendPaymentV2Req req), (rpcCtx, TrackPaymentV2Req hash)])"
  by (auto simp: router_payInvoice_def Let_def io_try_def go_simps split: go.split option.split)

text \<open>C32: a fee estimate with a probe that lnd answered was asked for with a timeout between zero and
  the largest number of seconds 32 bits hold, and the one request sent names that timeout rounded up
  to whole seconds, without wrapping around.\<close>

theorem EstimateRouteFeeWithProbe_timeout:
  assumes "EstimateRouteFeeWithProbe r srv c invoice timeout h = (Ok res, h')"
  shows "0 \<le> sint timeout \<and> sint timeout \<le> 4294967295000000000
     \<and> (\<exists>req. h' = h @ [(WithMacaroonAuth (router_mac r) c, EstimateRouteFeeReq req)]
          \<and> rfr_PaymentRequest req = invoice
          \<and> sint timeout \<le> uint (rfr_Timeout req) * 1000000000
          \<and> uint (rfr_Timeout req) * 1000000000 < sint timeout + 1000000000)"
proof -
  have range: "\<not> (sint timeout < 0 \<or> sint timeout > 4294967295000000000)"
    using EstimateRouteFeeWithProbe_rejects [of timeout r srv c invoice h] assms by auto
  from assms obtain req where req: "probe_request invoice timeout = Ok req"
    and h': "h' = h @ [(WithMacaroonAuth (router_mac r) c, EstimateRouteFeeReq req)]"
    by (auto simp: EstimateRouteFeeWithProbe_def estimateRouteFee_def io_bind_def go_simps
        split: go.splits)
  have "rfr_PaymentRequest req = invoice \<and> sint timeout \<le> uint (rfr_Timeout req) * 1000000000
     \<and> uint (rfr_Timeout req) * 1000000000 < sint timeout + 1000000000"
  proof (cases "sint timeout = 0")
    case True
    with req show ?thesis by (auto simp: probe_request_def Let_def)
  next
    case False
    with range have "0 < sint timeout" "sint timeout \<le> 4294967295000000000" by auto
    from probe_request_timeout [OF this, of invoice] req show ?thesis by auto
  qed
  with range h' show ?thesis by auto
qed

theorem EstimateRouteFeeWithProbe_timeout_witness:
  "\<exists>res c req. EstimateRouteFeeWithProbe (newRouterClient ''m'' 1)
      (\<lambda>h c q. Ok \<lparr>rfs_RoutingFeeMsat = 5, rfs_TimeLockDelay = 40, rfs_FailureReason = 0\<rparr>)
      BackgroundCtx ''inv'' 1500000000 [] = (Ok res, [(c, EstimateRouteFeeReq req)])
     \<and> uint (rfr_Timeout req) = 2"
proof -
  let ?srv = "\<lambda>h c q. Ok \<lparr>rfs_RoutingFeeMsat = 5, rfs_TimeLockDelay = 40, rfs_FailureReason = 0\<rparr>"
  have t: "sint (1500000000 :: i64) = 1500000000" by simp
  have "is_ok (probe_request ''inv'' 1500000000)"
    using probe_request_timeout [of 1500000000 "''inv''"] t by auto
  then have "is_ok (fst (EstimateRouteFeeWithProbe (newRouterClient ''m'' 1) ?srv BackgroundCtx
      ''inv'' 1500000000 []))"
    by (auto simp: EstimateRouteFeeWithProbe_def estimateRouteFee_def io_bind_def go_simps
        elim!: is_okE)
  then obtain res h' where e: "EstimateRouteFeeWithProbe (newRouterClient ''m'' 1) ?srv BackgroundCtx
      ''inv'' 1500000000 [] = (Ok res, h')" by (rule fst_okE)
  from EstimateRouteFeeWithProbe_timeout [OF e] e t show ?thesis by auto
qed

text \<open>C30: reading mission control from one node and importing the result into another sends the pairs
  with a history as they were read, for every answer whose node keys are well formed and whose times
  are not the zero time of Go.\<close>

theorem mission_control_roundtrip:
  assumes "srv h (WithMacaroonAuth (router_mac r) (TimeoutCtx c (router_timeout r))) () = Ok pairs"
    and "\<And>p. p \<in> set pairs \<Longrightarrow> pair_ok NewVertex p"
  shows "\<exists>entries h1. QueryMissionControl r NewVertex srv c h = (Ok entries, h1)
     \<and> snd (ImportMissionControl r isrv c entries force h1)
       = h1 @ [(WithMacaroonAuth (router_mac r) (TimeoutCtx c (router_timeout r)),
                XImportMissionControlReq (filter (\<lambda>p. ph_History p \<noteq> None) pairs) force)]"
proof -
  obtain entries where "mission_entries NewVertex pairs = Ok entries"
    "map mission_pair entries = filter (\<lambda>p. ph_History p \<noteq> None) pairs"
    using mission_roundtrip_aux [OF assms(2)] by blast
  with assms(1) show ?thesis
    by (simp add: QueryMissionControl_def ImportMissionControl_def io_bind_def go_simps Let_def)
qed

theorem mission_control_roundtrip_witness:
  "let p = \<lparr>ph_NodeFrom = [1], ph_NodeTo = [2], ph_History = Some \<lparr>pd_FailTime = 5,
         pd_FailAmtMsat = 10, pd_SuccessTime = 0, pd_SuccessAmtMsat = 0\<rparr>\<rparr>;
       q = \<lparr>ph_NodeFrom = [], ph_NodeTo = [], ph_History = None\<rparr>
   in \<exists>entries h1 c. QueryMissionControl (newRouterClient ''m'' 1) Ok (\<lambda>h c u. Ok [p, q]) BackgroundCtx []
        = (Ok entries, h1)
      \<and> snd (ImportMissionControl (newRouterClient ''m'' 1) (\<lambda>h c u. Ok ()) BackgroundCtx entries True h1)
        = h1 @ [(c, XImportMissionControlReq [p] True)]"
proof -
  let ?p = "\<lparr>ph_NodeFrom = [1], ph_NodeTo = [2], ph_History = Some \<lparr>pd_FailTime = 5,
         pd_FailAmtMsat = 10, pd_SuccessTime = 0, pd_SuccessAmtMsat = 0\<rparr>\<rparr> :: rpcPairHistory"
  let ?q = "\<lparr>ph_NodeFrom = [], ph_NodeTo = [], ph_History = None\<rparr> :: rpcPairHistory"
  have ok: "x \<in> set [?p, ?q] \<Longrightarrow> pair_ok Ok x" for x
    by (auto simp: pair_ok_def)
  show ?thesis
    using mission_control_roundtrip [of "\<lambda>h c u. Ok [?p, ?q]" "[]" "newRouterClient ''m'' 1"
        BackgroundCtx "[?p, ?q]" Ok "\<lambda>h c u. Ok ()" True, OF refl ok]
    by (simp add: Let_def) blast
qed

text \<open>A decision the client accepts: a known action, a settle with a preimage, a failure without both a
  message and a code.\<close>

definition decision_ok :: "InterceptedHtlcResponse \<Rightarrow> bool" where
  "decision_ok resp \<longleftrightarrow> ir_Action resp \<le> InterceptorActionResumeModified
     \<and> (ir_Action resp = InterceptorActionSettle \<longrightarrow> ir_Preimage resp \<noteq> None)
     \<and> (ir_Action resp = InterceptorActionFail \<longrightarrow>
          ir_FailureMessage resp = [] \<or> ir_FailureCode resp = 0)"

lemma action_range: "(a :: u8) \<le> InterceptorActionResumeModified \<Longrightarrow> a \<in> {0, 1, 2, 3}"
proof -
  assume "a \<le> InterceptorActionResumeModified"
  then have "unat a \<le> 3" by (simp add: interceptor_action_defs word_le_nat_alt)
  then have "unat a \<in> {0, 1, 2, 3}" by (auto simp: numeral_eq_Suc le_Suc_eq)
  then show ?thesis by (auto simp: word_unat_eq_iff)
qed

text \<open>C33: an interception decision becomes an answer exactly when its action is one of the four known
  ones, a settle has a preimage and a failure not both a message and a code; the answer has the
  intercepted circuit key, lnd's name of that action and the preimage that was given, a failure
  message and code only for a failure, amounts and custom records only for a modified resume.\<close>

theorem rpcInterceptorResponse_contract:
  "case rpcInterceptorResponse toU req (Some resp) of
     Ok out \<Rightarrow> decision_ok resp
       \<and> fr_ChanId out = toU (ck_ChanID (ih_IncomingCircuitKey req))
       \<and> fr_HtlcId out = ck_HtlcID (ih_IncomingCircuitKey req)
       \<and> (ir_Action resp, fr_Action out) \<in> {(InterceptorActionSettle, ResolveHold_SETTLE),
            (InterceptorActionFail, ResolveHold_FAIL), (InterceptorActionResume, ResolveHold_RESUME),
            (InterceptorActionResumeModified, ResolveHold_RESUME_MODIFIED)}
       \<and> fr_Preimage out = (case ir_Preimage resp of None \<Rightarrow> [] | Some p \<Rightarrow> p)
       \<and> (if ir_Action resp = InterceptorActionFail
          then fr_FailureMessage out = ir_FailureMessage resp \<and> fr_FailureCode out = ir_FailureCode resp
          else fr_FailureMessage out = [] \<and> fr_FailureCode out = 0)
       \<and> (if ir_Action resp = InterceptorActionResumeModified
          then fr_InAmountMsat out = ir_IncomingAmount resp
            \<and> fr_OutAmountMsat out = ir_OutgoingAmount resp
            \<and> fr_OutWireCustomRecords out = ir_CustomRecords resp
          else fr_InAmountMsat out = 0 \<and> fr_OutAmountMsat out = 0
            \<and> fr_OutWireCustomRecords out = None)
   | Err e \<Rightarrow> \<not> decision_ok resp
   | Panic p \<Rightarrow> False"
proof (cases "ir_Action resp \<le> InterceptorActionResumeModified")
  case True
  then have "ir_Action resp \<in> {0, 1, 2, 3}"
    by (rule action_range)
  then show ?thesis
    by (auto simp: rpcInterceptorResponse_def decision_ok_def interceptor_action_defs Let_def
        split: option.split)
next
  case False
  then have "ir_Action resp > InterceptorActionResumeModified" by simp
  then obtain e where "rpcInterceptorResponse toU req (Some resp) = Err e"
    using interceptor_rejects(2) by blast
  with False show ?thesis by (simp add: decision_ok_def)
qed

end
