(* ===== verification/InvoiceTypes.thy ===== *)
theory InvoiceTypes
  imports Router
begin

text \<open>
  Invoices as \<open>lightning_client.go\<close> and \<open>invoices_client.go\<close> see them: \<open>unmarshalInvoice\<close> and its
  types. The states \<open>ContractOpen\<close>, ... are constants of lnd's \<open>invoices\<close> package.
\<close>

datatype ContractState = ContractOpen | ContractSettled | ContractCanceled | ContractAccepted

datatype rpcInvoiceState =
  Invoice_OPEN | Invoice_SETTLED | Invoice_CANCELED | Invoice_ACCEPTED | Invoice_other int

record 'scid InvoiceHtlc =
  invh_ChannelID :: 'scid
  invh_Amount :: MilliSatoshi
  invh_AcceptTime :: gotime
  invh_ResolveTime :: gotime
  invh_State :: i32
  invh_CustomRecords :: custom_records
  invh_CustomChannelData :: bytes

record 'scid Invoice =
  inv_Preimage :: "bytes option"
  inv_Hash :: bytes
  inv_Memo :: string
  inv_PaymentRequest :: string
  inv_Amount :: MilliSatoshi
  inv_AmountPaid :: MilliSatoshi
  inv_CreationDate :: gotime
  inv_SettleDate :: gotime
  inv_State :: ContractState
  inv_IsKeysend :: bool
  inv_Htlcs :: "'scid InvoiceHtlc list"
  inv_AddIndex :: u64
  inv_SettleIndex :: u64

record rpcInvoiceHTLC =
  rih_ChanId :: u64
  rih_AmtMsat :: u64
  rih_AcceptTime :: i64
  rih_ResolveTime :: i64
  rih_State :: i32
  rih_CustomRecords :: custom_records
  rih_CustomChannelData :: bytes

record rpcInvoice =
  rinv_Memo :: string
  rinv_RPreimage :: bytes
  rinv_RHash :: bytes
  rinv_ValueMsat :: i64
  rinv_AmtPaidSat :: i64
  rinv_AmtPaidMsat :: i64
  rinv_CreationDate :: i64
  rinv_SettleDate :: i64
  rinv_PaymentRequest :: string
  rinv_AddIndex :: u64
  rinv_SettleIndex :: u64
  rinv_State :: rpcInvoiceState
  rinv_Htlcs :: "rpcInvoiceHTLC list"
  rinv_IsKeysend :: bool
  rinv_IsAmp :: bool

text \<open>The functions of \<open>lntypes\<close> and \<open>lnwire\<close> the conversion uses.\<close>

record 'scid inv_fns =
  vf_MakeHash :: "bytes \<Rightarrow> bytes go"
  vf_MakePreimage :: "bytes \<Rightarrow> bytes go"
  vf_NewShortChanID :: "u64 \<Rightarrow> 'scid"

definition unmarshalInvoiceHtlc :: "'scid inv_fns \<Rightarrow> rpcInvoiceHTLC \<Rightarrow> 'scid InvoiceHtlc" where
  "unmarshalInvoiceHtlc fns htlc =
     \<lparr>invh_ChannelID = vf_NewShortChanID fns (rih_ChanId htlc),
      invh_Amount = rih_AmtMsat htlc,
      invh_AcceptTime = (if rih_AcceptTime htlc \<noteq> 0 then time_Unix (rih_AcceptTime htlc) 0
                         else zero_time),
      invh_ResolveTime = (if rih_ResolveTime htlc \<noteq> 0 then time_Unix (rih_ResolveTime htlc) 0
                          else zero_time),
      invh_State = rih_State htlc,
      invh_CustomRecords = rih_CustomRecords htlc,
      invh_CustomChannelData = rih_CustomChannelData htlc\<rparr>"

text \<open>The switch over the state of the invoice: the contract state and the preimage.\<close>

definition invoice_state ::
  "'scid inv_fns \<Rightarrow> rpcInvoice \<Rightarrow> (ContractState \<times> bytes option) go" where
  "invoice_state fns resp = (case rinv_State resp of
       Invoice_OPEN \<Rightarrow> Ok (ContractOpen, None)
     | Invoice_ACCEPTED \<Rightarrow> Ok (ContractAccepted, None)
     | Invoice_SETTLED \<Rightarrow>
         if \<not> rinv_IsAmp resp then
           go_bind (vf_MakePreimage fns (rinv_RPreimage resp)) (\<lambda>preimage.
             Ok (ContractSettled, Some preimage))
         else Ok (ContractSettled, None)
     | Invoice_CANCELED \<Rightarrow> Ok (ContractCanceled, None)
     | Invoice_other n \<Rightarrow> Err (FmtVal ''unknown invoice state: '' (show_int n)))"

definition unmarshalInvoice :: "'scid inv_fns \<Rightarrow> rpcInvoice \<Rightarrow> 'scid Invoice go" where
  "unmarshalInvoice fns resp =
     go_bind (vf_MakeHash fns (rinv_RHash resp)) (\<lambda>hash.
     go_bind (invoice_state fns resp) (\<lambda>(state, preimage).
       Ok \<lparr>inv_Preimage = preimage,
           inv_Hash = hash,
           inv_Memo = rinv_Memo resp,
           inv_PaymentRequest = rinv_PaymentRequest resp,
           inv_Amount = rinv_ValueMsat resp,
           inv_AmountPaid = rinv_AmtPaidMsat resp,
           inv_CreationDate = time_Unix (rinv_CreationDate resp) 0,
           inv_SettleDate = (if rinv_SettleDate resp \<noteq> 0 then time_Unix (rinv_SettleDate resp) 0
                             else zero_time),
           inv_State = state,
           inv_IsKeysend = rinv_IsKeysend resp,
           inv_Htlcs = map (unmarshalInvoiceHtlc fns) (rinv_Htlcs resp),
           inv_AddIndex = rinv_AddIndex resp,
           inv_SettleIndex = rinv_SettleIndex resp\<rparr>))"

section \<open>Properties\<close>

text \<open>The state of the invoice decides the preimage: one is there exactly for a settled invoice that
  is no AMP invoice, and it is the one lnd sent.\<close>

lemma invoice_state_preimage:
  assumes "invoice_state fns resp = Ok (st, p)"
  shows "(p \<noteq> None \<longleftrightarrow> rinv_State resp = Invoice_SETTLED \<and> \<not> rinv_IsAmp resp)
     \<and> (\<forall>b. p = Some b \<longrightarrow> vf_MakePreimage fns (rinv_RPreimage resp) = Ok b)"
  using assms by (auto simp: invoice_state_def split: rpcInvoiceState.splits if_splits)

lemma unmarshalInvoice_no_panic:
  "(\<And>b. \<not> is_panic (vf_MakeHash fns b)) \<Longrightarrow> (\<And>b. \<not> is_panic (vf_MakePreimage fns b)) \<Longrightarrow>
     \<not> is_panic (unmarshalInvoice fns resp)"
  by (auto simp: unmarshalInvoice_def invoice_state_def split: rpcInvoiceState.split)

text \<open>The states map one to one.\<close>

lemma invoice_state_inj:
  assumes "invoice_state fns a = Ok (s, p)" and "invoice_state fns b = Ok (s, q)"
  shows "rinv_State a = rinv_State b"
  using assms by (auto simp: invoice_state_def split: rpcInvoiceState.splits if_splits)

section \<open>Main theorems\<close>

text \<open>What the conversion of an htlc has to give: its channel, amount, state and records, with a zero
  time for a time that was not set.\<close>

definition same_time :: "i64 \<Rightarrow> gotime \<Rightarrow> bool" where
  "same_time secs t \<longleftrightarrow> (if secs = 0 then IsZero t else t = time_Unix secs 0)"

definition same_htlc :: "(u64 \<Rightarrow> 'scid) \<Rightarrow> rpcInvoiceHTLC \<Rightarrow> 'scid InvoiceHtlc \<Rightarrow> bool" where
  "same_htlc scid r c \<longleftrightarrow> invh_ChannelID c = scid (rih_ChanId r) \<and> invh_Amount c = rih_AmtMsat r
     \<and> same_time (rih_AcceptTime r) (invh_AcceptTime c)
     \<and> same_time (rih_ResolveTime r) (invh_ResolveTime c) \<and> invh_State c = rih_State r
     \<and> invh_CustomRecords c = rih_CustomRecords r
     \<and> invh_CustomChannelData c = rih_CustomChannelData r"

lemma unmarshalInvoiceHtlc_same: "same_htlc (vf_NewShortChanID fns) r (unmarshalInvoiceHtlc fns r)"
  by (simp add: same_htlc_def same_time_def unmarshalInvoiceHtlc_def IsZero_def)

lemma invoice_state_same:
  "invoice_state fns resp = Ok (st, p) \<Longrightarrow> (rinv_State resp, st) \<in> {(Invoice_OPEN, ContractOpen),
     (Invoice_ACCEPTED, ContractAccepted), (Invoice_SETTLED, ContractSettled),
     (Invoice_CANCELED, ContractCanceled)}"
  by (auto simp: invoice_state_def split: rpcInvoiceState.splits if_splits)

text \<open>C29: an invoice converted from lnd's answer has a preimage exactly when lnd reports it settled and
  it is not an AMP invoice, and then it is the one lnd revealed; it is open, accepted, settled or
  canceled as lnd reports; its hash, texts, amounts, indexes, dates and htlcs, in order, are those of
  the answer, with a zero time for a settle date that was not set.\<close>

theorem unmarshalInvoice_preimage:
  assumes "unmarshalInvoice fns resp = Ok i"
  shows "(inv_Preimage i \<noteq> None \<longleftrightarrow> rinv_State resp = Invoice_SETTLED \<and> \<not> rinv_IsAmp resp)
     \<and> (\<forall>p. inv_Preimage i = Some p \<longrightarrow> vf_MakePreimage fns (rinv_RPreimage resp) = Ok p)
     \<and> (rinv_State resp, inv_State i) \<in> {(Invoice_OPEN, ContractOpen),
          (Invoice_ACCEPTED, ContractAccepted), (Invoice_SETTLED, ContractSettled),
          (Invoice_CANCELED, ContractCanceled)}
     \<and> vf_MakeHash fns (rinv_RHash resp) = Ok (inv_Hash i)
     \<and> list_all2 (same_htlc (vf_NewShortChanID fns)) (rinv_Htlcs resp) (inv_Htlcs i)
     \<and> inv_Memo i = rinv_Memo resp \<and> inv_PaymentRequest i = rinv_PaymentRequest resp
     \<and> inv_Amount i = rinv_ValueMsat resp \<and> inv_AmountPaid i = rinv_AmtPaidMsat resp
     \<and> inv_IsKeysend i = rinv_IsKeysend resp
     \<and> inv_AddIndex i = rinv_AddIndex resp \<and> inv_SettleIndex i = rinv_SettleIndex resp
     \<and> inv_CreationDate i = time_Unix (rinv_CreationDate resp) 0
     \<and> same_time (rinv_SettleDate resp) (inv_SettleDate i)"
proof -
  from assms obtain hash st p where hash: "vf_MakeHash fns (rinv_RHash resp) = Ok hash"
    and st: "invoice_state fns resp = Ok (st, p)"
    and i: "i = \<lparr>inv_Preimage = p, inv_Hash = hash, inv_Memo = rinv_Memo resp,
       inv_PaymentRequest = rinv_PaymentRequest resp, inv_Amount = rinv_ValueMsat resp,
       inv_AmountPaid = rinv_AmtPaidMsat resp, inv_CreationDate = time_Unix (rinv_CreationDate resp) 0,
       inv_SettleDate = (if rinv_SettleDate resp \<noteq> 0 then time_Unix (rinv_SettleDate resp) 0
                         else zero_time),
       inv_State = st, inv_IsKeysend = rinv_IsKeysend resp,
       inv_Htlcs = map (unmarshalInvoiceHtlc fns) (rinv_Htlcs resp),
       inv_AddIndex = rinv_AddIndex resp, inv_SettleIndex = rinv_SettleIndex resp\<rparr>"
    unfolding unmarshalInvoice_def by auto
  have htlcs: "list_all2 (same_htlc (vf_NewShortChanID fns)) rs (map (unmarshalInvoiceHtlc fns) rs)"
    for rs by (induction rs) (simp_all add: unmarshalInvoiceHtlc_same)
  show ?thesis
    using invoice_state_preimage [OF st] invoice_state_same [OF st]
    by (simp only: i Invoice.simps htlcs hash) (simp add: same_time_def IsZero_def)
qed

definition example_invoice :: "rpcInvoiceState \<Rightarrow> rpcInvoice" where
  "example_invoice st = \<lparr>rinv_Memo = ''m'', rinv_RPreimage = [5], rinv_RHash = [6], rinv_ValueMsat = 1000,
     rinv_AmtPaidSat = 1, rinv_AmtPaidMsat = 1000, rinv_CreationDate = 10, rinv_SettleDate = 0,
     rinv_PaymentRequest = ''ln'', rinv_AddIndex = 1, rinv_SettleIndex = 0, rinv_State = st,
     rinv_Htlcs = [], rinv_IsKeysend = False, rinv_IsAmp = False\<rparr>"

definition example_inv_fns :: "u64 inv_fns" where
  "example_inv_fns = \<lparr>vf_MakeHash = Ok, vf_MakePreimage = Ok, vf_NewShortChanID = id\<rparr>"

theorem unmarshalInvoice_preimage_witness:
  "\<exists>i. unmarshalInvoice example_inv_fns (example_invoice Invoice_SETTLED) = Ok i
     \<and> inv_Preimage i = Some [5] \<and> inv_State i = ContractSettled \<and> IsZero (inv_SettleDate i)"
proof -
  have "is_ok (unmarshalInvoice example_inv_fns (example_invoice Invoice_SETTLED))"
    by (simp add: unmarshalInvoice_def invoice_state_def example_inv_fns_def example_invoice_def)
  then obtain i where i: "unmarshalInvoice example_inv_fns (example_invoice Invoice_SETTLED) = Ok i"
    by (rule is_okE)
  from unmarshalInvoice_preimage [OF i] i show ?thesis
    by (auto simp: example_invoice_def example_inv_fns_def same_time_def)
qed

end
