(* ===== verification/Interceptor.thy ===== *)
theory Interceptor
  imports Prelude
begin

text \<open>
  The machine behind \<open>InterceptHtlcs\<close> (\<open>router_client.go\<close>) and \<open>HtlcModifier\<close>
  (\<open>invoices_client.go\<close>), which have the same structure: a main loop, a reader goroutine that turns
  stream messages into requests, one handler goroutine per request, an error channel of capacity one,
  a request channel without buffer, the client's quit channel and a child context that the main loop
  cancels when it returns.

  \<open>convert\<close> is the code between \<open>stream.Recv\<close> and the request channel, \<open>answer\<close> the code between the
  handler and \<open>stream.Send\<close>; both are given by the theories of the two clients.
\<close>

datatype 'q reader_pc =
    ReaderTop                 \<comment> \<open>before the check of \<open>ctx.Err()\<close>\<close>
  | ReaderRecv
  | ReaderOffer 'q            \<comment> \<open>select on the request channel, quit and \<open>ctx.Done()\<close>\<close>
  | ReaderSendErr go_error
  | ReaderDone
  | ReaderFault string

datatype 'a handler_pc =
    HandlerRun                \<comment> \<open>in the callback\<close>
  | HandlerSend 'a            \<comment> \<open>in \<open>stream.Send\<close>\<close>
  | HandlerSendErr go_error
  | HandlerDone
  | HandlerFault string

datatype main_pc = MainLoop | MainReturned go_error

record ('q, 'a) ic =
  ic_main :: main_pc
  ic_reader :: "'q reader_pc"
  ic_handlers :: "('q \<times> 'a handler_pc) list"
  ic_errs :: "go_error list"
  ic_ctx :: "go_error option"
  ic_quit :: bool
  ic_sent :: "'a list"

definition ic_init :: "('q, 'a) ic" where
  "ic_init = \<lparr>ic_main = MainLoop, ic_reader = ReaderTop, ic_handlers = [], ic_errs = [],
     ic_ctx = None, ic_quit = False, ic_sent = []\<rparr>"

text \<open>The main loop returns and its deferred \<open>cancel\<close> runs.\<close>

definition ic_return :: "go_error \<Rightarrow> ('q, 'a) ic \<Rightarrow> ('q, 'a) ic" where
  "ic_return e s = s\<lparr>ic_main := MainReturned e,
     ic_ctx := (case ic_ctx s of None \<Rightarrow> Some CtxCanceled | Some x \<Rightarrow> Some x)\<rparr>"

fun after_convert :: "'q go \<Rightarrow> 'q reader_pc" where
  "after_convert (Ok q) = ReaderOffer q"
| "after_convert (Err e) = ReaderSendErr e"
| "after_convert (Panic p) = ReaderFault p"

fun after_answer :: "'a go \<Rightarrow> 'a handler_pc" where
  "after_answer (Ok a) = HandlerSend a"
| "after_answer (Err e) = HandlerSendErr e"
| "after_answer (Panic p) = HandlerFault p"

inductive istep ::
  "('m \<Rightarrow> 'q go) \<Rightarrow> ('q \<Rightarrow> 'p \<Rightarrow> 'a go) \<Rightarrow> ('q, 'a) ic \<Rightarrow> ('q, 'a) ic \<Rightarrow> bool"
  for convert answer where
  top_done: "ic_reader s = ReaderTop \<Longrightarrow> ic_ctx s \<noteq> None \<Longrightarrow>
    istep convert answer s (s\<lparr>ic_reader := ReaderDone\<rparr>)"
| top_recv: "ic_reader s = ReaderTop \<Longrightarrow> ic_ctx s = None \<Longrightarrow>
    istep convert answer s (s\<lparr>ic_reader := ReaderRecv\<rparr>)"
| recv_msg: "ic_reader s = ReaderRecv \<Longrightarrow>
    istep convert answer s (s\<lparr>ic_reader := after_convert (convert m)\<rparr>)"
| recv_err: "ic_reader s = ReaderRecv \<Longrightarrow>
    istep convert answer s (s\<lparr>ic_reader := ReaderSendErr e\<rparr>)"
| take: "ic_reader s = ReaderOffer q \<Longrightarrow> ic_main s = MainLoop \<Longrightarrow>
    istep convert answer s
      (s\<lparr>ic_reader := ReaderTop, ic_handlers := ic_handlers s @ [(q, HandlerRun)]\<rparr>)"
| offer_quit: "ic_reader s = ReaderOffer q \<Longrightarrow> ic_quit s \<Longrightarrow>
    istep convert answer s (s\<lparr>ic_reader := ReaderSendErr (Sentinel ErrRouterShuttingDown)\<rparr>)"
| offer_done: "ic_reader s = ReaderOffer q \<Longrightarrow> ic_ctx s = Some e \<Longrightarrow>
    istep convert answer s (s\<lparr>ic_reader := ReaderSendErr e\<rparr>)"
| reader_err: "ic_reader s = ReaderSendErr e \<Longrightarrow> ic_errs s = [] \<Longrightarrow>
    istep convert answer s (s\<lparr>ic_reader := ReaderDone, ic_errs := [e]\<rparr>)"
| reader_err_drop: "ic_reader s = ReaderSendErr e \<Longrightarrow> ic_ctx s \<noteq> None \<or> ic_quit s \<Longrightarrow>
    istep convert answer s (s\<lparr>ic_reader := ReaderDone\<rparr>)"
| handled: "i < length (ic_handlers s) \<Longrightarrow> ic_handlers s ! i = (q, HandlerRun) \<Longrightarrow>
    istep convert answer s
      (s\<lparr>ic_handlers := (ic_handlers s)[i := (q, after_answer (answer q resp))]\<rparr>)"
| handler_failed: "i < length (ic_handlers s) \<Longrightarrow> ic_handlers s ! i = (q, HandlerRun) \<Longrightarrow>
    istep convert answer s (s\<lparr>ic_handlers := (ic_handlers s)[i := (q, HandlerSendErr e)]\<rparr>)"
| sent: "i < length (ic_handlers s) \<Longrightarrow> ic_handlers s ! i = (q, HandlerSend a) \<Longrightarrow>
    istep convert answer s
      (s\<lparr>ic_handlers := (ic_handlers s)[i := (q, HandlerDone)], ic_sent := ic_sent s @ [a]\<rparr>)"
| send_failed: "i < length (ic_handlers s) \<Longrightarrow> ic_handlers s ! i = (q, HandlerSend a) \<Longrightarrow>
    istep convert answer s (s\<lparr>ic_handlers := (ic_handlers s)[i := (q, HandlerSendErr e)]\<rparr>)"
| handler_err: "i < length (ic_handlers s) \<Longrightarrow> ic_handlers s ! i = (q, HandlerSendErr e) \<Longrightarrow>
    ic_errs s = [] \<Longrightarrow>
    istep convert answer s
      (s\<lparr>ic_handlers := (ic_handlers s)[i := (q, HandlerDone)], ic_errs := [e]\<rparr>)"
| handler_err_drop: "i < length (ic_handlers s) \<Longrightarrow> ic_handlers s ! i = (q, HandlerSendErr e) \<Longrightarrow>
    ic_ctx s \<noteq> None \<or> ic_quit s \<Longrightarrow>
    istep convert answer s (s\<lparr>ic_handlers := (ic_handlers s)[i := (q, HandlerDone)]\<rparr>)"
| main_err: "ic_main s = MainLoop \<Longrightarrow> ic_errs s = [e] \<Longrightarrow>
    istep convert answer s (ic_return e (s\<lparr>ic_errs := []\<rparr>))"
| main_quit: "ic_main s = MainLoop \<Longrightarrow> ic_quit s \<Longrightarrow>
    istep convert answer s (ic_return (Sentinel ErrRouterShuttingDown) s)"
| main_done: "ic_main s = MainLoop \<Longrightarrow> ic_ctx s = Some e \<Longrightarrow>
    istep convert answer s (ic_return e s)"
| cancel: "ic_ctx s = None \<Longrightarrow> e = CtxCanceled \<or> e = CtxDeadlineExceeded \<Longrightarrow>
    istep convert answer s (s\<lparr>ic_ctx := Some e\<rparr>)"
| quit: "\<not> ic_quit s \<Longrightarrow> istep convert answer s (s\<lparr>ic_quit := True\<rparr>)"

inductive ireach ::
  "('m \<Rightarrow> 'q go) \<Rightarrow> ('q \<Rightarrow> 'p \<Rightarrow> 'a go) \<Rightarrow> ('q, 'a) ic \<Rightarrow> bool" for convert answer where
  init: "ireach convert answer ic_init"
| step: "ireach convert answer s \<Longrightarrow> istep convert answer s t \<Longrightarrow> ireach convert answer t"

section \<open>Shutdown\<close>

fun reader_gone :: "'q reader_pc \<Rightarrow> bool" where
  "reader_gone ReaderDone = True"
| "reader_gone (ReaderFault p) = True"
| "reader_gone _ = False"

fun handler_gone :: "'a handler_pc \<Rightarrow> bool" where
  "handler_gone HandlerDone = True"
| "handler_gone (HandlerFault p) = True"
| "handler_gone _ = False"

definition ic_gone :: "('q, 'a) ic \<Rightarrow> bool" where
  "ic_gone s \<longleftrightarrow> ic_main s \<noteq> MainLoop \<and> reader_gone (ic_reader s)
     \<and> (\<forall>(q, h) \<in> set (ic_handlers s). handler_gone h)"

text \<open>
  The end of the caller's context and the shutdown of the client come from outside; every other step
  is one of the main loop, the reader or a handler. In a state that must exit everything is gone or
  one of these can move without help from outside, and every step leads to such a state.
\<close>

definition ic_outside :: "('q, 'a) ic \<Rightarrow> ('q, 'a) ic \<Rightarrow> bool" where
  "ic_outside s t \<longleftrightarrow> t = s\<lparr>ic_quit := True\<rparr> \<or> (\<exists>e. t = s\<lparr>ic_ctx := Some e\<rparr>)"

inductive all_exit ::
  "('m \<Rightarrow> 'q go) \<Rightarrow> ('q \<Rightarrow> 'p \<Rightarrow> 'a go) \<Rightarrow> ('q, 'a) ic \<Rightarrow> bool" for convert answer where
  gone: "ic_gone s \<Longrightarrow> (\<And>t. istep convert answer s t \<Longrightarrow> all_exit convert answer t) \<Longrightarrow>
    all_exit convert answer s"
| more: "istep convert answer s t \<Longrightarrow> \<not> ic_outside s t \<Longrightarrow>
    (\<And>t. istep convert answer s t \<Longrightarrow> all_exit convert answer t) \<Longrightarrow> all_exit convert answer s"

text \<open>A step of one of the goroutines changes its program counter.\<close>

lemma not_outside:
  "ic_reader t \<noteq> ic_reader s \<or> ic_main t \<noteq> ic_main s \<or> ic_handlers t \<noteq> ic_handlers s \<Longrightarrow> \<not> ic_outside s t"
  by (auto simp: ic_outside_def)

fun reader_work :: "'q reader_pc \<Rightarrow> nat" where
  "reader_work ReaderTop = 1"
| "reader_work ReaderRecv = 7"
| "reader_work (ReaderOffer q) = 6"
| "reader_work (ReaderSendErr e) = 1"
| "reader_work ReaderDone = 0"
| "reader_work (ReaderFault p) = 0"

fun handler_work :: "'a handler_pc \<Rightarrow> nat" where
  "handler_work HandlerRun = 3"
| "handler_work (HandlerSend a) = 2"
| "handler_work (HandlerSendErr e) = 1"
| "handler_work HandlerDone = 0"
| "handler_work (HandlerFault p) = 0"

definition ic_work :: "('q, 'a) ic \<Rightarrow> nat" where
  "ic_work s = (if ic_main s = MainLoop then 1 else 0) + (if ic_quit s then 0 else 1)
     + reader_work (ic_reader s) + sum_list (map (\<lambda>(q, h). handler_work h) (ic_handlers s))"

lemma sum_list_update_less:
  fixes f :: "'b \<Rightarrow> nat"
  assumes "i < length xs" and "f y < f (xs ! i)"
  shows "sum_list (map f (xs[i := y])) < sum_list (map f xs)"
  using assms
proof (induction xs arbitrary: i)
  case Nil
  then show ?case by simp
next
  case (Cons x xs)
  then show ?case by (cases i) auto
qed

lemma handler_update_less:
  assumes "i < length hs" and "hs ! i = (q, h)" and "handler_work h' < handler_work h"
  shows "sum_list (map (\<lambda>(q, h). handler_work h) (hs[i := (q, h')]))
    < sum_list (map (\<lambda>(q, h). handler_work h) hs)"
  using assms by (intro sum_list_update_less) auto

lemma after_convert_work: "reader_work (after_convert r) < 7"
  by (cases r) auto

lemma after_answer_work: "handler_work (after_answer r) < 3"
  by (cases r) auto

lemma istep_work:
  "istep convert answer s t \<Longrightarrow> ic_ctx s \<noteq> None \<Longrightarrow> ic_work t < ic_work s"
proof (induction rule: istep.induct)
  case (recv_msg s m)
  then show ?case using after_convert_work [of "convert m"] by (simp add: ic_work_def)
next
  case (handled i s q resp)
  then show ?case
    using handler_update_less [OF handled(1,2), of "after_answer (answer q resp)"]
      after_answer_work [of "answer q resp"] by (simp add: ic_work_def)
next
  case (handler_failed i s q e)
  then show ?case
    using handler_update_less [OF handler_failed(1,2), of "HandlerSendErr e"]
    by (simp add: ic_work_def)
next
  case (sent i s q a)
  then show ?case
    using handler_update_less [OF sent(1,2), of HandlerDone] by (simp add: ic_work_def)
next
  case (send_failed i s q a e)
  then show ?case
    using handler_update_less [OF send_failed(1,2), of "HandlerSendErr e"]
    by (simp add: ic_work_def)
next
  case (handler_err i s q e)
  then show ?case
    using handler_update_less [OF handler_err(1,2), of HandlerDone] by (simp add: ic_work_def)
next
  case (handler_err_drop i s q e)
  then show ?case
    using handler_update_less [OF handler_err_drop(1,2), of HandlerDone]
    by (simp add: ic_work_def)
qed (auto simp: ic_work_def ic_return_def)

lemma istep_ctx: "istep convert answer s t \<Longrightarrow> ic_ctx s \<noteq> None \<Longrightarrow> ic_ctx t \<noteq> None"
  by (induction rule: istep.induct) (auto simp: ic_return_def)

lemma reader_progress:
  assumes ctx: "ic_ctx s = Some e" and "\<not> reader_gone (ic_reader s)"
  shows "\<exists>t. istep convert answer s t \<and> ic_reader t \<noteq> ic_reader s"
proof (cases "ic_reader s")
  case ReaderTop
  with ctx show ?thesis by - (intro exI conjI, rule istep.top_done, simp_all)
next
  case ReaderRecv
  then show ?thesis by - (intro exI conjI, rule istep.recv_err, simp_all)
next
  case (ReaderOffer q)
  with ctx show ?thesis by - (intro exI conjI, rule istep.offer_done, simp_all)
next
  case (ReaderSendErr e')
  with ctx show ?thesis by - (intro exI conjI, rule istep.reader_err_drop, simp_all)
qed (use assms in simp_all)

lemma handler_progress:
  assumes ctx: "ic_ctx s = Some e" and i: "i < length (ic_handlers s)" "ic_handlers s ! i = (q, h)"
    and "\<not> handler_gone h"
  shows "\<exists>t. istep convert answer s t \<and> ic_handlers t \<noteq> ic_handlers s"
proof (cases h)
  case HandlerRun
  with i show ?thesis
    by - (intro exI conjI, rule istep.handler_failed [where e = e and i = i and q = q], simp_all add: list_update_same_conv)
next
  case (HandlerSend a)
  with i show ?thesis
    by - (intro exI conjI, rule istep.send_failed [where e = e and i = i and q = q], simp_all add: list_update_same_conv)
next
  case (HandlerSendErr e')
  with ctx i show ?thesis
    by - (intro exI conjI, rule istep.handler_err_drop [where i = i and q = q], simp_all add: list_update_same_conv)
qed (use assms in simp_all)

lemma ic_progress:
  assumes "ic_ctx s \<noteq> None" and "\<not> ic_gone s"
  shows "\<exists>t. istep convert answer s t \<and> \<not> ic_outside s t"
proof -
  obtain e where ctx: "ic_ctx s = Some e" using assms(1) by blast
  show ?thesis
  proof (cases "ic_main s = MainLoop")
    case True
    then have "istep convert answer s (ic_return e s)" using ctx by (rule istep.main_done)
    moreover have "ic_main (ic_return e s) \<noteq> ic_main s" using True by (simp add: ic_return_def)
    ultimately show ?thesis using not_outside by blast
  next
    case main: False
    show ?thesis
    proof (cases "reader_gone (ic_reader s)")
      case False
      then show ?thesis using reader_progress [OF ctx] not_outside by blast
    next
      case True
      with main assms(2) obtain q h where "(q, h) \<in> set (ic_handlers s)" "\<not> handler_gone h"
        by (auto simp: ic_gone_def)
      then obtain t where "istep convert answer s t" "ic_handlers t \<noteq> ic_handlers s"
        using handler_progress [OF ctx] by (metis in_set_conv_nth)
      then show ?thesis using not_outside by blast
    qed
  qed
qed

text \<open>
  Once the context has ended, which it also does when the main loop returns, the main loop, the
  reader and every handler come to an end, in whatever order they are scheduled: until then one of
  them can always move by itself, and there is no infinite run. That a reader in \<open>Recv\<close> and a handler
  in \<open>Send\<close> can move is what gRPC documents for a stream whose context has ended, and that a handler
  in its callback can is the contract of the callback, which is given the context.
\<close>

lemma ic_all_exit: "ic_ctx s \<noteq> None \<Longrightarrow> all_exit convert answer s"
proof (induction "ic_work s" arbitrary: s rule: less_induct)
  case less
  have next_ok: "all_exit convert answer t" if "istep convert answer s t" for t
    using less that istep_work istep_ctx by blast
  show ?case
  proof (cases "ic_gone s")
    case True
    then show ?thesis using next_ok by (rule all_exit.gone)
  next
    case False
    with less.prems ic_progress obtain t where "istep convert answer s t" "\<not> ic_outside s t" by blast
    then show ?thesis using next_ok by (rule all_exit.more)
  qed
qed

lemma returned_ctx:
  "ireach convert answer s \<Longrightarrow> ic_main s \<noteq> MainLoop \<Longrightarrow> ic_ctx s \<noteq> None"
proof (induction rule: ireach.induct)
  case (step s t)
  from step(2,1,3,4) show ?case
    by (induction rule: istep.induct) (auto simp: ic_return_def split: option.split)
qed (simp add: ic_init_def)

section \<open>Answers\<close>

text \<open>
  The contract of a client's conversions: the answer carries the circuit key that \<open>key\<close> computes
  from the request and what the handler returned.
\<close>

locale interceptor =
  fixes convert :: "'m \<Rightarrow> 'q go"
    and answer :: "'q \<Rightarrow> 'p \<Rightarrow> 'a go"
    and key :: "'q \<Rightarrow> 'p \<Rightarrow> 'k"
    and answer_key :: "'a \<Rightarrow> 'k"
  assumes answer_keeps_key: "answer q resp = Ok a \<Longrightarrow> answer_key a = key q resp"
begin

definition answers_ok :: "('q, 'a) ic \<Rightarrow> bool" where
  "answers_ok s \<longleftrightarrow>
     (\<forall>a \<in> set (ic_sent s). \<exists>q \<in> fst ` set (ic_handlers s). \<exists>resp. answer_key a = key q resp)
     \<and> (\<forall>q a. (q, HandlerSend a) \<in> set (ic_handlers s) \<longrightarrow> (\<exists>resp. answer_key a = key q resp))
     \<and> length (ic_sent s) \<le> length (filter (\<lambda>(q, h). h = HandlerDone) (ic_handlers s))"

lemma after_answer_send:
  "after_answer (answer q resp) = HandlerSend a \<Longrightarrow> answer_key a = key q resp"
  using answer_keeps_key by (cases "answer q resp") auto

end

text \<open>Replacing the state of one handler.\<close>

lemma fst_set_update:
  "i < length xs \<Longrightarrow> xs ! i = (q, h) \<Longrightarrow> fst ` set (xs[i := (q, h')]) = fst ` set xs"
proof -
  assume a: "i < length xs" "xs ! i = (q, h)"
  then have "map fst (xs[i := (q, h')]) = map fst xs"
    by (metis fst_conv list_update_id map_update)
  then show ?thesis by (metis list.set_map)
qed

lemma done_count_update:
  "i < length hs \<Longrightarrow> hs ! i = (q, h) \<Longrightarrow> h \<noteq> HandlerDone \<Longrightarrow>
     length (filter (\<lambda>(q, h). h = HandlerDone) (hs[i := (q, h')]))
       = length (filter (\<lambda>(q, h). h = HandlerDone) hs) + (if h' = HandlerDone then 1 else 0)"
proof (induction hs arbitrary: i)
  case Nil
  then show ?case by simp
next
  case (Cons x hs)
  then show ?case by (cases i) auto
qed

context interceptor begin

lemma answers_ok_update:
  assumes "answers_ok s" and i: "i < length (ic_handlers s)" "ic_handlers s ! i = (q, h)"
    and "h \<noteq> HandlerDone" and "\<And>a. h' = HandlerSend a \<Longrightarrow> \<exists>resp. answer_key a = key q resp"
  shows "answers_ok (s\<lparr>ic_handlers := (ic_handlers s)[i := (q, h')]\<rparr>)"
  using assms
  by (auto simp: answers_ok_def fst_set_update done_count_update
      dest!: set_update_subset_insert [THEN subsetD])

lemma answers_ok_more: "answers_ok s \<Longrightarrow> ic_handlers t = ic_handlers s \<Longrightarrow> ic_sent t = ic_sent s \<Longrightarrow> answers_ok t"
  by (simp add: answers_ok_def)

lemma istep_answers: "istep convert answer s t \<Longrightarrow> answers_ok s \<Longrightarrow> answers_ok t"
proof (induction rule: istep.induct)
  case (take s q)
  then show ?case by (auto simp: answers_ok_def)
next
  case (handled i s q resp)
  then show ?case using after_answer_send [of q resp] by (intro answers_ok_update) auto
next
  case (sent i s q a)
  have "(q, HandlerSend a) \<in> set (ic_handlers s)" using sent(1,2) by (metis nth_mem)
  then have ex: "\<exists>resp. answer_key a = key q resp" and q: "q \<in> fst ` set (ic_handlers s)"
    using sent(3) by (auto simp: answers_ok_def rev_image_eqI)
  have "answers_ok (s\<lparr>ic_handlers := (ic_handlers s)[i := (q, HandlerDone)]\<rparr>)"
    using sent by (intro answers_ok_update) auto
  then show ?case
    using ex q sent
    by (auto simp: answers_ok_def fst_set_update done_count_update)
next
  case (handler_failed i s q e)
  then show ?case by (intro answers_ok_update) auto
next
  case (send_failed i s q a e)
  then show ?case by (intro answers_ok_update) auto
next
  case (handler_err i s q e)
  then have "answers_ok (s\<lparr>ic_handlers := (ic_handlers s)[i := (q, HandlerDone)]\<rparr>)"
    by (intro answers_ok_update) auto
  then show ?case by (rule answers_ok_more) simp_all
next
  case (handler_err_drop i s q e)
  then show ?case by (intro answers_ok_update) auto
qed (auto intro: answers_ok_more simp: ic_return_def)

lemma ireach_answers: "ireach convert answer s \<Longrightarrow> answers_ok s"
proof (induction rule: ireach.induct)
  case init
  show ?case by (simp add: answers_ok_def ic_init_def)
next
  case (step s t)
  then show ?case by (blast intro: istep_answers)
qed

text \<open>Every answer sent on the stream belongs to a request that was handed to a handler, and no
  handler sends two.\<close>

lemma answers_belong:
  "ireach convert answer s \<Longrightarrow> a \<in> set (ic_sent s) \<Longrightarrow>
     \<exists>q \<in> fst ` set (ic_handlers s). \<exists>resp. answer_key a = key q resp"
  using ireach_answers [of s] by (simp add: answers_ok_def)

lemma answers_bounded:
  assumes "ireach convert answer s"
  shows "length (ic_sent s) \<le> length (ic_handlers s)"
proof -
  have "length (ic_sent s) \<le> length (filter (\<lambda>(q, h). h = HandlerDone) (ic_handlers s))"
    using ireach_answers [OF assms] by (simp add: answers_ok_def)
  also have "\<dots> \<le> length (ic_handlers s)" by (rule length_filter_le)
  finally show ?thesis .
qed

lemma shutdown: "ireach convert answer s \<Longrightarrow> ic_main s \<noteq> MainLoop \<Longrightarrow> all_exit convert answer s"
  using returned_ctx ic_all_exit by blast

end

section \<open>Where requests come from\<close>

lemma after_convert_offer: "after_convert r = ReaderOffer q \<Longrightarrow> r = Ok q"
  by (cases r) auto

lemma istep_converted:
  "istep convert answer s t \<Longrightarrow>
     (\<forall>q. ic_reader s = ReaderOffer q \<or> q \<in> fst ` set (ic_handlers s) \<longrightarrow> (\<exists>m. convert m = Ok q)) \<Longrightarrow>
     (\<forall>q. ic_reader t = ReaderOffer q \<or> q \<in> fst ` set (ic_handlers t) \<longrightarrow> (\<exists>m. convert m = Ok q))"
  by (induction rule: istep.induct)
    (auto simp: fst_set_update ic_return_def dest: after_convert_offer)

text \<open>Every handler runs for a request made from a message.\<close>

lemma ireach_converted:
  assumes "ireach convert answer s" and "q \<in> fst ` set (ic_handlers s)"
  shows "\<exists>m. convert m = Ok q"
proof -
  from assms(1)
  have "\<forall>q. ic_reader s = ReaderOffer q \<or> q \<in> fst ` set (ic_handlers s) \<longrightarrow> (\<exists>m. convert m = Ok q)"
  proof induction
    case init
    show ?case by (simp add: ic_init_def)
  next
    case (step s t)
    from step.hyps(2) step.IH show ?case by (rule istep_converted)
  qed
  with assms(2) show ?thesis by blast
qed

end
