(* ===== verification/HtlcInterceptor.thy ===== *)
theory HtlcInterceptor
  imports RouterFacts Interceptor
begin

text \<open>
  \<open>InterceptHtlcs\<close> of \<open>router_client.go\<close> on the interceptor machine: how a message of lnd becomes a
  request, and how the handler's decision becomes the answer on the stream.
\<close>

record rpcCircuitKey =
  rck_ChanId :: u64
  rck_HtlcId :: u64

record ForwardHtlcInterceptRequest =
  fhi_IncomingCircuitKey :: "rpcCircuitKey option"
  fhi_IncomingAmountMsat :: u64
  fhi_IncomingExpiry :: u32
  fhi_PaymentHash :: bytes
  fhi_OutgoingRequestedChanId :: u64
  fhi_OutgoingAmountMsat :: u64
  fhi_OutgoingExpiry :: u32
  fhi_CustomRecords :: custom_records
  fhi_OnionBlob :: bytes
  fhi_InWireCustomRecords :: custom_records

definition intercepted_htlc ::
  "(bytes \<Rightarrow> bytes go) \<Rightarrow> (u64 \<Rightarrow> 'scid) \<Rightarrow> ForwardHtlcInterceptRequest \<Rightarrow> 'scid InterceptedHtlc go"
where
  "intercepted_htlc MakeHash NewShortChanIDFromInt request =
     go_bind (MakeHash (fhi_PaymentHash request)) (\<lambda>hash.
       case fhi_IncomingCircuitKey request of
         None \<Rightarrow> Err (NewErr ''incoming circuit key required'')
       | Some circuit \<Rightarrow>
         let chanIn = NewShortChanIDFromInt (rck_ChanId circuit);
             chanOut = NewShortChanIDFromInt (fhi_OutgoingRequestedChanId request)
         in Ok \<lparr>ih_IncomingCircuitKey = \<lparr>ck_ChanID = chanIn, ck_HtlcID = rck_HtlcId circuit\<rparr>,
                ih_Hash = hash,
                ih_AmountInMsat = fhi_IncomingAmountMsat request,
                ih_AmountOutMsat = fhi_OutgoingAmountMsat request,
                ih_IncomingExpiryHeight = fhi_IncomingExpiry request,
                ih_OutgoingExpiryHeight = fhi_OutgoingExpiry request,
                ih_OutgoingChannelID = chanOut,
                ih_CustomRecords = fhi_CustomRecords request,
                ih_OnionBlob = fhi_OnionBlob request,
                ih_InWireCustomRecords = fhi_InWireCustomRecords request\<rparr>)"

text \<open>The call that opens the stream is made on the cancelable child context; the machine starts once
  it has succeeded.\<close>

definition InterceptHtlcs_open ::
  "routerClient \<Rightarrow> (unit, unit) router_srv \<Rightarrow> ctx \<Rightarrow> (router_req, unit) io" where
  "InterceptHtlcs_open r srv c =
     rpc srv (\<lambda>_. HtlcInterceptorReq) (WithMacaroonAuth (router_mac r) (CancelCtx c)) ()"

abbreviation InterceptHtlcs_step ::
  "(bytes \<Rightarrow> bytes go) \<Rightarrow> (u64 \<Rightarrow> 'scid) \<Rightarrow> ('scid \<Rightarrow> u64)
     \<Rightarrow> ('scid InterceptedHtlc, ForwardHtlcInterceptResponse) ic
     \<Rightarrow> ('scid InterceptedHtlc, ForwardHtlcInterceptResponse) ic \<Rightarrow> bool" where
  "InterceptHtlcs_step MakeHash fromU toU \<equiv>
     istep (intercepted_htlc MakeHash fromU) (rpcInterceptorResponse toU)"

definition request_key :: "('scid \<Rightarrow> u64) \<Rightarrow> 'scid InterceptedHtlc \<Rightarrow> u64 \<times> u64" where
  "request_key toU q =
     (toU (ck_ChanID (ih_IncomingCircuitKey q)), ck_HtlcID (ih_IncomingCircuitKey q))"

definition response_key :: "ForwardHtlcInterceptResponse \<Rightarrow> u64 \<times> u64" where
  "response_key a = (fr_ChanId a, fr_HtlcId a)"

interpretation htlc_interceptor:
  interceptor "intercepted_htlc MakeHash fromU" "rpcInterceptorResponse toU"
    "\<lambda>q resp. request_key toU q" response_key
  for MakeHash fromU toU
proof
  fix q resp a
  assume a: "rpcInterceptorResponse toU q resp = Ok a"
  then have "resp \<noteq> None" using interceptor_no_panic [of toU q resp] by auto
  then obtain r where "resp = Some r" by blast
  with a have "fr_ChanId a = toU (ck_ChanID (ih_IncomingCircuitKey q))"
    "fr_HtlcId a = ck_HtlcID (ih_IncomingCircuitKey q)"
    using interceptor_answer [of toU q r a] by blast+
  then show "response_key a = request_key toU q" by (simp add: response_key_def request_key_def)
qed

text \<open>A request carries the circuit key of its message, provided the short channel id survives the
  conversions of \<open>lnwire\<close>.\<close>

lemma intercepted_htlc_key:
  assumes "intercepted_htlc MakeHash fromU m = Ok q" and "\<And>n. toU (fromU n) = n"
  shows "\<exists>k. fhi_IncomingCircuitKey m = Some k \<and> request_key toU q = (rck_ChanId k, rck_HtlcId k)"
  using assms by (auto simp: intercepted_htlc_def request_key_def Let_def split: option.splits)

lemma intercepted_htlc_no_panic:
  "(\<And>b. \<not> is_panic (MakeHash b)) \<Longrightarrow> \<not> is_panic (intercepted_htlc MakeHash fromU m)"
  by (auto simp: intercepted_htlc_def Let_def split: option.split)

section \<open>Concurrent sends\<close>

text \<open>
  Two handlers can be in \<open>stream.Send\<close> at the same time; gRPC allows one sender per stream only.
\<close>

definition concurrent_sends :: "('q, 'a) ic \<Rightarrow> bool" where
  "concurrent_sends s \<longleftrightarrow> (\<exists>i j q r a b. i < j \<and> j < length (ic_handlers s)
     \<and> ic_handlers s ! i = (q, HandlerSend a) \<and> ic_handlers s ! j = (r, HandlerSend b))"

lemma ireach_path:
  "ireach convert answer s \<Longrightarrow> (istep convert answer)\<^sup>*\<^sup>* s t \<Longrightarrow> ireach convert answer t"
  by (rotate_tac, induction rule: rtranclp_induct) (auto intro: ireach.step)

text \<open>One round of the reader and the main loop adds a handler.\<close>

lemma take_round:
  assumes "ireach convert answer s" and "ic_reader s = ReaderTop" and "ic_ctx s = None"
    and "ic_main s = MainLoop" and "convert m = Ok q"
  shows "ireach convert answer (s\<lparr>ic_handlers := ic_handlers s @ [(q, HandlerRun)]\<rparr>)"
proof -
  let ?s1 = "s\<lparr>ic_reader := ReaderRecv\<rparr>" and ?s2 = "s\<lparr>ic_reader := ReaderOffer q\<rparr>"
  have 1: "ireach convert answer ?s1"
    using assms(1) istep.top_recv [OF assms(2,3)] by (rule ireach.step)
  have "istep convert answer ?s1 (?s1\<lparr>ic_reader := after_convert (convert m)\<rparr>)"
    by (rule istep.recv_msg) simp
  with 1 have 2: "ireach convert answer ?s2"
    using assms(5) by (auto dest: ireach.step)
  have "istep convert answer ?s2
    (?s2\<lparr>ic_reader := ReaderTop, ic_handlers := ic_handlers ?s2 @ [(q, HandlerRun)]\<rparr>)"
    by (rule istep.take) (use assms in simp_all)
  with 2 have "ireach convert answer
    (s\<lparr>ic_reader := ReaderTop, ic_handlers := ic_handlers s @ [(q, HandlerRun)]\<rparr>)"
    by (auto dest: ireach.step)
  then show ?thesis using assms(2) by (cases s) simp
qed

lemma answer_round:
  assumes "ireach convert answer s" and "i < length (ic_handlers s)"
    and "ic_handlers s ! i = (q, HandlerRun)" and "answer q resp = Ok a"
  shows "ireach convert answer (s\<lparr>ic_handlers := (ic_handlers s)[i := (q, HandlerSend a)]\<rparr>)"
  using ireach.step [OF assms(1) istep.handled [OF assms(2,3), of convert answer resp]] assms(4)
  by simp

lemma concurrent_sends_reachable:
  fixes convert :: "'m \<Rightarrow> 'q go" and answer :: "'q \<Rightarrow> 'p \<Rightarrow> 'a go"
  assumes "convert m = Ok q" and "answer q resp = Ok a"
  shows "\<exists>s. ireach convert answer s \<and> concurrent_sends s"
proof -
  let ?s0 = "ic_init :: ('q, 'a) ic"
  let ?s1 = "?s0\<lparr>ic_handlers := [(q, HandlerRun)]\<rparr>"
  let ?s2 = "?s0\<lparr>ic_handlers := [(q, HandlerRun), (q, HandlerRun)]\<rparr>"
  let ?s3 = "?s0\<lparr>ic_handlers := [(q, HandlerSend a), (q, HandlerRun)]\<rparr>"
  let ?s4 = "?s0\<lparr>ic_handlers := [(q, HandlerSend a), (q, HandlerSend a)]\<rparr>"
  have "ireach convert answer ?s1"
    using take_round [of convert answer ?s0 m q] assms(1) ireach.init [of convert answer] by (simp add: ic_init_def)
  then have "ireach convert answer ?s2"
    using take_round [of convert answer ?s1 m q] assms(1) by (simp add: ic_init_def)
  then have "ireach convert answer ?s3"
    using answer_round [of convert answer ?s2 0 q resp a] assms(2) by simp
  then have "ireach convert answer ?s4"
    using answer_round [of convert answer ?s3 1 q resp a] assms(2) by simp
  moreover have "concurrent_sends ?s4"
    unfolding concurrent_sends_def
    by (intro exI [of _ 0] exI [of _ 1] exI [of _ q] exI [of _ a]) simp
  ultimately show ?thesis by blast
qed

section \<open>Main theorems\<close>

text \<open>A message lnd may send and a decision a handler may take.\<close>

definition example_htlc :: "bytes \<Rightarrow> ForwardHtlcInterceptRequest" where
  "example_htlc hash = \<lparr>fhi_IncomingCircuitKey = Some \<lparr>rck_ChanId = 7, rck_HtlcId = 3\<rparr>,
     fhi_IncomingAmountMsat = 2000, fhi_IncomingExpiry = 100, fhi_PaymentHash = hash,
     fhi_OutgoingRequestedChanId = 9, fhi_OutgoingAmountMsat = 1000, fhi_OutgoingExpiry = 60,
     fhi_CustomRecords = None, fhi_OnionBlob = [], fhi_InWireCustomRecords = None\<rparr>"

definition example_resume :: InterceptedHtlcResponse where
  "example_resume = \<lparr>ir_Preimage = None, ir_Action = InterceptorActionResume,
     ir_FailureMessage = [], ir_FailureCode = 0, ir_IncomingAmount = 0, ir_OutgoingAmount = 0,
     ir_CustomRecords = None\<rparr>"

lemma example_htlc_accepted:
  "MakeHash hash = Ok h \<Longrightarrow> is_ok (intercepted_htlc MakeHash fromU (example_htlc hash))"
  by (simp add: intercepted_htlc_def example_htlc_def)

lemma example_resume_accepted: "is_ok (rpcInterceptorResponse toU q (Some example_resume))"
  by (simp add: rpcInterceptorResponse_def example_resume_def interceptor_action_defs)

text \<open>C3: once \<open>InterceptHtlcs\<close> has returned, or the caller's context has ended, its main loop, its
  reader and every handler goroutine exit, whatever lnd sends, whatever the callbacks answer and in
  whatever order the goroutines run: until all are gone one of them can move without anything from
  outside, such as the shutdown of the client, and no run is infinite. A reader in \<open>Recv\<close>, a handler
  in \<open>Send\<close> and one in its callback return once the context has ended, as gRPC and the callback's
  contract say.\<close>

theorem InterceptHtlcs_exits:
  assumes "ireach (intercepted_htlc MakeHash fromU) (rpcInterceptorResponse toU) s"
    and "ic_main s = MainReturned e \<or> ic_ctx s = Some e"
  shows "all_exit (intercepted_htlc MakeHash fromU) (rpcInterceptorResponse toU) s"
  using assms htlc_interceptor.shutdown [OF assms(1)] ic_all_exit [of s] by auto

theorem InterceptHtlcs_exits_witness:
  "\<exists>s. ireach (intercepted_htlc Ok id) (rpcInterceptorResponse id) s
     \<and> ic_main s = MainReturned CtxCanceled
     \<and> all_exit (intercepted_htlc Ok id) (rpcInterceptorResponse id) s"
proof -
  let ?c = "intercepted_htlc Ok id" and ?a = "rpcInterceptorResponse id"
  let ?s = "ic_init\<lparr>ic_ctx := Some CtxCanceled\<rparr>"
  have "ireach ?c ?a ?s"
    by (rule ireach.step [OF ireach.init istep.cancel]) (simp_all add: ic_init_def)
  then have r: "ireach ?c ?a (ic_return CtxCanceled ?s)"
    by (rule ireach.step [OF _ istep.main_done]) (simp_all add: ic_init_def)
  have m: "ic_main (ic_return CtxCanceled ?s) = MainReturned CtxCanceled"
    by (simp add: ic_return_def)
  from InterceptHtlcs_exits [OF r] m r show ?thesis by blast
qed

text \<open>C10: every answer \<open>InterceptHtlcs\<close> has put on the stream carries the circuit key of a message of
  lnd for which it has started a handler, and there are never more answers than handlers, provided
  the short channel ids of \<open>lnwire\<close> convert back to the number they were made from.\<close>

theorem InterceptHtlcs_answers:
  assumes "ireach (intercepted_htlc MakeHash fromU) (rpcInterceptorResponse toU) s"
    and "\<And>n. toU (fromU n) = n" and "a \<in> set (ic_sent s)"
  shows "(\<exists>m k q. intercepted_htlc MakeHash fromU m = Ok q \<and> q \<in> fst ` set (ic_handlers s)
       \<and> fhi_IncomingCircuitKey m = Some k \<and> response_key a = (rck_ChanId k, rck_HtlcId k))
     \<and> length (ic_sent s) \<le> length (ic_handlers s)"
proof
  obtain q where q: "q \<in> fst ` set (ic_handlers s)" "response_key a = request_key toU q"
    using htlc_interceptor.answers_belong [OF assms(1,3)] by auto
  obtain m where m: "intercepted_htlc MakeHash fromU m = Ok q"
    using ireach_converted [OF assms(1) q(1)] by blast
  from intercepted_htlc_key [OF m assms(2)] m q
  show "\<exists>m k q. intercepted_htlc MakeHash fromU m = Ok q \<and> q \<in> fst ` set (ic_handlers s)
       \<and> fhi_IncomingCircuitKey m = Some k \<and> response_key a = (rck_ChanId k, rck_HtlcId k)"
    by metis
  show "length (ic_sent s) \<le> length (ic_handlers s)"
    by (rule htlc_interceptor.answers_bounded [OF assms(1)])
qed

lemma sent_round:
  assumes "ireach convert answer s" and "i < length (ic_handlers s)"
    and "ic_handlers s ! i = (q, HandlerSend a)"
  shows "ireach convert answer
     (s\<lparr>ic_handlers := (ic_handlers s)[i := (q, HandlerDone)], ic_sent := ic_sent s @ [a]\<rparr>)"
  using assms(1) istep.sent [OF assms(2,3)] by (rule ireach.step)

theorem InterceptHtlcs_answers_witness:
  "\<exists>s a. ireach (intercepted_htlc Ok id) (rpcInterceptorResponse id) s \<and> ic_sent s = [a]
     \<and> (\<exists>m k q. intercepted_htlc Ok id m = Ok q \<and> q \<in> fst ` set (ic_handlers s)
         \<and> fhi_IncomingCircuitKey m = Some k \<and> response_key a = (rck_ChanId k, rck_HtlcId k))"
proof -
  let ?c = "intercepted_htlc Ok id" and ?a = "rpcInterceptorResponse id"
  obtain q where q: "?c (example_htlc [1]) = Ok q"
    using example_htlc_accepted [of Ok "[1]" "[1]" id] by (auto elim: is_okE)
  obtain a where a: "?a q (Some example_resume) = Ok a"
    using example_resume_accepted [of id q] by (auto elim: is_okE)
  have "ireach ?c ?a (ic_init\<lparr>ic_handlers := [(q, HandlerRun)]\<rparr>)"
    using take_round [OF ireach.init, of ?c "example_htlc [1]" q ?a] q by (simp add: ic_init_def)
  from answer_round [OF this, of 0 q "Some example_resume" a] a
  have "ireach ?c ?a (ic_init\<lparr>ic_handlers := [(q, HandlerSend a)]\<rparr>)" by simp
  from sent_round [OF this, of 0 q a]
  have r: "ireach ?c ?a (ic_init\<lparr>ic_handlers := [(q, HandlerDone)], ic_sent := [a]\<rparr>)"
    by (simp add: ic_init_def)
  let ?s = "ic_init\<lparr>ic_handlers := [(q, HandlerDone)], ic_sent := [a]\<rparr>"
  have s: "a \<in> set (ic_sent ?s)" "ic_sent ?s = [a]" by simp_all
  have "(\<exists>m k q. ?c m = Ok q \<and> q \<in> fst ` set (ic_handlers ?s)
      \<and> fhi_IncomingCircuitKey m = Some k \<and> response_key a = (rck_ChanId k, rck_HtlcId k))"
    using InterceptHtlcs_answers [OF r _ s(1)] by simp
  with r s(2) show ?thesis by (intro exI [of _ ?s] exI [of _ a] conjI)
qed

text \<open>C36: nothing keeps two handlers from being in \<open>stream.Send\<close> at the same time, which gRPC forbids
  for one stream: for any hash function that accepts some payment hash the code reaches a state in
  which two handlers are sending.\<close>

theorem InterceptHtlcs_concurrent_sends:
  assumes "MakeHash b = Ok hash"
  shows "\<exists>s. ireach (intercepted_htlc MakeHash fromU) (rpcInterceptorResponse toU) s
     \<and> concurrent_sends s"
  using example_htlc_accepted [of MakeHash b hash fromU, OF assms] example_resume_accepted [of toU]
  by (metis concurrent_sends_reachable is_okE)

theorem InterceptHtlcs_concurrent_sends_witness:
  "\<exists>s. ireach (intercepted_htlc Ok id) (rpcInterceptorResponse id) s \<and> concurrent_sends s"
  by (rule InterceptHtlcs_concurrent_sends [of Ok "[1]" "[1]" id id]) simp

end
