(* ===== verification/Invoices.thy ===== *)
theory Invoices
  imports InvoiceTypes HtlcInterceptor
begin

text \<open>
  \<open>invoices_client.go\<close>: the invoices client, its subscription to one invoice, and \<open>HtlcModifier\<close> on
  the interceptor machine.
\<close>

record invoicesClient =
  invoices_mac :: serializedMacaroon
  invoices_timeout :: i64

definition newInvoicesClient :: "serializedMacaroon \<Rightarrow> i64 \<Rightarrow> invoicesClient" where
  "newInvoicesClient invoiceMac timeout =
     \<lparr>invoices_mac = invoiceMac, invoices_timeout = timeout\<rparr>"

definition invoices_RawClientWithMacAuth :: "invoicesClient \<Rightarrow> ctx \<Rightarrow> ctx \<times> i64" where
  "invoices_RawClientWithMacAuth s parentCtx =
     (WithMacaroonAuth (invoices_mac s) parentCtx, invoices_timeout s)"

record AddHoldInvoiceRequest =
  ahi_Memo :: string
  ahi_Hash :: bytes
  ahi_ValueMsat :: i64
  ahi_DescriptionHash :: bytes
  ahi_Expiry :: i64
  ahi_FallbackAddr :: string
  ahi_CltvExpiry :: u64
  ahi_RouteHints :: "rpcRouteHint list"
  ahi_Private :: bool

datatype invoices_req =
    SettleInvoiceReq bytes
  | CancelInvoiceReq bytes
  | SubscribeSingleInvoiceReq bytes
  | AddHoldInvoiceReq AddHoldInvoiceRequest
  | HtlcModifierReq

definition SettleInvoice ::
  "invoicesClient \<Rightarrow> (invoices_req, bytes, unit) server \<Rightarrow> ctx \<Rightarrow> bytes \<Rightarrow> (invoices_req, unit) io"
where
  "SettleInvoice s srv c preimage =
     rpc srv SettleInvoiceReq (WithMacaroonAuth (invoices_mac s) (TimeoutCtx c (invoices_timeout s)))
       preimage"

definition CancelInvoice ::
  "invoicesClient \<Rightarrow> (invoices_req, bytes, unit) server \<Rightarrow> ctx \<Rightarrow> bytes \<Rightarrow> (invoices_req, unit) io"
where
  "CancelInvoice s srv c hash =
     rpc srv CancelInvoiceReq (WithMacaroonAuth (invoices_mac s) (TimeoutCtx c (invoices_timeout s)))
       hash"

section \<open>The subscription to an invoice\<close>

record 'scid InvoiceUpdate =
  iu_Invoice :: "'scid Invoice"
  iu_AmtPaid :: Amount

definition invoice_body ::
  "'scid inv_fns \<Rightarrow> rpcInvoice recv \<Rightarrow> 'scid InvoiceUpdate script" where
  "invoice_body fns r = (case r of
       RecvErr err \<Rightarrow> if err = IoEOF then CloseUpd (CloseErr Return) else SendErr err Return
     | RecvOk invoice \<Rightarrow> on_go id (unmarshalInvoice fns invoice) (\<lambda>clientInvoice.
         SendUpd \<lparr>iu_Invoice = clientInvoice, iu_AmtPaid = rinv_AmtPaidSat invoice\<rparr> Return Loop))"

definition invoice_sub :: "'scid inv_fns \<Rightarrow> (rpcInvoice, 'scid InvoiceUpdate) sub" where
  "invoice_sub fns = \<lparr>sub_body = invoice_body fns, sub_ucap = 0, sub_ecap = 1, sub_defers = []\<rparr>"

definition SubscribeSingleInvoice ::
  "invoicesClient \<Rightarrow> 'scid inv_fns \<Rightarrow> (invoices_req, bytes, unit) server \<Rightarrow> ctx \<Rightarrow> bytes
     \<Rightarrow> (invoices_req, (rpcInvoice, 'scid InvoiceUpdate) sub) io" where
  "SubscribeSingleInvoice s fns srv c hash =
     io_bind (rpc srv SubscribeSingleInvoiceReq (WithMacaroonAuth (invoices_mac s) c) hash)
       (\<lambda>_. io_ret (invoice_sub fns))"

interpretation invoice_stream: subscription "invoice_sub fns" for fns
proof
  show "disciplined (sub_defers (invoice_sub fns)) (sub_ecap (invoice_sub fns))
     (sub_body (invoice_sub fns) r) True True True" for r
    by (simp add: invoice_sub_def invoice_body_def on_go_disciplined split: recv.split go.split)
  show "ctx_sound (sub_body (invoice_sub fns) r) False" for r
    by (simp add: invoice_sub_def invoice_body_def on_go_ctx_sound split: recv.split)
  show "ends (sub_body (invoice_sub fns) (RecvErr e))" for e
    by (simp add: invoice_sub_def invoice_body_def)
qed

section \<open>Hold invoices\<close>

text \<open>\<open>invoicesrpc.AddInvoiceData\<close>; of the configuration of blinded paths the code reads the number of
  hops, and whether other settings are there, for a log line.\<close>

record 'key AddInvoiceData =
  aid_Memo :: string
  aid_Preimage :: "bytes option"
  aid_Hash :: "bytes option"
  aid_Value :: MilliSatoshi
  aid_DescriptionHash :: bytes
  aid_Expiry :: i64
  aid_FallbackAddr :: string
  aid_CltvExpiry :: u64
  aid_Private :: bool
  aid_HodlInvoice :: bool
  aid_Amp :: bool
  aid_BlindedPathCfg :: "u8 option"   \<comment> \<open>\<open>MinNumPathHops\<close>\<close>
  aid_RouteHints :: "'key HopHint list list"

text \<open>Slicing a nil \<open>*lntypes.Hash\<close> panics.\<close>

definition hold_invoice_request ::
  "'key hint_fns \<Rightarrow> 'key AddInvoiceData \<Rightarrow> AddHoldInvoiceRequest go" where
  "hold_invoice_request fns inp =
     go_bind (go_wrap (FmtErr ''failed to marshal route hints: '')
                (marshallRouteHints fns (aid_RouteHints inp))) (\<lambda>routeHints.
     go_bind (deref (aid_Hash inp)) (\<lambda>hash.
       Ok \<lparr>ahi_Memo = aid_Memo inp, ahi_Hash = hash, ahi_ValueMsat = aid_Value inp,
           ahi_DescriptionHash = aid_DescriptionHash inp, ahi_Expiry = aid_Expiry inp,
           ahi_FallbackAddr = aid_FallbackAddr inp, ahi_CltvExpiry = aid_CltvExpiry inp,
           ahi_RouteHints = routeHints, ahi_Private = aid_Private inp\<rparr>))"

definition AddHoldInvoice ::
  "invoicesClient \<Rightarrow> 'key hint_fns \<Rightarrow> (invoices_req, AddHoldInvoiceRequest, string) server \<Rightarrow> ctx
     \<Rightarrow> 'key AddInvoiceData \<Rightarrow> (invoices_req, string) io" where
  "AddHoldInvoice s fns srv c inp =
     io_bind (io_lift (hold_invoice_request fns inp)) (\<lambda>rpcIn.
       rpc srv AddHoldInvoiceReq
         (WithMacaroonAuth (invoices_mac s) (TimeoutCtx c (invoices_timeout s))) rpcIn)"

section \<open>Modifying htlcs\<close>

record 'scid InvoiceHtlcModifyRequest =
  imr_Invoice :: "rpcInvoice option"
  imr_CircuitKey :: "'scid CircuitKey"
  imr_ExitHtlcAmt :: MilliSatoshi
  imr_ExitHtlcExpiry :: u32
  imr_CurrentHeight :: u32
  imr_WireCustomRecords :: custom_records

record 'scid InvoiceHtlcModifyResponse =
  imp_CircuitKey :: "'scid CircuitKey"
  imp_AmtPaid :: MilliSatoshi
  imp_CancelSet :: bool

record rpcHtlcModifyRequest =
  hmr_Invoice :: "rpcInvoice option"
  hmr_ExitHtlcCircuitKey :: "rpcCircuitKey option"
  hmr_ExitHtlcAmt :: u64
  hmr_ExitHtlcExpiry :: u32
  hmr_CurrentHeight :: u32
  hmr_ExitHtlcWireCustomRecords :: custom_records

record rpcHtlcModifyResponse =
  hmp_ChanId :: u64
  hmp_HtlcId :: u64
  hmp_AmtPaid :: "u64 option"
  hmp_CancelSet :: bool

definition modify_request ::
  "(u64 \<Rightarrow> 'scid) \<Rightarrow> rpcHtlcModifyRequest \<Rightarrow> 'scid InvoiceHtlcModifyRequest go" where
  "modify_request NewShortChanIDFromInt req =
     go_bind (deref (hmr_ExitHtlcCircuitKey req)) (\<lambda>circuit.
       Ok \<lparr>imr_Invoice = hmr_Invoice req,
           imr_CircuitKey = \<lparr>ck_ChanID = NewShortChanIDFromInt (rck_ChanId circuit),
                             ck_HtlcID = rck_HtlcId circuit\<rparr>,
           imr_ExitHtlcAmt = hmr_ExitHtlcAmt req,
           imr_ExitHtlcExpiry = hmr_ExitHtlcExpiry req,
           imr_CurrentHeight = hmr_CurrentHeight req,
           imr_WireCustomRecords = hmr_ExitHtlcWireCustomRecords req\<rparr>)"

definition modify_response ::
  "('scid \<Rightarrow> u64) \<Rightarrow> 'scid InvoiceHtlcModifyRequest \<Rightarrow> 'scid InvoiceHtlcModifyResponse option
     \<Rightarrow> rpcHtlcModifyResponse go" where
  "modify_response ToUint64 request resp =
     go_bind (deref resp) (\<lambda>resp.
       Ok \<lparr>hmp_ChanId = ToUint64 (ck_ChanID (imp_CircuitKey resp)),
           hmp_HtlcId = ck_HtlcID (imp_CircuitKey resp),
           hmp_AmtPaid = Some (imp_AmtPaid resp),
           hmp_CancelSet = imp_CancelSet resp\<rparr>)"

definition HtlcModifier_open ::
  "invoicesClient \<Rightarrow> (invoices_req, unit, unit) server \<Rightarrow> ctx \<Rightarrow> (invoices_req, unit) io" where
  "HtlcModifier_open s srv c =
     rpc srv (\<lambda>_. HtlcModifierReq) (WithMacaroonAuth (invoices_mac s) (CancelCtx c)) ()"

definition modify_key ::
  "('scid \<Rightarrow> u64) \<Rightarrow> 'scid InvoiceHtlcModifyResponse option \<Rightarrow> u64 \<times> u64" where
  "modify_key toU resp = (case resp of None \<Rightarrow> (0, 0)
     | Some r \<Rightarrow> (toU (ck_ChanID (imp_CircuitKey r)), ck_HtlcID (imp_CircuitKey r)))"

interpretation htlc_modifier:
  interceptor "modify_request fromU" "modify_response toU" "\<lambda>q resp. modify_key toU resp"
    "\<lambda>a. (hmp_ChanId a, hmp_HtlcId a)"
  for fromU toU
proof
  show "modify_response toU q resp = Ok a \<Longrightarrow> (hmp_ChanId a, hmp_HtlcId a) = modify_key toU resp"
    for q resp a
    by (cases resp) (auto simp: modify_response_def modify_key_def)
qed

text \<open>The machine of \<open>HtlcModifier\<close>, started once its stream is open.\<close>

definition HtlcModifier_step ::
  "(u64 \<Rightarrow> 'scid) \<Rightarrow> ('scid \<Rightarrow> u64)
     \<Rightarrow> ('scid InvoiceHtlcModifyRequest, rpcHtlcModifyResponse) ic
     \<Rightarrow> ('scid InvoiceHtlcModifyRequest, rpcHtlcModifyResponse) ic \<Rightarrow> bool" where
  "HtlcModifier_step fromU toU = istep (modify_request fromU) (modify_response toU)"

text \<open>Whatever goes to lnd carries the circuit key of some response of the handler, and once the method
  has returned its goroutines end.\<close>

lemma HtlcModifier_runs:
  assumes "(HtlcModifier_step fromU toU)\<^sup>*\<^sup>* ic_init s"
  shows "\<forall>a \<in> set (ic_sent s). \<exists>resp. (hmp_ChanId a, hmp_HtlcId a) = modify_key toU resp"
    and "ic_main s \<noteq> MainLoop \<Longrightarrow> all_exit (modify_request fromU) (modify_response toU) s"
proof -
  have reach: "ireach (modify_request fromU) (modify_response toU) s"
    using assms by (induction rule: rtranclp_induct)
      (auto intro: ireach.intros simp: HtlcModifier_step_def)
  show "\<forall>a \<in> set (ic_sent s). \<exists>resp. (hmp_ChanId a, hmp_HtlcId a) = modify_key toU resp"
    using htlc_modifier.answers_belong [OF reach] by blast
  show "ic_main s \<noteq> MainLoop \<Longrightarrow> all_exit (modify_request fromU) (modify_response toU) s"
    by (rule htlc_modifier.shutdown [OF reach])
qed

section \<open>Properties\<close>

abbreviation invoices_bounded :: "invoicesClient \<Rightarrow> ctx \<Rightarrow> ctx \<Rightarrow> invoices_req \<Rightarrow> bool" where
  "invoices_bounded s c c' q \<equiv> authed (invoices_mac s) c c' \<and> bounded (invoices_timeout s) c'"

lemma invoices_calls:
  "calls_ok (invoices_bounded s c) (SettleInvoice s ssrv c preimage)"
  "calls_ok (invoices_bounded s c) (CancelInvoice s csrv c hash)"
  "calls_ok (invoices_bounded s c) (AddHoldInvoice s fns asrv c inp)"
  "calls_ok (\<lambda>c' q. authed (invoices_mac s) c c') (SubscribeSingleInvoice s ifns ivsrv c hash)"
  "calls_ok (\<lambda>c' q. authed (invoices_mac s) c c') (HtlcModifier_open s msrv c)"
  by (auto simp: SettleInvoice_def CancelInvoice_def AddHoldInvoice_def SubscribeSingleInvoice_def
      HtlcModifier_open_def intro!: rpc_intros)

lemma hold_invoice_panics:
  "aid_Hash inp = None \<Longrightarrow> is_ok (marshallRouteHints fns (aid_RouteHints inp)) \<Longrightarrow>
     is_panic (hold_invoice_request fns inp)"
  by (cases "marshallRouteHints fns (aid_RouteHints inp)") (auto simp: hold_invoice_request_def)

lemma modify_request_panic: "is_panic (modify_request fromU req) \<longleftrightarrow> hmr_ExitHtlcCircuitKey req = None"
  by (cases "hmr_ExitHtlcCircuitKey req") (auto simp: modify_request_def)

end
