(* ===== verification/LightningTypes.thy ===== *)
theory LightningTypes
  imports RouterTypes TxUtils
begin

text \<open>
  The conversions of \<open>lightning_client.go\<close> between lnd's messages and the library's types: channels,
  pending and closed channels, nodes, channel acceptance requests and transactions.

  A pointer to a message is an option; elements of a repeated field are messages, because protobuf
  never decodes a nil element. A map of a message is the list of its entries in the order a run
  visits them. The parsers of other modules are fields of \<open>ln_fns\<close>.
\<close>

record ('addr, 'scid, 'tx) ln_fns =
  lf_NewVertexFromStr :: "string \<Rightarrow> Vertex go"
  lf_NewVertexFromBytes :: "bytes \<Rightarrow> Vertex go"
  lf_MakeHash :: "bytes \<Rightarrow> bytes go"
  lf_MakeHashFromStr :: "string \<Rightarrow> bytes go"
  lf_NewHash :: "bytes \<Rightarrow> bytes go"
  lf_NewHashFromStr :: "string \<Rightarrow> bytes go"
  lf_NewShortChanID :: "u64 \<Rightarrow> 'scid"
  lf_DecodeAddress :: "string \<Rightarrow> 'addr go"      \<comment> \<open>for the chain of the client\<close>
  lf_Deserialize :: "bytes \<Rightarrow> 'tx go"
  lf_TxHashString :: "'tx \<Rightarrow> string"

section \<open>Channels\<close>

record rpcChannelConstraints =
  rcc_CsvDelay :: u32
  rcc_ChanReserveSat :: u64
  rcc_DustLimitSat :: u64
  rcc_MaxPendingAmtMsat :: u64
  rcc_MinHtlcMsat :: u64
  rcc_MaxAcceptedHtlcs :: u32

record ChannelConstraints =
  cc_CsvDelay :: u32
  cc_Reserve :: Amount
  cc_DustLimit :: Amount
  cc_MaxPendingAmt :: MilliSatoshi
  cc_MinHtlc :: MilliSatoshi
  cc_MaxAcceptedHtlcs :: u32

definition newChannelConstraint ::
  "rpcChannelConstraints option \<Rightarrow> ChannelConstraints option" where
  "newChannelConstraint cc = (case cc of
       None \<Rightarrow> None
     | Some cc \<Rightarrow> Some \<lparr>cc_CsvDelay = rcc_CsvDelay cc, cc_Reserve = rcc_ChanReserveSat cc,
         cc_DustLimit = rcc_DustLimitSat cc, cc_MaxPendingAmt = rcc_MaxPendingAmtMsat cc,
         cc_MinHtlc = rcc_MinHtlcMsat cc, cc_MaxAcceptedHtlcs = rcc_MaxAcceptedHtlcs cc\<rparr>)"

record rpcHTLC =
  rht_Incoming :: bool
  rht_Amount :: i64
  rht_HashLock :: bytes
  rht_ExpirationHeight :: u32
  rht_HtlcIndex :: u64
  rht_ForwardingChannel :: u64
  rht_ForwardingHtlcIndex :: u64

record 'scid PendingHtlc =
  pht_Incoming :: bool
  pht_Amount :: Amount
  pht_Hash :: bytes
  pht_Expiry :: u32
  pht_HtlcIndex :: u64
  pht_ForwardingChannel :: 'scid
  pht_ForwardingIndex :: u64

definition newPendingHtlc :: "('addr, 'scid, 'tx) ln_fns \<Rightarrow> rpcHTLC \<Rightarrow> 'scid PendingHtlc go" where
  "newPendingHtlc fns rpcHtlc =
     go_bind (lf_MakeHash fns (rht_HashLock rpcHtlc)) (\<lambda>hash.
       Ok \<lparr>pht_Incoming = rht_Incoming rpcHtlc, pht_Amount = rht_Amount rpcHtlc, pht_Hash = hash,
           pht_Expiry = rht_ExpirationHeight rpcHtlc, pht_HtlcIndex = rht_HtlcIndex rpcHtlc,
           pht_ForwardingChannel = lf_NewShortChanID fns (rht_ForwardingChannel rpcHtlc),
           pht_ForwardingIndex = rht_ForwardingHtlcIndex rpcHtlc\<rparr>)"

record rpcChannel =
  rch_Active :: bool
  rch_RemotePubkey :: string
  rch_ChannelPoint :: string
  rch_ChanId :: u64
  rch_Capacity :: i64
  rch_LocalBalance :: i64
  rch_RemoteBalance :: i64
  rch_CommitFee :: i64
  rch_CommitWeight :: i64
  rch_FeePerKw :: i64
  rch_UnsettledBalance :: i64
  rch_TotalSatoshisSent :: i64
  rch_TotalSatoshisReceived :: i64
  rch_NumUpdates :: u64
  rch_PendingHtlcs :: "rpcHTLC list"
  rch_CsvDelay :: u32
  rch_Private :: bool
  rch_Initiator :: bool
  rch_ChanStatusFlags :: string
  rch_CloseAddress :: string
  rch_Lifetime :: i64
  rch_Uptime :: i64
  rch_LocalConstraints :: "rpcChannelConstraints option"
  rch_RemoteConstraints :: "rpcChannelConstraints option"
  rch_AliasScids :: "u64 list"
  rch_ZeroConf :: bool
  rch_ZeroConfConfirmedScid :: u64
  rch_PeerAlias :: string
  rch_CustomChannelData :: bytes

record ('addr, 'scid) ChannelInfo =
  ci_ChannelPoint :: string
  ci_Active :: bool
  ci_ChannelID :: u64
  ci_PubKeyBytes :: Vertex
  ci_Capacity :: Amount
  ci_LocalBalance :: Amount
  ci_RemoteBalance :: Amount
  ci_UnsettledBalance :: Amount
  ci_Initiator :: bool
  ci_Private :: bool
  ci_LifeTime :: i64
  ci_Uptime :: i64
  ci_ChanStatusFlags :: string
  ci_TotalSent :: Amount
  ci_TotalReceived :: Amount
  ci_NumUpdates :: u64
  ci_NumPendingHtlcs :: nat
  ci_PendingHtlcs :: "'scid PendingHtlc list"
  ci_CSVDelay :: u64
  ci_FeePerKw :: i64
  ci_CommitWeight :: i64
  ci_CommitFee :: Amount
  ci_LocalConstraints :: "ChannelConstraints option"
  ci_RemoteConstraints :: "ChannelConstraints option"
  ci_CloseAddr :: "'addr option"
  ci_ZeroConf :: bool
  ci_ZeroConfScid :: u64
  ci_AliasScids :: "u64 list"
  ci_CustomChannelData :: bytes
  ci_PeerAlias :: string

text \<open>The field \<open>CSVDelay\<close> is not set and keeps its zero value; durations wrap around.\<close>

definition newChannelInfo ::
  "('addr, 'scid, 'tx) ln_fns \<Rightarrow> rpcChannel \<Rightarrow> ('addr, 'scid) ChannelInfo go" where
  "newChannelInfo fns channel =
     go_bind (lf_NewVertexFromStr fns (rch_RemotePubkey channel)) (\<lambda>remoteVertex.
     go_bind (go_map (newPendingHtlc fns) (rch_PendingHtlcs channel)) (\<lambda>htlcs.
     go_bind (if rch_CloseAddress channel \<noteq> []
              then go_bind (lf_DecodeAddress fns (rch_CloseAddress channel)) (\<lambda>a. Ok (Some a))
              else Ok None) (\<lambda>closeAddr.
       Ok \<lparr>ci_ChannelPoint = rch_ChannelPoint channel,
           ci_Active = rch_Active channel,
           ci_ChannelID = rch_ChanId channel,
           ci_PubKeyBytes = remoteVertex,
           ci_Capacity = rch_Capacity channel,
           ci_LocalBalance = rch_LocalBalance channel,
           ci_RemoteBalance = rch_RemoteBalance channel,
           ci_UnsettledBalance = rch_UnsettledBalance channel,
           ci_Initiator = rch_Initiator channel,
           ci_Private = rch_Private channel,
           ci_LifeTime = Second * rch_Lifetime channel,
           ci_Uptime = Second * rch_Uptime channel,
           ci_ChanStatusFlags = rch_ChanStatusFlags channel,
           ci_TotalSent = rch_TotalSatoshisSent channel,
           ci_TotalReceived = rch_TotalSatoshisReceived channel,
           ci_NumUpdates = rch_NumUpdates channel,
           ci_NumPendingHtlcs = length (rch_PendingHtlcs channel),
           ci_PendingHtlcs = htlcs,
           ci_CSVDelay = 0,
           ci_FeePerKw = rch_FeePerKw channel,
           ci_CommitWeight = rch_CommitWeight channel,
           ci_CommitFee = rch_CommitFee channel,
           ci_LocalConstraints = newChannelConstraint (rch_LocalConstraints channel),
           ci_RemoteConstraints = newChannelConstraint (rch_RemoteConstraints channel),
           ci_CloseAddr = closeAddr,
           ci_ZeroConf = rch_ZeroConf channel,
           ci_ZeroConfScid = rch_ZeroConfConfirmedScid channel,
           ci_AliasScids = rch_AliasScids channel,
           ci_CustomChannelData = rch_CustomChannelData channel,
           ci_PeerAlias = rch_PeerAlias channel\<rparr>)))"

section \<open>Closed channels\<close>

datatype CloseType =
    CloseTypeCooperative | CloseTypeLocalForce | CloseTypeRemoteForce | CloseTypeBreach
  | CloseTypeFundingCancelled | CloseTypeAbandoned

datatype Initiator = InitiatorUnrecorded | InitiatorLocal | InitiatorRemote | InitiatorBoth

text \<open>The values of the two types the code makes are the named ones; the default branches of the
  \<open>String\<close> methods are for other numbers only.\<close>

fun CloseType_String :: "CloseType \<Rightarrow> string" where
  "CloseType_String CloseTypeCooperative = ''Cooperative''"
| "CloseType_String CloseTypeLocalForce = ''Local Force''"
| "CloseType_String CloseTypeRemoteForce = ''Remote Force''"
| "CloseType_String CloseTypeBreach = ''Breach''"
| "CloseType_String CloseTypeFundingCancelled = ''Funding Cancelled''"
| "CloseType_String CloseTypeAbandoned = ''Abandoned''"

fun Initiator_String :: "Initiator \<Rightarrow> string" where
  "Initiator_String InitiatorUnrecorded = ''Unrecorded''"
| "Initiator_String InitiatorLocal = ''Local''"
| "Initiator_String InitiatorRemote = ''Remote''"
| "Initiator_String InitiatorBoth = ''Both''"

datatype rpcClosureType =
    COOPERATIVE_CLOSE | LOCAL_FORCE_CLOSE | REMOTE_FORCE_CLOSE | BREACH_CLOSE | FUNDING_CANCELED
  | ABANDONED | ClosureType_other i32

datatype rpcInitiator =
    INITIATOR_UNKNOWN | INITIATOR_LOCAL | INITIATOR_REMOTE | INITIATOR_BOTH | Initiator_other i32

fun rpcCloseType :: "rpcClosureType \<Rightarrow> CloseType go" where
  "rpcCloseType COOPERATIVE_CLOSE = Ok CloseTypeCooperative"
| "rpcCloseType LOCAL_FORCE_CLOSE = Ok CloseTypeLocalForce"
| "rpcCloseType REMOTE_FORCE_CLOSE = Ok CloseTypeRemoteForce"
| "rpcCloseType BREACH_CLOSE = Ok CloseTypeBreach"
| "rpcCloseType FUNDING_CANCELED = Ok CloseTypeFundingCancelled"
| "rpcCloseType ABANDONED = Ok CloseTypeAbandoned"
| "rpcCloseType (ClosureType_other n) =
     Err (FmtVal ''unknown close type: '' (show_int (sint n)))"

fun getInitiator :: "rpcInitiator \<Rightarrow> Initiator go" where
  "getInitiator INITIATOR_LOCAL = Ok InitiatorLocal"
| "getInitiator INITIATOR_REMOTE = Ok InitiatorRemote"
| "getInitiator INITIATOR_BOTH = Ok InitiatorBoth"
| "getInitiator INITIATOR_UNKNOWN = Ok InitiatorUnrecorded"
| "getInitiator (Initiator_other n) = Err (FmtVal ''unknown initiator: '' (show_int (sint n)))"

definition rpcCloseInitiator :: "rpcInitiator \<Rightarrow> CloseType \<Rightarrow> Initiator go" where
  "rpcCloseInitiator initiator closeType = (case closeType of
       CloseTypeLocalForce \<Rightarrow> Ok InitiatorLocal
     | CloseTypeRemoteForce \<Rightarrow> Ok InitiatorRemote
     | CloseTypeBreach \<Rightarrow> Ok InitiatorRemote
     | _ \<Rightarrow> getInitiator initiator)"

record rpcChannelCloseSummary =
  rcs_ChannelPoint :: string
  rcs_ChanId :: u64
  rcs_ClosingTxHash :: string
  rcs_RemotePubkey :: string
  rcs_Capacity :: i64
  rcs_CloseHeight :: u32
  rcs_SettledBalance :: i64
  rcs_CloseType :: rpcClosureType
  rcs_OpenInitiator :: rpcInitiator
  rcs_CloseInitiator :: rpcInitiator

record ClosedChannel =
  cl_ChannelPoint :: string
  cl_ChannelID :: u64
  cl_ClosingTxHash :: string
  cl_CloseType :: CloseType
  cl_CloseHeight :: u32
  cl_OpenInitiator :: Initiator
  cl_CloseInitiator :: Initiator
  cl_PubKeyBytes :: Vertex
  cl_Capacity :: Amount
  cl_SettledBalance :: Amount

definition getClosedChannel ::
  "('addr, 'scid, 'tx) ln_fns \<Rightarrow> rpcChannelCloseSummary \<Rightarrow> ClosedChannel go" where
  "getClosedChannel fns closeSummary =
     go_bind (lf_NewVertexFromStr fns (rcs_RemotePubkey closeSummary)) (\<lambda>remote.
     go_bind (rpcCloseType (rcs_CloseType closeSummary)) (\<lambda>closeType.
     go_bind (getInitiator (rcs_OpenInitiator closeSummary)) (\<lambda>openInitiator.
     go_bind (rpcCloseInitiator (rcs_CloseInitiator closeSummary) closeType) (\<lambda>closeInitiator.
       Ok \<lparr>cl_ChannelPoint = rcs_ChannelPoint closeSummary,
           cl_ChannelID = rcs_ChanId closeSummary,
           cl_ClosingTxHash = rcs_ClosingTxHash closeSummary,
           cl_CloseType = closeType,
           cl_CloseHeight = rcs_CloseHeight closeSummary,
           cl_OpenInitiator = openInitiator,
           cl_CloseInitiator = closeInitiator,
           cl_PubKeyBytes = remote,
           cl_Capacity = rcs_Capacity closeSummary,
           cl_SettledBalance = rcs_SettledBalance closeSummary\<rparr>))))"

section \<open>Pending channels\<close>

record rpcPendingChannel =
  rpch_RemoteNodePub :: string
  rpch_ChannelPoint :: string
  rpch_Capacity :: i64
  rpch_LocalBalance :: i64
  rpch_RemoteBalance :: i64
  rpch_Initiator :: rpcInitiator
  rpch_ChanStatusFlags :: string
  rpch_CustomChannelData :: bytes

record PendingChannel =
  pc_ChannelPoint :: OutPoint
  pc_PubKeyBytes :: Vertex
  pc_Capacity :: Amount
  pc_LocalBalance :: Amount
  pc_RemoteBalance :: Amount
  pc_ChannelInitiator :: Initiator
  pc_CustomChannelData :: bytes

definition NewPendingChannel ::
  "('addr, 'scid, 'tx) ln_fns \<Rightarrow> rpcPendingChannel option \<Rightarrow> PendingChannel go" where
  "NewPendingChannel fns channel =
     go_bind (deref channel) (\<lambda>channel.
     go_bind (lf_NewVertexFromStr fns (rpch_RemoteNodePub channel)) (\<lambda>peer.
     go_bind (NewOutpointFromStr (lf_NewHashFromStr fns) (rpch_ChannelPoint channel)) (\<lambda>outpoint.
     go_bind (getInitiator (rpch_Initiator channel)) (\<lambda>initiator.
       Ok \<lparr>pc_ChannelPoint = outpoint,
           pc_PubKeyBytes = peer,
           pc_Capacity = rpch_Capacity channel,
           pc_LocalBalance = rpch_LocalBalance channel,
           pc_RemoteBalance = rpch_RemoteBalance channel,
           pc_ChannelInitiator = initiator,
           pc_CustomChannelData = rpch_CustomChannelData channel\<rparr>))))"

record rpcForceClosedChannel =
  rfc_Channel :: "rpcPendingChannel option"
  rfc_ClosingTxid :: string
  rfc_LimboBalance :: i64
  rfc_MaturityHeight :: u32
  rfc_BlocksTilMaturity :: i32
  rfc_RecoveredBalance :: i64
  rfc_Anchor :: i32

record rpcCommitments =
  rcm_LocalTxid :: string
  rcm_RemoteTxid :: string
  rcm_RemotePendingTxid :: string

record rpcWaitingCloseChannel =
  rwc_Channel :: "rpcPendingChannel option"
  rwc_Commitments :: "rpcCommitments option"
  rwc_ClosingTxid :: string

record rpcPendingChannelsResponse =
  rpr_PendingOpen :: "rpcPendingChannel option list"
  rpr_ForceClosing :: "rpcForceClosedChannel list"
  rpr_WaitingClose :: "rpcWaitingCloseChannel list"

record ForceCloseChannel =
  fc_PendingChannel :: PendingChannel
  fc_CloseTxid :: bytes
  fc_LimboBalance :: Amount
  fc_RecoveredBalance :: Amount
  fc_MaturityHeight :: i32
  fc_BlocksUntilMaturity :: i32
  fc_AnchorState :: i32

record WaitingCloseChannel =
  wc_PendingChannel :: PendingChannel
  wc_LocalTxid :: bytes
  wc_RemoteTxid :: bytes
  wc_RemotePending :: bytes
  wc_ChanStatusFlags :: string
  wc_CloseTxid :: bytes

record PendingChannels =
  pcs_PendingForceClose :: "ForceCloseChannel list"
  pcs_PendingOpen :: "PendingChannel list"
  pcs_WaitingClose :: "WaitingCloseChannel list"

definition force_close_channel ::
  "('addr, 'scid, 'tx) ln_fns \<Rightarrow> rpcForceClosedChannel \<Rightarrow> ForceCloseChannel go" where
  "force_close_channel fns force =
     go_bind (NewPendingChannel fns (rfc_Channel force)) (\<lambda>channel.
     go_bind (lf_NewHashFromStr fns (rfc_ClosingTxid force)) (\<lambda>hash.
       Ok \<lparr>fc_PendingChannel = channel,
           fc_CloseTxid = hash,
           fc_LimboBalance = rfc_LimboBalance force,
           fc_RecoveredBalance = rfc_RecoveredBalance force,
           fc_MaturityHeight = rfc_MaturityHeight force,
           fc_BlocksUntilMaturity = rfc_BlocksTilMaturity force,
           fc_AnchorState = rfc_Anchor force\<rparr>))"

definition waiting_close_channel ::
  "('addr, 'scid, 'tx) ln_fns \<Rightarrow> rpcWaitingCloseChannel \<Rightarrow> WaitingCloseChannel go" where
  "waiting_close_channel fns waiting =
     go_bind (NewPendingChannel fns (rwc_Channel waiting)) (\<lambda>channel.
     go_bind (deref (rwc_Commitments waiting)) (\<lambda>commitments.
     go_bind (lf_NewHashFromStr fns (rcm_LocalTxid commitments)) (\<lambda>localTxid.
     go_bind (lf_NewHashFromStr fns (rcm_RemoteTxid commitments)) (\<lambda>remoteTxid.
     go_bind (lf_NewHashFromStr fns (rcm_RemotePendingTxid commitments)) (\<lambda>remotePending.
     go_bind (lf_NewHashFromStr fns (rwc_ClosingTxid waiting)) (\<lambda>hash.
     go_bind (deref (rwc_Channel waiting)) (\<lambda>rpcChannel.
       Ok \<lparr>wc_PendingChannel = channel,
           wc_LocalTxid = localTxid,
           wc_RemoteTxid = remoteTxid,
           wc_RemotePending = remotePending,
           wc_ChanStatusFlags = rpch_ChanStatusFlags rpcChannel,
           wc_CloseTxid = hash\<rparr>)))))))"

definition pending_channels ::
  "('addr, 'scid, 'tx) ln_fns \<Rightarrow> rpcPendingChannelsResponse \<Rightarrow> PendingChannels go" where
  "pending_channels fns resp =
     go_bind (go_map (force_close_channel fns) (rpr_ForceClosing resp)) (\<lambda>force.
     go_bind (go_map (waiting_close_channel fns) (rpr_WaitingClose resp)) (\<lambda>waiting.
     go_bind (go_map (NewPendingChannel fns) (rpr_PendingOpen resp)) (\<lambda>opens.
       Ok \<lparr>pcs_PendingForceClose = force, pcs_PendingOpen = opens, pcs_WaitingClose = waiting\<rparr>)))"

section \<open>Nodes\<close>

record rpcLightningNode =
  rln_LastUpdate :: u32
  rln_PubKey :: string
  rln_Alias :: string
  rln_Addresses :: "string list"
  rln_Color :: string
  rln_Features :: "u32 list"     \<comment> \<open>the keys of the map\<close>

record Node =
  nd_PubKey :: Vertex
  nd_LastUpdate :: gotime
  nd_Alias :: string
  nd_Color :: string
  nd_Features :: "u16 list"
  nd_Addresses :: "string list"

text \<open>A feature bit of lnwire has 16 bits, the key in the message 32.\<close>

definition newNode ::
  "('addr, 'scid, 'tx) ln_fns \<Rightarrow> rpcLightningNode option \<Rightarrow> Node option go" where
  "newNode fns lnNode = (case lnNode of
       None \<Rightarrow> Ok None
     | Some lnNode \<Rightarrow>
         go_bind (lf_NewVertexFromStr fns (rln_PubKey lnNode)) (\<lambda>pubKey.
           Ok (Some \<lparr>nd_PubKey = pubKey,
                     nd_LastUpdate = time_Unix (ucast (rln_LastUpdate lnNode)) 0,
                     nd_Alias = rln_Alias lnNode,
                     nd_Color = rln_Color lnNode,
                     nd_Features = map ucast (rln_Features lnNode),
                     nd_Addresses = rln_Addresses lnNode\<rparr>)))"

section \<open>Channel acceptance\<close>

datatype rpcCommitmentType =
    UNKNOWN_COMMITMENT_TYPE | LEGACY | STATIC_REMOTE_KEY | ANCHORS | SCRIPT_ENFORCED_LEASE
  | SIMPLE_TAPROOT | SIMPLE_TAPROOT_FINAL | SIMPLE_TAPROOT_OVERLAY | CommitmentType_other i32

datatype CommitmentType =
    CommitmentTypeLegacy | CommitmentTypeTweakless | CommitmentTypeAnchorsZeroFeeHtlcTx
  | CommitmentTypeScriptEnforcedLease | CommitmentTypeSimpleTaproot
  | CommitmentTypeSimpleTaprootFinal | CommitmentTypeSimpleTaprootOverlay

fun commitment_type :: "rpcCommitmentType \<Rightarrow> CommitmentType option go" where
  "commitment_type UNKNOWN_COMMITMENT_TYPE = Ok None"
| "commitment_type LEGACY = Ok (Some CommitmentTypeLegacy)"
| "commitment_type STATIC_REMOTE_KEY = Ok (Some CommitmentTypeTweakless)"
| "commitment_type ANCHORS = Ok (Some CommitmentTypeAnchorsZeroFeeHtlcTx)"
| "commitment_type SCRIPT_ENFORCED_LEASE = Ok (Some CommitmentTypeScriptEnforcedLease)"
| "commitment_type SIMPLE_TAPROOT = Ok (Some CommitmentTypeSimpleTaproot)"
| "commitment_type SIMPLE_TAPROOT_FINAL = Ok (Some CommitmentTypeSimpleTaprootFinal)"
| "commitment_type SIMPLE_TAPROOT_OVERLAY = Ok (Some CommitmentTypeSimpleTaprootOverlay)"
| "commitment_type (CommitmentType_other n) =
     Err (FmtVal ''unhandled commitment type '' (show_int (sint n)))"

record rpcChannelAcceptRequest =
  rar_NodePubkey :: bytes
  rar_ChainHash :: bytes
  rar_PendingChanId :: bytes
  rar_FundingAmt :: u64
  rar_PushAmt :: u64
  rar_DustLimit :: u64
  rar_MaxValueInFlight :: u64
  rar_ChannelReserve :: u64
  rar_MinHtlc :: u64
  rar_FeePerKw :: u64
  rar_CsvDelay :: u32
  rar_MaxAcceptedHtlcs :: u32
  rar_ChannelFlags :: u32
  rar_CommitmentType :: rpcCommitmentType
  rar_WantsZeroConf :: bool
  rar_WantsScidAlias :: bool

record AcceptorRequest =
  aq_NodePubkey :: Vertex
  aq_ChainHash :: bytes
  aq_PendingChanID :: bytes
  aq_FundingAmt :: Amount
  aq_PushAmt :: Amount
  aq_DustLimit :: Amount
  aq_MaxValueInFlight :: Amount
  aq_ChannelReserve :: Amount
  aq_MinHtlc :: MilliSatoshi
  aq_FeePerKw :: i64
  aq_CsvDelay :: u32
  aq_MaxAcceptedHtlcs :: u32
  aq_ChannelFlags :: u32
  aq_CommitmentType :: "CommitmentType option"
  aq_WantsZeroConf :: bool
  aq_WantsSCIDAlias :: bool

definition newAcceptorRequest ::
  "('addr, 'scid, 'tx) ln_fns \<Rightarrow> rpcChannelAcceptRequest \<Rightarrow> AcceptorRequest go" where
  "newAcceptorRequest fns req =
     go_bind (lf_NewVertexFromBytes fns (rar_NodePubkey req)) (\<lambda>pk.
     go_bind (commitment_type (rar_CommitmentType req)) (\<lambda>commitmentType.
       Ok \<lparr>aq_NodePubkey = pk,
           aq_ChainHash = rar_ChainHash req,
           aq_PendingChanID = copy_array 32 (rar_PendingChanId req),
           aq_FundingAmt = rar_FundingAmt req,
           aq_PushAmt = rar_PushAmt req,
           aq_DustLimit = rar_DustLimit req,
           aq_MaxValueInFlight = rar_MaxValueInFlight req,
           aq_ChannelReserve = rar_ChannelReserve req,
           aq_MinHtlc = rar_MinHtlc req,
           aq_FeePerKw = rar_FeePerKw req,
           aq_CsvDelay = rar_CsvDelay req,
           aq_MaxAcceptedHtlcs = rar_MaxAcceptedHtlcs req,
           aq_ChannelFlags = rar_ChannelFlags req,
           aq_CommitmentType = commitmentType,
           aq_WantsZeroConf = rar_WantsZeroConf req,
           aq_WantsSCIDAlias = rar_WantsScidAlias req\<rparr>))"

section \<open>Transactions\<close>

record ('od, 'po) rpcTransaction =
  rtx_RawTxHex :: string
  rtx_Amount :: i64
  rtx_NumConfirmations :: i32
  rtx_BlockHash :: string
  rtx_BlockHeight :: i32
  rtx_TimeStamp :: i64
  rtx_TotalFees :: i64
  rtx_Label :: string
  rtx_OutputDetails :: "'od list"
  rtx_PreviousOutpoints :: "'po list"

record ('tx, 'od, 'po) Transaction =
  tr_Tx :: "'tx option"
  tr_TxHash :: string
  tr_Timestamp :: gotime
  tr_Amount :: Amount
  tr_Fee :: Amount
  tr_Confirmations :: i32
  tr_Label :: string
  tr_BlockHash :: string
  tr_BlockHeight :: i32
  tr_OutputDetails :: "'od list"
  tr_PreviousOutpoints :: "'po list"

text \<open>The zero \<open>Transaction\<close>, returned beside every error.\<close>

definition zero_Transaction :: "('tx, 'od, 'po) Transaction" where
  "zero_Transaction = \<lparr>tr_Tx = None, tr_TxHash = [], tr_Timestamp = zero_time, tr_Amount = 0,
     tr_Fee = 0, tr_Confirmations = 0, tr_Label = [], tr_BlockHash = [], tr_BlockHeight = 0,
     tr_OutputDetails = [], tr_PreviousOutpoints = []\<rparr>"

definition unmarshallTransaction ::
  "('addr, 'scid, 'tx) ln_fns \<Rightarrow> ('od, 'po) rpcTransaction \<Rightarrow> ('tx, 'od, 'po) Transaction go" where
  "unmarshallTransaction fns rpcTx =
     go_bind (hex_decode (rtx_RawTxHex rpcTx)) (\<lambda>rawTx.
     go_bind (lf_Deserialize fns rawTx) (\<lambda>tx.
       Ok \<lparr>tr_Tx = Some tx,
           tr_TxHash = lf_TxHashString fns tx,
           tr_Timestamp = time_Unix (rtx_TimeStamp rpcTx) 0,
           tr_Amount = rtx_Amount rpcTx,
           tr_Fee = rtx_TotalFees rpcTx,
           tr_Confirmations = rtx_NumConfirmations rpcTx,
           tr_Label = rtx_Label rpcTx,
           tr_BlockHash = rtx_BlockHash rpcTx,
           tr_BlockHeight = rtx_BlockHeight rpcTx,
           tr_OutputDetails = rtx_OutputDetails rpcTx,
           tr_PreviousOutpoints = rtx_PreviousOutpoints rpcTx\<rparr>))"

end
