(* ===== verification/LightningInfo.thy ===== *)
theory LightningInfo
  imports GoStd
begin

text \<open>
  \<open>Info\<close> and \<open>newInfo\<close> of \<open>lightning_client.go\<close>: what the library keeps of lnd's \<open>GetInfo\<close> answer.
  \<open>NewHashFromStr\<close> and \<open>ParseHexColor\<close> belong to other modules.
\<close>

record rgba =
  rgba_R :: u8
  rgba_G :: u8
  rgba_B :: u8
  rgba_A :: u8

record Info =
  info_Version :: string
  info_CommitHash :: string
  info_BlockHeight :: u32
  info_BestHeaderTimeStamp :: gotime
  info_BestBlockHash :: bytes
  info_IdentityPubkey :: bytes
  info_Alias :: string
  info_Color :: rgba
  info_Network :: string
  info_Uris :: "string list"
  info_SyncedToChain :: bool
  info_SyncedToGraph :: bool
  info_ActiveChannels :: u32
  info_InactiveChannels :: u32
  info_PendingChannels :: u32
  info_NumPeers :: u32

record GetInfoResponse =
  gir_Version :: string
  gir_CommitHash :: string
  gir_IdentityPubkey :: string
  gir_Alias :: string
  gir_Color :: string
  gir_NumPendingChannels :: u32
  gir_NumActiveChannels :: u32
  gir_NumInactiveChannels :: u32
  gir_NumPeers :: u32
  gir_BlockHeight :: u32
  gir_BlockHash :: string
  gir_BestHeaderTimestamp :: i64
  gir_SyncedToChain :: bool
  gir_SyncedToGraph :: bool
  gir_Chains :: "string list"   \<comment> \<open>the networks of the chains\<close>
  gir_Uris :: "string list"

text \<open>An index of a slice, which panics outside of it.\<close>

definition index_of_range :: string where
  "index_of_range = ''index out of range''"

definition slice_at :: "'a list \<Rightarrow> nat \<Rightarrow> 'a go" where
  "slice_at xs i = (if i < length xs then Ok (xs ! i) else Panic index_of_range)"

lemma slice_at_simps [simp]:
  "slice_at (x # xs) 0 = Ok x" "slice_at [] i = Panic index_of_range"
  by (simp_all add: slice_at_def)

lemma slice_at_Ok_iff [simp]: "slice_at xs i = Ok x \<longleftrightarrow> i < length xs \<and> x = xs ! i"
  by (auto simp: slice_at_def)

lemma is_panic_slice_at [simp]: "is_panic (slice_at xs i) \<longleftrightarrow> length xs \<le> i"
  by (auto simp: slice_at_def)

definition newInfo ::
  "(string \<Rightarrow> bytes go) \<Rightarrow> (string \<Rightarrow> rgba go) \<Rightarrow> GetInfoResponse \<Rightarrow> Info go" where
  "newInfo NewHashFromStr ParseHexColor resp =
     go_bind (hex_decode (gir_IdentityPubkey resp)) (\<lambda>pubKey.
     go_bind (go_wrap (WrapErr ''failed to parse BlockHash: '') (NewHashFromStr (gir_BlockHash resp)))
       (\<lambda>bestBlockHash.
     go_bind (go_wrap (WrapErr (''failed to parse color hex '' @ gir_Color resp @ '': ''))
                (ParseHexColor (gir_Color resp))) (\<lambda>color.
     go_bind (slice_at (gir_Chains resp) 0) (\<lambda>network.
       Ok \<lparr>info_Version = gir_Version resp,
           info_CommitHash = gir_CommitHash resp,
           info_BlockHeight = gir_BlockHeight resp,
           info_BestHeaderTimeStamp = time_Unix (gir_BestHeaderTimestamp resp) 0,
           info_BestBlockHash = bestBlockHash,
           info_IdentityPubkey = copy_array 33 pubKey,
           info_Alias = gir_Alias resp,
           info_Color = color,
           info_Network = network,
           info_Uris = gir_Uris resp,
           info_SyncedToChain = gir_SyncedToChain resp,
           info_SyncedToGraph = gir_SyncedToGraph resp,
           info_ActiveChannels = gir_NumActiveChannels resp,
           info_InactiveChannels = gir_NumInactiveChannels resp,
           info_PendingChannels = gir_NumPendingChannels resp,
           info_NumPeers = gir_NumPeers resp\<rparr>))))"

lemma newInfo_pubkey_length:
  "newInfo H C resp = Ok info \<Longrightarrow> length (info_IdentityPubkey info) = 33"
  by (auto simp: newInfo_def)

text \<open>A public key of the right size survives; its printed form gives it back.\<close>

lemma newInfo_pubkey:
  assumes "newInfo H C resp = Ok info" and "gir_IdentityPubkey resp = hex_encode key"
    and "length key = 33"
  shows "info_IdentityPubkey info = key"
  using assms by (auto simp: newInfo_def hex_roundtrip)

text \<open>The answer is trusted to name a chain: without one the index panics.\<close>

lemma newInfo_panic_iff:
  assumes "\<And>s. \<not> is_panic (H s)" and "\<And>s. \<not> is_panic (C s)"
  shows "is_panic (newInfo H C resp) \<longleftrightarrow>
     gir_Chains resp = [] \<and> is_ok (hex_decode (gir_IdentityPubkey resp))
       \<and> is_ok (H (gir_BlockHash resp)) \<and> is_ok (C (gir_Color resp))"
  using assms
  by (cases "hex_decode (gir_IdentityPubkey resp)"; cases "H (gir_BlockHash resp)";
      cases "C (gir_Color resp)") (auto simp: newInfo_def dest: arg_cong [of _ _ is_panic])

section \<open>Main theorems\<close>

text \<open>\<open>newInfo\<close> reads the first chain of the answer without a check: with parsers that do not panic
  it panics exactly when the answer names no chain and its key, block hash and color all parse.\<close>

theorem newInfo_panics_without_chain:
  assumes "\<And>s. \<not> is_panic (NewHashFromStr s)" and "\<And>s. \<not> is_panic (ParseHexColor s)"
  shows "is_panic (newInfo NewHashFromStr ParseHexColor resp) \<longleftrightarrow>
     gir_Chains resp = [] \<and> is_ok (hex_decode (gir_IdentityPubkey resp))
       \<and> is_ok (NewHashFromStr (gir_BlockHash resp)) \<and> is_ok (ParseHexColor (gir_Color resp))"
  using assms by (rule newInfo_panic_iff)

theorem newInfo_panics_without_chain_witness:
  "is_panic (newInfo (\<lambda>s. Ok []) (\<lambda>s. Ok \<lparr>rgba_R = 0, rgba_G = 0, rgba_B = 0, rgba_A = 0\<rparr>)
     \<lparr>gir_Version = ''v'', gir_CommitHash = [], gir_IdentityPubkey = [], gir_Alias = ''a'',
      gir_Color = ''c'', gir_NumPendingChannels = 0, gir_NumActiveChannels = 0,
      gir_NumInactiveChannels = 0, gir_NumPeers = 0, gir_BlockHeight = 1, gir_BlockHash = ''h'',
      gir_BestHeaderTimestamp = 0, gir_SyncedToChain = True, gir_SyncedToGraph = True,
      gir_Chains = [], gir_Uris = []\<rparr>)"
  by (subst newInfo_panics_without_chain) simp_all

end
