(* ===== verification/MacaroonRecipes.thy ===== *)
theory MacaroonRecipes
  imports GoStd "HOL-Library.Multiset"
begin

text \<open>
  \<open>macaroon_recipes.go\<close>: the permissions a macaroon needs for all methods of a set of clients. The
  interfaces that the source inspects by reflection are listed here with their methods in the order
  of \<open>reflect\<close>, which sorts them by name.
\<close>

record MacaroonPermission =
  perm_Entity :: string
  perm_Action :: string

record rpcMethod =
  rm_pkg :: string
  rm_service :: string
  rm_method :: string

definition uri :: "rpcMethod \<Rightarrow> string" where
  "uri r = ''/'' @ rm_pkg r @ ''.'' @ rm_service r @ ''/'' @ rm_method r"

text \<open>A client interface: its name and its methods.\<close>

type_synonym iface = "string \<times> string list"

definition LightningClient_iface :: iface where
  "LightningClient_iface = (''LightningClient'', [''AddInvoice'', ''ChannelAcceptor'',
     ''ChannelBackup'', ''ChannelBackups'', ''ChannelBalance'', ''CheckMacaroonPermissions'',
     ''CloseChannel'', ''ClosedChannels'', ''Connect'', ''DecodePaymentRequest'',
     ''DescribeGraph'', ''EstimateFee'', ''EstimateFeeToP2WSH'', ''ForwardingHistory'',
     ''FundingStateStep'', ''GetChanInfo'', ''GetInfo'', ''GetNodeInfo'', ''ListAliases'',
     ''ListChannels'', ''ListInvoices'', ''ListPayments'', ''ListPeers'', ''ListPermissions'',
     ''ListTransactions'', ''LookupInvoice'', ''NetworkInfo'', ''OpenChannel'',
     ''OpenChannelStream'', ''PayInvoice'', ''PendingChannels'', ''QueryRoutes'',
     ''RawClientWithMacAuth'', ''RegisterRPCMiddleware'', ''SendCoins'', ''SendCustomMessage'',
     ''SignMessage'', ''SubscribeChannelBackups'', ''SubscribeChannelEvents'',
     ''SubscribeCustomMessages'', ''SubscribeGraph'', ''SubscribeInvoices'',
     ''SubscribeTransactions'', ''UpdateChanPolicy'', ''VerifyMessage'', ''WalletBalance''])"

definition ChainNotifierClient_iface :: iface where
  "ChainNotifierClient_iface = (''ChainNotifierClient'', [''RawClientWithMacAuth'',
     ''RegisterBlockEpochNtfn'', ''RegisterConfirmationsNtfn'', ''RegisterSpendNtfn''])"

definition InvoicesClient_iface :: iface where
  "InvoicesClient_iface = (''InvoicesClient'', [''AddHoldInvoice'', ''CancelInvoice'',
     ''HtlcModifier'', ''RawClientWithMacAuth'', ''SettleInvoice'', ''SubscribeSingleInvoice''])"

definition RouterClient_iface :: iface where
  "RouterClient_iface = (''RouterClient'', [''EstimateRouteFee'', ''EstimateRouteFeeWithProbe'',
     ''ImportMissionControl'', ''InterceptHtlcs'', ''QueryMissionControl'',
     ''RawClientWithMacAuth'', ''ResetMissionControl'', ''SendPayment'', ''SubscribeHtlcEvents'',
     ''TrackPayment'', ''UpdateChanStatus'', ''XAddLocalChanAlias'', ''XDeleteLocalChanAlias'',
     ''XFindBaseLocalChanAlias''])"

definition SignerClient_iface :: iface where
  "SignerClient_iface = (''SignerClient'', [''ComputeInputScript'', ''DeriveSharedKey'',
     ''MuSig2Cleanup'', ''MuSig2CombineSig'', ''MuSig2CreateSession'',
     ''MuSig2GetCombinedNonce'', ''MuSig2RegisterCombinedNonce'', ''MuSig2RegisterNonces'',
     ''MuSig2Sign'', ''RawClientWithMacAuth'', ''SignMessage'', ''SignOutputRaw'',
     ''SignOutputRawKeyLocator'', ''VerifyMessage''])"

definition VersionerClient_iface :: iface where
  "VersionerClient_iface = (''VersionerClient'', [''GetVersion'', ''RawClientWithMacAuth''])"

definition WalletKitClient_iface :: iface where
  "WalletKitClient_iface = (''WalletKitClient'', [''BumpFee'', ''DeriveKey'', ''DeriveNextKey'',
     ''EstimateFeeRate'', ''FinalizePsbt'', ''FundPsbt'', ''GetTransaction'',
     ''ImportPublicKey'', ''ImportTaprootScript'', ''LeaseOutput'', ''ListAccounts'',
     ''ListLeases'', ''ListSweeps'', ''ListSweepsVerbose'', ''ListUnspent'', ''MinRelayFee'',
     ''NextAddr'', ''PublishTransaction'', ''RawClientWithMacAuth'', ''ReleaseOutput'',
     ''RemoveTransaction'', ''SendOutputs'', ''SignPsbt'', ''SubmitPackage''])"

definition WatchtowerClientClient_iface :: iface where
  "WatchtowerClientClient_iface = (''WatchtowerClientClient'', [''AddTower'',
     ''DeactivateTower'', ''GetTowerInfo'', ''ListTowers'', ''Policy'', ''RawClientWithMacAuth'',
     ''RemoveTower'', ''Stats'', ''TerminateSession''])"

definition supportedSubservers :: "string \<rightharpoonup> iface" where
  "supportedSubservers = map_of [
     (''lnrpc'', LightningClient_iface),
     (''chainrpc'', ChainNotifierClient_iface),
     (''invoicesrpc'', InvoicesClient_iface),
     (''routerrpc'', RouterClient_iface),
     (''signrpc'', SignerClient_iface),
     (''verrpc'', VersionerClient_iface),
     (''walletrpc'', WalletKitClient_iface),
     (''wtclientrpc'', WatchtowerClientClient_iface)]"

definition renames :: "string \<rightharpoonup> string" where
  "renames = map_of [
     (''ChannelBackup'', ''ExportChannelBackup''),
     (''ChannelBackups'', ''ExportAllChannelBackups''),
     (''ConfirmedWalletBalance'', ''WalletBalance''),
     (''Connect'', ''ConnectPeer''),
     (''DecodePaymentRequest'', ''DecodePayReq''),
     (''ListTransactions'', ''GetTransactions''),
     (''UpdateChanPolicy'', ''UpdateChannelPolicy''),
     (''NetworkInfo'', ''GetNetworkInfo''),
     (''SubscribeGraph'', ''SubscribeChannelGraph''),
     (''InterceptHtlcs'', ''HtlcInterceptor''),
     (''ImportMissionControl'', ''XImportMissionControl''),
     (''EstimateFeeRate'', ''EstimateFee''),
     (''EstimateFeeToP2WSH'', ''EstimateFee''),
     (''EstimateRouteFeeWithProbe'', ''EstimateRouteFee''),
     (''OpenChannelStream'', ''OpenChannel''),
     (''ListSweepsVerbose'', ''ListSweeps''),
     (''MinRelayFee'', ''EstimateFee''),
     (''SignOutputRawKeyLocator'', ''SignOutputRaw'')]"

definition methodOverrides :: "string \<times> string \<rightharpoonup> rpcMethod list" where
  "methodOverrides = map_of [
     ((''lnrpc'', ''PayInvoice''),
        [\<lparr>rm_pkg = ''routerrpc'', rm_service = ''Router'', rm_method = ''SendPaymentV2''\<rparr>,
         \<lparr>rm_pkg = ''routerrpc'', rm_service = ''Router'', rm_method = ''TrackPaymentV2''\<rparr>])]"

definition ignores :: "string list" where
  "ignores = [''RawClientWithMacAuth'']"

text \<open>\<open>strings.TrimSuffix(name, "Client")\<close>.\<close>

definition TrimClient :: "string \<Rightarrow> string" where
  "TrimClient name = (let n = length name - 6 in
     if 6 \<le> length name \<and> drop n name = ''Client'' then take n name else name)"

text \<open>The RPC methods behind one method of a client; none for an ignored one.\<close>

definition recipe_methods :: "string \<Rightarrow> string \<Rightarrow> string \<Rightarrow> rpcMethod list" where
  "recipe_methods pkg serverName clientMethodName =
     (let methodName = (case renames clientMethodName of None \<Rightarrow> clientMethodName | Some n \<Rightarrow> n)
      in if methodName \<in> set ignores then []
         else case methodOverrides (pkg, clientMethodName) of
           Some rpcMethods \<Rightarrow> rpcMethods
         | None \<Rightarrow> [\<lparr>rm_pkg = pkg, rm_service = serverName, rm_method = methodName\<rparr>])"

text \<open>The map of maps of the permissions collected so far is the list of its pairs, without
  repetition.\<close>

type_synonym perm_set = "(string \<times> string) list"

definition add_perms :: "MacaroonPermission list \<Rightarrow> perm_set \<Rightarrow> perm_set" where
  "add_perms perms u = fold (\<lambda>p u. List.insert (perm_Entity p, perm_Action p) u) perms u"

fun recipe_rpcs ::
  "(string \<rightharpoonup> MacaroonPermission list) \<Rightarrow> rpcMethod list \<Rightarrow> perm_set \<Rightarrow> perm_set go" where
  "recipe_rpcs allPermissions [] u = Ok u"
| "recipe_rpcs allPermissions (r # rs) u = (case allPermissions (uri r) of
       None \<Rightarrow> Err (FmtVal ''URI '' (uri r @ '' not found in permission list''))
     | Some requiredPermissions \<Rightarrow> recipe_rpcs allPermissions rs (add_perms requiredPermissions u))"

definition iface_rpcs :: "string \<Rightarrow> iface \<Rightarrow> rpcMethod list" where
  "iface_rpcs pkg iface = concat (map (recipe_methods pkg (TrimClient (fst iface))) (snd iface))"

fun recipe_packages ::
  "(string \<rightharpoonup> MacaroonPermission list) \<Rightarrow> string list \<Rightarrow> perm_set \<Rightarrow> perm_set go" where
  "recipe_packages allPermissions [] u = Ok u"
| "recipe_packages allPermissions (pkg # pkgs) u = (case supportedSubservers pkg of
       None \<Rightarrow> Err (FmtVal ''unknown subserver '' pkg)
     | Some iface \<Rightarrow>
         go_bind (recipe_rpcs allPermissions (iface_rpcs pkg iface) u)
           (recipe_packages allPermissions pkgs))"

text \<open>
  The permissions come from the client's \<open>ListPermissions\<close>, whose outcome is the first argument. Go
  visits the entries of a map in an order of its own, which is the argument \<open>order\<close>.
\<close>

definition MacaroonRecipe ::
  "(string \<rightharpoonup> MacaroonPermission list) go \<Rightarrow> (perm_set \<Rightarrow> perm_set) \<Rightarrow> string list
     \<Rightarrow> MacaroonPermission list go" where
  "MacaroonRecipe listPermissions order packages =
     go_bind listPermissions (\<lambda>allPermissions.
     go_bind (recipe_packages allPermissions packages []) (\<lambda>u.
       Ok (map (\<lambda>(e, a). \<lparr>perm_Entity = e, perm_Action = a\<rparr>) (order u))))"

section \<open>What a recipe contains\<close>

definition perm_pair :: "MacaroonPermission \<Rightarrow> string \<times> string" where
  "perm_pair p = (perm_Entity p, perm_Action p)"

lemma add_perms_set [simp]: "set (add_perms perms u) = set u \<union> perm_pair ` set perms"
  unfolding add_perms_def by (induction perms arbitrary: u) (auto simp: perm_pair_def)

lemma add_perms_distinct: "distinct u \<Longrightarrow> distinct (add_perms perms u)"
  unfolding add_perms_def by (induction perms arbitrary: u) auto

text \<open>The RPC methods of a list of packages.\<close>

definition packages_rpcs :: "string list \<Rightarrow> rpcMethod list" where
  "packages_rpcs packages = concat (map (\<lambda>pkg. case supportedSubservers pkg of
     None \<Rightarrow> [] | Some iface \<Rightarrow> iface_rpcs pkg iface) packages)"

definition needed :: "(string \<rightharpoonup> MacaroonPermission list) \<Rightarrow> rpcMethod list \<Rightarrow> (string \<times> string) set"
where
  "needed allp rs = (\<Union>r \<in> set rs. case allp (uri r) of None \<Rightarrow> {} | Some ps \<Rightarrow> perm_pair ` set ps)"

lemma needed_simps [simp]:
  "needed allp [] = {}"
  "needed allp (r # rs) =
     (case allp (uri r) of None \<Rightarrow> {} | Some ps \<Rightarrow> perm_pair ` set ps) \<union> needed allp rs"
  "needed allp (xs @ ys) = needed allp xs \<union> needed allp ys"
  by (auto simp: needed_def)

lemma recipe_rpcs_Ok:
  "recipe_rpcs allp rs u = Ok v \<Longrightarrow>
     set v = set u \<union> needed allp rs \<and> (distinct u \<longrightarrow> distinct v)
     \<and> (\<forall>r \<in> set rs. allp (uri r) \<noteq> None)"
  by (induction rs arbitrary: u) (auto split: option.splits intro: add_perms_distinct)

lemma recipe_rpcs_complete:
  "\<forall>r \<in> set rs. allp (uri r) \<noteq> None \<Longrightarrow> is_ok (recipe_rpcs allp rs u)"
  by (induction rs arbitrary: u) (auto split: option.splits)

lemma recipe_packages_Ok:
  "recipe_packages allp pkgs u = Ok v \<Longrightarrow>
     set v = set u \<union> needed allp (packages_rpcs pkgs) \<and> (distinct u \<longrightarrow> distinct v)
     \<and> (\<forall>r \<in> set (packages_rpcs pkgs). allp (uri r) \<noteq> None)
     \<and> (\<forall>pkg \<in> set pkgs. supportedSubservers pkg \<noteq> None)"
proof (induction pkgs arbitrary: u)
  case Nil
  then show ?case by (simp add: packages_rpcs_def)
next
  case (Cons pkg pkgs)
  then obtain iface w where iface: "supportedSubservers pkg = Some iface"
    and w: "recipe_rpcs allp (iface_rpcs pkg iface) u = Ok w"
    and rest: "recipe_packages allp pkgs w = Ok v"
    by (auto split: option.splits)
  have "packages_rpcs (pkg # pkgs) = iface_rpcs pkg iface @ packages_rpcs pkgs"
    using iface by (simp add: packages_rpcs_def)
  with recipe_rpcs_Ok [OF w] Cons.IH [OF rest] iface show ?case by auto
qed

lemma recipe_packages_complete:
  "\<forall>pkg \<in> set pkgs. supportedSubservers pkg \<noteq> None \<Longrightarrow>
     \<forall>r \<in> set (packages_rpcs pkgs). allp (uri r) \<noteq> None \<Longrightarrow> is_ok (recipe_packages allp pkgs u)"
proof (induction pkgs arbitrary: u)
  case Nil
  then show ?case by simp
next
  case (Cons pkg pkgs)
  then obtain iface where iface: "supportedSubservers pkg = Some iface" by auto
  have eq: "packages_rpcs (pkg # pkgs) = iface_rpcs pkg iface @ packages_rpcs pkgs"
    using iface by (simp add: packages_rpcs_def)
  with Cons.prems have "is_ok (recipe_rpcs allp (iface_rpcs pkg iface) u)"
    by (intro recipe_rpcs_complete) auto
  then obtain w where "recipe_rpcs allp (iface_rpcs pkg iface) u = Ok w"
    by (cases "recipe_rpcs allp (iface_rpcs pkg iface) u") auto
  with iface eq Cons show ?case by simp
qed

lemma recipe_exact_aux:
  assumes "MacaroonRecipe (Ok allp) order packages = Ok perms"
    and "\<And>xs. mset (order xs) = mset xs"
  shows "perm_pair ` set perms = needed allp (packages_rpcs packages) \<and> distinct perms"
proof -
  from assms(1) obtain u where u: "recipe_packages allp packages [] = Ok u"
    and perms: "perms = map (\<lambda>(e, a). \<lparr>perm_Entity = e, perm_Action = a\<rparr>) (order u)"
    by (auto simp: MacaroonRecipe_def)
  have "mset (order u) = mset u" by (rule assms(2))
  then have "set (order u) = set u" and "distinct (order u) \<longleftrightarrow> distinct u"
    using mset_eq_setD mset_eq_imp_distinct_iff by blast+
  moreover from recipe_packages_Ok [OF u]
  have "set u = needed allp (packages_rpcs packages)" "distinct u" by auto
  moreover have "inj (\<lambda>(e, a). \<lparr>perm_Entity = e, perm_Action = a\<rparr>)"
    by (auto simp: inj_on_def)
  moreover have "perm_pair (case p of (e, a) \<Rightarrow> \<lparr>perm_Entity = e, perm_Action = a\<rparr>) = p" for p
    by (cases p) (simp add: perm_pair_def)
  ultimately show ?thesis
    by (auto simp: perms image_image distinct_map intro: inj_on_subset)
qed

section \<open>The methods of lnd\<close>

text \<open>
  The RPCs whose permissions a package needs, written out by URI: one for each method of the client
  but the access to the raw client, under lnd's name where the client has another one, with the two
  payment RPCs of the router for paying an invoice. For four methods of the router the library
  has the name of another RPC than the one it calls; see \<open>recipe_uncovered_router_methods\<close>.
\<close>

definition package_uris :: "string \<rightharpoonup> string list" where
  "package_uris = map_of [
     (''lnrpc'', map (append ''/lnrpc.Lightning/'') [
        ''AddInvoice'', ''ChannelAcceptor'', ''ExportChannelBackup'',
        ''ExportAllChannelBackups'', ''ChannelBalance'', ''CheckMacaroonPermissions'',
        ''CloseChannel'', ''ClosedChannels'', ''ConnectPeer'', ''DecodePayReq'',
        ''DescribeGraph'', ''EstimateFee'', ''EstimateFee'', ''ForwardingHistory'',
        ''FundingStateStep'', ''GetChanInfo'', ''GetInfo'', ''GetNodeInfo'', ''ListAliases'',
        ''ListChannels'', ''ListInvoices'', ''ListPayments'', ''ListPeers'',
        ''ListPermissions'', ''GetTransactions'', ''LookupInvoice'', ''GetNetworkInfo'',
        ''OpenChannel'', ''OpenChannel'']
        @ [''/routerrpc.Router/SendPaymentV2'', ''/routerrpc.Router/TrackPaymentV2'']
        @ map (append ''/lnrpc.Lightning/'') [
        ''PendingChannels'', ''QueryRoutes'', ''RegisterRPCMiddleware'', ''SendCoins'',
        ''SendCustomMessage'', ''SignMessage'', ''SubscribeChannelBackups'',
        ''SubscribeChannelEvents'', ''SubscribeCustomMessages'', ''SubscribeChannelGraph'',
        ''SubscribeInvoices'', ''SubscribeTransactions'', ''UpdateChannelPolicy'',
        ''VerifyMessage'', ''WalletBalance'']),
     (''chainrpc'', map (append ''/chainrpc.ChainNotifier/'') [
        ''RegisterBlockEpochNtfn'', ''RegisterConfirmationsNtfn'', ''RegisterSpendNtfn'']),
     (''invoicesrpc'', map (append ''/invoicesrpc.Invoices/'') [
        ''AddHoldInvoice'', ''CancelInvoice'', ''HtlcModifier'', ''SettleInvoice'',
        ''SubscribeSingleInvoice'']),
     (''routerrpc'', map (append ''/routerrpc.Router/'') [
        ''EstimateRouteFee'', ''EstimateRouteFee'', ''XImportMissionControl'',
        ''HtlcInterceptor'', ''QueryMissionControl'', ''ResetMissionControl'', ''SendPayment'',
        ''SubscribeHtlcEvents'', ''TrackPayment'', ''UpdateChanStatus'', ''XAddLocalChanAlias'',
        ''XDeleteLocalChanAlias'', ''XFindBaseLocalChanAlias'']),
     (''signrpc'', map (append ''/signrpc.Signer/'') [
        ''ComputeInputScript'', ''DeriveSharedKey'', ''MuSig2Cleanup'', ''MuSig2CombineSig'',
        ''MuSig2CreateSession'', ''MuSig2GetCombinedNonce'', ''MuSig2RegisterCombinedNonce'',
        ''MuSig2RegisterNonces'', ''MuSig2Sign'', ''SignMessage'', ''SignOutputRaw'',
        ''SignOutputRaw'', ''VerifyMessage'']),
     (''verrpc'', map (append ''/verrpc.Versioner/'') [
        ''GetVersion'']),
     (''walletrpc'', map (append ''/walletrpc.WalletKit/'') [
        ''BumpFee'', ''DeriveKey'', ''DeriveNextKey'', ''EstimateFee'', ''FinalizePsbt'',
        ''FundPsbt'', ''GetTransaction'', ''ImportPublicKey'', ''ImportTaprootScript'',
        ''LeaseOutput'', ''ListAccounts'', ''ListLeases'', ''ListSweeps'', ''ListSweeps'',
        ''ListUnspent'', ''EstimateFee'', ''NextAddr'', ''PublishTransaction'',
        ''ReleaseOutput'', ''RemoveTransaction'', ''SendOutputs'', ''SignPsbt'',
        ''SubmitPackage'']),
     (''wtclientrpc'', map (append ''/wtclientrpc.WatchtowerClient/'') [
        ''AddTower'', ''DeactivateTower'', ''GetTowerInfo'', ''ListTowers'', ''Policy'',
        ''RemoveTower'', ''Stats'', ''TerminateSession''])]"

text \<open>The table, the names of the services and the methods of the interfaces give these URIs.\<close>

definition uris_agree :: "string \<Rightarrow> bool" where
  "uris_agree pkg \<longleftrightarrow> (case (supportedSubservers pkg, package_uris pkg) of
       (Some iface, Some us) \<Rightarrow> map uri (iface_rpcs pkg iface) = us
     | (None, None) \<Rightarrow> True | _ \<Rightarrow> False)"

lemma supported_packages:
  "list_all uris_agree [''lnrpc'', ''chainrpc'', ''invoicesrpc'', ''routerrpc'', ''signrpc'', ''verrpc'',
     ''walletrpc'', ''wtclientrpc'']"
  by code_simp

lemma uris_agree: "uris_agree pkg"
proof (cases "pkg \<in> set [''lnrpc'', ''chainrpc'', ''invoicesrpc'', ''routerrpc'', ''signrpc'', ''verrpc'',
     ''walletrpc'', ''wtclientrpc'']")
  case True
  then show ?thesis using supported_packages unfolding list_all_iff by blast
next
  case False
  then have "supportedSubservers pkg = None" "package_uris pkg = None"
    by (auto simp: supportedSubservers_def package_uris_def)
  then show ?thesis by (simp add: uris_agree_def)
qed

lemma listed_package:
  "(case supportedSubservers pkg of None \<Rightarrow> {} | Some iface \<Rightarrow> uri ` set (iface_rpcs pkg iface))
     = (case package_uris pkg of None \<Rightarrow> {} | Some us \<Rightarrow> set us)"
  "supportedSubservers pkg = None \<longleftrightarrow> package_uris pkg = None"
proof -
  have "set us = uri ` set (iface_rpcs pkg iface)"
    if "supportedSubservers pkg = Some iface" "package_uris pkg = Some us" for iface us
    using uris_agree [of pkg] that by (auto simp: uris_agree_def)
  then show "(case supportedSubservers pkg of None \<Rightarrow> {} | Some iface \<Rightarrow> uri ` set (iface_rpcs pkg iface))
     = (case package_uris pkg of None \<Rightarrow> {} | Some us \<Rightarrow> set us)"
    "supportedSubservers pkg = None \<longleftrightarrow> package_uris pkg = None"
    using uris_agree [of pkg] by (auto simp: uris_agree_def split: option.splits)
qed

lemma packages_uris:
  "uri ` set (packages_rpcs pkgs)
     = (\<Union>pkg \<in> set pkgs. case package_uris pkg of None \<Rightarrow> {} | Some us \<Rightarrow> set us)"
  unfolding listed_package(1) [symmetric]
proof (induction pkgs)
  case (Cons pkg pkgs)
  have "packages_rpcs (pkg # pkgs) = (case supportedSubservers pkg of None \<Rightarrow> []
      | Some iface \<Rightarrow> iface_rpcs pkg iface) @ packages_rpcs pkgs"
    by (simp add: packages_rpcs_def)
  with Cons.IH show ?case
    by (cases "supportedSubservers pkg") (simp_all add: image_Un)
qed (simp add: packages_rpcs_def)

lemma packages_listed:
  "(\<forall>pkg \<in> set pkgs. supportedSubservers pkg \<noteq> None)
     \<and> (\<forall>r \<in> set (packages_rpcs pkgs). allp (uri r) \<noteq> None)
   \<longleftrightarrow> (\<forall>pkg \<in> set pkgs. \<exists>us. package_uris pkg = Some us \<and> set us \<subseteq> dom allp)"
proof -
  have "(\<forall>r \<in> set (packages_rpcs pkgs). allp (uri r) \<noteq> None) \<longleftrightarrow> uri ` set (packages_rpcs pkgs) \<subseteq> dom allp"
    by (auto simp: dom_def)
  also have "\<dots> \<longleftrightarrow> (\<forall>pkg \<in> set pkgs. \<forall>us. package_uris pkg = Some us \<longrightarrow> set us \<subseteq> dom allp)"
    unfolding packages_uris UN_subset_iff by (simp split: option.split)
  finally show ?thesis
    unfolding listed_package(2) by fastforce
qed

lemma needed_listed:
  "needed allp (packages_rpcs pkgs) = {perm_pair p | p pkg us u ps. pkg \<in> set pkgs
     \<and> package_uris pkg = Some us \<and> u \<in> set us \<and> allp u = Some ps \<and> p \<in> set ps}"
proof -
  have "needed allp (packages_rpcs pkgs) = (\<Union>u \<in> uri ` set (packages_rpcs pkgs).
      case allp u of None \<Rightarrow> {} | Some ps \<Rightarrow> perm_pair ` set ps)"
    by (simp add: needed_def)
  then show ?thesis
    unfolding packages_uris by (fastforce split: option.splits)
qed

section \<open>Recipes and calls\<close>

text \<open>
  The RPC methods that the methods of the router client call, read off \<open>router_client.go\<close>: the
  method of the generated client has the name of the RPC.
\<close>

definition router_called :: "string \<rightharpoonup> string list" where
  "router_called = map_of [
     (''EstimateRouteFee'', [''EstimateRouteFee'']),
     (''EstimateRouteFeeWithProbe'', [''EstimateRouteFee'']),
     (''ImportMissionControl'', [''XImportMissionControl'']),
     (''InterceptHtlcs'', [''HtlcInterceptor'']),
     (''QueryMissionControl'', [''QueryMissionControl'']),
     (''ResetMissionControl'', [''ResetMissionControl'']),
     (''SendPayment'', [''SendPaymentV2'']),
     (''SubscribeHtlcEvents'', [''SubscribeHtlcEvents'']),
     (''TrackPayment'', [''TrackPaymentV2'']),
     (''UpdateChanStatus'', [''UpdateChanStatus'']),
     (''XAddLocalChanAlias'', [''XAddLocalChanAliases'']),
     (''XDeleteLocalChanAlias'', [''XDeleteLocalChanAliases'']),
     (''XFindBaseLocalChanAlias'', [''XFindBaseLocalChanAlias''])]"

definition recipe_covers :: "string \<Rightarrow> bool" where
  "recipe_covers m = (case router_called m of None \<Rightarrow> True
     | Some rpcs \<Rightarrow> set rpcs \<subseteq> set (map rm_method (recipe_methods ''routerrpc'' ''Router'' m)))"

section \<open>Main theorems\<close>

text \<open>C19: whatever order Go iterates its maps in, a recipe that is returned lists, without repetition,
  exactly the entity and action pairs that lnd's permission list names for the RPCs of the requested
  packages, which \<open>package_uris\<close> writes out; a recipe is returned exactly when every package is one
  of the eight of that table and every such RPC is in lnd's list.\<close>

theorem MacaroonRecipe_exact:
  assumes "\<And>xs. mset (order xs) = mset xs"
  shows "(is_ok (MacaroonRecipe (Ok allp) order packages) \<longleftrightarrow>
       (\<forall>pkg \<in> set packages. \<exists>us. package_uris pkg = Some us \<and> set us \<subseteq> dom allp))
     \<and> (\<forall>perms. MacaroonRecipe (Ok allp) order packages = Ok perms \<longrightarrow> distinct perms
          \<and> perm_pair ` set perms = {perm_pair p | p pkg us u ps. pkg \<in> set packages
               \<and> package_uris pkg = Some us \<and> u \<in> set us \<and> allp u = Some ps \<and> p \<in> set ps})"
proof (intro conjI allI impI)
  have "is_ok (MacaroonRecipe (Ok allp) order packages) \<longleftrightarrow> is_ok (recipe_packages allp packages [])"
    by (cases "recipe_packages allp packages []") (auto simp: MacaroonRecipe_def)
  also have "\<dots> \<longleftrightarrow> (\<forall>pkg \<in> set packages. supportedSubservers pkg \<noteq> None)
      \<and> (\<forall>r \<in> set (packages_rpcs packages). allp (uri r) \<noteq> None)"
    using recipe_packages_complete [of packages allp "[]"]
    by (auto elim!: is_okE dest!: recipe_packages_Ok)
  also have "\<dots> \<longleftrightarrow> (\<forall>pkg \<in> set packages. \<exists>us. package_uris pkg = Some us \<and> set us \<subseteq> dom allp)"
    by (rule packages_listed)
  finally show "is_ok (MacaroonRecipe (Ok allp) order packages) \<longleftrightarrow>
      (\<forall>pkg \<in> set packages. \<exists>us. package_uris pkg = Some us \<and> set us \<subseteq> dom allp)" .
  fix perms assume p: "MacaroonRecipe (Ok allp) order packages = Ok perms"
  from recipe_exact_aux [OF p assms] show "distinct perms"
    and "perm_pair ` set perms = {perm_pair p | p pkg us u ps. pkg \<in> set packages
       \<and> package_uris pkg = Some us \<and> u \<in> set us \<and> allp u = Some ps \<and> p \<in> set ps}"
    by (simp_all add: needed_listed)
qed

theorem MacaroonRecipe_exact_witness:
  "let allp = [''/verrpc.Versioner/GetVersion'' \<mapsto> [\<lparr>perm_Entity = ''info'', perm_Action = ''read''\<rparr>],
        ''/lnrpc.Lightning/GetInfo'' \<mapsto> [\<lparr>perm_Entity = ''info'', perm_Action = ''write''\<rparr>]]
   in (\<exists>perms. MacaroonRecipe (Ok allp) rev [''verrpc''] = Ok perms \<and> distinct perms
         \<and> perm_pair ` set perms = {(''info'', ''read'')})
      \<and> \<not> is_ok (MacaroonRecipe (Ok allp) rev [''wtclientrpc''])"
proof -
  let ?read = "\<lparr>perm_Entity = ''info'', perm_Action = ''read''\<rparr>"
  let ?allp = "[''/verrpc.Versioner/GetVersion'' \<mapsto> [?read],
        ''/lnrpc.Lightning/GetInfo'' \<mapsto> [\<lparr>perm_Entity = ''info'', perm_Action = ''write''\<rparr>]]"
  have rev: "mset (rev xs) = mset xs" for xs :: "(string \<times> string) list" by simp
  note exact = MacaroonRecipe_exact [of rev, OF rev, of ?allp]
  have uris: "package_uris ''verrpc'' = Some [''/verrpc.Versioner/GetVersion'']"
    by (simp add: package_uris_def)
  with exact [of "[''verrpc'']"] have "is_ok (MacaroonRecipe (Ok ?allp) rev [''verrpc''])" by simp
  then obtain perms where p: "MacaroonRecipe (Ok ?allp) rev [''verrpc''] = Ok perms" by (rule is_okE)
  with exact [of "[''verrpc'']"] uris have "distinct perms" "perm_pair ` set perms = {(''info'', ''read'')}"
    by (auto simp: perm_pair_def)
  moreover have "\<exists>us. package_uris ''wtclientrpc'' = Some us \<and> ''/wtclientrpc.WatchtowerClient/AddTower'' \<in> set us"
    by (simp add: package_uris_def)
  then have "\<not> is_ok (MacaroonRecipe (Ok ?allp) rev [''wtclientrpc''])"
    using exact [of "[''wtclientrpc'']"] by auto
  ultimately show ?thesis using p by (auto simp: Let_def)
qed

text \<open>The router methods whose recipe does not cover the RPCs they call are exactly sending and
  tracking payments and adding and deleting channel aliases: for those the recipe asks for the
  permissions of an RPC of another name.\<close>

theorem recipe_uncovered_router_methods:
  "filter (\<lambda>m. \<not> recipe_covers m) (snd RouterClient_iface)
     = [''SendPayment'', ''TrackPayment'', ''XAddLocalChanAlias'', ''XDeleteLocalChanAlias'']"
  by code_simp

end
