(* ===== verification/Lightning.thy ===== *)
theory Lightning
  imports Invoices LightningTypes LightningInfo MacaroonRecipes
begin

text \<open>
  \<open>lightning_client.go\<close>: the client of lnd's main service, its requests, and the methods that make
  one call on the wallet, invoices, payments and channels. The graph and the remaining methods are in
  \<open>LightningGraph\<close>, the subscriptions in \<open>LightningStreams\<close>.

  A floating point number only passes through the library; it is its 64 bits.
\<close>

type_synonym float64 = u64

record lightningClient =
  ln_router :: routerClient
  ln_timeout :: i64
  ln_adminMac :: serializedMacaroon

definition newLightningClient ::
  "i64 \<Rightarrow> serializedMacaroon \<Rightarrow> routerClient \<Rightarrow> lightningClient" where
  "newLightningClient timeout adminMac router =
     \<lparr>ln_router = router, ln_timeout = timeout, ln_adminMac = adminMac\<rparr>"

definition ln_RawClientWithMacAuth :: "lightningClient \<Rightarrow> ctx \<Rightarrow> ctx \<times> i64" where
  "ln_RawClientWithMacAuth s parentCtx =
     (WithMacaroonAuth (ln_adminMac s) parentCtx, ln_timeout s)"

section \<open>Requests\<close>

record GetTransactionsRequest =
  gtr_StartHeight :: i32
  gtr_EndHeight :: i32
  gtr_Account :: string

record rpcListChannelsRequest =
  lcr_ActiveOnly :: bool
  lcr_PublicOnly :: bool
  lcr_Peer :: bytes

record rpcForwardingHistoryRequest =
  rfh_StartTime :: u64
  rfh_EndTime :: u64
  rfh_IndexOffset :: u32
  rfh_NumMaxEvents :: u32

record rpcListInvoiceRequest =
  rli_PendingOnly :: bool
  rli_IndexOffset :: u64
  rli_NumMaxInvoices :: u64
  rli_Reversed :: bool

record rpcListPaymentsRequest =
  rlp_IncludeIncomplete :: bool
  rlp_IndexOffset :: u64
  rlp_MaxPayments :: u64
  rlp_Reversed :: bool
  rlp_CountTotalPayments :: bool
  rlp_CreationDateStart :: u64
  rlp_CreationDateEnd :: u64
  rlp_OmitHops :: bool

text \<open>The invoice of an \<open>AddInvoice\<close> request: the fields the code sets. The blinded path
  configuration is the number of hops.\<close>

record rpcAddInvoice =
  rai_Memo :: string
  rai_ValueMsat :: i64
  rai_DescriptionHash :: bytes
  rai_Expiry :: i64
  rai_FallbackAddr :: string
  rai_CltvExpiry :: u64
  rai_Private :: bool
  rai_IsAmp :: bool
  rai_RouteHints :: "rpcRouteHint list"
  rai_RPreimage :: bytes
  rai_IsBlinded :: bool
  rai_BlindedPathConfig :: "u32 option"

datatype rpcFundingTxid = FundingTxidBytes bytes | FundingTxidStr string | FundingTxid_nil

record rpcChannelPoint =
  rcp_FundingTxid :: rpcFundingTxid
  rcp_OutputIndex :: u32

record rpcOpenChannelRequest =
  roc_NodePubkey :: bytes
  roc_LocalFundingAmount :: i64
  roc_PushSat :: i64
  roc_Private :: bool
  roc_ZeroConf :: bool
  roc_FundingShim :: "bytes option"       \<comment> \<open>an opaque message\<close>
  roc_CommitmentType :: rpcCommitmentType
  roc_ScidAlias :: bool
  roc_RemoteChanReserveSat :: u64
  roc_RemoteMaxHtlcs :: u32

record rpcCloseChannelRequest =
  rcl_ChannelPoint :: rpcChannelPoint
  rcl_Force :: bool
  rcl_TargetConf :: i32
  rcl_DeliveryAddress :: string
  rcl_SatPerVbyte :: u64
  rcl_MaxFeePerVbyte :: u64
  rcl_NoWait :: bool

datatype rpcPolicyScope = PolicyScope_ChanPoint rpcChannelPoint | PolicyScope_Global bool

record rpcPolicyUpdateRequest =
  rpu_Scope :: rpcPolicyScope
  rpu_BaseFeeMsat :: i64
  rpu_FeeRate :: float64
  rpu_TimeLockDelta :: u32
  rpu_MaxHtlcMsat :: u64
  rpu_MinHtlcMsat :: u64
  rpu_MinHtlcMsatSpecified :: bool
  rpu_InboundFee :: "(i32 \<times> i32) option"  \<comment> \<open>base fee and rate\<close>

record rpcSendCoinsRequest =
  rsc_Addr :: string
  rsc_Amount :: i64
  rsc_TargetConf :: i32
  rsc_SatPerVbyte :: u64
  rsc_SendAll :: bool
  rsc_Label :: string

record rpcQueryRoutesRequest =
  rqr_PubKey :: string
  rqr_AmtMsat :: i64
  rqr_FeeLimitFixedMsat :: i64
  rqr_UseMissionControl :: bool
  rqr_SourcePubKey :: string
  rqr_CltvLimit :: u32
  rqr_LastHopPubkey :: bytes
  rqr_RouteHints :: "rpcRouteHint list"

record rpcCheckMacPermRequest =
  rcp_Macaroon :: bytes
  rcp_Permissions :: "MacaroonPermission list"
  rcp_FullMethod :: string

datatype (plugins only: size) lightning_req =
    WalletBalanceReq
  | GetInfoReq
  | EstimateFeeReq i32 "(string \<times> i64) list"
  | AddInvoiceReq rpcAddInvoice
  | LookupInvoiceReq bytes
  | GetTransactionsReq GetTransactionsRequest
  | ListChannelsReq rpcListChannelsRequest
  | PendingChannelsReq
  | ClosedChannelsReq
  | ForwardingHistoryReq rpcForwardingHistoryRequest
  | ListInvoicesReq rpcListInvoiceRequest
  | ListPaymentsReq rpcListPaymentsRequest
  | ExportChannelBackupReq rpcChannelPoint
  | ExportAllChannelBackupsReq
  | DecodePayReqReq string
  | OpenChannelSyncReq rpcOpenChannelRequest
  | OpenChannelReq rpcOpenChannelRequest
  | CloseChannelReq rpcCloseChannelRequest
  | UpdateChannelPolicyReq rpcPolicyUpdateRequest
  | GetChanInfoReq u64
  | ListPeersReq
  | ConnectPeerReq string string bool
  | SendCoinsReq rpcSendCoinsRequest
  | ChannelBalanceReq
  | GetNodeInfoReq string bool
  | DescribeGraphReq bool
  | GetNetworkInfoReq
  | ListPermissionsReq
  | FundingStateStepReq bytes
  | QueryRoutesReq rpcQueryRoutesRequest
  | CheckMacaroonPermissionsReq rpcCheckMacPermRequest
  | SendCustomMessageReq bytes u32 bytes
  | SignMessageReq bytes
  | VerifyMessageReq bytes string
  | ListAliasesReq
  | SubscribeChannelEventsReq
  | SubscribeChannelBackupsReq
  | SubscribeChannelGraphReq
  | SubscribeInvoicesReq u64 u64
  | SubscribeCustomMessagesReq
  | SubscribeTransactionsReq GetTransactionsRequest
  | ChannelAcceptorReq
  | RegisterRPCMiddlewareReq

type_synonym ('q, 'r) ln_srv = "(lightning_req, 'q, 'r) server"

text \<open>The context most methods call with.\<close>

definition ln_ctx :: "lightningClient \<Rightarrow> ctx \<Rightarrow> ctx" where
  "ln_ctx s c = WithMacaroonAuth (ln_adminMac s) (TimeoutCtx c (ln_timeout s))"

section \<open>Wallet and node\<close>

record WalletBalance =
  wb_Confirmed :: Amount
  wb_Unconfirmed :: Amount

text \<open>The answer is the pair of the confirmed and the unconfirmed balance.\<close>

definition ln_WalletBalance ::
  "lightningClient \<Rightarrow> (unit, i64 \<times> i64) ln_srv \<Rightarrow> ctx \<Rightarrow> (lightning_req, WalletBalance) io" where
  "ln_WalletBalance s srv c =
     io_bind (rpc srv (\<lambda>_. WalletBalanceReq) (ln_ctx s c) ()) (\<lambda>(confirmed, unconfirmed).
       io_ret \<lparr>wb_Confirmed = confirmed, wb_Unconfirmed = unconfirmed\<rparr>)"

definition GetInfo ::
  "lightningClient \<Rightarrow> (string \<Rightarrow> bytes go) \<Rightarrow> (string \<Rightarrow> rgba go) \<Rightarrow> (unit, GetInfoResponse) ln_srv
     \<Rightarrow> ctx \<Rightarrow> (lightning_req, Info) io" where
  "GetInfo s NewHashFromStr ParseHexColor srv c =
     io_bind (rpc srv (\<lambda>_. GetInfoReq) (ln_ctx s c) ()) (\<lambda>resp.
       io_lift (newInfo NewHashFromStr ParseHexColor resp))"

definition EstimateFee ::
  "lightningClient \<Rightarrow> ('addr \<Rightarrow> string) \<Rightarrow> (i32 \<times> (string \<times> i64) list, i64) ln_srv \<Rightarrow> ctx \<Rightarrow> 'addr
     \<Rightarrow> Amount \<Rightarrow> i32 \<Rightarrow> (lightning_req, Amount) io" where
  "EstimateFee s addr_String srv c address amt confTarget =
     rpc srv (\<lambda>(t, m). EstimateFeeReq t m) (ln_ctx s c) (confTarget, [(addr_String address, amt)])"

definition EstimateFeeToP2WSH ::
  "lightningClient \<Rightarrow> ('addr \<Rightarrow> string) \<Rightarrow> (bytes \<Rightarrow> 'addr go)
     \<Rightarrow> (i32 \<times> (string \<times> i64) list, i64) ln_srv \<Rightarrow> ctx \<Rightarrow> Amount \<Rightarrow> i32
     \<Rightarrow> (lightning_req, Amount) io" where
  "EstimateFeeToP2WSH s addr_String NewAddressWitnessScriptHash srv c amt confTarget =
     io_bind (io_lift (NewAddressWitnessScriptHash (replicate 32 0))) (\<lambda>p2wshAddress.
       EstimateFee s addr_String srv c p2wshAddress amt confTarget)"

definition SendCoins ::
  "lightningClient \<Rightarrow> ('addr \<Rightarrow> string) \<Rightarrow> (rpcSendCoinsRequest, string) ln_srv \<Rightarrow> ctx \<Rightarrow> 'addr
     \<Rightarrow> Amount \<Rightarrow> bool \<Rightarrow> i32 \<Rightarrow> i64 \<Rightarrow> string \<Rightarrow> (lightning_req, string) io" where
  "SendCoins s addr_String srv c addr amount sendAll confTarget satsPerVByte label =
     rpc srv SendCoinsReq (ln_ctx s c)
       \<lparr>rsc_Addr = addr_String addr, rsc_Amount = amount, rsc_TargetConf = confTarget,
        rsc_SatPerVbyte = satsPerVByte, rsc_SendAll = sendAll, rsc_Label = label\<rparr>"

datatype ListTransactionsOption = WithTransactionsAccount string

fun transactions_option ::
  "GetTransactionsRequest \<Rightarrow> ListTransactionsOption \<Rightarrow> GetTransactionsRequest" where
  "transactions_option r (WithTransactionsAccount account) = r\<lparr>gtr_Account := account\<rparr>"

definition ListTransactions ::
  "lightningClient \<Rightarrow> ('addr, 'scid, 'tx) ln_fns
     \<Rightarrow> (GetTransactionsRequest, ('od, 'po) rpcTransaction list) ln_srv \<Rightarrow> ctx \<Rightarrow> i32 \<Rightarrow> i32
     \<Rightarrow> ListTransactionsOption list \<Rightarrow> (lightning_req, ('tx, 'od, 'po) Transaction list) io" where
  "ListTransactions s fns srv c startHeight endHeight opts =
     (let rpcIn = foldl transactions_option
        \<lparr>gtr_StartHeight = startHeight, gtr_EndHeight = endHeight, gtr_Account = []\<rparr> opts
      in io_bind (rpc srv GetTransactionsReq (ln_ctx s c) rpcIn) (\<lambda>transactions.
           io_lift (go_map (unmarshallTransaction fns) transactions)))"

section \<open>Invoices\<close>

definition add_invoice_request ::
  "'key hint_fns \<Rightarrow> 'key AddInvoiceData \<Rightarrow> rpcAddInvoice go" where
  "add_invoice_request fns inp =
     go_bind (go_wrap (FmtErr ''failed to marshal route hints: '')
                (marshallRouteHints fns (aid_RouteHints inp))) (\<lambda>routeHints.
       Ok \<lparr>rai_Memo = aid_Memo inp, rai_ValueMsat = aid_Value inp,
           rai_DescriptionHash = aid_DescriptionHash inp, rai_Expiry = aid_Expiry inp,
           rai_FallbackAddr = aid_FallbackAddr inp, rai_CltvExpiry = aid_CltvExpiry inp,
           rai_Private = aid_Private inp, rai_IsAmp = aid_Amp inp, rai_RouteHints = routeHints,
           rai_RPreimage = (case aid_Preimage inp of None \<Rightarrow> [] | Some p \<Rightarrow> p),
           rai_IsBlinded = (aid_BlindedPathCfg inp \<noteq> None),
           rai_BlindedPathConfig = (case aid_BlindedPathCfg inp of
               None \<Rightarrow> None
             | Some minNumPathHops \<Rightarrow>
                 if minNumPathHops \<noteq> 0 then Some (ucast minNumPathHops) else None)\<rparr>)"

text \<open>The answer is the payment hash and the payment request.\<close>

definition AddInvoice ::
  "lightningClient \<Rightarrow> 'key hint_fns \<Rightarrow> (bytes \<Rightarrow> bytes go) \<Rightarrow> (rpcAddInvoice, bytes \<times> string) ln_srv
     \<Rightarrow> ctx \<Rightarrow> 'key AddInvoiceData \<Rightarrow> (lightning_req, bytes \<times> string) io" where
  "AddInvoice s fns MakeHash srv c inp =
     io_bind (io_lift (add_invoice_request fns inp)) (\<lambda>rpcIn.
     io_bind (rpc srv AddInvoiceReq (ln_ctx s c) rpcIn) (\<lambda>(rHash, paymentRequest).
     io_bind (io_lift (MakeHash rHash)) (\<lambda>hash.
       io_ret (hash, paymentRequest))))"

definition LookupInvoice ::
  "lightningClient \<Rightarrow> 'scid inv_fns \<Rightarrow> (bytes, rpcInvoice) ln_srv \<Rightarrow> ctx \<Rightarrow> bytes
     \<Rightarrow> (lightning_req, 'scid Invoice) io" where
  "LookupInvoice s fns srv c hash =
     io_bind (rpc srv LookupInvoiceReq (ln_ctx s c) hash) (\<lambda>resp.
       io_lift (unmarshalInvoice fns resp))"

record ListInvoicesRequest =
  liq_MaxInvoices :: u64
  liq_Offset :: u64
  liq_Reversed :: bool
  liq_PendingOnly :: bool

record 'scid ListInvoicesResponse =
  lir_FirstIndexOffset :: u64
  lir_LastIndexOffset :: u64
  lir_Invoices :: "'scid Invoice list"

text \<open>The flag \<open>PendingOnly\<close> of the caller is not passed on.\<close>

definition list_invoices_request :: "ListInvoicesRequest \<Rightarrow> rpcListInvoiceRequest" where
  "list_invoices_request req =
     \<lparr>rli_PendingOnly = False, rli_IndexOffset = liq_Offset req,
      rli_NumMaxInvoices = liq_MaxInvoices req, rli_Reversed = liq_Reversed req\<rparr>"

text \<open>The answer is the two index offsets and the invoices.\<close>

definition ListInvoices ::
  "lightningClient \<Rightarrow> 'scid inv_fns \<Rightarrow> (rpcListInvoiceRequest, u64 \<times> u64 \<times> rpcInvoice list) ln_srv
     \<Rightarrow> ctx \<Rightarrow> ListInvoicesRequest \<Rightarrow> (lightning_req, 'scid ListInvoicesResponse) io" where
  "ListInvoices s fns srv c req =
     io_bind (rpc srv ListInvoicesReq (ln_ctx s c) (list_invoices_request req))
       (\<lambda>(firstIndexOffset, lastIndexOffset, rpcInvoices).
     io_bind (io_lift (go_map (unmarshalInvoice fns) rpcInvoices)) (\<lambda>invoices.
       io_ret \<lparr>lir_FirstIndexOffset = firstIndexOffset, lir_LastIndexOffset = lastIndexOffset,
               lir_Invoices = invoices\<rparr>))"

section \<open>Payments\<close>

record Payment =
  pmt_Hash :: bytes
  pmt_Preimage :: "bytes option"
  pmt_PaymentRequest :: string
  pmt_Amount :: MilliSatoshi
  pmt_Fee :: MilliSatoshi
  pmt_Status :: PaymentStatus
  pmt_Htlcs :: "rpcHTLCAttempt list"
  pmt_SequenceNumber :: u64
  pmt_FirstHopCustomRecords :: custom_records

record ListPaymentsRequest =
  lpq_MaxPayments :: u64
  lpq_Offset :: u64
  lpq_Reversed :: bool
  lpq_IncludeIncomplete :: bool
  lpq_CountTotalPayments :: bool
  lpq_CreationDateStart :: u64
  lpq_CreationDateEnd :: u64
  lpq_OmitHops :: bool

record ListPaymentsResponse =
  lpr_FirstIndexOffset :: u64
  lpr_LastIndexOffset :: u64
  lpr_Payments :: "Payment list"
  lpr_TotalNumPayments :: u64

record rpcListPaymentsResponse =
  rpp_FirstIndexOffset :: u64
  rpp_LastIndexOffset :: u64
  rpp_Payments :: "rpcPayment list"
  rpp_TotalNumPayments :: u64

definition list_payment ::
  "(string \<Rightarrow> bytes go) \<Rightarrow> track_fns \<Rightarrow> rpcPayment \<Rightarrow> Payment go" where
  "list_payment MakeHashFromStr tfns payment =
     go_bind (MakeHashFromStr (rpay_PaymentHash payment)) (\<lambda>hash.
     go_bind (unmarshallPaymentStatus (tf_MakePreimage tfns) (tf_MakePreimageFromStr tfns) payment)
       (\<lambda>status.
     go_bind (if rpay_PaymentPreimage payment \<noteq> []
              then go_bind (tf_MakePreimageFromStr tfns (rpay_PaymentPreimage payment))
                     (\<lambda>preimage. Ok (Some preimage))
              else Ok None) (\<lambda>preimage.
       Ok \<lparr>pmt_Hash = hash, pmt_Preimage = preimage,
           pmt_PaymentRequest = rpay_PaymentRequest payment,
           pmt_Amount = rpay_ValueMsat payment, pmt_Fee = rpay_FeeMsat payment,
           pmt_Status = status, pmt_Htlcs = rpay_Htlcs payment,
           pmt_SequenceNumber = rpay_PaymentIndex payment,
           pmt_FirstHopCustomRecords = rpay_FirstHopCustomRecords payment\<rparr>)))"

definition ListPayments ::
  "lightningClient \<Rightarrow> (string \<Rightarrow> bytes go) \<Rightarrow> track_fns
     \<Rightarrow> (rpcListPaymentsRequest, rpcListPaymentsResponse) ln_srv \<Rightarrow> ctx \<Rightarrow> ListPaymentsRequest
     \<Rightarrow> (lightning_req, ListPaymentsResponse) io" where
  "ListPayments s MakeHashFromStr tfns srv c req =
     io_bind (rpc srv ListPaymentsReq (ln_ctx s c)
       \<lparr>rlp_IncludeIncomplete = lpq_IncludeIncomplete req, rlp_IndexOffset = lpq_Offset req,
        rlp_MaxPayments = lpq_MaxPayments req, rlp_Reversed = lpq_Reversed req,
        rlp_CountTotalPayments = lpq_CountTotalPayments req,
        rlp_CreationDateStart = lpq_CreationDateStart req,
        rlp_CreationDateEnd = lpq_CreationDateEnd req, rlp_OmitHops = lpq_OmitHops req\<rparr>) (\<lambda>resp.
     io_bind (io_lift (go_map (list_payment MakeHashFromStr tfns) (rpp_Payments resp))) (\<lambda>payments.
       io_ret \<lparr>lpr_FirstIndexOffset = rpp_FirstIndexOffset resp,
               lpr_LastIndexOffset = rpp_LastIndexOffset resp, lpr_Payments = payments,
               lpr_TotalNumPayments = rpp_TotalNumPayments resp\<rparr>))"

text \<open>\<open>PayInvoice\<close> runs the router's payment in a goroutine that sends a result other than nil to a
  channel of capacity one and ends: the channel of a caller holds the result, or stays empty.\<close>

definition ln_payInvoice ::
  "lightningClient \<Rightarrow> invoice_fns \<Rightarrow> (rpcSendPaymentRequest, rpcPayment recv list) router_srv
     \<Rightarrow> (bytes, rpcPayment recv list) router_srv \<Rightarrow> ctx \<Rightarrow> string \<Rightarrow> Amount \<Rightarrow> u64 option
     \<Rightarrow> (router_req, pay_outcome) io" where
  "ln_payInvoice s fns send_srv track_srv c invoice maxFee outgoingChannel =
     router_payInvoice (ln_router s) fns send_srv track_srv c invoice maxFee outgoingChannel None"

definition PayInvoice ::
  "lightningClient \<Rightarrow> invoice_fns \<Rightarrow> (rpcSendPaymentRequest, rpcPayment recv list) router_srv
     \<Rightarrow> (bytes, rpcPayment recv list) router_srv \<Rightarrow> ctx \<Rightarrow> string \<Rightarrow> Amount \<Rightarrow> u64 option
     \<Rightarrow> (router_req, PaymentResult list) io" where
  "PayInvoice s fns send_srv track_srv c invoice maxFee outgoingChannel =
     io_bind (ln_payInvoice s fns send_srv track_srv c invoice maxFee outgoingChannel) (\<lambda>result.
       case result of
         PayResult r \<Rightarrow> io_ret [r]
       | PayNil \<Rightarrow> io_ret []
       | PayWaiting \<Rightarrow> io_ret []
       | PayPanic p \<Rightarrow> io_lift (Panic p))"

record PaymentRequest =
  prq_Destination :: Vertex
  prq_Hash :: bytes
  prq_Value :: MilliSatoshi
  prq_Timestamp :: gotime
  prq_ExpiresAt :: gotime
  prq_Description :: string
  prq_PaymentAddress :: bytes

record rpcPayReq =
  rpq_Destination :: string
  rpq_PaymentHash :: string
  rpq_NumMsat :: i64
  rpq_Timestamp :: i64
  rpq_Expiry :: i64
  rpq_Description :: string
  rpq_PaymentAddr :: bytes

definition decode_pay_req ::
  "('addr, 'scid, 'tx) ln_fns \<Rightarrow> rpcPayReq \<Rightarrow> PaymentRequest go" where
  "decode_pay_req fns resp =
     go_bind (lf_MakeHashFromStr fns (rpq_PaymentHash resp)) (\<lambda>hash.
     go_bind (lf_NewVertexFromStr fns (rpq_Destination resp)) (\<lambda>dest.
       Ok \<lparr>prq_Destination = dest, prq_Hash = hash, prq_Value = rpq_NumMsat resp,
           prq_Timestamp = (if rpq_Timestamp resp \<noteq> 0 then time_Unix (rpq_Timestamp resp) 0
                            else zero_time),
           prq_ExpiresAt = (if rpq_Expiry resp \<noteq> 0
                            then time_Add (time_Unix (rpq_Timestamp resp) 0)
                                   (rpq_Expiry resp * Second)
                            else zero_time),
           prq_Description = rpq_Description resp,
           prq_PaymentAddress = copy_array 32 (rpq_PaymentAddr resp)\<rparr>))"

definition DecodePaymentRequest ::
  "lightningClient \<Rightarrow> ('addr, 'scid, 'tx) ln_fns \<Rightarrow> (string, rpcPayReq) ln_srv \<Rightarrow> ctx \<Rightarrow> string
     \<Rightarrow> (lightning_req, PaymentRequest) io" where
  "DecodePaymentRequest s fns srv c payReq =
     io_bind (rpc srv DecodePayReqReq (ln_ctx s c) payReq) (\<lambda>resp. io_lift (decode_pay_req fns resp))"

section \<open>Forwarding history\<close>

record ForwardingHistoryRequest =
  fhq_StartTime :: gotime
  fhq_EndTime :: gotime
  fhq_MaxEvents :: u32
  fhq_Offset :: u32

record rpcForwardingEvent =
  rfe_Timestamp :: u64
  rfe_ChanIdIn :: u64
  rfe_ChanIdOut :: u64
  rfe_AmtInMsat :: u64
  rfe_AmtOutMsat :: u64
  rfe_FeeMsat :: u64

record ForwardingEvent =
  fe_Timestamp :: gotime
  fe_ChannelIn :: u64
  fe_ChannelOut :: u64
  fe_AmountMsatIn :: MilliSatoshi
  fe_AmountMsatOut :: MilliSatoshi
  fe_FeeMsat :: MilliSatoshi

record ForwardingHistoryResponse =
  fhp_LastIndexOffset :: u32
  fhp_Events :: "ForwardingEvent list"

definition forwarding_event :: "rpcForwardingEvent \<Rightarrow> ForwardingEvent" where
  "forwarding_event event =
     \<lparr>fe_Timestamp = time_Unix (rfe_Timestamp event) 0, fe_ChannelIn = rfe_ChanIdIn event,
      fe_ChannelOut = rfe_ChanIdOut event, fe_AmountMsatIn = rfe_AmtInMsat event,
      fe_AmountMsatOut = rfe_AmtOutMsat event, fe_FeeMsat = rfe_FeeMsat event\<rparr>"

definition ForwardingHistory ::
  "lightningClient \<Rightarrow> (rpcForwardingHistoryRequest, u32 \<times> rpcForwardingEvent list) ln_srv \<Rightarrow> ctx
     \<Rightarrow> ForwardingHistoryRequest \<Rightarrow> (lightning_req, ForwardingHistoryResponse) io" where
  "ForwardingHistory s srv c req =
     io_bind (rpc srv ForwardingHistoryReq (ln_ctx s c)
       \<lparr>rfh_StartTime = unix_sec (fhq_StartTime req), rfh_EndTime = unix_sec (fhq_EndTime req),
        rfh_IndexOffset = fhq_Offset req, rfh_NumMaxEvents = fhq_MaxEvents req\<rparr>)
       (\<lambda>(lastOffsetIndex, events).
       io_ret \<lparr>fhp_LastIndexOffset = lastOffsetIndex, fhp_Events = map forwarding_event events\<rparr>)"

section \<open>Channels\<close>

datatype ListChannelsOption = WithPeer bytes

fun channels_option :: "rpcListChannelsRequest \<Rightarrow> ListChannelsOption \<Rightarrow> rpcListChannelsRequest" where
  "channels_option r (WithPeer peer) = r\<lparr>lcr_Peer := peer\<rparr>"

definition ListChannels ::
  "lightningClient \<Rightarrow> ('addr, 'scid, 'tx) ln_fns \<Rightarrow> (rpcListChannelsRequest, rpcChannel list) ln_srv
     \<Rightarrow> ctx \<Rightarrow> bool \<Rightarrow> bool \<Rightarrow> ListChannelsOption list
     \<Rightarrow> (lightning_req, ('addr, 'scid) ChannelInfo list) io" where
  "ListChannels s fns srv c activeOnly publicOnly opts =
     (let request = foldl channels_option
        \<lparr>lcr_ActiveOnly = activeOnly, lcr_PublicOnly = publicOnly, lcr_Peer = []\<rparr> opts
      in io_bind (rpc srv ListChannelsReq (ln_ctx s c) request) (\<lambda>channels.
           io_lift (go_map (newChannelInfo fns) channels)))"

definition ln_PendingChannels ::
  "lightningClient \<Rightarrow> ('addr, 'scid, 'tx) ln_fns \<Rightarrow> (unit, rpcPendingChannelsResponse) ln_srv \<Rightarrow> ctx
     \<Rightarrow> (lightning_req, PendingChannels) io" where
  "ln_PendingChannels s fns srv c =
     io_bind (rpc srv (\<lambda>_. PendingChannelsReq) (ln_ctx s c) ()) (\<lambda>resp.
       io_lift (pending_channels fns resp))"

definition ClosedChannels ::
  "lightningClient \<Rightarrow> ('addr, 'scid, 'tx) ln_fns \<Rightarrow> (unit, rpcChannelCloseSummary list) ln_srv \<Rightarrow> ctx
     \<Rightarrow> (lightning_req, ClosedChannel list) io" where
  "ClosedChannels s fns srv c =
     io_bind (rpc srv (\<lambda>_. ClosedChannelsReq) (ln_ctx s c) ()) (\<lambda>channels.
       io_lift (go_map (getClosedChannel fns) channels))"

definition channel_point :: "OutPoint \<Rightarrow> rpcChannelPoint" where
  "channel_point op = \<lparr>rcp_FundingTxid = FundingTxidBytes (op_Hash op), rcp_OutputIndex = op_Index op\<rparr>"

definition ChannelBackup ::
  "lightningClient \<Rightarrow> (rpcChannelPoint, bytes) ln_srv \<Rightarrow> ctx \<Rightarrow> OutPoint \<Rightarrow> (lightning_req, bytes) io"
where
  "ChannelBackup s srv c channelPoint =
     rpc srv ExportChannelBackupReq (ln_ctx s c) (channel_point channelPoint)"

text \<open>The answer is the multi channel backup, a message that may be missing.\<close>

definition ChannelBackups ::
  "lightningClient \<Rightarrow> (unit, bytes option) ln_srv \<Rightarrow> ctx \<Rightarrow> (lightning_req, bytes) io" where
  "ChannelBackups s srv c =
     io_bind (rpc srv (\<lambda>_. ExportAllChannelBackupsReq) (ln_ctx s c) ()) (\<lambda>multi.
       io_lift (deref multi))"

record ChannelBalance =
  cb_Balance :: Amount
  cb_PendingBalance :: Amount
  cb_CustomChannelData :: bytes

definition ln_ChannelBalance ::
  "lightningClient \<Rightarrow> (unit, i64 \<times> i64 \<times> bytes) ln_srv \<Rightarrow> ctx \<Rightarrow> (lightning_req, ChannelBalance) io"
where
  "ln_ChannelBalance s srv c =
     io_bind (rpc srv (\<lambda>_. ChannelBalanceReq) (ln_ctx s c) ()) (\<lambda>(balance, pendingOpen, custom).
       io_ret \<lparr>cb_Balance = balance, cb_PendingBalance = pendingOpen,
               cb_CustomChannelData = custom\<rparr>)"

text \<open>The options of an open channel request.\<close>

datatype OpenChannelOption =
    WithZeroConf
  | WithFundingShim "bytes option"
  | WithCommitmentType "rpcCommitmentType option"
  | WithScid
  | WithRemoteReserve u64
  | WithRemoteMaxHtlc u32

fun open_option :: "OpenChannelOption \<Rightarrow> rpcOpenChannelRequest \<Rightarrow> rpcOpenChannelRequest go" where
  "open_option WithZeroConf r = Ok (r\<lparr>roc_ZeroConf := True\<rparr>)"
| "open_option (WithFundingShim shim) r = Ok (r\<lparr>roc_FundingShim := shim\<rparr>)"
| "open_option (WithCommitmentType t) r =
     go_bind (deref t) (\<lambda>t. Ok (r\<lparr>roc_CommitmentType := t\<rparr>))"
| "open_option WithScid r = Ok (r\<lparr>roc_ScidAlias := True\<rparr>)"
| "open_option (WithRemoteReserve reserve) r = Ok (r\<lparr>roc_RemoteChanReserveSat := reserve\<rparr>)"
| "open_option (WithRemoteMaxHtlc maxHtlc) r = Ok (r\<lparr>roc_RemoteMaxHtlcs := maxHtlc\<rparr>)"

fun open_options ::
  "OpenChannelOption list \<Rightarrow> rpcOpenChannelRequest \<Rightarrow> rpcOpenChannelRequest go" where
  "open_options [] r = Ok r"
| "open_options (opt # opts) r = go_bind (open_option opt r) (open_options opts)"

definition open_request ::
  "Vertex \<Rightarrow> Amount \<Rightarrow> Amount \<Rightarrow> bool \<Rightarrow> OpenChannelOption list \<Rightarrow> rpcOpenChannelRequest go" where
  "open_request peer localSat pushSat private opts =
     open_options opts \<lparr>roc_NodePubkey = peer, roc_LocalFundingAmount = localSat,
       roc_PushSat = pushSat, roc_Private = private, roc_ZeroConf = False, roc_FundingShim = None,
       roc_CommitmentType = UNKNOWN_COMMITMENT_TYPE, roc_ScidAlias = False,
       roc_RemoteChanReserveSat = 0, roc_RemoteMaxHtlcs = 0\<rparr>"

definition opened_outpoint ::
  "('addr, 'scid, 'tx) ln_fns \<Rightarrow> rpcChannelPoint \<Rightarrow> OutPoint go" where
  "opened_outpoint fns chanPoint =
     go_bind (case rcp_FundingTxid chanPoint of
         FundingTxidBytes b \<Rightarrow> lf_NewHash fns b
       | FundingTxidStr t \<Rightarrow> lf_NewHashFromStr fns t
       | FundingTxid_nil \<Rightarrow> Err (NewErr ''unexpected outpoint type: <nil>'')) (\<lambda>hash.
       Ok \<lparr>op_Hash = hash, op_Index = rcp_OutputIndex chanPoint\<rparr>)"

definition OpenChannel ::
  "lightningClient \<Rightarrow> ('addr, 'scid, 'tx) ln_fns \<Rightarrow> (rpcOpenChannelRequest, rpcChannelPoint) ln_srv
     \<Rightarrow> ctx \<Rightarrow> Vertex \<Rightarrow> Amount \<Rightarrow> Amount \<Rightarrow> bool \<Rightarrow> OpenChannelOption list
     \<Rightarrow> (lightning_req, OutPoint) io" where
  "OpenChannel s fns srv c peer localSat pushSat private opts =
     io_bind (io_lift (open_request peer localSat pushSat private opts)) (\<lambda>rpcRequest.
     io_bind (rpc srv OpenChannelSyncReq (ln_ctx s c) rpcRequest) (\<lambda>chanPoint.
       io_lift (opened_outpoint fns chanPoint)))"

record PolicyUpdateRequest =
  puq_BaseFeeMsat :: i64
  puq_FeeRate :: float64
  puq_TimeLockDelta :: u32
  puq_MaxHtlcMsat :: u64
  puq_MinHtlcMsat :: u64
  puq_MinHtlcMsatSpecified :: bool
  puq_InboundFee :: "(i32 \<times> i32) option"

definition policy_request ::
  "PolicyUpdateRequest \<Rightarrow> OutPoint option \<Rightarrow> rpcPolicyUpdateRequest" where
  "policy_request req chanPoint =
     \<lparr>rpu_Scope = (case chanPoint of
          Some cp \<Rightarrow> PolicyScope_ChanPoint (channel_point cp)
        | None \<Rightarrow> PolicyScope_Global True),
      rpu_BaseFeeMsat = puq_BaseFeeMsat req, rpu_FeeRate = puq_FeeRate req,
      rpu_TimeLockDelta = puq_TimeLockDelta req, rpu_MaxHtlcMsat = puq_MaxHtlcMsat req,
      rpu_MinHtlcMsat = (if puq_MinHtlcMsatSpecified req then puq_MinHtlcMsat req else 0),
      rpu_MinHtlcMsatSpecified = puq_MinHtlcMsatSpecified req,
      rpu_InboundFee = puq_InboundFee req\<rparr>"

definition UpdateChanPolicy ::
  "lightningClient \<Rightarrow> (rpcPolicyUpdateRequest, unit) ln_srv \<Rightarrow> ctx \<Rightarrow> PolicyUpdateRequest
     \<Rightarrow> OutPoint option \<Rightarrow> (lightning_req, unit) io" where
  "UpdateChanPolicy s srv c req chanPoint =
     rpc srv UpdateChannelPolicyReq (ln_ctx s c) (policy_request req chanPoint)"

end
