(* ===== verification/LightningGraph.thy ===== *)
theory LightningGraph
  imports Lightning
begin

text \<open>
  The methods of \<open>lightning_client.go\<close> on the graph, peers, routes, permissions and messages, and the
  conversions they use. Every method here makes one call.
\<close>

section \<open>Policies and edges\<close>

record rpcRoutingPolicy =
  rrp_TimeLockDelta :: u32
  rrp_MinHtlc :: i64
  rrp_MaxHtlcMsat :: u64
  rrp_FeeBaseMsat :: i64
  rrp_FeeRateMilliMsat :: i64
  rrp_Disabled :: bool
  rrp_LastUpdate :: u32
  rrp_CustomRecords :: custom_records
  rrp_InboundFeeBaseMsat :: i32
  rrp_InboundFeeRateMilliMsat :: i32

record RoutingPolicy =
  rp_TimeLockDelta :: u32
  rp_MinHtlcMsat :: i64
  rp_MaxHtlcMsat :: u64
  rp_FeeBaseMsat :: i64
  rp_FeeRateMilliMsat :: i64
  rp_Disabled :: bool
  rp_LastUpdate :: gotime
  rp_CustomRecords :: custom_records
  rp_InboundBaseFeeMsat :: i32
  rp_InboundFeeRatePPM :: i32

definition getRoutingPolicy :: "rpcRoutingPolicy option \<Rightarrow> RoutingPolicy option" where
  "getRoutingPolicy policy = (case policy of
       None \<Rightarrow> None
     | Some policy \<Rightarrow> Some \<lparr>rp_TimeLockDelta = rrp_TimeLockDelta policy,
         rp_MinHtlcMsat = rrp_MinHtlc policy,
         rp_MaxHtlcMsat = rrp_MaxHtlcMsat policy,
         rp_FeeBaseMsat = rrp_FeeBaseMsat policy,
         rp_FeeRateMilliMsat = rrp_FeeRateMilliMsat policy,
         rp_Disabled = rrp_Disabled policy,
         rp_LastUpdate = time_Unix (ucast (rrp_LastUpdate policy)) 0,
         rp_CustomRecords = rrp_CustomRecords policy,
         rp_InboundBaseFeeMsat = rrp_InboundFeeBaseMsat policy,
         rp_InboundFeeRatePPM = rrp_InboundFeeRateMilliMsat policy\<rparr>)"

record rpcChannelEdge =
  red_ChannelId :: u64
  red_ChanPoint :: string
  red_Node1Pub :: string
  red_Node2Pub :: string
  red_Capacity :: i64
  red_Node1Policy :: "rpcRoutingPolicy option"
  red_Node2Policy :: "rpcRoutingPolicy option"

record ChannelEdge =
  ce_ChannelID :: u64
  ce_ChannelPoint :: string
  ce_Capacity :: Amount
  ce_Node1 :: Vertex
  ce_Node2 :: Vertex
  ce_Node1Policy :: "RoutingPolicy option"
  ce_Node2Policy :: "RoutingPolicy option"

definition newChannelEdge ::
  "('addr, 'scid, 'tx) ln_fns \<Rightarrow> rpcChannelEdge \<Rightarrow> ChannelEdge go" where
  "newChannelEdge fns rpcRes =
     go_bind (lf_NewVertexFromStr fns (red_Node1Pub rpcRes)) (\<lambda>vertex1.
     go_bind (lf_NewVertexFromStr fns (red_Node2Pub rpcRes)) (\<lambda>vertex2.
       Ok \<lparr>ce_ChannelID = red_ChannelId rpcRes, ce_ChannelPoint = red_ChanPoint rpcRes,
           ce_Capacity = red_Capacity rpcRes, ce_Node1 = vertex1, ce_Node2 = vertex2,
           ce_Node1Policy = getRoutingPolicy (red_Node1Policy rpcRes),
           ce_Node2Policy = getRoutingPolicy (red_Node2Policy rpcRes)\<rparr>))"

definition GetChanInfo ::
  "lightningClient \<Rightarrow> ('addr, 'scid, 'tx) ln_fns \<Rightarrow> (u64, rpcChannelEdge) ln_srv \<Rightarrow> ctx \<Rightarrow> u64
     \<Rightarrow> (lightning_req, ChannelEdge) io" where
  "GetChanInfo s fns srv c channelID =
     io_bind (rpc srv GetChanInfoReq (ln_ctx s c) channelID) (\<lambda>rpcRes.
       io_lift (newChannelEdge fns rpcRes))"

section \<open>Nodes and the graph\<close>

text \<open>The node of an answer may be missing; then so is the embedded \<open>Node\<close> of the result.\<close>

record rpcNodeInfo =
  rni_Node :: "rpcLightningNode option"
  rni_NumChannels :: u32
  rni_TotalCapacity :: i64
  rni_Channels :: "rpcChannelEdge list"

record NodeInfo =
  ni_Node :: "Node option"
  ni_ChannelCount :: nat
  ni_TotalCapacity :: Amount
  ni_Channels :: "ChannelEdge list"

definition node_info :: "('addr, 'scid, 'tx) ln_fns \<Rightarrow> rpcNodeInfo \<Rightarrow> NodeInfo go" where
  "node_info fns nodeInfo =
     go_bind (newNode fns (rni_Node nodeInfo)) (\<lambda>node.
     go_bind (go_map (newChannelEdge fns) (rni_Channels nodeInfo)) (\<lambda>channels.
       Ok \<lparr>ni_Node = node, ni_ChannelCount = unat (rni_NumChannels nodeInfo),
           ni_TotalCapacity = rni_TotalCapacity nodeInfo, ni_Channels = channels\<rparr>))"

definition GetNodeInfo ::
  "lightningClient \<Rightarrow> ('addr, 'scid, 'tx) ln_fns \<Rightarrow> (string \<times> bool, rpcNodeInfo) ln_srv \<Rightarrow> ctx
     \<Rightarrow> Vertex \<Rightarrow> bool \<Rightarrow> (lightning_req, NodeInfo) io" where
  "GetNodeInfo s fns srv c pubkey includeChannels =
     io_bind (rpc srv (\<lambda>(k, i). GetNodeInfoReq k i) (ln_ctx s c) (hex_encode pubkey, includeChannels))
       (\<lambda>nodeInfo. io_lift (node_info fns nodeInfo))"

record Graph =
  gr_Nodes :: "Node list"
  gr_Edges :: "ChannelEdge list"

text \<open>The answer is the nodes and the edges. \<open>newNode\<close> gives nil for a nil node, which is then read
  through.\<close>

definition describe_graph ::
  "('addr, 'scid, 'tx) ln_fns \<Rightarrow> rpcLightningNode option list \<Rightarrow> rpcChannelEdge list \<Rightarrow> Graph go" where
  "describe_graph fns nodes edges =
     go_bind (go_map (\<lambda>node. go_bind (newNode fns node) deref) nodes) (\<lambda>graphNodes.
     go_bind (go_map (newChannelEdge fns) edges) (\<lambda>graphEdges.
       Ok \<lparr>gr_Nodes = graphNodes, gr_Edges = graphEdges\<rparr>))"

definition DescribeGraph ::
  "lightningClient \<Rightarrow> ('addr, 'scid, 'tx) ln_fns
     \<Rightarrow> (bool, rpcLightningNode option list \<times> rpcChannelEdge list) ln_srv \<Rightarrow> ctx \<Rightarrow> bool
     \<Rightarrow> (lightning_req, Graph) io" where
  "DescribeGraph s fns srv c includeUnannounced =
     io_bind (rpc srv DescribeGraphReq (ln_ctx s c) includeUnannounced) (\<lambda>(nodes, edges).
       io_lift (describe_graph fns nodes edges))"

record NetworkInfo =
  nwi_GraphDiameter :: u32
  nwi_AvgOutDegree :: float64
  nwi_MaxOutDegree :: u32
  nwi_NumNodes :: u32
  nwi_NumChannels :: u32
  nwi_TotalNetworkCapacity :: Amount
  nwi_AvgChannelSize :: Amount
  nwi_MinChannelSize :: Amount
  nwi_MaxChannelSize :: Amount
  nwi_MedianChannelSize :: Amount
  nwi_NumZombieChans :: u64

text \<open>The average channel size of the answer is a \<open>float64\<close>; its conversion to an amount is the
  argument \<open>float_amount\<close>.\<close>

record rpcNetworkInfo =
  rnw_GraphDiameter :: u32
  rnw_AvgOutDegree :: float64
  rnw_MaxOutDegree :: u32
  rnw_NumNodes :: u32
  rnw_NumChannels :: u32
  rnw_TotalNetworkCapacity :: i64
  rnw_AvgChannelSize :: float64
  rnw_MinChannelSize :: i64
  rnw_MaxChannelSize :: i64
  rnw_MedianChannelSizeSat :: i64
  rnw_NumZombieChans :: u64

definition ln_NetworkInfo ::
  "lightningClient \<Rightarrow> (float64 \<Rightarrow> Amount) \<Rightarrow> (unit, rpcNetworkInfo) ln_srv \<Rightarrow> ctx
     \<Rightarrow> (lightning_req, NetworkInfo) io" where
  "ln_NetworkInfo s float_amount srv c =
     io_bind (rpc srv (\<lambda>_. GetNetworkInfoReq) (ln_ctx s c) ()) (\<lambda>resp.
       io_ret \<lparr>nwi_GraphDiameter = rnw_GraphDiameter resp,
               nwi_AvgOutDegree = rnw_AvgOutDegree resp,
               nwi_MaxOutDegree = rnw_MaxOutDegree resp,
               nwi_NumNodes = rnw_NumNodes resp,
               nwi_NumChannels = rnw_NumChannels resp,
               nwi_TotalNetworkCapacity = rnw_TotalNetworkCapacity resp,
               nwi_AvgChannelSize = float_amount (rnw_AvgChannelSize resp),
               nwi_MinChannelSize = rnw_MinChannelSize resp,
               nwi_MaxChannelSize = rnw_MaxChannelSize resp,
               nwi_MedianChannelSize = rnw_MedianChannelSizeSat resp,
               nwi_NumZombieChans = rnw_NumZombieChans resp\<rparr>)"

section \<open>Peers\<close>

record rpcPeer =
  rpe_PubKey :: string
  rpe_Address :: string
  rpe_BytesSent :: u64
  rpe_BytesRecv :: u64
  rpe_SatSent :: i64
  rpe_SatRecv :: i64
  rpe_Inbound :: bool
  rpe_PingTime :: i64
  rpe_Features :: "u32 list"   \<comment> \<open>the keys of the map\<close>

record 'feat Peer =
  pe_Pubkey :: Vertex
  pe_Address :: string
  pe_BytesSent :: u64
  pe_BytesReceived :: u64
  pe_Inbound :: bool
  pe_PingTime :: i64
  pe_Sent :: Amount
  pe_Received :: Amount
  pe_Features :: 'feat

definition list_peer ::
  "('addr, 'scid, 'tx) ln_fns \<Rightarrow> (u16 list \<Rightarrow> 'feat) \<Rightarrow> rpcPeer \<Rightarrow> 'feat Peer go" where
  "list_peer fns NewFeatureVector peer =
     go_bind (lf_NewVertexFromStr fns (rpe_PubKey peer)) (\<lambda>pk.
       Ok \<lparr>pe_Pubkey = pk, pe_Address = rpe_Address peer, pe_BytesSent = rpe_BytesSent peer,
           pe_BytesReceived = rpe_BytesRecv peer, pe_Inbound = rpe_Inbound peer,
           pe_PingTime = Microsecond * rpe_PingTime peer, pe_Sent = rpe_SatSent peer,
           pe_Received = rpe_SatRecv peer,
           pe_Features = NewFeatureVector (map ucast (rpe_Features peer))\<rparr>)"

definition ListPeers ::
  "lightningClient \<Rightarrow> ('addr, 'scid, 'tx) ln_fns \<Rightarrow> (u16 list \<Rightarrow> 'feat) \<Rightarrow> (unit, rpcPeer list) ln_srv
     \<Rightarrow> ctx \<Rightarrow> (lightning_req, 'feat Peer list) io" where
  "ListPeers s fns NewFeatureVector srv c =
     io_bind (rpc srv (\<lambda>_. ListPeersReq) (ln_ctx s c) ()) (\<lambda>peers.
       io_lift (go_map (list_peer fns NewFeatureVector) peers))"

definition Connect ::
  "lightningClient \<Rightarrow> (Vertex \<Rightarrow> string) \<Rightarrow> (string \<times> string \<times> bool, unit) ln_srv \<Rightarrow> ctx \<Rightarrow> Vertex
     \<Rightarrow> string \<Rightarrow> bool \<Rightarrow> (lightning_req, unit) io" where
  "Connect s vertex_String srv c peer host permanent =
     rpc srv (\<lambda>(k, h, p). ConnectPeerReq k h p) (ln_ctx s c) (vertex_String peer, host, permanent)"

section \<open>Routes\<close>

record 'key QueryRoutesRequest =
  qrq_Source :: "Vertex option"
  qrq_PubKey :: Vertex
  qrq_LastHop :: "Vertex option"
  qrq_RouteHints :: "'key HopHint list list"
  qrq_MaxCltv :: "u32 option"
  qrq_UseMissionControl :: bool
  qrq_AmtMsat :: MilliSatoshi
  qrq_FeeLimitMsat :: MilliSatoshi

record Hop =
  hp_ChannelID :: u64
  hp_Expiry :: u32
  hp_AmtToForwardMsat :: MilliSatoshi
  hp_FeeMsat :: MilliSatoshi
  hp_PubKey :: "Vertex option"

record QueryRoutesResponse =
  qrr_TotalTimeLock :: u32
  qrr_Hops :: "Hop list"
  qrr_TotalFeesMsat :: MilliSatoshi
  qrr_TotalAmtMsat :: MilliSatoshi

definition unmarshallHop :: "('addr, 'scid, 'tx) ln_fns \<Rightarrow> rpcHop \<Rightarrow> Hop go" where
  "unmarshallHop fns rpcHop =
     go_bind (if hop_PubKey rpcHop \<noteq> []
              then go_bind (lf_NewVertexFromStr fns (hop_PubKey rpcHop)) (\<lambda>v. Ok (Some v))
              else Ok None) (\<lambda>pubKey.
       Ok \<lparr>hp_ChannelID = hop_ChanId rpcHop, hp_Expiry = hop_Expiry rpcHop,
           hp_AmtToForwardMsat = hop_AmtToForwardMsat rpcHop, hp_FeeMsat = hop_FeeMsat rpcHop,
           hp_PubKey = pubKey\<rparr>)"

definition query_routes_request ::
  "'key hint_fns \<Rightarrow> 'key QueryRoutesRequest \<Rightarrow> rpcQueryRoutesRequest go" where
  "query_routes_request fns req =
     go_bind (marshallRouteHints fns (qrq_RouteHints req)) (\<lambda>hints.
       Ok \<lparr>rqr_PubKey = Vertex_String fns (qrq_PubKey req), rqr_AmtMsat = qrq_AmtMsat req,
           rqr_FeeLimitFixedMsat = qrq_FeeLimitMsat req,
           rqr_UseMissionControl = qrq_UseMissionControl req,
           rqr_SourcePubKey = (case qrq_Source req of None \<Rightarrow> [] | Some v \<Rightarrow> Vertex_String fns v),
           rqr_CltvLimit = (case qrq_MaxCltv req of None \<Rightarrow> 0 | Some n \<Rightarrow> n),
           rqr_LastHopPubkey = (case qrq_LastHop req of None \<Rightarrow> [] | Some v \<Rightarrow> v),
           rqr_RouteHints = hints\<rparr>)"

text \<open>The first of the routes of the answer; a route without hops lists none.\<close>

definition first_route :: "('addr, 'scid, 'tx) ln_fns \<Rightarrow> rpcRoute list \<Rightarrow> QueryRoutesResponse go" where
  "first_route fns routes = (case routes of
       [] \<Rightarrow> Err (Sentinel ErrNoRouteFound)
     | route # _ \<Rightarrow>
         go_bind (go_map (unmarshallHop fns) (case rt_Hops route of None \<Rightarrow> [] | Some hs \<Rightarrow> hs))
           (\<lambda>hops.
           Ok \<lparr>qrr_TotalTimeLock = rt_TotalTimeLock route, qrr_Hops = hops,
               qrr_TotalFeesMsat = rt_TotalFeesMsat route,
               qrr_TotalAmtMsat = rt_TotalAmtMsat route\<rparr>))"

definition QueryRoutes ::
  "lightningClient \<Rightarrow> 'key hint_fns \<Rightarrow> ('addr, 'scid, 'tx) ln_fns
     \<Rightarrow> (rpcQueryRoutesRequest, rpcRoute list) ln_srv \<Rightarrow> ctx \<Rightarrow> 'key QueryRoutesRequest
     \<Rightarrow> (lightning_req, QueryRoutesResponse) io" where
  "QueryRoutes s hfns fns srv c req =
     io_bind (io_lift (query_routes_request hfns req)) (\<lambda>rpcReq.
     io_bind (rpc srv QueryRoutesReq (ln_ctx s c) rpcReq) (\<lambda>routes.
       io_lift (first_route fns routes)))"

section \<open>Permissions\<close>

definition MacaroonPermission_String :: "MacaroonPermission \<Rightarrow> string" where
  "MacaroonPermission_String p = perm_Entity p @ '':'' @ perm_Action p"

text \<open>The answer maps the URI of a method to its permissions.\<close>

definition ListPermissions ::
  "lightningClient \<Rightarrow> (unit, string \<rightharpoonup> (string \<times> string) list) ln_srv \<Rightarrow> ctx
     \<Rightarrow> (lightning_req, string \<rightharpoonup> MacaroonPermission list) io" where
  "ListPermissions s srv c =
     io_bind (rpc srv (\<lambda>_. ListPermissionsReq) (ln_ctx s c) ()) (\<lambda>perms.
       io_ret (\<lambda>methodURI. map_option
         (map (\<lambda>(e, a). \<lparr>perm_Entity = e, perm_Action = a\<rparr>)) (perms methodURI)))"

text \<open>Here the macaroon is attached before the timeout.\<close>

definition CheckMacaroonPermissions ::
  "lightningClient \<Rightarrow> (rpcCheckMacPermRequest, bool) ln_srv \<Rightarrow> ctx \<Rightarrow> bytes
     \<Rightarrow> MacaroonPermission list \<Rightarrow> string \<Rightarrow> (lightning_req, bool) io" where
  "CheckMacaroonPermissions s srv c macaroon permissions fullMethod =
     rpc srv CheckMacaroonPermissionsReq
       (TimeoutCtx (WithMacaroonAuth (ln_adminMac s) c) (ln_timeout s))
       \<lparr>rcp_Macaroon = macaroon, rcp_Permissions = permissions, rcp_FullMethod = fullMethod\<rparr>"

section \<open>Funding and messages\<close>

text \<open>The funding transition is an opaque message.\<close>

definition FundingStateStep ::
  "lightningClient \<Rightarrow> (bytes, 'resp) ln_srv \<Rightarrow> ctx \<Rightarrow> bytes \<Rightarrow> (lightning_req, 'resp) io" where
  "FundingStateStep s srv c req = rpc srv FundingStateStepReq (ln_ctx s c) req"

record CustomMessage =
  cm_Peer :: Vertex
  cm_MsgType :: u32
  cm_Data :: bytes

definition SendCustomMessage ::
  "lightningClient \<Rightarrow> (bytes \<times> u32 \<times> bytes, unit) ln_srv \<Rightarrow> ctx \<Rightarrow> CustomMessage
     \<Rightarrow> (lightning_req, unit) io" where
  "SendCustomMessage s srv c msg =
     rpc srv (\<lambda>(p, t, d). SendCustomMessageReq p t d) (ln_ctx s c)
       (cm_Peer msg, cm_MsgType msg, cm_Data msg)"

text \<open>The next two methods set no timeout, the last one neither a timeout nor a macaroon.\<close>

definition ln_SignMessage ::
  "lightningClient \<Rightarrow> (bytes, string) ln_srv \<Rightarrow> ctx \<Rightarrow> bytes \<Rightarrow> (lightning_req, string) io" where
  "ln_SignMessage s srv c data = rpc srv SignMessageReq (WithMacaroonAuth (ln_adminMac s) c) data"

definition ln_VerifyMessage ::
  "lightningClient \<Rightarrow> (bytes \<times> string, bool \<times> string) ln_srv \<Rightarrow> ctx \<Rightarrow> bytes \<Rightarrow> string
     \<Rightarrow> (lightning_req, bool \<times> string) io" where
  "ln_VerifyMessage s srv c data signature =
     rpc srv (\<lambda>(d, g). VerifyMessageReq d g) (WithMacaroonAuth (ln_adminMac s) c) (data, signature)"

definition ListAliases ::
  "lightningClient \<Rightarrow> (unit, 'alias list) ln_srv \<Rightarrow> ctx \<Rightarrow> (lightning_req, 'alias list) io" where
  "ListAliases s srv c = rpc srv (\<lambda>_. ListAliasesReq) c ()"

section \<open>Call disciplines\<close>

lemma ln_ctx_ok [simp]:
  "authed (ln_adminMac s) c (ln_ctx s c)" "bounded (ln_timeout s) (ln_ctx s c)"
  by (simp_all add: ln_ctx_def)

lemma bounded_inner [simp]: "bounded t (TimeoutCtx (WithMacaroonAuth mac c) t)"
  by simp

abbreviation ln_ok :: "lightningClient \<Rightarrow> ctx \<Rightarrow> ctx \<Rightarrow> lightning_req \<Rightarrow> bool" where
  "ln_ok s c c' q \<equiv> authed (ln_adminMac s) c c' \<and> bounded (ln_timeout s) c'"

lemma calls_ok_prod [rpc_intros]:
  "(\<And>x y. p = (x, y) \<Longrightarrow> calls_ok P (f x y)) \<Longrightarrow> calls_ok P (case p of (x, y) \<Rightarrow> f x y)"
  by (cases p) simp

lemma wallet_calls:
  "calls_ok (ln_ok s c) (ln_WalletBalance s s1 c)"
  "calls_ok (ln_ok s c) (GetInfo s H C s2 c)"
  "calls_ok (ln_ok s c) (EstimateFee s aS s3 c addr amt conf)"
  "calls_ok (ln_ok s c) (EstimateFeeToP2WSH s aS nW s3 c amt conf)"
  "calls_ok (ln_ok s c) (SendCoins s aS s4 c addr amt all conf rate label)"
  "calls_ok (ln_ok s c) (ListTransactions s fns s5 c h1 h2 topts)"
  by (auto simp: ln_WalletBalance_def GetInfo_def EstimateFee_def EstimateFeeToP2WSH_def
      SendCoins_def ListTransactions_def Let_def intro!: rpc_intros)

lemma invoice_payment_calls:
  "calls_ok (ln_ok s c) (AddInvoice s hfns mh a1 c inp)"
  "calls_ok (ln_ok s c) (LookupInvoice s ifns a2 c hash)"
  "calls_ok (ln_ok s c) (ListInvoices s ifns a3 c lreq)"
  "calls_ok (ln_ok s c) (ListPayments s mhs tfns a4 c preq)"
  "calls_ok (ln_ok s c) (DecodePaymentRequest s fns a5 c payReq)"
  "calls_ok (ln_ok s c) (ForwardingHistory s a6 c freq)"
  by (auto simp: AddInvoice_def LookupInvoice_def ListInvoices_def ListPayments_def
      DecodePaymentRequest_def ForwardingHistory_def intro!: rpc_intros)

lemma channel_calls:
  "calls_ok (ln_ok s c) (ListChannels s fns b1 c act pub lopts)"
  "calls_ok (ln_ok s c) (ln_PendingChannels s fns b2 c)"
  "calls_ok (ln_ok s c) (ClosedChannels s fns b3 c)"
  "calls_ok (ln_ok s c) (ChannelBackup s b4 c op)"
  "calls_ok (ln_ok s c) (ChannelBackups s b5 c)"
  "calls_ok (ln_ok s c) (ln_ChannelBalance s b6 c)"
  "calls_ok (ln_ok s c) (OpenChannel s fns b7 c peer lsat psat priv oopts)"
  "calls_ok (ln_ok s c) (UpdateChanPolicy s b8 c polreq cp)"
  by (auto simp: ListChannels_def ln_PendingChannels_def ClosedChannels_def ChannelBackup_def
      ChannelBackups_def ln_ChannelBalance_def OpenChannel_def UpdateChanPolicy_def Let_def
      intro!: rpc_intros)

lemma graph_calls:
  "calls_ok (ln_ok s c) (GetChanInfo s fns c1 c chan)"
  "calls_ok (ln_ok s c) (GetNodeInfo s fns c2 c key incl)"
  "calls_ok (ln_ok s c) (DescribeGraph s fns c3 c unann)"
  "calls_ok (ln_ok s c) (ln_NetworkInfo s fa c4 c)"
  "calls_ok (ln_ok s c) (ListPeers s fns nf c5 c)"
  "calls_ok (ln_ok s c) (Connect s vS c6 c peer host perm)"
  "calls_ok (ln_ok s c) (QueryRoutes s hfns fns c7 c qreq)"
  "calls_ok (ln_ok s c) (ListPermissions s c8 c)"
  "calls_ok (ln_ok s c) (CheckMacaroonPermissions s c9 c mac perms meth)"
  "calls_ok (ln_ok s c) (FundingStateStep s c10 c fmsg)"
  "calls_ok (ln_ok s c) (SendCustomMessage s c11 c cmsg)"
  by (auto simp: GetChanInfo_def GetNodeInfo_def DescribeGraph_def ln_NetworkInfo_def ListPeers_def
      Connect_def QueryRoutes_def ListPermissions_def CheckMacaroonPermissions_def
      FundingStateStep_def SendCustomMessage_def intro!: rpc_intros)

end
