(* ===== verification/LightningStreams.thy ===== *)
theory LightningStreams
  imports LightningGraph
begin

text \<open>
  The subscriptions of \<open>lightning_client.go\<close>: channel events and backups, opening and closing a
  channel, the graph, invoices, custom messages and transactions as loops on the machine of \<open>Streams\<close>;
  the channel acceptor and the RPC middleware as loops over the rounds of their stream.
\<close>

section \<open>Channel events\<close>

definition getOutPoint :: "('addr, 'scid, 'tx) ln_fns \<Rightarrow> bytes \<Rightarrow> u32 \<Rightarrow> OutPoint go" where
  "getOutPoint fns txID idx =
     go_bind (lf_NewHash fns txID) (\<lambda>hash. Ok \<lparr>op_Hash = hash, op_Index = idx\<rparr>)"

datatype ChannelUpdateType =
    PendingOpenChannelUpdate | OpenChannelUpdate | ClosedChannelUpdate | ActiveChannelUpdate
  | InactiveChannelUpdate | FullyResolvedChannelUpdate | StateChannelUpdate

datatype rpcUpdateType =
    PENDING_OPEN_CHANNEL | OPEN_CHANNEL | CLOSED_CHANNEL | ACTIVE_CHANNEL | INACTIVE_CHANNEL
  | FULLY_RESOLVED_CHANNEL | CHANNEL_UPDATE | UpdateType_other string

text \<open>The message has a type and, apart from it, one of several payloads: a getter for a payload that is
  not there gives nil. The payload of a channel update is a message with an optional channel.\<close>

datatype rpcChannelPayload =
    Payload_PendingOpen bytes u32
  | Payload_Open rpcChannel
  | Payload_Closed rpcChannelCloseSummary
  | Payload_Active rpcChannelPoint
  | Payload_Inactive rpcChannelPoint
  | Payload_FullyResolved rpcChannelPoint
  | Payload_Updated "rpcChannel option"
  | Payload_none

record rpcChannelEventUpdate =
  rce_Type :: rpcUpdateType
  rce_Channel :: rpcChannelPayload

record ('addr, 'scid) ChannelEventUpdate =
  ceu_UpdateType :: ChannelUpdateType
  ceu_ChannelPoint :: "OutPoint option"
  ceu_OpenedChannelInfo :: "('addr, 'scid) ChannelInfo option"
  ceu_ClosedChannelInfo :: "ClosedChannel option"
  ceu_UpdatedChannelInfo :: "('addr, 'scid) ChannelInfo option"

definition event_update :: "ChannelUpdateType \<Rightarrow> ('addr, 'scid) ChannelEventUpdate" where
  "event_update t = \<lparr>ceu_UpdateType = t, ceu_ChannelPoint = None, ceu_OpenedChannelInfo = None,
     ceu_ClosedChannelInfo = None, ceu_UpdatedChannelInfo = None\<rparr>"

text \<open>A channel point's transaction id is asserted to be of the kind bytes; another kind panics, as
  does a missing payload.\<close>

definition point_update ::
  "('addr, 'scid, 'tx) ln_fns \<Rightarrow> ChannelUpdateType \<Rightarrow> rpcChannelPoint option
     \<Rightarrow> ('addr, 'scid) ChannelEventUpdate go" where
  "point_update fns t channelPoint =
     go_bind (deref channelPoint) (\<lambda>cp. case rcp_FundingTxid cp of
         FundingTxidBytes b \<Rightarrow> go_bind (getOutPoint fns b (rcp_OutputIndex cp)) (\<lambda>op.
           Ok ((event_update t)\<lparr>ceu_ChannelPoint := Some op\<rparr>))
       | _ \<Rightarrow> Panic ''interface conversion'')"

definition getChannelEventUpdate ::
  "('addr, 'scid, 'tx) ln_fns \<Rightarrow> rpcChannelEventUpdate \<Rightarrow> ('addr, 'scid) ChannelEventUpdate go" where
  "getChannelEventUpdate fns u = (case rce_Type u of
       PENDING_OPEN_CHANNEL \<Rightarrow> (case rce_Channel u of
         Payload_PendingOpen txid idx \<Rightarrow> go_bind (getOutPoint fns txid idx) (\<lambda>op.
           Ok ((event_update PendingOpenChannelUpdate)\<lparr>ceu_ChannelPoint := Some op\<rparr>))
       | _ \<Rightarrow> Panic ''nil pointer dereference'')
     | OPEN_CHANNEL \<Rightarrow> (case rce_Channel u of
         Payload_Open channel \<Rightarrow> go_bind (newChannelInfo fns channel) (\<lambda>info.
           Ok ((event_update OpenChannelUpdate)\<lparr>ceu_OpenedChannelInfo := Some info\<rparr>))
       | _ \<Rightarrow> Panic ''nil pointer dereference'')
     | CLOSED_CHANNEL \<Rightarrow> (case rce_Channel u of
         Payload_Closed closeSummary \<Rightarrow> go_bind (getClosedChannel fns closeSummary) (\<lambda>info.
           Ok ((event_update ClosedChannelUpdate)\<lparr>ceu_ClosedChannelInfo := Some info\<rparr>))
       | _ \<Rightarrow> Panic ''nil pointer dereference'')
     | ACTIVE_CHANNEL \<Rightarrow> point_update fns ActiveChannelUpdate
         (case rce_Channel u of Payload_Active cp \<Rightarrow> Some cp | _ \<Rightarrow> None)
     | INACTIVE_CHANNEL \<Rightarrow> point_update fns InactiveChannelUpdate
         (case rce_Channel u of Payload_Inactive cp \<Rightarrow> Some cp | _ \<Rightarrow> None)
     | FULLY_RESOLVED_CHANNEL \<Rightarrow> point_update fns FullyResolvedChannelUpdate
         (case rce_Channel u of Payload_FullyResolved cp \<Rightarrow> Some cp | _ \<Rightarrow> None)
     | CHANNEL_UPDATE \<Rightarrow> (case rce_Channel u of
         Payload_Updated channel \<Rightarrow> go_bind (go_bind (deref channel) (newChannelInfo fns)) (\<lambda>info.
           Ok ((event_update StateChannelUpdate)\<lparr>ceu_UpdatedChannelInfo := Some info\<rparr>))
       | _ \<Rightarrow> Panic ''nil pointer dereference'')
     | UpdateType_other t \<Rightarrow> Err (FmtVal ''unhandled update type: '' t))"

text \<open>The loop most subscriptions share: an error of the stream or of the conversion ends it.\<close>

definition forward_body :: "('m \<Rightarrow> 'u go) \<Rightarrow> 'm recv \<Rightarrow> 'u script" where
  "forward_body convert r = (case r of
       RecvErr err \<Rightarrow> SendErr err Return
     | RecvOk m \<Rightarrow> on_go id (convert m) (\<lambda>update. SendUpd update Return Loop))"

definition forward_sub :: "('m \<Rightarrow> 'u go) \<Rightarrow> ('m, 'u) sub" where
  "forward_sub convert =
     \<lparr>sub_body = forward_body convert, sub_ucap = 0, sub_ecap = 1, sub_defers = []\<rparr>"

definition channel_events_sub ::
  "('addr, 'scid, 'tx) ln_fns \<Rightarrow> (rpcChannelEventUpdate, ('addr, 'scid) ChannelEventUpdate) sub" where
  "channel_events_sub fns = forward_sub (getChannelEventUpdate fns)"

definition SubscribeChannelEvents ::
  "lightningClient \<Rightarrow> ('addr, 'scid, 'tx) ln_fns \<Rightarrow> (unit, unit) ln_srv \<Rightarrow> ctx
     \<Rightarrow> (lightning_req, (rpcChannelEventUpdate, ('addr, 'scid) ChannelEventUpdate) sub) io" where
  "SubscribeChannelEvents s fns srv c =
     io_bind (rpc srv (\<lambda>_. SubscribeChannelEventsReq) (WithMacaroonAuth (ln_adminMac s) c) ())
       (\<lambda>_. io_ret (channel_events_sub fns))"

text \<open>A backup snapshot is passed on as it is.\<close>

definition backups_sub :: "('snap, 'snap) sub" where
  "backups_sub = forward_sub Ok"

definition SubscribeChannelBackups ::
  "lightningClient \<Rightarrow> (unit, unit) ln_srv \<Rightarrow> ctx \<Rightarrow> (lightning_req, ('snap, 'snap) sub) io" where
  "SubscribeChannelBackups s srv c =
     io_bind (rpc srv (\<lambda>_. SubscribeChannelBackupsReq) (WithMacaroonAuth (ln_adminMac s) c) ())
       (\<lambda>_. io_ret backups_sub)"

section \<open>Opening and closing a channel\<close>

text \<open>The payload of an open status update; the messages inside it are passed on.\<close>

datatype ('pend, 'opn, 'psbt) rpcOpenStatus =
    OpenStatus_ChanPending 'pend | OpenStatus_ChanOpen 'opn | OpenStatus_PsbtFund 'psbt
  | OpenStatus_nil

record ('pend, 'opn, 'psbt) OpenStatusUpdate =
  osu_ChanPending :: "'pend option"
  osu_ChanOpen :: "'opn option"
  osu_PsbtFund :: "'psbt option"
  osu_PendingChanID :: bytes

definition getOpenStatusUpdate ::
  "('pend, 'opn, 'psbt) rpcOpenStatus \<times> bytes \<Rightarrow> ('pend, 'opn, 'psbt) OpenStatusUpdate" where
  "getOpenStatusUpdate rpcUpdate = (case rpcUpdate of (update, pendingChanId) \<Rightarrow>
     \<lparr>osu_ChanPending = (case update of OpenStatus_ChanPending x \<Rightarrow> Some x | _ \<Rightarrow> None),
      osu_ChanOpen = (case update of OpenStatus_ChanOpen x \<Rightarrow> Some x | _ \<Rightarrow> None),
      osu_PsbtFund = (case update of OpenStatus_PsbtFund x \<Rightarrow> Some x | _ \<Rightarrow> None),
      osu_PendingChanID = pendingChanId\<rparr>)"

definition open_stream_sub ::
  "(('pend, 'opn, 'psbt) rpcOpenStatus \<times> bytes, ('pend, 'opn, 'psbt) OpenStatusUpdate) sub" where
  "open_stream_sub = forward_sub (\<lambda>u. Ok (getOpenStatusUpdate u))"

definition OpenChannelStream ::
  "lightningClient \<Rightarrow> (rpcOpenChannelRequest, unit) ln_srv \<Rightarrow> ctx \<Rightarrow> Vertex \<Rightarrow> Amount \<Rightarrow> Amount
     \<Rightarrow> bool \<Rightarrow> OpenChannelOption list
     \<Rightarrow> (lightning_req, (('pend, 'opn, 'psbt) rpcOpenStatus \<times> bytes,
          ('pend, 'opn, 'psbt) OpenStatusUpdate) sub) io" where
  "OpenChannelStream s srv c peer localSat pushSat private opts =
     io_bind (io_lift (open_request peer localSat pushSat private opts)) (\<lambda>rpcRequest.
     io_bind (rpc srv OpenChannelReq (WithMacaroonAuth (ln_adminMac s) c) rpcRequest) (\<lambda>_.
       io_ret open_stream_sub))"

datatype CloseChannelOption = SatPerVbyte i64 | MaxFeePerVbyte i64 | WithNoWait

fun close_option :: "rpcCloseChannelRequest \<Rightarrow> CloseChannelOption \<Rightarrow> rpcCloseChannelRequest" where
  "close_option r (SatPerVbyte rate) = r\<lparr>rcl_SatPerVbyte := rate\<rparr>"
| "close_option r (MaxFeePerVbyte rate) = r\<lparr>rcl_MaxFeePerVbyte := rate\<rparr>"
| "close_option r WithNoWait = r\<lparr>rcl_NoWait := True\<rparr>"

text \<open>The two kinds of close updates, with the hash of the closing transaction and the number of
  pending htlcs.\<close>

datatype CloseChannelUpdate =
    PendingCloseUpdate (CloseTxid: bytes) (NumberOfPendingHtlcs: i32)
  | ChannelClosedUpdate (CloseTxid: bytes) (NumberOfPendingHtlcs: i32)

datatype rpcCloseStatus =
    ClosePending "bytes option" | ChanClose "bytes option" | CloseInstant "i32 option"
  | CloseStatus_other string

text \<open>What one close update is turned into. The transaction id of an instant update is the zero hash.\<close>

definition close_update ::
  "('addr, 'scid, 'tx) ln_fns \<Rightarrow> rpcCloseStatus \<Rightarrow> CloseChannelUpdate go" where
  "close_update fns update = (case update of
       ClosePending txid \<Rightarrow> go_bind (deref txid) (\<lambda>closingHash.
         go_bind (lf_NewHash fns closingHash) (\<lambda>txid. Ok (PendingCloseUpdate txid 0)))
     | ChanClose txid \<Rightarrow> go_bind (deref txid) (\<lambda>closingHash.
         go_bind (lf_NewHash fns closingHash) (\<lambda>txid. Ok (ChannelClosedUpdate txid 0)))
     | CloseInstant instantUpdate \<Rightarrow> (case instantUpdate of
         None \<Rightarrow> Err (NewErr ''instant update unavailable'')
       | Some n \<Rightarrow> Ok (PendingCloseUpdate (replicate 32 0) n))
     | CloseStatus_other t \<Rightarrow> Err (FmtVal ''unknown channel close update: '' t))"

text \<open>\<open>sendErr\<close> and \<open>sendUpdate\<close> give up when the context is done; after \<open>sendUpdate\<close> the loop goes on
  either way. Both channels have no buffer.\<close>

definition close_body ::
  "('addr, 'scid, 'tx) ln_fns \<Rightarrow> rpcCloseStatus recv \<Rightarrow> CloseChannelUpdate script" where
  "close_body fns r = (case r of
       RecvErr err \<Rightarrow> if err = IoEOF then CloseUpd (CloseErr Return) else SelErr err Return Return
     | RecvOk update \<Rightarrow> (case close_update fns update of
         Ok u \<Rightarrow> SendUpd u Loop Loop
       | Err e \<Rightarrow> SelErr e Return Return
       | Panic p \<Rightarrow> Fault p))"

definition close_sub ::
  "('addr, 'scid, 'tx) ln_fns \<Rightarrow> (rpcCloseStatus, CloseChannelUpdate) sub" where
  "close_sub fns = \<lparr>sub_body = close_body fns, sub_ucap = 0, sub_ecap = 0, sub_defers = []\<rparr>"

definition close_request ::
  "('addr \<Rightarrow> string) \<Rightarrow> OutPoint \<Rightarrow> bool \<Rightarrow> i32 \<Rightarrow> 'addr option \<Rightarrow> CloseChannelOption list
     \<Rightarrow> rpcCloseChannelRequest" where
  "close_request addr_String channel force confTarget deliveryAddr opts =
     foldl close_option
       \<lparr>rcl_ChannelPoint = channel_point channel, rcl_Force = force, rcl_TargetConf = confTarget,
        rcl_DeliveryAddress = (case deliveryAddr of None \<Rightarrow> [] | Some a \<Rightarrow> addr_String a),
        rcl_SatPerVbyte = 0, rcl_MaxFeePerVbyte = 0, rcl_NoWait = False\<rparr> opts"

definition CloseChannel ::
  "lightningClient \<Rightarrow> ('addr, 'scid, 'tx) ln_fns \<Rightarrow> ('addr \<Rightarrow> string)
     \<Rightarrow> (rpcCloseChannelRequest, unit) ln_srv \<Rightarrow> ctx \<Rightarrow> OutPoint option \<Rightarrow> bool \<Rightarrow> i32
     \<Rightarrow> 'addr option \<Rightarrow> CloseChannelOption list
     \<Rightarrow> (lightning_req, (rpcCloseStatus, CloseChannelUpdate) sub) io" where
  "CloseChannel s fns addr_String srv c channel force confTarget deliveryAddr opts =
     io_bind (io_lift (deref channel)) (\<lambda>channel.
     io_bind (rpc srv CloseChannelReq (WithMacaroonAuth (ln_adminMac s) c)
       (close_request addr_String channel force confTarget deliveryAddr opts)) (\<lambda>_.
       io_ret (close_sub fns)))"

section \<open>The graph\<close>

record rpcNodeUpdate =
  rnu_Addresses :: "string list"
  rnu_IdentityKey :: string
  rnu_Features :: "u32 list"
  rnu_Alias :: string
  rnu_Color :: string

record NodeUpdate =
  nu_Addresses :: "string list"
  nu_IdentityKey :: Vertex
  nu_Features :: "u16 list"
  nu_Alias :: string
  nu_Color :: string

record rpcChannelEdgeUpdate =
  reu_ChanId :: u64
  reu_ChanPoint :: "rpcChannelPoint option"
  reu_Capacity :: i64
  reu_RoutingPolicy :: "rpcRoutingPolicy option"
  reu_AdvertisingNode :: string
  reu_ConnectingNode :: string

record 'scid ChannelEdgeUpdate =
  eu_ChannelID :: 'scid
  eu_ChannelPoint :: OutPoint
  eu_Capacity :: Amount
  eu_RoutingPolicy :: RoutingPolicy
  eu_AdvertisingNode :: Vertex
  eu_ConnectingNode :: Vertex

record rpcClosedChannelUpdate =
  rcu_ChanId :: u64
  rcu_Capacity :: i64
  rcu_ClosedHeight :: u32
  rcu_ChanPoint :: "rpcChannelPoint option"

record 'scid ChannelCloseUpdate =
  cu_ChannelID :: 'scid
  cu_ChannelPoint :: OutPoint
  cu_Capacity :: Amount
  cu_ClosedHeight :: u32

record rpcGraphTopologyUpdate =
  rgt_NodeUpdates :: "rpcNodeUpdate list"
  rgt_ChannelUpdates :: "rpcChannelEdgeUpdate list"
  rgt_ClosedChans :: "rpcClosedChannelUpdate list"

record 'scid GraphTopologyUpdate =
  gt_NodeUpdates :: "NodeUpdate list"
  gt_ChannelEdgeUpdates :: "'scid ChannelEdgeUpdate list"
  gt_ChannelCloseUpdates :: "'scid ChannelCloseUpdate list"

definition node_update :: "('addr, 'scid, 'tx) ln_fns \<Rightarrow> rpcNodeUpdate \<Rightarrow> NodeUpdate go" where
  "node_update fns nodeUpdate =
     go_bind (lf_NewVertexFromStr fns (rnu_IdentityKey nodeUpdate)) (\<lambda>identityKey.
       Ok \<lparr>nu_Addresses = rnu_Addresses nodeUpdate, nu_IdentityKey = identityKey,
           nu_Features = map ucast (rnu_Features nodeUpdate), nu_Alias = rnu_Alias nodeUpdate,
           nu_Color = rnu_Color nodeUpdate\<rparr>)"

text \<open>\<open>getOutPoint\<close> of a channel point: the getter of the id gives no bytes for a nil point or another
  kind of id, the output index is read from the point itself.\<close>

definition graph_outpoint ::
  "('addr, 'scid, 'tx) ln_fns \<Rightarrow> rpcChannelPoint option \<Rightarrow> OutPoint go" where
  "graph_outpoint fns chanPoint =
     go_bind (deref chanPoint) (\<lambda>cp. getOutPoint fns
       (case rcp_FundingTxid cp of FundingTxidBytes b \<Rightarrow> b | _ \<Rightarrow> []) (rcp_OutputIndex cp))"

definition edge_update ::
  "('addr, 'scid, 'tx) ln_fns \<Rightarrow> rpcChannelEdgeUpdate \<Rightarrow> 'scid ChannelEdgeUpdate go" where
  "edge_update fns channelUpdate =
     go_bind (graph_outpoint fns (reu_ChanPoint channelUpdate)) (\<lambda>channelPoint.
     go_bind (lf_NewVertexFromStr fns (reu_AdvertisingNode channelUpdate)) (\<lambda>advertisingNode.
     go_bind (lf_NewVertexFromStr fns (reu_ConnectingNode channelUpdate)) (\<lambda>connectingNode.
     go_bind (deref (getRoutingPolicy (reu_RoutingPolicy channelUpdate))) (\<lambda>policy.
       Ok \<lparr>eu_ChannelID = lf_NewShortChanID fns (reu_ChanId channelUpdate),
           eu_ChannelPoint = channelPoint, eu_Capacity = reu_Capacity channelUpdate,
           eu_RoutingPolicy = policy, eu_AdvertisingNode = advertisingNode,
           eu_ConnectingNode = connectingNode\<rparr>))))"

definition closed_update ::
  "('addr, 'scid, 'tx) ln_fns \<Rightarrow> rpcClosedChannelUpdate \<Rightarrow> 'scid ChannelCloseUpdate go" where
  "closed_update fns closedChan =
     go_bind (graph_outpoint fns (rcu_ChanPoint closedChan)) (\<lambda>channelPoint.
       Ok \<lparr>cu_ChannelID = lf_NewShortChanID fns (rcu_ChanId closedChan),
           cu_ChannelPoint = channelPoint, cu_Capacity = rcu_Capacity closedChan,
           cu_ClosedHeight = rcu_ClosedHeight closedChan\<rparr>)"

definition getGraphTopologyUpdate ::
  "('addr, 'scid, 'tx) ln_fns \<Rightarrow> rpcGraphTopologyUpdate \<Rightarrow> 'scid GraphTopologyUpdate go" where
  "getGraphTopologyUpdate fns update =
     go_bind (go_map (node_update fns) (rgt_NodeUpdates update)) (\<lambda>nodes.
     go_bind (go_map (edge_update fns) (rgt_ChannelUpdates update)) (\<lambda>edges.
     go_bind (go_map (closed_update fns) (rgt_ClosedChans update)) (\<lambda>closed.
       Ok \<lparr>gt_NodeUpdates = nodes, gt_ChannelEdgeUpdates = edges,
           gt_ChannelCloseUpdates = closed\<rparr>)))"

definition graph_sub ::
  "('addr, 'scid, 'tx) ln_fns \<Rightarrow> (rpcGraphTopologyUpdate, 'scid GraphTopologyUpdate) sub" where
  "graph_sub fns = forward_sub (getGraphTopologyUpdate fns)"

definition SubscribeGraph ::
  "lightningClient \<Rightarrow> ('addr, 'scid, 'tx) ln_fns \<Rightarrow> (unit, unit) ln_srv \<Rightarrow> ctx
     \<Rightarrow> (lightning_req, (rpcGraphTopologyUpdate, 'scid GraphTopologyUpdate) sub) io" where
  "SubscribeGraph s fns srv c =
     io_bind (rpc srv (\<lambda>_. SubscribeChannelGraphReq) (WithMacaroonAuth (ln_adminMac s) c) ())
       (\<lambda>_. io_ret (graph_sub fns))"

section \<open>Invoices, messages and transactions\<close>

record InvoiceSubscriptionRequest =
  isr_AddIndex :: u64
  isr_SettleIndex :: u64

text \<open>The deferred closes run last to first: the updates channel, then the error channel.\<close>

definition invoices_sub :: "'scid inv_fns \<Rightarrow> (rpcInvoice, 'scid Invoice) sub" where
  "invoices_sub fns = \<lparr>sub_body = forward_body (unmarshalInvoice fns), sub_ucap = 0, sub_ecap = 1,
     sub_defers = [DeferCloseUpd, DeferCloseErr]\<rparr>"

definition SubscribeInvoices ::
  "lightningClient \<Rightarrow> 'scid inv_fns \<Rightarrow> (u64 \<times> u64, unit) ln_srv \<Rightarrow> ctx
     \<Rightarrow> InvoiceSubscriptionRequest \<Rightarrow> (lightning_req, (rpcInvoice, 'scid Invoice) sub) io" where
  "SubscribeInvoices s fns srv c req =
     io_bind (rpc srv (\<lambda>(a, st). SubscribeInvoicesReq a st) (WithMacaroonAuth (ln_adminMac s) c)
       (isr_AddIndex req, isr_SettleIndex req)) (\<lambda>_. io_ret (invoices_sub fns))"

record rpcCustomMessage =
  rcm_Peer :: bytes
  rcm_Type :: u32
  rcm_Data :: bytes

definition custom_message ::
  "('addr, 'scid, 'tx) ln_fns \<Rightarrow> rpcCustomMessage \<Rightarrow> CustomMessage go" where
  "custom_message fns msg =
     go_bind (lf_NewVertexFromBytes fns (rcm_Peer msg)) (\<lambda>peer.
       Ok \<lparr>cm_Peer = peer, cm_MsgType = rcm_Type msg, cm_Data = rcm_Data msg\<rparr>)"

definition custom_messages_body ::
  "('addr, 'scid, 'tx) ln_fns \<Rightarrow> rpcCustomMessage recv \<Rightarrow> CustomMessage script" where
  "custom_messages_body fns r = (case r of
       RecvErr err \<Rightarrow> SendErr (WrapErr ''receive failed: '' err) Return
     | RecvOk msg \<Rightarrow> on_go (WrapErr ''invalid peer: '') (custom_message fns msg) (\<lambda>customMsg.
         SendUpd customMsg Return Loop))"

definition custom_messages_sub ::
  "('addr, 'scid, 'tx) ln_fns \<Rightarrow> (rpcCustomMessage, CustomMessage) sub" where
  "custom_messages_sub fns = \<lparr>sub_body = custom_messages_body fns, sub_ucap = 0, sub_ecap = 1,
     sub_defers = [DeferCloseErr, DeferCloseUpd]\<rparr>"

definition SubscribeCustomMessages ::
  "lightningClient \<Rightarrow> ('addr, 'scid, 'tx) ln_fns \<Rightarrow> (unit, unit) ln_srv \<Rightarrow> ctx
     \<Rightarrow> (lightning_req, (rpcCustomMessage, CustomMessage) sub) io" where
  "SubscribeCustomMessages s fns srv c =
     io_bind (rpc srv (\<lambda>_. SubscribeCustomMessagesReq) (WithMacaroonAuth (ln_adminMac s) c) ())
       (\<lambda>_. io_ret (custom_messages_sub fns))"

text \<open>After a transaction that cannot be converted the code goes on: it sends the error and then the
  zero transaction, and receives again.\<close>

definition transactions_body ::
  "('addr, 'scid, 'tx) ln_fns \<Rightarrow> ('od, 'po) rpcTransaction recv
     \<Rightarrow> ('tx, 'od, 'po) Transaction script" where
  "transactions_body fns r = (case r of
       RecvErr err \<Rightarrow> SendErr (WrapErr ''receive failed: '' err) Return
     | RecvOk rpcTx \<Rightarrow> (case unmarshallTransaction fns rpcTx of
         Ok tx \<Rightarrow> SendUpd tx Return Loop
       | Err err \<Rightarrow> SendErr (WrapErr ''unmarshall failed: '' err)
           (SendUpd zero_Transaction Return Loop)
       | Panic p \<Rightarrow> Fault p))"

definition transactions_sub ::
  "('addr, 'scid, 'tx) ln_fns \<Rightarrow> (('od, 'po) rpcTransaction, ('tx, 'od, 'po) Transaction) sub" where
  "transactions_sub fns = \<lparr>sub_body = transactions_body fns, sub_ucap = 0, sub_ecap = 1,
     sub_defers = [DeferCloseErr, DeferCloseUpd]\<rparr>"

definition SubscribeTransactions ::
  "lightningClient \<Rightarrow> ('addr, 'scid, 'tx) ln_fns \<Rightarrow> (GetTransactionsRequest, unit) ln_srv \<Rightarrow> ctx
     \<Rightarrow> (lightning_req, (('od, 'po) rpcTransaction, ('tx, 'od, 'po) Transaction) sub) io" where
  "SubscribeTransactions s fns srv c =
     io_bind (rpc srv SubscribeTransactionsReq (WithMacaroonAuth (ln_adminMac s) c)
       \<lparr>gtr_StartHeight = 0, gtr_EndHeight = 0, gtr_Account = []\<rparr>)
       (\<lambda>_. io_ret (transactions_sub fns))"

section \<open>The loops as subscriptions\<close>

lemmas ln_loop_simps = forward_sub_def forward_body_def close_sub_def close_body_def
  invoices_sub_def custom_messages_sub_def custom_messages_body_def on_go_disciplined
  on_go_ctx_sound

interpretation forward_stream: subscription "forward_sub convert" for convert
  by unfold_locales (auto simp: ln_loop_simps split: recv.split go.split)

interpretation close_stream: subscription "close_sub fns" for fns
  by unfold_locales (auto simp: ln_loop_simps split: recv.split go.split)

interpretation invoices_stream: subscription "invoices_sub fns" for fns
  by unfold_locales (auto simp: ln_loop_simps split: recv.split go.split)

interpretation custom_messages_stream: subscription "custom_messages_sub fns" for fns
  by unfold_locales (auto simp: ln_loop_simps split: recv.split go.split)

section \<open>Answering lnd\<close>

text \<open>
  \<open>ChannelAcceptor\<close> and \<open>RegisterRPCMiddleware\<close> answer one message after the other. One round of
  their loop is given by what \<open>ctx.Done()\<close>, \<open>Recv\<close>, the callback and \<open>Send\<close> do in it. The result is the
  list of answers sent and, when the loop has ended, the one error put on the error channel, which has
  room for it.
\<close>

record ('req, 'q, 'resp) round =
  rd_done :: "go_error option"           \<comment> \<open>\<open>ctx.Err()\<close> at the top of the round\<close>
  rd_recv :: "'req recv"
  rd_answer :: "'q \<Rightarrow> 'resp option go"   \<comment> \<open>the callback\<close>
  rd_send :: "go_error option"           \<comment> \<open>the error of \<open>Send\<close>\<close>

datatype loop_end = StillRunning | Stopped go_error | LoopPanic string

record AcceptorResponse =
  ar_Accept :: bool
  ar_Error :: string
  ar_UpfrontShutdown :: string
  ar_CsvDelay :: u32
  ar_ReserveSat :: u64
  ar_InFlightMaxMsat :: u64
  ar_MaxHtlcCount :: u32
  ar_MinHtlcIn :: u64
  ar_MinAcceptDepth :: u32
  ar_ZeroConf :: bool

record rpcChannelAcceptResponse =
  ra_Accept :: bool
  ra_PendingChanId :: bytes
  ra_Error :: string
  ra_UpfrontShutdown :: string
  ra_CsvDelay :: u32
  ra_ReserveSat :: u64
  ra_InFlightMaxMsat :: u64
  ra_MaxHtlcCount :: u32
  ra_MinHtlcIn :: u64
  ra_MinAcceptDepth :: u32
  ra_ZeroConf :: bool

definition accept_response ::
  "rpcChannelAcceptRequest \<Rightarrow> AcceptorResponse \<Rightarrow> rpcChannelAcceptResponse" where
  "accept_response request resp =
     \<lparr>ra_Accept = ar_Accept resp, ra_PendingChanId = rar_PendingChanId request,
      ra_Error = ar_Error resp, ra_UpfrontShutdown = ar_UpfrontShutdown resp,
      ra_CsvDelay = ar_CsvDelay resp, ra_ReserveSat = ar_ReserveSat resp,
      ra_InFlightMaxMsat = ar_InFlightMaxMsat resp, ra_MaxHtlcCount = ar_MaxHtlcCount resp,
      ra_MinHtlcIn = ar_MinHtlcIn resp, ra_MinAcceptDepth = ar_MinAcceptDepth resp,
      ra_ZeroConf = ar_ZeroConf resp\<rparr>"

text \<open>The loop over a list of rounds: \<open>convert\<close> makes the callback's argument, \<open>reply\<close> the answer.\<close>

fun answer_loop ::
  "string \<Rightarrow> ('req \<Rightarrow> 'q go) \<Rightarrow> string \<Rightarrow> ('req \<Rightarrow> 'resp option \<Rightarrow> 'out go) \<Rightarrow> string
     \<Rightarrow> ('req, 'q, 'resp) round list \<Rightarrow> 'out list \<times> loop_end" where
  "answer_loop who convert func reply what [] = ([], StillRunning)"
| "answer_loop who convert func reply what (rd # rds) = (case rd_done rd of
       Some e \<Rightarrow> ([], Stopped e)
     | None \<Rightarrow> (case rd_recv rd of
         RecvErr e \<Rightarrow> ([], Stopped (FmtErr (who @ '' receive failed: '') e))
       | RecvOk request \<Rightarrow> (case convert request of
           Err e \<Rightarrow> ([], Stopped (FmtErr what e))
         | Panic p \<Rightarrow> ([], LoopPanic p)
         | Ok q \<Rightarrow> (case go_bind (go_wrap (FmtErr (func @ '' function failed: '')) (rd_answer rd q))
                      (reply request) of
             Err e \<Rightarrow> ([], Stopped e)
           | Panic p \<Rightarrow> ([], LoopPanic p)
           | Ok out \<Rightarrow> (case rd_send rd of
               Some e \<Rightarrow> ([], Stopped (FmtErr (who @ '' send failed: '') e))
             | None \<Rightarrow> (let (outs, r) = answer_loop who convert func reply what rds
                        in (out # outs, r)))))))"

text \<open>A nil response of the callback is read through.\<close>

definition ChannelAcceptor_loop ::
  "('addr, 'scid, 'tx) ln_fns
     \<Rightarrow> (rpcChannelAcceptRequest, AcceptorRequest, AcceptorResponse) round list
     \<Rightarrow> rpcChannelAcceptResponse list \<times> loop_end" where
  "ChannelAcceptor_loop fns =
     answer_loop ''channel acceptor'' (newAcceptorRequest fns) ''accept''
       (\<lambda>request resp. go_bind (deref resp) (\<lambda>resp. Ok (accept_response request resp)))
       ''invalid request sent from lnd: ''"

definition ChannelAcceptor ::
  "lightningClient \<Rightarrow> ('addr, 'scid, 'tx) ln_fns \<Rightarrow> (unit, unit) ln_srv \<Rightarrow> ctx
     \<Rightarrow> (rpcChannelAcceptRequest, AcceptorRequest, AcceptorResponse) round list
     \<Rightarrow> (lightning_req, rpcChannelAcceptResponse list \<times> loop_end) io" where
  "ChannelAcceptor s fns srv c rounds =
     io_bind (rpc srv (\<lambda>_. ChannelAcceptorReq) (WithMacaroonAuth (ln_adminMac s) c) ())
       (\<lambda>_. io_ret (ChannelAcceptor_loop fns rounds))"

text \<open>A middleware first sends its registration and waits for lnd to confirm it. The callback's
  response, a pointer, is sent as it is.\<close>

record MiddlewareRegistration =
  mr_MiddlewareName :: string
  mr_CustomMacaroonCaveatName :: string
  mr_ReadOnlyMode :: bool

definition RegisterRPCMiddleware ::
  "lightningClient \<Rightarrow> (unit, unit) ln_srv \<Rightarrow> ctx \<Rightarrow> string \<Rightarrow> string \<Rightarrow> bool \<Rightarrow> go_error option
     \<Rightarrow> bool recv \<Rightarrow> ('req, 'req, 'resp) round list
     \<Rightarrow> (lightning_req, MiddlewareRegistration \<times> 'resp option list \<times> loop_end) io" where
  "RegisterRPCMiddleware s srv c middlewareName customCaveatName readOnly sendMsg regComplete rounds =
     io_bind (rpc srv (\<lambda>_. RegisterRPCMiddlewareReq) (WithMacaroonAuth (ln_adminMac s) c) ()) (\<lambda>_.
       let registerMsg = \<lparr>mr_MiddlewareName = middlewareName,
             mr_CustomMacaroonCaveatName = customCaveatName, mr_ReadOnlyMode = readOnly\<rparr>
       in case sendMsg of
            Some e \<Rightarrow> io_err e
          | None \<Rightarrow> (case regComplete of
              RecvErr e \<Rightarrow> io_err e
            | RecvOk registered \<Rightarrow>
                if \<not> registered then io_err (NewErr ''expected a RegComplete message but got none. Make sure lnd is upgraded to a version supporting the new RegComplete message'')
                else io_ret (registerMsg, answer_loop ''RPC middleware'' Ok ''intercept'' (\<lambda>_. Ok)
                               [] rounds)))"

text \<open>The answers sent are the replies to the first requests, one each and in order.\<close>

lemma answer_loop_prefix:
  assumes "answer_loop who convert func reply what rds = (outs, e)"
  shows "length outs \<le> length rds \<and>
     (\<forall>i < length outs. \<exists>request q resp. rd_recv (rds ! i) = RecvOk request \<and> convert request = Ok q
        \<and> rd_answer (rds ! i) q = Ok resp \<and> reply request resp = Ok (outs ! i)
        \<and> rd_done (rds ! i) = None \<and> rd_send (rds ! i) = None)"
  using assms
proof (induction rds arbitrary: outs e)
  case Nil
  then show ?case by simp
next
  case (Cons rd rds)
  show ?case
  proof (cases outs)
    case Nil
    then show ?thesis by simp
  next
    case (Cons out outs')
    with Cons.prems obtain request q resp where
      rd: "rd_recv rd = RecvOk request" "convert request = Ok q" "rd_answer rd q = Ok resp"
        "reply request resp = Ok out" "rd_done rd = None" "rd_send rd = None"
      and rest: "answer_loop who convert func reply what rds = (outs', e)"
      by (auto simp: Let_def split: option.splits recv.splits go.splits prod.splits)
    from Cons.IH [OF rest] have "length outs' \<le> length rds" by blast
    moreover have "\<exists>request q resp. rd_recv ((rd # rds) ! i) = RecvOk request
        \<and> convert request = Ok q \<and> rd_answer ((rd # rds) ! i) q = Ok resp
        \<and> reply request resp = Ok (outs ! i) \<and> rd_done ((rd # rds) ! i) = None
        \<and> rd_send ((rd # rds) ! i) = None" if "i < length outs" for i
    proof (cases i)
      case 0
      with rd Cons show ?thesis by simp
    next
      case (Suc j)
      with that Cons Cons.IH [OF rest] show ?thesis by simp
    qed
    ultimately show ?thesis using Cons by simp
  qed
qed

section \<open>Call disciplines\<close>

lemma ln_stream_calls:
  "calls_ok (\<lambda>c' q. authed (ln_adminMac s) c c') (SubscribeChannelEvents s fns s1 c)"
  "calls_ok (\<lambda>c' q. authed (ln_adminMac s) c c') (SubscribeChannelBackups s s2 c)"
  "calls_ok (\<lambda>c' q. authed (ln_adminMac s) c c') (OpenChannelStream s s3 c peer lsat psat priv oopts)"
  "calls_ok (\<lambda>c' q. authed (ln_adminMac s) c c') (CloseChannel s fns aS s4 c op force conf addr copts)"
  "calls_ok (\<lambda>c' q. authed (ln_adminMac s) c c') (SubscribeGraph s fns s5 c)"
  "calls_ok (\<lambda>c' q. authed (ln_adminMac s) c c') (SubscribeInvoices s ifns s6 c ireq)"
  "calls_ok (\<lambda>c' q. authed (ln_adminMac s) c c') (SubscribeCustomMessages s fns s7 c)"
  "calls_ok (\<lambda>c' q. authed (ln_adminMac s) c c') (SubscribeTransactions s fns s8 c)"
  "calls_ok (\<lambda>c' q. authed (ln_adminMac s) c c') (ChannelAcceptor s fns s9 c rounds)"
  by (auto simp: SubscribeChannelEvents_def SubscribeChannelBackups_def OpenChannelStream_def
      CloseChannel_def SubscribeGraph_def SubscribeInvoices_def SubscribeCustomMessages_def
      SubscribeTransactions_def ChannelAcceptor_def intro!: rpc_intros)

lemma middleware_calls:
  "calls_ok (\<lambda>c' q. authed (ln_adminMac s) c c')
     (RegisterRPCMiddleware s srv c name caveat ro snd_err reg mrounds)"
  by (auto simp: RegisterRPCMiddleware_def Let_def intro!: rpc_intros
      split: option.split recv.split)

section \<open>Main theorems\<close>

text \<open>The loop of the answers goes on exactly as long as every round was answered.\<close>

lemma answer_loop_running:
  "answer_loop who convert func reply what rds = (outs, e) \<Longrightarrow>
     e = StillRunning \<longleftrightarrow> length outs = length rds"
proof (induction rds arbitrary: outs)
  case Nil
  then show ?case by simp
next
  case (Cons rd rds)
  show ?case
  proof (cases outs)
    case Nil
    with Cons.prems show ?thesis
      by (auto simp: Let_def split: option.splits recv.splits go.splits prod.splits)
  next
    case (Cons out outs')
    with Cons.prems have "answer_loop who convert func reply what rds = (outs', e)"
      by (auto simp: Let_def split: option.splits recv.splits go.splits prod.splits)
    with Cons Cons.IH show ?thesis by simp
  qed
qed

text \<open>C28: the channel acceptor answers the requests of lnd one by one and in their order: the answer
  number \<open>i\<close> carries the pending channel id of request number \<open>i\<close>, which \<open>newAcceptorRequest\<close> accepted,
  and the decision the callback made on it; and the loop goes on exactly as long as every request
  was answered, so a request that is malformed or whose callback fails is never accepted and ends
  the acceptor.\<close>

theorem ChannelAcceptor_answers:
  assumes "ChannelAcceptor_loop fns rounds = (outs, e)"
  shows "(e = StillRunning \<longleftrightarrow> length outs = length rounds) \<and> length outs \<le> length rounds
     \<and> (\<forall>i < length outs. \<exists>request q resp. rd_recv (rounds ! i) = RecvOk request
          \<and> newAcceptorRequest fns request = Ok q \<and> rd_answer (rounds ! i) q = Ok (Some resp)
          \<and> ra_PendingChanId (outs ! i) = rar_PendingChanId request
          \<and> aq_PendingChanID q = copy_array 32 (rar_PendingChanId request)
          \<and> ra_Accept (outs ! i) = ar_Accept resp \<and> ra_Error (outs ! i) = ar_Error resp
          \<and> ra_ZeroConf (outs ! i) = ar_ZeroConf resp
          \<and> ra_MinAcceptDepth (outs ! i) = ar_MinAcceptDepth resp)"
proof -
  have accepted: "q = Ok req \<Longrightarrow> newAcceptorRequest fns r = q \<Longrightarrow>
      aq_PendingChanID req = copy_array 32 (rar_PendingChanId r)" for q req r
    by (auto simp: newAcceptorRequest_def)
  note pre = answer_loop_prefix [OF assms [unfolded ChannelAcceptor_loop_def]]
    and run = answer_loop_running [OF assms [unfolded ChannelAcceptor_loop_def]]
  have "\<exists>request q resp. rd_recv (rounds ! i) = RecvOk request
      \<and> newAcceptorRequest fns request = Ok q \<and> rd_answer (rounds ! i) q = Ok (Some resp)
      \<and> outs ! i = accept_response request resp" if "i < length outs" for i
  proof -
    from pre that obtain request q resp where 1: "rd_recv (rounds ! i) = RecvOk request"
      "newAcceptorRequest fns request = Ok q" "rd_answer (rounds ! i) q = Ok resp"
      "go_bind (deref resp) (\<lambda>resp. Ok (accept_response request resp)) = Ok (outs ! i)"
      by blast
    from 1(4) obtain r where "resp = Some r" "outs ! i = accept_response request r"
      by (cases resp) auto
    with 1 show ?thesis by blast
  qed
  then have "\<exists>request q resp. rd_recv (rounds ! i) = RecvOk request
      \<and> newAcceptorRequest fns request = Ok q \<and> rd_answer (rounds ! i) q = Ok (Some resp)
      \<and> ra_PendingChanId (outs ! i) = rar_PendingChanId request
      \<and> aq_PendingChanID q = copy_array 32 (rar_PendingChanId request)
      \<and> ra_Accept (outs ! i) = ar_Accept resp \<and> ra_Error (outs ! i) = ar_Error resp
      \<and> ra_ZeroConf (outs ! i) = ar_ZeroConf resp
      \<and> ra_MinAcceptDepth (outs ! i) = ar_MinAcceptDepth resp" if "i < length outs" for i
    using that accepted unfolding accept_response_def by fastforce
  with pre run show ?thesis by blast
qed

definition example_accept_request :: rpcChannelAcceptRequest where
  "example_accept_request = \<lparr>rar_NodePubkey = [2], rar_ChainHash = [], rar_PendingChanId = replicate 32 7,
     rar_FundingAmt = 50000, rar_PushAmt = 0, rar_DustLimit = 0, rar_MaxValueInFlight = 0,
     rar_ChannelReserve = 0, rar_MinHtlc = 1, rar_FeePerKw = 253, rar_CsvDelay = 144,
     rar_MaxAcceptedHtlcs = 483, rar_ChannelFlags = 0, rar_CommitmentType = ANCHORS,
     rar_WantsZeroConf = False, rar_WantsScidAlias = False\<rparr>"

definition example_ln_fns :: "(string, u64, bytes) ln_fns" where
  "example_ln_fns = \<lparr>lf_NewVertexFromStr = (\<lambda>_. Ok [2]), lf_NewVertexFromBytes = Ok, lf_MakeHash = Ok,
     lf_MakeHashFromStr = (\<lambda>_. Ok []), lf_NewHash = Ok, lf_NewHashFromStr = (\<lambda>_. Ok []),
     lf_NewShortChanID = id, lf_DecodeAddress = Ok, lf_Deserialize = Ok,
     lf_TxHashString = (\<lambda>_. [])\<rparr>"

definition example_accept :: AcceptorResponse where
  "example_accept = \<lparr>ar_Accept = True, ar_Error = [], ar_UpfrontShutdown = [], ar_CsvDelay = 0,
     ar_ReserveSat = 0, ar_InFlightMaxMsat = 0, ar_MaxHtlcCount = 0, ar_MinHtlcIn = 0,
     ar_MinAcceptDepth = 3, ar_ZeroConf = False\<rparr>"

definition example_round ::
  "AcceptorResponse option go \<Rightarrow> (rpcChannelAcceptRequest, AcceptorRequest, AcceptorResponse) round" where
  "example_round answer = \<lparr>rd_done = None, rd_recv = RecvOk example_accept_request,
     rd_answer = (\<lambda>_. answer), rd_send = None\<rparr>"

lemma example_rounds:
  "ChannelAcceptor_loop example_ln_fns
     [example_round (Ok (Some example_accept)), example_round (Err CtxDeadlineExceeded)]
   = ([accept_response example_accept_request example_accept],
      Stopped (FmtErr ''accept function failed: '' CtxDeadlineExceeded))"
  by (simp add: ChannelAcceptor_loop_def example_round_def newAcceptorRequest_def
      example_accept_request_def example_ln_fns_def)

theorem ChannelAcceptor_answers_witness:
  "\<exists>out. fst (ChannelAcceptor_loop example_ln_fns
       [example_round (Ok (Some example_accept)), example_round (Err CtxDeadlineExceeded)]) = [out]
     \<and> ra_PendingChanId out = replicate 32 7 \<and> ra_MinAcceptDepth out = 3"
proof -
  let ?rs = "[example_round (Ok (Some example_accept)), example_round (Err CtxDeadlineExceeded)]"
  let ?out = "accept_response example_accept_request example_accept"
  from ChannelAcceptor_answers [OF example_rounds] obtain request q resp where
    r: "rd_recv (?rs ! 0) = RecvOk request" "rd_answer (?rs ! 0) q = Ok (Some resp)"
    and out: "ra_PendingChanId ?out = rar_PendingChanId request"
      "ra_MinAcceptDepth ?out = ar_MinAcceptDepth resp"
    by (auto dest!: spec [of _ 0])
  from r have "request = example_accept_request" "resp = example_accept"
    by (simp_all add: example_round_def)
  with out have "ra_PendingChanId ?out = replicate 32 7" "ra_MinAcceptDepth ?out = 3"
    by (simp_all only: example_accept_request_def example_accept_def
        rpcChannelAcceptRequest.simps AcceptorResponse.simps)
  then show ?thesis by (intro exI [of _ ?out] conjI) (simp_all only: example_rounds fst_conv)
qed

text \<open>C35: when lnd sends two transactions that cannot be decoded, the goroutine of
  \<open>SubscribeTransactions\<close> can end up stuck for good: the consumer was handed the zero transaction
  in between, and after the end of the context, with the error channel unread, the goroutine has no
  step left and has not exited.\<close>

theorem SubscribeTransactions_can_leak:
  fixes fns :: "('addr, 'scid, 'tx) ln_fns" and bad :: "('od, 'po) rpcTransaction"
  assumes "unmarshallTransaction fns bad = Err e"
  shows "\<exists>s. reachable (transactions_sub fns) s \<and> g_hist s = [RecvOk bad, RecvOk bad]
     \<and> g_ctx s = Some CtxCanceled \<and> ch_got (g_upd s) = [zero_Transaction] \<and> ch_got (g_err s) = []
     \<and> \<not> gone s \<and> (\<nexists>t. wstep (transactions_sub fns) s t)"
proof -
  let ?P = "transactions_sub fns :: (('od, 'po) rpcTransaction, ('tx, 'od, 'po) Transaction) sub"
  let ?err = "WrapErr ''unmarshall failed: '' e"
  let ?k = "SendUpd zero_Transaction Return Loop"
  have P: "sub_ucap ?P = 0" "sub_ecap ?P = 1" "sub_body ?P (RecvOk bad) = SendErr ?err ?k"
    using assms by (simp_all add: transactions_sub_def transactions_body_def)
  let ?st = "open_gor"
  have "reachable ?P (?st AtRecv [] [] None [])"
    using reachable.init [of ?P] by (simp add: open_gor_def g_init_def new_chan_def)
  then have "reachable ?P (?st (Run (SendErr ?err ?k)) [] [] None [RecvOk bad])"
    by (rule open_gor_steps(1)) (simp_all add: P)
  then have "reachable ?P (?st (Run ?k) [] [?err] None [RecvOk bad])"
    by (rule open_gor_steps(2)) (simp add: P)
  then have "reachable ?P (?st (Run Loop) [zero_Transaction] [?err] None [RecvOk bad])"
    by (rule open_gor_steps(3) [where us = "[]", simplified]) (simp add: P)
  then have "reachable ?P (?st AtRecv [zero_Transaction] [?err] None [RecvOk bad])"
    by (rule open_gor_steps(4))
  then have "reachable ?P (?st (Run (SendErr ?err ?k)) [zero_Transaction] [?err] None
      [RecvOk bad, RecvOk bad])"
    by (rule open_gor_steps(1)) (simp_all add: P)
  then have "reachable ?P (?st (Run (SendErr ?err ?k)) [zero_Transaction] [?err] (Some CtxCanceled)
      [RecvOk bad, RecvOk bad])" (is "reachable _ ?s")
    by (rule open_gor_steps(5))
  moreover have "\<not> lstep ?P ?s t" "\<not> rstep ?P r ?s t" for r t
    using P by (auto simp: open_gor_def elim!: lstep.cases rstep.cases)
  then have "\<nexists>t. wstep ?P ?s t" by (auto elim: wstep.cases)
  ultimately show ?thesis
    by (intro exI [of _ ?s]) (simp add: open_gor_def gone_def)
qed

definition example_bad_tx :: "(unit, unit) rpcTransaction" where
  "example_bad_tx = \<lparr>rtx_RawTxHex = ''zz'', rtx_Amount = 5, rtx_NumConfirmations = 1, rtx_BlockHash = [],
     rtx_BlockHeight = 1, rtx_TimeStamp = 0, rtx_TotalFees = 0, rtx_Label = [], rtx_OutputDetails = [],
     rtx_PreviousOutpoints = []\<rparr>"

theorem SubscribeTransactions_can_leak_witness:
  "\<exists>s. reachable (transactions_sub example_ln_fns) s \<and> g_hist s = [RecvOk example_bad_tx, RecvOk example_bad_tx]
     \<and> \<not> gone s \<and> (\<nexists>t. wstep (transactions_sub example_ln_fns) s t)"
proof -
  have "case hex_decode ''zz'' of Err e \<Rightarrow> True | _ \<Rightarrow> False" by code_simp
  then obtain e where "unmarshallTransaction example_ln_fns example_bad_tx = Err e"
    by (cases "hex_decode ''zz''") (auto simp: unmarshallTransaction_def example_bad_tx_def)
  from SubscribeTransactions_can_leak [OF this] show ?thesis by blast
qed

text \<open>A channel event carries exactly the payload its type names, whatever lnd sends: the channel
  point for pending, active, inactive and fully resolved channels, the channel info for an opened one,
  the summary for a closed one and the updated info for a state update; the other three are nil.\<close>

theorem getChannelEventUpdate_payload:
  assumes "getChannelEventUpdate fns u = Ok ev"
  shows "(ceu_ChannelPoint ev \<noteq> None) = (ceu_UpdateType ev \<in> {PendingOpenChannelUpdate,
       ActiveChannelUpdate, InactiveChannelUpdate, FullyResolvedChannelUpdate})
     \<and> (ceu_OpenedChannelInfo ev \<noteq> None) = (ceu_UpdateType ev = OpenChannelUpdate)
     \<and> (ceu_ClosedChannelInfo ev \<noteq> None) = (ceu_UpdateType ev = ClosedChannelUpdate)
     \<and> (ceu_UpdatedChannelInfo ev \<noteq> None) = (ceu_UpdateType ev = StateChannelUpdate)
     \<and> (rce_Type u = OPEN_CHANNEL \<longrightarrow> (\<exists>channel info. rce_Channel u = Payload_Open channel
          \<and> newChannelInfo fns channel = Ok info \<and> ceu_OpenedChannelInfo ev = Some info))
     \<and> (rce_Type u = CLOSED_CHANNEL \<longrightarrow> (\<exists>summary info. rce_Channel u = Payload_Closed summary
          \<and> getClosedChannel fns summary = Ok info \<and> ceu_ClosedChannelInfo ev = Some info))"
  using assms
  by (cases "rce_Type u"; cases "rce_Channel u")
    (auto simp: getChannelEventUpdate_def point_update_def event_update_def
      split: rpcFundingTxid.splits)

theorem getChannelEventUpdate_payload_witness:
  "\<exists>ev. getChannelEventUpdate example_ln_fns
       \<lparr>rce_Type = ACTIVE_CHANNEL, rce_Channel = Payload_Active
          \<lparr>rcp_FundingTxid = FundingTxidBytes [4], rcp_OutputIndex = 1\<rparr>\<rparr> = Ok ev
     \<and> ceu_ChannelPoint ev \<noteq> None \<and> ceu_OpenedChannelInfo ev = None"
proof -
  let ?u = "\<lparr>rce_Type = ACTIVE_CHANNEL, rce_Channel = Payload_Active
      \<lparr>rcp_FundingTxid = FundingTxidBytes [4], rcp_OutputIndex = 1\<rparr>\<rparr>"
  have "is_ok (getChannelEventUpdate example_ln_fns ?u)"
    by (simp add: getChannelEventUpdate_def point_update_def getOutPoint_def example_ln_fns_def)
  then obtain ev where ev: "getChannelEventUpdate example_ln_fns ?u = Ok ev" by (rule is_okE)
  then have "ceu_UpdateType ev = ActiveChannelUpdate"
    by (auto simp: getChannelEventUpdate_def point_update_def event_update_def)
  with getChannelEventUpdate_payload [OF ev] ev show ?thesis by simp
qed

end
