(* ===== verification/StateClient.thy ===== *)
theory StateClient
  imports MacaroonPouch Streams
begin

text \<open>
  \<open>state_client.go\<close>: the state of lnd's wallet, read once or subscribed to. Both calls are made
  without a macaroon and without a timeout, since the wallet may still be locked.
\<close>

type_synonym WalletState = u8

definition WalletStateNonExisting :: WalletState where "WalletStateNonExisting = 0"
definition WalletStateLocked :: WalletState where "WalletStateLocked = 1"
definition WalletStateUnlocked :: WalletState where "WalletStateUnlocked = 2"
definition WalletStateRPCActive :: WalletState where "WalletStateRPCActive = 3"
definition WalletStateServerActive :: WalletState where "WalletStateServerActive = 4"
definition WalletStateWaitingToStart :: WalletState where "WalletStateWaitingToStart = 255"

lemmas wallet_state_defs = WalletStateNonExisting_def WalletStateLocked_def
  WalletStateUnlocked_def WalletStateRPCActive_def WalletStateServerActive_def
  WalletStateWaitingToStart_def

definition WalletState_String :: "WalletState \<Rightarrow> string" where
  "WalletState_String s =
     (if s = WalletStateNonExisting then ''No wallet exists''
      else if s = WalletStateLocked then ''Wallet is locked''
      else if s = WalletStateUnlocked then ''Wallet is unlocked''
      else if s = WalletStateRPCActive then ''Lnd RPC server is ready for requests''
      else if s = WalletStateServerActive then ''Lnd main server is ready for requests''
      else if s = WalletStateWaitingToStart then ''Lnd is waiting to start''
      else ''unknown wallet state <'' @ show_nat (unat s) @ ''>'')"

definition ReadyForGetInfo :: "WalletState \<Rightarrow> bool" where
  "ReadyForGetInfo s \<longleftrightarrow> s = WalletStateRPCActive \<or> s = WalletStateServerActive"

text \<open>The enum \<open>lnrpc.WalletState\<close>: its named constants, and any other number.\<close>

datatype rpcWalletState =
    WalletState_WAITING_TO_START | WalletState_NON_EXISTING | WalletState_LOCKED
  | WalletState_UNLOCKED | WalletState_RPC_ACTIVE | WalletState_SERVER_ACTIVE
  | WalletState_other int

fun unmarshalWalletState :: "rpcWalletState \<Rightarrow> WalletState go" where
  "unmarshalWalletState WalletState_WAITING_TO_START = Ok WalletStateWaitingToStart"
| "unmarshalWalletState WalletState_NON_EXISTING = Ok WalletStateNonExisting"
| "unmarshalWalletState WalletState_LOCKED = Ok WalletStateLocked"
| "unmarshalWalletState WalletState_UNLOCKED = Ok WalletStateUnlocked"
| "unmarshalWalletState WalletState_RPC_ACTIVE = Ok WalletStateRPCActive"
| "unmarshalWalletState WalletState_SERVER_ACTIVE = Ok WalletStateServerActive"
| "unmarshalWalletState (WalletState_other n) =
     Err (FmtVal ''unknown wallet state: '' (show_int n))"

datatype state_req = SubscribeStateReq | GetStateReq

record stateClient =
  state_readonlyMac :: serializedMacaroon
  state_timeout :: i64

definition newStateClient :: "serializedMacaroon \<Rightarrow> i64 \<Rightarrow> stateClient" where
  "newStateClient readonlyMac timeout =
     \<lparr>state_readonlyMac = readonlyMac, state_timeout = timeout\<rparr>"

definition state_RawClientWithMacAuth :: "stateClient \<Rightarrow> ctx \<Rightarrow> ctx \<times> i64" where
  "state_RawClientWithMacAuth s parentCtx =
     (WithMacaroonAuth (state_readonlyMac s) parentCtx, state_timeout s)"

definition GetState ::
  "stateClient \<Rightarrow> (state_req, unit, rpcWalletState) server \<Rightarrow> ctx \<Rightarrow> (state_req, WalletState) io"
where
  "GetState s srv c =
     io_bind (rpc srv (\<lambda>_. GetStateReq) c ()) (\<lambda>state. io_lift (unmarshalWalletState state))"

text \<open>The loop of \<open>SubscribeState\<close> ends itself after the final state.\<close>

definition state_body :: "rpcWalletState recv \<Rightarrow> WalletState script" where
  "state_body r = (case r of
       RecvErr e \<Rightarrow> SendErr e Return
     | RecvOk ev \<Rightarrow> on_go id (unmarshalWalletState ev) (\<lambda>state.
         SendUpd state Return
           (if state = WalletStateServerActive then CloseUpd (CloseErr Return) else Loop)))"

definition state_sub :: "(rpcWalletState, WalletState) sub" where
  "state_sub = \<lparr>sub_body = state_body, sub_ucap = 1, sub_ecap = 1, sub_defers = []\<rparr>"

definition SubscribeState ::
  "stateClient \<Rightarrow> (state_req, unit, unit) server \<Rightarrow> ctx
     \<Rightarrow> (state_req, (rpcWalletState, WalletState) sub) io" where
  "SubscribeState s srv c =
     io_bind (rpc srv (\<lambda>_. SubscribeStateReq) c ()) (\<lambda>_. io_ret state_sub)"

section \<open>Properties\<close>

lemma unmarshalWalletState_inj:
  "unmarshalWalletState a = Ok s \<Longrightarrow> unmarshalWalletState b = Ok s \<Longrightarrow> a = b"
  by (cases a; cases b) (auto simp: wallet_state_defs)

lemma unmarshalWalletState_no_panic [simp]: "\<not> is_panic (unmarshalWalletState ev)"
  by (cases ev) auto

text \<open>A known state has a description of its own, which is not the one of unknown states.\<close>

lemma state_String_known:
  assumes "unmarshalWalletState a = Ok s" and "unmarshalWalletState b = Ok t"
    and "WalletState_String s = WalletState_String t"
  shows "s = t"
  using assms by (cases a; cases b) (auto simp: wallet_state_defs WalletState_String_def)

lemmas state_loop_simps = state_sub_def state_body_def on_go_disciplined on_go_ctx_sound

interpretation state_stream: subscription state_sub
proof
  show "disciplined (sub_defers state_sub) (sub_ecap state_sub) (sub_body state_sub r) True True True"
    for r
    by (simp add: state_loop_simps split: recv.split go.split)
  show "ctx_sound (sub_body state_sub r) False" for r
    by (simp add: state_loop_simps split: recv.split)
  show "ends (sub_body state_sub (RecvErr e))" for e
    by (simp add: state_loop_simps)
qed

lemma state_body_no_fault: "\<not> faults (state_body r)"
proof (cases r)
  case (RecvOk ev)
  then show ?thesis by (cases ev) (auto simp: state_body_def on_go_faults)
qed (simp add: state_body_def)

lemma state_sub_never_faults: "reachable state_sub s \<Longrightarrow> g_pc s \<noteq> Faulted p"
  using state_stream.fault_source [of s p]
  by (auto simp: faulty_def state_sub_def state_body_no_fault)

lemma state_emits:
  "emits (state_body (RecvOk ev)) = (case unmarshalWalletState ev of Ok s \<Rightarrow> [s] | _ \<Rightarrow> [])"
  by (cases ev) (auto simp: state_body_def)

section \<open>Main theorems\<close>

text \<open>C23: the wallet state subscription delivers only states lnd sent, at most one of them is
  \<open>WalletStateServerActive\<close>, it is the last one, and after it the loop never reads the stream again;
  no message makes the loop panic.\<close>

theorem SubscribeState_ends_at_server_active:
  assumes "reachable state_sub s"
  shows "(\<forall>u \<in> set (butlast (ch_sent (g_upd s))). u \<noteq> WalletStateServerActive)
     \<and> (WalletStateServerActive \<in> set (ch_sent (g_upd s)) \<longrightarrow> g_pc s \<noteq> AtRecv)
     \<and> (\<forall>u \<in> set (ch_sent (g_upd s)). \<exists>ev. RecvOk ev \<in> set (g_hist s) \<and> unmarshalWalletState ev = Ok u)
     \<and> (\<forall>p. g_pc s \<noteq> Faulted p)"
proof -
  have ends: "ends_at (\<lambda>u. u = WalletStateServerActive) (sub_body state_sub r)" for r
    by (cases r) (auto simp: state_sub_def state_body_def on_go_ends_at)
  have source: "\<exists>ev. RecvOk ev \<in> set (g_hist s) \<and> unmarshalWalletState ev = Ok u"
    if u: "u \<in> set (ch_sent (g_upd s))" for u
  proof -
    obtain r where r: "r \<in> set (g_hist s)" "u \<in> set (emits (state_body r))"
      using state_stream.update_source [OF assms u] by (auto simp: state_sub_def)
    show ?thesis
    proof (cases r)
      case (RecvOk ev)
      with r show ?thesis by (auto simp: state_emits split: go.splits)
    next
      case (RecvErr e)
      with r show ?thesis by (simp add: state_body_def)
    qed
  qed
  from final_update_last [OF ends assms] source state_sub_never_faults [OF assms]
  show ?thesis by auto
qed

theorem SubscribeState_ends_at_server_active_witness:
  "\<exists>s. reachable state_sub s \<and> ch_sent (g_upd s) = [WalletStateServerActive] \<and> g_pc s \<noteq> AtRecv"
proof -
  have "sub_body state_sub (RecvOk WalletState_SERVER_ACTIVE)
      = SendUpd WalletStateServerActive Return (CloseUpd (CloseErr Return))"
    by (simp add: state_sub_def state_body_def)
  from first_update [OF this]
  obtain s where s: "reachable state_sub s" "ch_sent (g_upd s) = [WalletStateServerActive]"
    by blast
  with SubscribeState_ends_at_server_active [OF s(1)] show ?thesis by auto
qed

end
