(* ===== verification/ChainNotifier.thy ===== *)
theory ChainNotifier
  imports TxUtils Streams MacaroonPouch
begin

text \<open>
  \<open>chainnotifier_client.go\<close> and \<open>chainkit_client.go\<close>: notifications of spends, confirmations and
  blocks, and queries of the chain. The codecs of \<open>btcd\<close> are arguments; \<open>'tx\<close>, \<open>'block\<close> and \<open>'header\<close>
  are its types.
\<close>

section \<open>Options\<close>

text \<open>Of the re-org channel only its presence matters here; a signal on it is a step of the loop.\<close>

record NotifierOptions =
  no_IncludeBlock :: bool
  no_ReOrgChan :: bool

datatype NotifierOption = WithIncludeBlock | WithReOrgChan bool

definition DefaultNotifierOptions :: NotifierOptions where
  "DefaultNotifierOptions = \<lparr>no_IncludeBlock = False, no_ReOrgChan = False\<rparr>"

fun apply_option :: "NotifierOption \<Rightarrow> NotifierOptions \<Rightarrow> NotifierOptions" where
  "apply_option WithIncludeBlock o' = o'\<lparr>no_IncludeBlock := True\<rparr>"
| "apply_option (WithReOrgChan ch) o' = o'\<lparr>no_ReOrgChan := ch\<rparr>"

definition notifier_options :: "NotifierOption list \<Rightarrow> NotifierOptions" where
  "notifier_options optFuncs = foldl (\<lambda>o' f. apply_option f o') DefaultNotifierOptions optFuncs"

section \<open>The client\<close>

record chainNotifierClient =
  chain_mac :: serializedMacaroon
  chain_timeout :: i64

definition newChainNotifierClient :: "serializedMacaroon \<Rightarrow> i64 \<Rightarrow> chainNotifierClient" where
  "newChainNotifierClient chainMac timeout = \<lparr>chain_mac = chainMac, chain_timeout = timeout\<rparr>"

definition chain_RawClientWithMacAuth :: "chainNotifierClient \<Rightarrow> ctx \<Rightarrow> ctx \<times> i64" where
  "chain_RawClientWithMacAuth s parentCtx =
     (WithMacaroonAuth (chain_mac s) parentCtx, chain_timeout s)"

record rpcSpendRequest =
  rsr_Outpoint :: "(bytes \<times> u32) option"
  rsr_Script :: bytes
  rsr_HeightHint :: u32

record rpcConfRequest =
  rcr_Txid :: bytes
  rcr_Script :: bytes
  rcr_NumConfs :: u32
  rcr_HeightHint :: u32
  rcr_IncludeBlock :: bool

datatype chain_req =
    RegisterSpendNtfnReq rpcSpendRequest
  | RegisterConfirmationsNtfnReq rpcConfRequest
  | RegisterBlockEpochNtfnReq
  | GetBlockReq bytes
  | GetBlockHeaderReq bytes
  | GetBestBlockReq
  | GetBlockHashReq i64

section \<open>Spends\<close>

record rpcSpendDetails =
  spd_SpendingOutpoint :: "(bytes \<times> u32) option"
  spd_RawSpendingTx :: bytes
  spd_SpendingTxHash :: bytes
  spd_SpendingInputIndex :: u32
  spd_SpendingHeight :: u32

datatype rpcSpendEvent = SpendEvent_Spend rpcSpendDetails | SpendEvent_Reorg | SpendEvent_nil
  | SpendEvent_unexpected

record 'tx SpendDetail =
  sd_SpentOutPoint :: OutPoint
  sd_SpenderTxHash :: bytes
  sd_SpenderInputIndex :: u32
  sd_SpendingTx :: 'tx
  sd_SpendingHeight :: i32

record ('tx, 'block) chain_fns =
  cf_NewHash :: "bytes \<Rightarrow> bytes go"
  cf_decodeTx :: "bytes \<Rightarrow> 'tx go"
  cf_decodeBlock :: "bytes \<Rightarrow> 'block go"

definition spend_detail :: "('tx, 'block) chain_fns \<Rightarrow> rpcSpendDetails \<Rightarrow> 'tx SpendDetail go" where
  "spend_detail fns d =
     go_bind (deref (spd_SpendingOutpoint d)) (\<lambda>(opHash, opIndex).
     go_bind (cf_NewHash fns opHash) (\<lambda>outpointHash.
     go_bind (cf_NewHash fns (spd_SpendingTxHash d)) (\<lambda>txHash.
     go_bind (decodeTx (cf_decodeTx fns) (spd_RawSpendingTx d)) (\<lambda>tx.
       Ok \<lparr>sd_SpentOutPoint = \<lparr>op_Hash = outpointHash, op_Index = opIndex\<rparr>,
           sd_SpenderTxHash = txHash,
           sd_SpenderInputIndex = spd_SpendingInputIndex d,
           sd_SpendingTx = tx,
           sd_SpendingHeight = spd_SpendingHeight d\<rparr>))))"

text \<open>Without a re-org channel the loop ends after the first spend. A re-org is signalled only to a
  caller that gave a channel, and the loop goes on even when the context has ended.\<close>

definition spend_body ::
  "('tx, 'block) chain_fns \<Rightarrow> NotifierOptions \<Rightarrow> rpcSpendEvent recv \<Rightarrow> 'tx SpendDetail script" where
  "spend_body fns opts r = (case r of
       RecvErr err \<Rightarrow> SendErr err Return
     | RecvOk spendEvent \<Rightarrow> (case spendEvent of
         SpendEvent_Spend d \<Rightarrow> on_go id (spend_detail fns d) (\<lambda>spend.
           SendUpd spend (SendCtxErr Return) (if \<not> no_ReOrgChan opts then Return else Loop))
       | SpendEvent_Reorg \<Rightarrow> if \<not> no_ReOrgChan opts then Loop else Signal Loop Loop
       | SpendEvent_nil \<Rightarrow> SendErr (NewErr ''spend event empty'') Return
       | SpendEvent_unexpected \<Rightarrow> SendErr (NewErr ''spend event has unexpected type'') Return))"

definition spend_sub ::
  "('tx, 'block) chain_fns \<Rightarrow> NotifierOptions \<Rightarrow> (rpcSpendEvent, 'tx SpendDetail) sub" where
  "spend_sub fns opts =
     \<lparr>sub_body = spend_body fns opts, sub_ucap = 1, sub_ecap = 1, sub_defers = []\<rparr>"

definition RegisterSpendNtfn ::
  "chainNotifierClient \<Rightarrow> ('tx, 'block) chain_fns \<Rightarrow> (chain_req, rpcSpendRequest, unit) server \<Rightarrow> ctx
     \<Rightarrow> OutPoint option \<Rightarrow> bytes \<Rightarrow> i32 \<Rightarrow> NotifierOption list
     \<Rightarrow> (chain_req, (rpcSpendEvent, 'tx SpendDetail) sub) io" where
  "RegisterSpendNtfn s fns srv c outpoint pkScript heightHint optFuncs =
     (let opts = notifier_options optFuncs
      in if no_IncludeBlock opts
         then io_err (NewErr ''option IncludeBlock is not supported by RegisterSpendNtfn'')
         else io_bind (rpc srv RegisterSpendNtfnReq (WithMacaroonAuth (chain_mac s) c)
                \<lparr>rsr_Outpoint = map_option (\<lambda>op. (op_Hash op, op_Index op)) outpoint,
                 rsr_Script = pkScript, rsr_HeightHint = heightHint\<rparr>)
              (\<lambda>_. io_ret (spend_sub fns opts)))"

section \<open>Confirmations\<close>

record rpcConfDetails =
  cd_RawTx :: bytes
  cd_BlockHash :: bytes
  cd_BlockHeight :: u32
  cd_TxIndex :: u32
  cd_RawBlock :: bytes

datatype rpcConfEvent = ConfEvent_Conf rpcConfDetails | ConfEvent_Reorg | ConfEvent_nil
  | ConfEvent_unexpected

record ('tx, 'block) TxConfirmation =
  tc_BlockHash :: bytes
  tc_BlockHeight :: u32
  tc_TxIndex :: u32
  tc_Tx :: 'tx
  tc_Block :: "'block option"

definition confirmation ::
  "('tx, 'block) chain_fns \<Rightarrow> NotifierOptions \<Rightarrow> rpcConfDetails \<Rightarrow> ('tx, 'block) TxConfirmation go"
where
  "confirmation fns opts conf =
     go_bind (decodeTx (cf_decodeTx fns) (cd_RawTx conf)) (\<lambda>tx.
     go_bind (if no_IncludeBlock opts
              then go_bind (decodeBlock (cf_decodeBlock fns) (cd_RawBlock conf)) (\<lambda>b. Ok (Some b))
              else Ok None) (\<lambda>block.
     go_bind (cf_NewHash fns (cd_BlockHash conf)) (\<lambda>blockHash.
       Ok \<lparr>tc_BlockHash = blockHash, tc_BlockHeight = cd_BlockHeight conf,
           tc_TxIndex = cd_TxIndex conf, tc_Tx = tx, tc_Block = block\<rparr>)))"

definition conf_body ::
  "('tx, 'block) chain_fns \<Rightarrow> NotifierOptions \<Rightarrow> rpcConfEvent recv
     \<Rightarrow> ('tx, 'block) TxConfirmation script" where
  "conf_body fns opts r = (case r of
       RecvErr err \<Rightarrow> SendErr err Return
     | RecvOk confEvent \<Rightarrow> (case confEvent of
         ConfEvent_Conf d \<Rightarrow> on_go id (confirmation fns opts d) (\<lambda>conf.
           SendUpd conf Return (if \<not> no_ReOrgChan opts then Return else Loop))
       | ConfEvent_Reorg \<Rightarrow> if no_ReOrgChan opts then Signal Return Loop else Loop
       | ConfEvent_nil \<Rightarrow> SendErr (NewErr ''conf event empty'') Return
       | ConfEvent_unexpected \<Rightarrow> SendErr (NewErr ''conf event has unexpected type'') Return))"

definition conf_sub ::
  "('tx, 'block) chain_fns \<Rightarrow> NotifierOptions \<Rightarrow> (rpcConfEvent, ('tx, 'block) TxConfirmation) sub"
where
  "conf_sub fns opts =
     \<lparr>sub_body = conf_body fns opts, sub_ucap = 1, sub_ecap = 1, sub_defers = []\<rparr>"

definition RegisterConfirmationsNtfn ::
  "chainNotifierClient \<Rightarrow> ('tx, 'block) chain_fns \<Rightarrow> (chain_req, rpcConfRequest, unit) server \<Rightarrow> ctx
     \<Rightarrow> bytes option \<Rightarrow> bytes \<Rightarrow> i32 \<Rightarrow> i32 \<Rightarrow> NotifierOption list
     \<Rightarrow> (chain_req, (rpcConfEvent, ('tx, 'block) TxConfirmation) sub) io" where
  "RegisterConfirmationsNtfn s fns srv c txid pkScript numConfs heightHint optFuncs =
     (let opts = notifier_options optFuncs
      in io_bind (rpc srv RegisterConfirmationsNtfnReq (WithMacaroonAuth (chain_mac s) c)
           \<lparr>rcr_Txid = (case txid of None \<Rightarrow> [] | Some t \<Rightarrow> t), rcr_Script = pkScript,
            rcr_NumConfs = numConfs, rcr_HeightHint = heightHint,
            rcr_IncludeBlock = no_IncludeBlock opts\<rparr>)
         (\<lambda>_. io_ret (conf_sub fns opts)))"

section \<open>Blocks\<close>

text \<open>A block epoch is its height here.\<close>

definition epoch_body :: "u32 recv \<Rightarrow> i32 script" where
  "epoch_body r = (case r of
       RecvErr err \<Rightarrow> SendErr err Return
     | RecvOk height \<Rightarrow> SendUpd height Return Loop)"

definition epoch_sub :: "(u32, i32) sub" where
  "epoch_sub = \<lparr>sub_body = epoch_body, sub_ucap = 0, sub_ecap = 1, sub_defers = []\<rparr>"

definition RegisterBlockEpochNtfn ::
  "chainNotifierClient \<Rightarrow> (chain_req, unit, unit) server \<Rightarrow> ctx \<Rightarrow> (chain_req, (u32, i32) sub) io"
where
  "RegisterBlockEpochNtfn s srv c =
     io_bind (rpc srv (\<lambda>_. RegisterBlockEpochNtfnReq) (WithMacaroonAuth (chain_mac s) c) ())
       (\<lambda>_. io_ret epoch_sub)"

section \<open>Chain queries\<close>

record chainKitClient =
  kit_mac :: serializedMacaroon
  kit_timeout :: i64

definition newChainKitClient :: "serializedMacaroon \<Rightarrow> i64 \<Rightarrow> chainKitClient" where
  "newChainKitClient chainMac timeout = \<lparr>kit_mac = chainMac, kit_timeout = timeout\<rparr>"

definition kit_RawClientWithMacAuth :: "chainKitClient \<Rightarrow> ctx \<Rightarrow> ctx \<times> i64" where
  "kit_RawClientWithMacAuth s parentCtx =
     (WithMacaroonAuth (kit_mac s) parentCtx, kit_timeout s)"

definition kit_ctx :: "chainKitClient \<Rightarrow> ctx \<Rightarrow> ctx" where
  "kit_ctx s c = WithMacaroonAuth (kit_mac s) (TimeoutCtx c (kit_timeout s))"

definition GetBlock ::
  "chainKitClient \<Rightarrow> (bytes \<Rightarrow> 'block go) \<Rightarrow> (chain_req, bytes, bytes) server \<Rightarrow> ctx \<Rightarrow> bytes
     \<Rightarrow> (chain_req, 'block) io" where
  "GetBlock s Deserialize srv c hash =
     io_bind (rpc srv GetBlockReq (kit_ctx s c) hash) (\<lambda>rawBlock. io_lift (Deserialize rawBlock))"

definition GetBlockHeader ::
  "chainKitClient \<Rightarrow> (bytes \<Rightarrow> 'header go) \<Rightarrow> (chain_req, bytes, bytes) server \<Rightarrow> ctx \<Rightarrow> bytes
     \<Rightarrow> (chain_req, 'header) io" where
  "GetBlockHeader s Deserialize srv c hash =
     io_bind (rpc srv GetBlockHeaderReq (kit_ctx s c) hash)
       (\<lambda>rawHeader. io_lift (Deserialize rawHeader))"

definition GetBestBlock ::
  "chainKitClient \<Rightarrow> (chain_req, unit, bytes \<times> i32) server \<Rightarrow> ctx \<Rightarrow> (chain_req, bytes \<times> i32) io"
where
  "GetBestBlock s srv c =
     io_bind (rpc srv (\<lambda>_. GetBestBlockReq) (kit_ctx s c) ()) (\<lambda>(hash, height).
       io_ret (copy_array 32 hash, height))"

definition GetBlockHash ::
  "chainKitClient \<Rightarrow> (chain_req, i64, bytes) server \<Rightarrow> ctx \<Rightarrow> i64 \<Rightarrow> (chain_req, bytes) io" where
  "GetBlockHash s srv c blockHeight =
     io_bind (rpc srv GetBlockHashReq (kit_ctx s c) blockHeight) (\<lambda>hash.
       io_ret (copy_array 32 hash))"

section \<open>The loops\<close>

interpretation spend_stream: subscription "spend_sub fns opts" for fns opts
proof
  show "disciplined (sub_defers (spend_sub fns opts)) (sub_ecap (spend_sub fns opts))
     (sub_body (spend_sub fns opts) r) True True True" for r
    by (simp add: spend_sub_def spend_body_def on_go_disciplined
        split: recv.split rpcSpendEvent.split go.split)
  show "ctx_sound (sub_body (spend_sub fns opts) r) False" for r
    by (simp add: spend_sub_def spend_body_def on_go_ctx_sound
        split: recv.split rpcSpendEvent.split)
  show "ends (sub_body (spend_sub fns opts) (RecvErr e))" for e
    by (simp add: spend_sub_def spend_body_def)
qed

interpretation conf_stream: subscription "conf_sub fns opts" for fns opts
proof
  show "disciplined (sub_defers (conf_sub fns opts)) (sub_ecap (conf_sub fns opts))
     (sub_body (conf_sub fns opts) r) True True True" for r
    by (simp add: conf_sub_def conf_body_def on_go_disciplined
        split: recv.split rpcConfEvent.split go.split)
  show "ctx_sound (sub_body (conf_sub fns opts) r) False" for r
    by (simp add: conf_sub_def conf_body_def on_go_ctx_sound
        split: recv.split rpcConfEvent.split)
  show "ends (sub_body (conf_sub fns opts) (RecvErr e))" for e
    by (simp add: conf_sub_def conf_body_def)
qed

interpretation epoch_stream: subscription epoch_sub
  by unfold_locales (simp_all add: epoch_sub_def epoch_body_def split: recv.split)

text \<open>Without a re-org channel a spend or a confirmation ends the loop; with one it never does.\<close>

lemma spend_once:
  assumes "spend_detail fns d = Ok sp"
  shows "spend_body fns opts (RecvOk (SpendEvent_Spend d)) =
     SendUpd sp (SendCtxErr Return) (if no_ReOrgChan opts then Loop else Return)"
  using assms by (simp add: spend_body_def)

lemma conf_once:
  assumes "confirmation fns opts d = Ok cf"
  shows "conf_body fns opts (RecvOk (ConfEvent_Conf d)) =
     SendUpd cf Return (if no_ReOrgChan opts then Loop else Return)"
  using assms by (simp add: conf_body_def)

lemma confirmation_block:
  assumes "confirmation fns opts d = Ok cf"
  shows "(tc_Block cf \<noteq> None \<longleftrightarrow> no_IncludeBlock opts)
     \<and> (\<forall>b. tc_Block cf = Some b \<longrightarrow> cf_decodeBlock fns (cd_RawBlock d) = Ok b)
     \<and> cf_decodeTx fns (cd_RawTx d) = Ok (tc_Tx cf)
     \<and> cf_NewHash fns (cd_BlockHash d) = Ok (tc_BlockHash cf)"
  using assms by (auto simp: confirmation_def decodeTx_eq decodeBlock_eq split: if_splits)

lemma chain_calls:
  "calls_ok (\<lambda>c' q. authed (chain_mac s) c c') (RegisterSpendNtfn s fns ssrv c op scr hint opts)"
  "calls_ok (\<lambda>c' q. authed (chain_mac s) c c')
     (RegisterConfirmationsNtfn s fns csrv c txid scr n hint opts)"
  "calls_ok (\<lambda>c' q. authed (chain_mac s) c c') (RegisterBlockEpochNtfn s bsrv c)"
  by (auto simp: RegisterSpendNtfn_def RegisterConfirmationsNtfn_def RegisterBlockEpochNtfn_def
      Let_def intro!: rpc_intros)

lemma kit_calls:
  "calls_ok (\<lambda>c' q. authed (kit_mac k) c c' \<and> bounded (kit_timeout k) c') (GetBlock k ds gsrv c hash)"
  "calls_ok (\<lambda>c' q. authed (kit_mac k) c c' \<and> bounded (kit_timeout k) c')
     (GetBlockHeader k dh hsrv c hash)"
  "calls_ok (\<lambda>c' q. authed (kit_mac k) c c' \<and> bounded (kit_timeout k) c') (GetBestBlock k tsrv c)"
  "calls_ok (\<lambda>c' q. authed (kit_mac k) c c' \<and> bounded (kit_timeout k) c')
     (GetBlockHash k vsrv c height)"
  by (auto simp: GetBlock_def GetBlockHeader_def GetBestBlock_def GetBlockHash_def kit_ctx_def
      split: prod.split intro!: rpc_intros)

lemma RegisterSpendNtfn_block:
  "no_IncludeBlock (notifier_options opts) \<Longrightarrow>
     \<exists>e. RegisterSpendNtfn s fns srv c op scr hint opts h = (Err e, h)"
  by (simp add: RegisterSpendNtfn_def go_simps)

section \<open>Main theorems\<close>

lemma spend_ends: "\<not> no_ReOrgChan opts \<Longrightarrow> ends_at F (spend_body fns opts r)"
  by (cases r) (auto simp: spend_body_def on_go_ends_at split: rpcSpendEvent.split)

lemma conf_ends: "\<not> no_ReOrgChan opts \<Longrightarrow> ends_at F (conf_body fns opts r)"
  by (cases r) (auto simp: conf_body_def on_go_ends_at split: rpcConfEvent.split)

lemma spend_emits:
  "x \<in> set (emits (spend_body fns opts r)) \<Longrightarrow>
     \<exists>d. r = RecvOk (SpendEvent_Spend d) \<and> spend_detail fns d = Ok x"
  by (cases r) (auto simp: spend_body_def on_go_emits split: rpcSpendEvent.splits go.splits if_splits)

lemma conf_emits:
  "x \<in> set (emits (conf_body fns opts r)) \<Longrightarrow>
     \<exists>d. r = RecvOk (ConfEvent_Conf d) \<and> confirmation fns opts d = Ok x"
  by (cases r) (auto simp: conf_body_def on_go_emits split: rpcConfEvent.splits go.splits if_splits)

lemma spend_source:
  assumes "reachable (spend_sub fns opts) s" and "x \<in> set (ch_sent (g_upd s))"
  shows "\<exists>d. RecvOk (SpendEvent_Spend d) \<in> set (g_hist s) \<and> spend_detail fns d = Ok x"
  using spend_stream.update_source [OF assms] by (auto simp: spend_sub_def dest!: spend_emits)

lemma conf_source:
  assumes "reachable (conf_sub fns opts) s" and "x \<in> set (ch_sent (g_upd s))"
  shows "\<exists>d. RecvOk (ConfEvent_Conf d) \<in> set (g_hist s) \<and> confirmation fns opts d = Ok x"
  using conf_stream.update_source [OF assms] by (auto simp: conf_sub_def dest!: conf_emits)

text \<open>C21: a confirmation registration without a re-org channel delivers at most one confirmation and,
  once it has, never reads its stream again; whatever it delivers was converted from a confirmation
  event lnd sent on its stream, with the decoded block exactly when the caller asked for blocks.\<close>

theorem confirmation_delivered_once:
  assumes "\<not> no_ReOrgChan opts" and "reachable (conf_sub fns opts) s"
  shows "length (ch_sent (g_upd s)) \<le> 1 \<and> (ch_sent (g_upd s) \<noteq> [] \<longrightarrow> g_pc s \<noteq> AtRecv)
     \<and> (\<forall>conf \<in> set (ch_sent (g_upd s)). \<exists>d. RecvOk (ConfEvent_Conf d) \<in> set (g_hist s)
          \<and> confirmation fns opts d = Ok conf
          \<and> (if no_IncludeBlock opts
             then \<exists>b. tc_Block conf = Some b \<and> cf_decodeBlock fns (cd_RawBlock d) = Ok b
             else tc_Block conf = None))"
proof -
  have "length (ch_sent (g_upd s)) \<le> 1 \<and> (ch_sent (g_upd s) \<noteq> [] \<longrightarrow> g_pc s \<noteq> AtRecv)"
    by (rule delivers_once [OF _ assms(2)]) (simp add: conf_sub_def conf_ends [OF assms(1)])
  moreover have "\<exists>d. RecvOk (ConfEvent_Conf d) \<in> set (g_hist s) \<and> confirmation fns opts d = Ok conf
      \<and> (if no_IncludeBlock opts
         then \<exists>b. tc_Block conf = Some b \<and> cf_decodeBlock fns (cd_RawBlock d) = Ok b
         else tc_Block conf = None)" if c: "conf \<in> set (ch_sent (g_upd s))" for conf
  proof -
    obtain d where d: "RecvOk (ConfEvent_Conf d) \<in> set (g_hist s)" "confirmation fns opts d = Ok conf"
      using conf_source [OF assms(2) c] by blast
    with confirmation_block [OF d(2)] show ?thesis by (intro exI [of _ d]) auto
  qed
  ultimately show ?thesis by blast
qed

definition example_chain_fns :: "(bytes, bytes) chain_fns" where
  "example_chain_fns = \<lparr>cf_NewHash = Ok, cf_decodeTx = Ok, cf_decodeBlock = Ok\<rparr>"

theorem confirmation_delivered_once_witness:
  "\<exists>s c. reachable (conf_sub example_chain_fns (notifier_options [WithIncludeBlock])) s
     \<and> ch_sent (g_upd s) = [c] \<and> tc_Block c = Some [3, 4] \<and> g_pc s \<noteq> AtRecv"
proof -
  let ?opts = "notifier_options [WithIncludeBlock]"
  let ?P = "conf_sub example_chain_fns ?opts"
  let ?d = "\<lparr>cd_RawTx = [1], cd_BlockHash = [2], cd_BlockHeight = 9, cd_TxIndex = 0,
     cd_RawBlock = [3, 4]\<rparr>"
  have opts: "\<not> no_ReOrgChan ?opts" "no_IncludeBlock ?opts"
    by (simp_all add: notifier_options_def DefaultNotifierOptions_def)
  then have "\<exists>u d k. sub_body ?P (RecvOk (ConfEvent_Conf ?d)) = SendUpd u d k"
    by (simp add: conf_sub_def conf_body_def confirmation_def example_chain_fns_def decodeTx_eq
        decodeBlock_eq)
  then obtain s u where s: "reachable ?P s" "ch_sent (g_upd s) = [u]"
    "g_hist s = [RecvOk (ConfEvent_Conf ?d)]"
    using first_update [of ?P] by blast
  from confirmation_delivered_once [OF opts(1) s(1)] s opts(2) have
    "g_pc s \<noteq> AtRecv" "tc_Block u = Some [3, 4]"
    by (auto simp: example_chain_fns_def)
  with s show ?thesis by blast
qed

text \<open>C22: a spend registration without a re-org channel delivers at most one spend and, once it has,
  never reads its stream again; whatever it delivers was decoded from a spend event lnd sent on its
  stream.\<close>

theorem spend_delivered_once:
  assumes "\<not> no_ReOrgChan opts" and "reachable (spend_sub fns opts) s"
  shows "length (ch_sent (g_upd s)) \<le> 1 \<and> (ch_sent (g_upd s) \<noteq> [] \<longrightarrow> g_pc s \<noteq> AtRecv)
     \<and> (\<forall>sp \<in> set (ch_sent (g_upd s)). \<exists>d. RecvOk (SpendEvent_Spend d) \<in> set (g_hist s)
          \<and> spend_detail fns d = Ok sp)"
proof -
  have "length (ch_sent (g_upd s)) \<le> 1 \<and> (ch_sent (g_upd s) \<noteq> [] \<longrightarrow> g_pc s \<noteq> AtRecv)"
    by (rule delivers_once [OF _ assms(2)]) (simp add: spend_sub_def spend_ends [OF assms(1)])
  then show ?thesis using spend_source [OF assms(2)] by blast
qed

theorem spend_delivered_once_witness:
  "\<exists>s sp. reachable (spend_sub example_chain_fns DefaultNotifierOptions) s
     \<and> ch_sent (g_upd s) = [sp] \<and> sd_SpendingTx sp = [7] \<and> g_pc s \<noteq> AtRecv"
proof -
  let ?P = "spend_sub example_chain_fns DefaultNotifierOptions"
  let ?d = "\<lparr>spd_SpendingOutpoint = Some ([1], 0), spd_RawSpendingTx = [7],
     spd_SpendingTxHash = [2], spd_SpendingInputIndex = 0, spd_SpendingHeight = 9\<rparr>"
  have opts: "\<not> no_ReOrgChan DefaultNotifierOptions" by (simp add: DefaultNotifierOptions_def)
  have "\<exists>u d k. sub_body ?P (RecvOk (SpendEvent_Spend ?d)) = SendUpd u d k"
    by (simp add: spend_sub_def spend_body_def spend_detail_def example_chain_fns_def decodeTx_eq)
  then obtain s u where s: "reachable ?P s" "ch_sent (g_upd s) = [u]"
    "g_hist s = [RecvOk (SpendEvent_Spend ?d)]"
    using first_update [of ?P] by blast
  from spend_delivered_once [OF opts s(1)] s have "g_pc s \<noteq> AtRecv" "sd_SpendingTx u = [7]"
    by (auto simp: example_chain_fns_def spend_detail_def decodeTx_eq)
  with s show ?thesis by blast
qed

end
