(* ===== verification/Subscriptions.thy ===== *)
theory Subscriptions
  imports Reactions RouterFacts Invoices LightningStreams StateClient ChainNotifier
begin

text \<open>
  The subscriptions of all clients and how each reacts to the messages of its stream: what it hands
  out and reports for a message, whether it goes on, and what it closes when it ends.
\<close>

section \<open>Reactions of the clients\<close>

text \<open>\<open>SubscribeState\<close>: the state in which the server is active is the last one.\<close>

definition state_reaction :: "rpcWalletState recv \<Rightarrow> WalletState reaction" where
  "state_reaction r = (case r of
       RecvErr e \<Rightarrow> Finish None (Some e) False
     | RecvOk ev \<Rightarrow> on_ok False (unmarshalWalletState ev) (\<lambda>state.
         if state = WalletStateServerActive then Finish (Some state) None True else Hand state))"

text \<open>\<open>SendPayment\<close> and \<open>TrackPayment\<close>: the end of the stream closes the channels without an error.\<close>

definition payment_reaction :: "track_fns \<Rightarrow> rpcPayment recv \<Rightarrow> PaymentStatus reaction" where
  "payment_reaction fns r = (case r of
       RecvErr e \<Rightarrow>
         if e = IoEOF then Finish None None True
         else if tf_Code fns e = GrpcNotFound then Finish None (Some (Sentinel ErrPaymentNotInitiated)) False
         else if tf_Code fns e = GrpcAlreadyExists then Finish None (Some (Sentinel ErrAlreadyPaid)) False
         else Finish None (Some e) False
     | RecvOk p \<Rightarrow>
         on_ok False (unmarshallPaymentStatus (tf_MakePreimage fns) (tf_MakePreimageFromStr fns) p) Hand)"

text \<open>\<open>SubscribeSingleInvoice\<close>, with the amount paid so far.\<close>

definition invoice_reaction :: "'scid inv_fns \<Rightarrow> rpcInvoice recv \<Rightarrow> 'scid InvoiceUpdate reaction" where
  "invoice_reaction fns r = (case r of
       RecvErr e \<Rightarrow> if e = IoEOF then Finish None None True else Finish None (Some e) False
     | RecvOk m \<Rightarrow> on_ok False (unmarshalInvoice fns m) (\<lambda>i.
         Hand \<lparr>iu_Invoice = i, iu_AmtPaid = rinv_AmtPaidSat m\<rparr>))"

text \<open>\<open>RegisterSpendNtfn\<close> and \<open>RegisterConfirmationsNtfn\<close>: without a re-org channel the first event is
  the last, with one a re-org is signalled on it.\<close>

definition spend_reaction ::
  "('tx, 'block) chain_fns \<Rightarrow> NotifierOptions \<Rightarrow> rpcSpendEvent recv \<Rightarrow> 'tx SpendDetail reaction" where
  "spend_reaction fns opts r = (case r of
       RecvErr e \<Rightarrow> Finish None (Some e) False
     | RecvOk (SpendEvent_Spend d) \<Rightarrow> on_ok False (spend_detail fns d) (\<lambda>spend.
         if no_ReOrgChan opts then Hand spend else Finish (Some spend) None False)
     | RecvOk SpendEvent_Reorg \<Rightarrow> if no_ReOrgChan opts then Notify else Ignore
     | RecvOk SpendEvent_nil \<Rightarrow> Finish None (Some (NewErr ''spend event empty'')) False
     | RecvOk SpendEvent_unexpected \<Rightarrow>
         Finish None (Some (NewErr ''spend event has unexpected type'')) False)"

definition conf_reaction ::
  "('tx, 'block) chain_fns \<Rightarrow> NotifierOptions \<Rightarrow> rpcConfEvent recv
     \<Rightarrow> ('tx, 'block) TxConfirmation reaction" where
  "conf_reaction fns opts r = (case r of
       RecvErr e \<Rightarrow> Finish None (Some e) False
     | RecvOk (ConfEvent_Conf d) \<Rightarrow> on_ok False (confirmation fns opts d) (\<lambda>conf.
         if no_ReOrgChan opts then Hand conf else Finish (Some conf) None False)
     | RecvOk ConfEvent_Reorg \<Rightarrow> if no_ReOrgChan opts then Notify else Ignore
     | RecvOk ConfEvent_nil \<Rightarrow> Finish None (Some (NewErr ''conf event empty'')) False
     | RecvOk ConfEvent_unexpected \<Rightarrow>
         Finish None (Some (NewErr ''conf event has unexpected type'')) False)"

text \<open>\<open>CloseChannel\<close>.\<close>

definition close_reaction ::
  "('addr, 'scid, 'tx) ln_fns \<Rightarrow> rpcCloseStatus recv \<Rightarrow> CloseChannelUpdate reaction" where
  "close_reaction fns r = (case r of
       RecvErr e \<Rightarrow> if e = IoEOF then Finish None None True else Finish None (Some e) False
     | RecvOk m \<Rightarrow> on_ok False (close_update fns m) Hand)"

text \<open>The others convert every message and end at the first error, with their channels closed or not.\<close>

definition forward_reaction :: "bool \<Rightarrow> ('m \<Rightarrow> 'u go) \<Rightarrow> 'm recv \<Rightarrow> 'u reaction" where
  "forward_reaction closed convert r = (case r of
       RecvErr e \<Rightarrow> Finish None (Some e) closed
     | RecvOk m \<Rightarrow> on_ok closed (convert m) Hand)"

definition custom_message_reaction ::
  "('addr, 'scid, 'tx) ln_fns \<Rightarrow> rpcCustomMessage recv \<Rightarrow> CustomMessage reaction" where
  "custom_message_reaction fns r = (case r of
       RecvErr e \<Rightarrow> Finish None (Some (WrapErr ''receive failed: '' e)) True
     | RecvOk m \<Rightarrow> on_ok True (go_wrap (WrapErr ''invalid peer: '') (custom_message fns m)) Hand)"

section \<open>The loops carry them out\<close>

lemma carried_out:
  "carries_out (sub_defers state_sub) (sub_body state_sub a) (state_reaction a)"
  "carries_out (sub_defers (trackPayment fns)) (sub_body (trackPayment fns) b) (payment_reaction fns b)"
  "carries_out (sub_defers (invoice_sub ifns)) (sub_body (invoice_sub ifns) i) (invoice_reaction ifns i)"
  "carries_out (sub_defers (spend_sub cfns opts)) (sub_body (spend_sub cfns opts) c)
     (spend_reaction cfns opts c)"
  "carries_out (sub_defers (conf_sub cfns opts)) (sub_body (conf_sub cfns opts) d)
     (conf_reaction cfns opts d)"
  "carries_out (sub_defers (close_sub lfns)) (sub_body (close_sub lfns) e) (close_reaction lfns e)"
  "carries_out (sub_defers (forward_sub conv)) (sub_body (forward_sub conv) f)
     (forward_reaction False conv f)"
  "carries_out (sub_defers (invoices_sub ifns)) (sub_body (invoices_sub ifns) i)
     (forward_reaction True (unmarshalInvoice ifns) i)"
  "carries_out (sub_defers htlc_events_sub) (sub_body htlc_events_sub g) (forward_reaction True Ok g)"
  "carries_out (sub_defers epoch_sub) (sub_body epoch_sub h) (forward_reaction False Ok h)"
  "carries_out (sub_defers (custom_messages_sub lfns)) (sub_body (custom_messages_sub lfns) m)
     (custom_message_reaction lfns m)"
proof -
  show "carries_out (sub_defers state_sub) (sub_body state_sub a) (state_reaction a)"
    by (cases a) (auto simp: state_sub_def state_body_def state_reaction_def carries_out_simps
        intro!: carries_out_on_go)
  show "carries_out (sub_defers (trackPayment fns)) (sub_body (trackPayment fns) b) (payment_reaction fns b)"
    by (cases b) (auto simp: trackPayment_def track_body_def track_error_def payment_reaction_def
        carries_out_simps intro!: carries_out_on_go split: grpc_code.split)
  show "carries_out (sub_defers (invoice_sub ifns)) (sub_body (invoice_sub ifns) i) (invoice_reaction ifns i)"
    by (cases i) (auto simp: invoice_sub_def invoice_body_def invoice_reaction_def carries_out_simps
        intro!: carries_out_on_go)
  show "carries_out (sub_defers (spend_sub cfns opts)) (sub_body (spend_sub cfns opts) c)
     (spend_reaction cfns opts c)"
    by (cases c) (auto simp: spend_sub_def spend_body_def spend_reaction_def carries_out_simps
        intro!: carries_out_on_go split: rpcSpendEvent.split)
  show "carries_out (sub_defers (conf_sub cfns opts)) (sub_body (conf_sub cfns opts) d)
     (conf_reaction cfns opts d)"
    by (cases d) (auto simp: conf_sub_def conf_body_def conf_reaction_def carries_out_simps
        intro!: carries_out_on_go split: rpcConfEvent.split)
  show "carries_out (sub_defers (close_sub lfns)) (sub_body (close_sub lfns) e) (close_reaction lfns e)"
    by (cases e) (auto simp: close_sub_def close_body_def close_reaction_def carries_out_simps
        split: go.split)
  show "carries_out (sub_defers (forward_sub conv)) (sub_body (forward_sub conv) f)
     (forward_reaction False conv f)"
    by (cases f) (auto simp: forward_sub_def forward_body_def forward_reaction_def carries_out_simps
        intro!: carries_out_on_go)
  show "carries_out (sub_defers (invoices_sub ifns)) (sub_body (invoices_sub ifns) i)
     (forward_reaction True (unmarshalInvoice ifns) i)"
    by (cases i) (auto simp: invoices_sub_def forward_body_def forward_reaction_def carries_out_simps
        intro!: carries_out_on_go)
  show "carries_out (sub_defers htlc_events_sub) (sub_body htlc_events_sub g) (forward_reaction True Ok g)"
    by (cases g) (auto simp: htlc_events_sub_def htlc_events_body_def forward_reaction_def carries_out_simps)
  show "carries_out (sub_defers epoch_sub) (sub_body epoch_sub h) (forward_reaction False Ok h)"
    by (cases h) (auto simp: epoch_sub_def epoch_body_def forward_reaction_def carries_out_simps)
  show "carries_out (sub_defers (custom_messages_sub lfns)) (sub_body (custom_messages_sub lfns) m)
     (custom_message_reaction lfns m)"
  proof (cases m)
    case (RecvOk msg)
    then show ?thesis
      by (cases "custom_message lfns msg") (auto simp: custom_messages_sub_def
          custom_messages_body_def custom_message_reaction_def carries_out_simps)
  qed (auto simp: custom_messages_sub_def custom_messages_body_def custom_message_reaction_def
      carries_out_simps)
qed

end
