(* ===== verification/Versioner.thy ===== *)
theory Versioner
  imports MacaroonPouch
begin

text \<open>
  \<open>versioner_client.go\<close>: the version of lnd, read through an authenticated call, and its printed
  forms.
\<close>

text \<open>The fields of \<open>verrpc.Version\<close> the sources read.\<close>

record Version =
  AppMajor :: u32
  AppMinor :: u32
  AppPatch :: u32
  AppPreRelease :: string
  BuildTags :: "string list"

datatype verrpc_req = GetVersionReq

record versionerClient =
  ver_readonlyMac :: serializedMacaroon
  ver_timeout :: i64

definition newVersionerClient :: "serializedMacaroon \<Rightarrow> i64 \<Rightarrow> versionerClient" where
  "newVersionerClient readonlyMac timeout = \<lparr>ver_readonlyMac = readonlyMac, ver_timeout = timeout\<rparr>"

text \<open>The raw client is the connection itself; the context and the timeout go with it.\<close>

definition versioner_RawClientWithMacAuth :: "versionerClient \<Rightarrow> ctx \<Rightarrow> ctx \<times> i64" where
  "versioner_RawClientWithMacAuth v parentCtx =
     (WithMacaroonAuth (ver_readonlyMac v) parentCtx, ver_timeout v)"

definition GetVersion ::
  "versionerClient \<Rightarrow> (verrpc_req, unit, Version) server \<Rightarrow> ctx \<Rightarrow> (verrpc_req, Version) io" where
  "GetVersion v srv c =
     rpc srv (\<lambda>_. GetVersionReq)
       (TimeoutCtx (WithMacaroonAuth (ver_readonlyMac v) c) (ver_timeout v)) ()"

definition VersionStringShort :: "Version \<Rightarrow> string" where
  "VersionStringShort version =
     (let versionStr = ''v'' @ show_nat (unat (AppMajor version)) @ ''.''
            @ show_nat (unat (AppMinor version)) @ ''.'' @ show_nat (unat (AppPatch version))
      in if AppPreRelease version \<noteq> [] then versionStr @ ''-'' @ AppPreRelease version
         else versionStr)"

definition VersionString :: "Version \<Rightarrow> string" where
  "VersionString version =
     (let short = VersionStringShort version;
          enabledTags = join (BuildTags version) '',''
      in short @ '', build tags '' @ [CHR 0x27] @ enabledTags @ [CHR 0x27])"

lemma GetVersion_calls [rpc_intros]:
  "calls_ok (\<lambda>c' q. authed (ver_readonlyMac v) c c' \<and> bounded (ver_timeout v) c')
     (GetVersion v srv c)"
  by (simp add: GetVersion_def calls_ok_rpc)

section \<open>The short form determines the version\<close>

lemma digits_split:
  assumes "list_all is_digit p" and "list_all is_digit q"
    and "\<not> is_digit a" and "\<not> is_digit b" and "p @ a # s = q @ b # t"
  shows "p = q \<and> a = b \<and> s = t"
  using assms
proof (induction p arbitrary: q)
  case Nil
  then show ?case by (cases q) auto
next
  case (Cons x p)
  then show ?case by (cases q) auto
qed

lemma dot_not_digit [simp]: "\<not> is_digit CHR ''.''" "\<not> is_digit CHR ''-''"
  by (simp_all add: is_digit_def)

lemma digits_end:
  assumes "list_all is_digit p" and "list_all is_digit q" and "\<not> is_digit b"
    and "p = q @ b # t"
  shows False
  using assms by auto

lemma unat_show_inj: "show_nat (unat a) = show_nat (unat b) \<longleftrightarrow> a = b"
  by (simp add: show_nat_inj word_unat_eq_iff)

definition patch_text :: "Version \<Rightarrow> string" where
  "patch_text v = show_nat (unat (AppPatch v)) @
     (if AppPreRelease v \<noteq> [] then CHR ''-'' # AppPreRelease v else [])"

lemma VersionStringShort_parts:
  "VersionStringShort v = CHR ''v'' # show_nat (unat (AppMajor v)) @ CHR ''.'' #
     show_nat (unat (AppMinor v)) @ CHR ''.'' # patch_text v"
  by (simp add: VersionStringShort_def patch_text_def Let_def)

lemma patch_text_inj:
  assumes "patch_text v = patch_text w"
  shows "AppPatch v = AppPatch w \<and> AppPreRelease v = AppPreRelease w"
proof -
  note d = show_nat_digits [of "unat (AppPatch v)"] show_nat_digits [of "unat (AppPatch w)"]
  show ?thesis
  proof (cases "AppPreRelease v = []"; cases "AppPreRelease w = []")
    assume "AppPreRelease v = []" "AppPreRelease w = []"
    with assms show ?thesis by (simp add: patch_text_def unat_show_inj)
  next
    assume "AppPreRelease v = []" "AppPreRelease w \<noteq> []"
    with assms have "show_nat (unat (AppPatch v)) =
        show_nat (unat (AppPatch w)) @ CHR ''-'' # AppPreRelease w"
      by (simp add: patch_text_def)
    with digits_end [OF d dot_not_digit(2)] show ?thesis by blast
  next
    assume "AppPreRelease v \<noteq> []" "AppPreRelease w = []"
    with assms have "show_nat (unat (AppPatch w)) =
        show_nat (unat (AppPatch v)) @ CHR ''-'' # AppPreRelease v"
      by (simp add: patch_text_def)
    with digits_end [OF d(2,1) dot_not_digit(2)] show ?thesis by blast
  next
    assume "AppPreRelease v \<noteq> []" "AppPreRelease w \<noteq> []"
    with assms have "show_nat (unat (AppPatch v)) @ CHR ''-'' # AppPreRelease v =
        show_nat (unat (AppPatch w)) @ CHR ''-'' # AppPreRelease w"
      by (simp add: patch_text_def)
    with digits_split [OF d dot_not_digit(2) dot_not_digit(2)] show ?thesis
      by (simp add: unat_show_inj)
  qed
qed

lemma VersionStringShort_inj_aux:
  assumes "VersionStringShort v = VersionStringShort w"
  shows "AppMajor v = AppMajor w \<and> AppMinor v = AppMinor w \<and> AppPatch v = AppPatch w
     \<and> AppPreRelease v = AppPreRelease w"
proof -
  have 1: "show_nat (unat (AppMajor v)) @ CHR ''.'' # show_nat (unat (AppMinor v)) @ CHR ''.'' # patch_text v
      = show_nat (unat (AppMajor w)) @ CHR ''.'' # show_nat (unat (AppMinor w)) @ CHR ''.'' # patch_text w"
    using assms by (simp add: VersionStringShort_parts)
  from digits_split [OF show_nat_digits show_nat_digits _ _ 1]
  have major: "AppMajor v = AppMajor w"
    and 2: "show_nat (unat (AppMinor v)) @ CHR ''.'' # patch_text v
      = show_nat (unat (AppMinor w)) @ CHR ''.'' # patch_text w"
    by (simp_all add: unat_show_inj)
  from digits_split [OF show_nat_digits show_nat_digits _ _ 2]
  have "AppMinor v = AppMinor w" and "patch_text v = patch_text w"
    by (simp_all add: unat_show_inj)
  with major patch_text_inj show ?thesis by blast
qed

section \<open>Main theorems\<close>

text \<open>C40: the short version text determines the version: two versions with the same text have the same
  major, minor and patch number and the same pre-release name.\<close>

theorem VersionStringShort_injective:
  assumes "VersionStringShort v = VersionStringShort w"
  shows "AppMajor v = AppMajor w \<and> AppMinor v = AppMinor w \<and> AppPatch v = AppPatch w
     \<and> AppPreRelease v = AppPreRelease w"
  using assms by (rule VersionStringShort_inj_aux)

theorem VersionStringShort_injective_witness:
  "let v = \<lparr>AppMajor = 0, AppMinor = 18, AppPatch = 3, AppPreRelease = ''beta'', BuildTags = []\<rparr>;
       w = v\<lparr>BuildTags := [''signrpc'']\<rparr>
   in VersionStringShort v = VersionStringShort w \<and> AppMinor v = AppMinor w"
proof -
  let ?v = "\<lparr>AppMajor = 0, AppMinor = 18, AppPatch = 3, AppPreRelease = ''beta'', BuildTags = []\<rparr>"
  have e: "VersionStringShort ?v = VersionStringShort (?v\<lparr>BuildTags := [''signrpc'']\<rparr>)"
    by (simp add: VersionStringShort_def)
  from VersionStringShort_injective [OF e] e show ?thesis by (simp add: Let_def)
qed

end
