(* ===== verification/Network.thy ===== *)
theory Network
  imports Prelude
begin

text \<open>
  \<open>network.go\<close>: the names of the chains the library operates on, and the chain parameters each
  stands for. The parameter sets are package variables of \<open>chaincfg\<close>, known by name only.
\<close>

type_synonym Network = string

definition NetworkMainnet :: Network where "NetworkMainnet = ''mainnet''"
definition NetworkTestnet :: Network where "NetworkTestnet = ''testnet''"
definition NetworkTestnet4 :: Network where "NetworkTestnet4 = ''testnet4''"
definition NetworkRegtest :: Network where "NetworkRegtest = ''regtest''"
definition NetworkSimnet :: Network where "NetworkSimnet = ''simnet''"
definition NetworkSignet :: Network where "NetworkSignet = ''signet''"

lemmas network_defs = NetworkMainnet_def NetworkTestnet_def NetworkTestnet4_def
  NetworkRegtest_def NetworkSimnet_def NetworkSignet_def

datatype chain_params =
    MainNetParams | TestNet3Params | TestNet4Params
  | RegressionNetParams | SimNetParams | SigNetParams

definition ChainParams :: "Network \<Rightarrow> chain_params go" where
  "ChainParams n =
     (if n = NetworkMainnet then Ok MainNetParams
      else if n = NetworkTestnet then Ok TestNet3Params
      else if n = NetworkTestnet4 then Ok TestNet4Params
      else if n = NetworkRegtest then Ok RegressionNetParams
      else if n = NetworkSimnet then Ok SimNetParams
      else if n = NetworkSignet then Ok SigNetParams
      else Err (NewErr ''unknown network''))"

text \<open>No two networks share parameters, and the name fixes them.\<close>

lemma ChainParams_inj: "ChainParams m = Ok p \<Longrightarrow> ChainParams n = Ok p \<Longrightarrow> m = n"
  by (auto simp: ChainParams_def split: if_splits)

lemma ChainParams_surj: "\<exists>n. ChainParams n = Ok p"
proof (cases p)
  case MainNetParams
  then show ?thesis by (intro exI [of _ NetworkMainnet]) (simp add: ChainParams_def)
next
  case TestNet3Params
  then show ?thesis
    by (intro exI [of _ NetworkTestnet]) (simp add: ChainParams_def network_defs)
next
  case TestNet4Params
  then show ?thesis
    by (intro exI [of _ NetworkTestnet4]) (simp add: ChainParams_def network_defs)
next
  case RegressionNetParams
  then show ?thesis
    by (intro exI [of _ NetworkRegtest]) (simp add: ChainParams_def network_defs)
next
  case SimNetParams
  then show ?thesis
    by (intro exI [of _ NetworkSimnet]) (simp add: ChainParams_def network_defs)
next
  case SigNetParams
  then show ?thesis
    by (intro exI [of _ NetworkSignet]) (simp add: ChainParams_def network_defs)
qed

lemma ChainParams_no_panic [simp]: "\<not> is_panic (ChainParams n)"
  by (simp add: ChainParams_def)

section \<open>Main theorems\<close>

text \<open>Every set of chain parameters belongs to exactly one network name, and every other name is
  refused with an error.\<close>

theorem ChainParams_bijection:
  "(\<exists>!n. ChainParams n = Ok p)
   \<and> (is_ok (ChainParams m) \<longleftrightarrow> m \<in> {NetworkMainnet, NetworkTestnet, NetworkTestnet4,
        NetworkRegtest, NetworkSimnet, NetworkSignet})"
proof
  show "\<exists>!n. ChainParams n = Ok p" using ChainParams_surj ChainParams_inj by blast
  show "is_ok (ChainParams m) \<longleftrightarrow> m \<in> {NetworkMainnet, NetworkTestnet, NetworkTestnet4,
        NetworkRegtest, NetworkSimnet, NetworkSignet}"
    by (simp add: ChainParams_def)
qed

end
