(* ===== verification/LndVersion.thy ===== *)
theory LndVersion
  imports Versioner Network LightningInfo
begin

text \<open>
  The compatibility checks of \<open>lnd_services.go\<close>: version order, build tags, the version call and the
  network, with the error each failure is turned into.

  \<open>FromError\<close> stands for \<open>status.FromError\<close> of gRPC: the status code an error carries, if any.
\<close>

definition DefaultBuildTags :: "string list" where
  "DefaultBuildTags = [''signrpc'', ''walletrpc'', ''chainrpc'', ''invoicesrpc'']"

definition minimalCompatibleVersion :: Version where
  "minimalCompatibleVersion = \<lparr>AppMajor = 0, AppMinor = 21, AppPatch = 0, AppPreRelease = [],
     BuildTags = DefaultBuildTags\<rparr>"

section \<open>Version order\<close>

text \<open>The function returns only an error; no error is \<open>Ok ()\<close>.\<close>

definition AssertVersionCompatible :: "Version \<Rightarrow> Version \<Rightarrow> unit go" where
  "AssertVersionCompatible actual expected =
     (if AppMajor actual \<noteq> AppMajor expected then
        (if AppMajor actual > AppMajor expected then Ok () else Err (Sentinel ErrVersionIncompatible))
      else if AppMinor actual \<noteq> AppMinor expected then
        (if AppMinor actual > AppMinor expected then Ok () else Err (Sentinel ErrVersionIncompatible))
      else if AppPatch actual \<noteq> AppPatch expected then
        (if AppPatch actual > AppPatch expected then Ok () else Err (Sentinel ErrVersionIncompatible))
      else Ok ())"

text \<open>Version numbers with the lexicographic order, as an instance of the library's orders.\<close>

datatype version_num = VersionNum (vmajor: u32) (vminor: u32) (vpatch: u32)

instantiation version_num :: linorder
begin

definition less_eq_version_num :: "version_num \<Rightarrow> version_num \<Rightarrow> bool" where
  "v \<le> w \<longleftrightarrow> vmajor v < vmajor w \<or> vmajor v = vmajor w \<and>
     (vminor v < vminor w \<or> vminor v = vminor w \<and> vpatch v \<le> vpatch w)"

definition less_version_num :: "version_num \<Rightarrow> version_num \<Rightarrow> bool" where
  "v < w \<longleftrightarrow> vmajor v < vmajor w \<or> vmajor v = vmajor w \<and>
     (vminor v < vminor w \<or> vminor v = vminor w \<and> vpatch v < vpatch w)"

instance
proof
  fix x y z :: version_num
  show "x < y \<longleftrightarrow> x \<le> y \<and> \<not> y \<le> x"
    by (auto simp: less_eq_version_num_def less_version_num_def)
  show "x \<le> x" by (simp add: less_eq_version_num_def)
  show "x \<le> y \<Longrightarrow> y \<le> z \<Longrightarrow> x \<le> z"
    by (auto simp: less_eq_version_num_def)
  show "x \<le> y \<Longrightarrow> y \<le> x \<Longrightarrow> x = y"
    by (cases x; cases y) (auto simp: less_eq_version_num_def)
  show "x \<le> y \<or> y \<le> x"
    by (auto simp: less_eq_version_num_def)
qed

end

definition version_num_of :: "Version \<Rightarrow> version_num" where
  "version_num_of v = VersionNum (AppMajor v) (AppMinor v) (AppPatch v)"

lemma AssertVersionCompatible_cases:
  "AssertVersionCompatible actual expected =
     (if version_num_of expected \<le> version_num_of actual then Ok ()
      else Err (Sentinel ErrVersionIncompatible))"
  by (auto simp: AssertVersionCompatible_def version_num_of_def less_eq_version_num_def)

section \<open>Build tags\<close>

text \<open>The set of tags is a Go map used as a set; the second loop looks up each required tag.\<close>

fun tags_present :: "string set \<Rightarrow> string list \<Rightarrow> unit go" where
  "tags_present tagMap [] = Ok ()"
| "tags_present tagMap (required # rest) =
     (if required \<notin> tagMap then Err (Sentinel ErrBuildTagsMissing) else tags_present tagMap rest)"

definition assertBuildTagsEnabled :: "Version \<Rightarrow> string list \<Rightarrow> unit go" where
  "assertBuildTagsEnabled actual requiredTags =
     (let tagMap = foldl (\<lambda>m tag. insert tag m) {} (BuildTags actual)
      in tags_present tagMap requiredTags)"

lemma foldl_insert: "foldl (\<lambda>m tag. insert tag m) S xs = S \<union> set xs"
  by (induction xs arbitrary: S) auto

lemma tags_present_cases:
  "tags_present S req = (if set req \<subseteq> S then Ok () else Err (Sentinel ErrBuildTagsMissing))"
  by (induction req) auto

lemma assertBuildTagsEnabled_cases:
  "assertBuildTagsEnabled actual req =
     (if set req \<subseteq> set (BuildTags actual) then Ok () else Err (Sentinel ErrBuildTagsMissing))"
  by (simp add: assertBuildTagsEnabled_def foldl_insert tags_present_cases)

section \<open>The version check\<close>

definition checkVersionCompatibility ::
  "(go_error \<Rightarrow> grpc_code option) \<Rightarrow> versionerClient \<Rightarrow> (verrpc_req, unit, Version) server
     \<Rightarrow> Version \<Rightarrow> (verrpc_req, Version) io" where
  "checkVersionCompatibility FromError client srv expected =
     io_try (GetVersion client srv BackgroundCtx) (\<lambda>res. case res of
         Err err \<Rightarrow>
           if FromError err = Some GrpcUnimplemented
           then io_err (Sentinel ErrVersionCheckNotImplemented)
           else io_err (FmtErr ''GetVersion error: '' err)
       | Panic p \<Rightarrow> io_lift (Panic p)
       | Ok version \<Rightarrow>
           io_bind (io_lift (AssertVersionCompatible version expected)) (\<lambda>_.
           io_bind (io_lift (assertBuildTagsEnabled version (BuildTags expected))) (\<lambda>_.
             io_ret version)))"

text \<open>The closure \<open>onErr\<close> of \<open>checkLndCompatibility\<close>.\<close>

definition compat_onErr :: "Version \<Rightarrow> go_error \<Rightarrow> go_error" where
  "compat_onErr minVersion err =
     (if err = Sentinel ErrVersionIncompatible \<or> err = Sentinel ErrBuildTagsMissing
      then FmtVal ''error checking connected lnd version. at least version ''
             ([CHR 0x22] @ VersionString minVersion @ [CHR 0x22] @ '' is required'')
      else FmtErr ''lnd compatibility check failed: '' err)"

definition checkLndCompatibility ::
  "(go_error \<Rightarrow> grpc_code option) \<Rightarrow> (verrpc_req, unit, Version) server \<Rightarrow> serializedMacaroon
     \<Rightarrow> Info \<Rightarrow> Network \<Rightarrow> Version \<Rightarrow> i64 \<Rightarrow> (verrpc_req, string \<times> bytes \<times> Version) io" where
  "checkLndCompatibility FromError srv readonlyMac info network minVersion timeout =
     (if network \<noteq> info_Network info then
        io_err (compat_onErr minVersion
          (FmtVal ''network mismatch with connected lnd node, wanted ''
             ([CHR 0x27] @ network @ [CHR 0x27] @ '', got '' @ [CHR 0x27] @ info_Network info
                @ [CHR 0x27])))
      else
        io_try (checkVersionCompatibility FromError (newVersionerClient readonlyMac timeout) srv
                  minVersion) (\<lambda>res. case res of
            Err err \<Rightarrow> io_err (compat_onErr minVersion err)
          | Panic p \<Rightarrow> io_lift (Panic p)
          | Ok version \<Rightarrow> io_ret (info_Alias info, info_IdentityPubkey info, version)))"

section \<open>Properties\<close>

lemma checkVersionCompatibility_eval:
  "checkVersionCompatibility FromError client srv expected h =
     (let c = TimeoutCtx (WithMacaroonAuth (ver_readonlyMac client) BackgroundCtx)
                (ver_timeout client)
      in ((case srv h c () of
             Ok v \<Rightarrow> if \<not> version_num_of expected \<le> version_num_of v
                    then Err (Sentinel ErrVersionIncompatible)
                    else if \<not> set (BuildTags expected) \<subseteq> set (BuildTags v)
                    then Err (Sentinel ErrBuildTagsMissing)
                    else Ok v
           | Err e \<Rightarrow> if FromError e = Some GrpcUnimplemented
                    then Err (Sentinel ErrVersionCheckNotImplemented)
                    else Err (FmtErr ''GetVersion error: '' e)
           | Panic p \<Rightarrow> Panic p), h @ [(c, GetVersionReq)]))"
  by (auto simp: checkVersionCompatibility_def GetVersion_def Let_def io_try_def io_bind_def
      AssertVersionCompatible_cases assertBuildTagsEnabled_cases go_simps split: go.split)

lemma checkLndCompatibility_Ok:
  assumes "checkLndCompatibility FromError srv mac info network minVersion timeout h
             = (Ok (alias, key, v), h')"
  shows "network = info_Network info \<and> alias = info_Alias info \<and> key = info_IdentityPubkey info
     \<and> version_num_of minVersion \<le> version_num_of v
     \<and> set (BuildTags minVersion) \<subseteq> set (BuildTags v)"
  using assms
  by (auto simp: checkLndCompatibility_def io_try_def checkVersionCompatibility_eval Let_def
      go_simps split: if_splits go.splits)

lemma checkLndCompatibility_network:
  "network \<noteq> info_Network info \<Longrightarrow>
     \<exists>e. checkLndCompatibility FromError srv mac info network minVersion timeout h = (Err e, h)"
  by (simp add: checkLndCompatibility_def go_simps)

lemma checkLndCompatibility_calls [rpc_intros]:
  "calls_ok (\<lambda>c' q. authed mac BackgroundCtx c' \<and> bounded timeout c')
     (checkLndCompatibility FromError srv mac info network minVersion timeout)"
  by (auto simp: calls_ok_def checkLndCompatibility_def io_try_def checkVersionCompatibility_eval
      Let_def newVersionerClient_def authed_def bounded_def WithMacaroonAuth_def go_simps
      split: go.split)

section \<open>Main theorems\<close>

text \<open>C24: \<open>AssertVersionCompatible\<close> accepts exactly the versions that are at least the expected one in
  the lexicographic order of major, minor and patch number, read as unsigned integers; every other
  version is refused with \<open>ErrVersionIncompatible\<close>.\<close>

theorem AssertVersionCompatible_order:
  "AssertVersionCompatible actual expected =
     (if AppMajor expected < AppMajor actual
         \<or> (AppMajor expected = AppMajor actual
            \<and> (AppMinor expected < AppMinor actual
               \<or> (AppMinor expected = AppMinor actual \<and> AppPatch expected \<le> AppPatch actual)))
      then Ok () else Err (Sentinel ErrVersionIncompatible))"
  by (auto simp: AssertVersionCompatible_cases version_num_of_def less_eq_version_num_def)

text \<open>C4: the start-up check succeeds exactly when lnd's network is the expected one, lnd answers
  the single version call, that version is not older than the minimal one and every required build
  tag is among its tags; it then returns lnd's alias, key and version, and has made one call, with
  the read-only macaroon and the configured timeout.\<close>

theorem checkLndCompatibility_accepts:
  "checkLndCompatibility FromError srv mac info network minVersion timeout h = (Ok r, h') \<longleftrightarrow>
     (let c = TimeoutCtx (WithMacaroonAuth mac BackgroundCtx) timeout
      in network = info_Network info \<and> h' = h @ [(c, GetVersionReq)]
         \<and> (\<exists>v. srv h c () = Ok v \<and> r = (info_Alias info, info_IdentityPubkey info, v)
              \<and> AssertVersionCompatible v minVersion = Ok ()
              \<and> set (BuildTags minVersion) \<subseteq> set (BuildTags v)))"
  by (auto simp: checkLndCompatibility_def io_try_def checkVersionCompatibility_eval Let_def
      newVersionerClient_def AssertVersionCompatible_cases go_simps split: go.split)

end
