(* ===== verification/WtClient.thy ===== *)
theory WtClient
  imports MacaroonPouch
begin

text \<open>
  \<open>wtclient_client.go\<close>: the watchtower client. Towers, policies and statistics are messages of lnd
  that the client passes through.
\<close>

record wtClient =
  wt_mac :: serializedMacaroon
  wt_timeout :: i64

definition newWtClient :: "serializedMacaroon \<Rightarrow> i64 \<Rightarrow> wtClient" where
  "newWtClient wtClientMac timeout = \<lparr>wt_mac = wtClientMac, wt_timeout = timeout\<rparr>"

definition wt_RawClientWithMacAuth :: "wtClient \<Rightarrow> ctx \<Rightarrow> ctx \<times> i64" where
  "wt_RawClientWithMacAuth m parentCtx =
     (WithMacaroonAuth (wt_mac m) parentCtx, wt_timeout m)"

datatype wt_req =
    AddTowerReq bytes string
  | DeactivateTowerReq bytes
  | GetTowerInfoReq bytes bool bool
  | ListTowersReq bool bool
  | PolicyReq i32
  | RemoveTowerReq bytes string
  | StatsReq
  | TerminateSessionReq bytes

text \<open>Every method of the file derives its context in this way.\<close>

definition wt_ctx :: "wtClient \<Rightarrow> ctx \<Rightarrow> ctx" where
  "wt_ctx m c = WithMacaroonAuth (wt_mac m) (TimeoutCtx c (wt_timeout m))"

definition AddTower ::
  "wtClient \<Rightarrow> (wt_req, bytes \<times> string, unit) server \<Rightarrow> ctx \<Rightarrow> bytes \<Rightarrow> string \<Rightarrow> (wt_req, unit) io"
where
  "AddTower m srv c pubkey address =
     rpc srv (\<lambda>(p, a). AddTowerReq p a) (wt_ctx m c) (pubkey, address)"

definition DeactivateTower ::
  "wtClient \<Rightarrow> (wt_req, bytes, string) server \<Rightarrow> ctx \<Rightarrow> bytes \<Rightarrow> (wt_req, string) io" where
  "DeactivateTower m srv c pubkey = rpc srv DeactivateTowerReq (wt_ctx m c) pubkey"

definition GetTowerInfo ::
  "wtClient \<Rightarrow> (wt_req, bytes \<times> bool \<times> bool, 'tower) server \<Rightarrow> ctx \<Rightarrow> bytes \<Rightarrow> bool \<Rightarrow> bool
     \<Rightarrow> (wt_req, 'tower) io" where
  "GetTowerInfo m srv c pubkey includeSessions excludeExhaustedSessions =
     rpc srv (\<lambda>(p, i, e). GetTowerInfoReq p i e) (wt_ctx m c)
       (pubkey, includeSessions, excludeExhaustedSessions)"

definition ListTowers ::
  "wtClient \<Rightarrow> (wt_req, bool \<times> bool, 'tower list) server \<Rightarrow> ctx \<Rightarrow> bool \<Rightarrow> bool
     \<Rightarrow> (wt_req, 'tower list) io" where
  "ListTowers m srv c includeSessions excludeExhaustedSessions =
     rpc srv (\<lambda>(i, e). ListTowersReq i e) (wt_ctx m c) (includeSessions, excludeExhaustedSessions)"

definition wt_Policy ::
  "wtClient \<Rightarrow> (wt_req, i32, 'policy) server \<Rightarrow> ctx \<Rightarrow> i32 \<Rightarrow> (wt_req, 'policy) io" where
  "wt_Policy m srv c policyType = rpc srv PolicyReq (wt_ctx m c) policyType"

definition RemoveTower ::
  "wtClient \<Rightarrow> (wt_req, bytes \<times> string, unit) server \<Rightarrow> ctx \<Rightarrow> bytes \<Rightarrow> string \<Rightarrow> (wt_req, unit) io"
where
  "RemoveTower m srv c pubkey address =
     rpc srv (\<lambda>(p, a). RemoveTowerReq p a) (wt_ctx m c) (pubkey, address)"

definition wt_Stats :: "wtClient \<Rightarrow> (wt_req, unit, 'stats) server \<Rightarrow> ctx \<Rightarrow> (wt_req, 'stats) io" where
  "wt_Stats m srv c = rpc srv (\<lambda>_. StatsReq) (wt_ctx m c) ()"

definition TerminateSession ::
  "wtClient \<Rightarrow> (wt_req, bytes, string) server \<Rightarrow> ctx \<Rightarrow> bytes \<Rightarrow> (wt_req, string) io" where
  "TerminateSession m srv c sessionId = rpc srv TerminateSessionReq (wt_ctx m c) sessionId"

abbreviation wt_bounded :: "wtClient \<Rightarrow> ctx \<Rightarrow> ctx \<Rightarrow> wt_req \<Rightarrow> bool" where
  "wt_bounded m c c' q \<equiv> authed (wt_mac m) c c' \<and> bounded (wt_timeout m) c'"

lemma wt_calls:
  "calls_ok (wt_bounded m c) (AddTower m s1 c pubkey address)"
  "calls_ok (wt_bounded m c) (DeactivateTower m s2 c pubkey)"
  "calls_ok (wt_bounded m c) (GetTowerInfo m s3 c pubkey i e)"
  "calls_ok (wt_bounded m c) (ListTowers m s4 c i e)"
  "calls_ok (wt_bounded m c) (wt_Policy m s5 c pt)"
  "calls_ok (wt_bounded m c) (RemoveTower m s6 c pubkey address)"
  "calls_ok (wt_bounded m c) (wt_Stats m s7 c)"
  "calls_ok (wt_bounded m c) (TerminateSession m s8 c session)"
  by (auto simp: AddTower_def DeactivateTower_def GetTowerInfo_def ListTowers_def wt_Policy_def
      RemoveTower_def wt_Stats_def TerminateSession_def wt_ctx_def intro!: rpc_intros)

end
