(* ===== verification/Signer.thy ===== *)
theory Signer
  imports TxUtils MacaroonPouch
begin

text \<open>
  \<open>signer_client.go\<close>: sign descriptors and their two marshallings, raw signatures, messages, shared
  keys and MuSig2 sessions.

  Keys belong to \<open>btcec\<close>: their serialisations and parsers are fields of \<open>signer_fns\<close>. A pointer of a
  caller is an option and a read through nil panics. Scripts and options are those of \<open>signrpc\<close>; the
  numbers of a key locator keep their 32 bits when \<open>int32\<close> reads them as signed.
\<close>

record ('tx, 'pub, 'priv) signer_fns =
  sf_BtcEncode :: "'tx \<Rightarrow> bytes go"
  sf_SerializeCompressed :: "'pub \<Rightarrow> bytes"
  sf_SerializePriv :: "'priv \<Rightarrow> bytes"
  sf_ParseSchnorr :: "bytes \<Rightarrow> 'pub go"

section \<open>Descriptors\<close>

record KeyLocator =
  loc_Family :: u32
  loc_Index :: u32

record 'pub KeyDescriptor =
  kd_Locator :: KeyLocator
  kd_PubKey :: "'pub option"

datatype SignMethod =
    WitnessV0SignMethod | TaprootKeySpendBIP0086SignMethod | TaprootKeySpendSignMethod
  | TaprootScriptSpendSignMethod | SignMethod_other u8

record TxOut =
  txo_PkScript :: bytes
  txo_Value :: i64

record ('pub, 'priv) SignDescriptor =
  sd_KeyDesc :: "'pub KeyDescriptor"
  sd_SingleTweak :: bytes
  sd_DoubleTweak :: "'priv option"
  sd_TapTweak :: bytes
  sd_WitnessScript :: bytes
  sd_SignMethod :: SignMethod
  sd_Output :: "TxOut option"
  sd_HashType :: u32
  sd_InputIndex :: i64

datatype rpcSignMethod =
    SIGN_METHOD_WITNESS_V0 | SIGN_METHOD_TAPROOT_KEY_SPEND_BIP0086
  | SIGN_METHOD_TAPROOT_KEY_SPEND | SIGN_METHOD_TAPROOT_SCRIPT_SPEND

fun MarshalSignMethod :: "SignMethod \<Rightarrow> rpcSignMethod" where
  "MarshalSignMethod TaprootKeySpendBIP0086SignMethod = SIGN_METHOD_TAPROOT_KEY_SPEND_BIP0086"
| "MarshalSignMethod TaprootKeySpendSignMethod = SIGN_METHOD_TAPROOT_KEY_SPEND"
| "MarshalSignMethod TaprootScriptSpendSignMethod = SIGN_METHOD_TAPROOT_SCRIPT_SPEND"
| "MarshalSignMethod _ = SIGN_METHOD_WITNESS_V0"

record rpcKeyLocator =
  rkl_KeyFamily :: i32
  rkl_KeyIndex :: i32

record rpcKeyDescriptor =
  rkd_RawKeyBytes :: bytes
  rkd_KeyLoc :: "rpcKeyLocator option"

record rpcTxOut =
  rto_PkScript :: bytes
  rto_Value :: i64

record rpcSignDescriptor =
  rsd_KeyDesc :: rpcKeyDescriptor
  rsd_SingleTweak :: bytes
  rsd_DoubleTweak :: bytes
  rsd_TapTweak :: bytes
  rsd_WitnessScript :: bytes
  rsd_SignMethod :: rpcSignMethod
  rsd_Output :: rpcTxOut
  rsd_Sighash :: u32
  rsd_InputIndex :: i32

definition key_locator :: "KeyLocator \<Rightarrow> rpcKeyLocator" where
  "key_locator l = \<lparr>rkl_KeyFamily = loc_Family l, rkl_KeyIndex = loc_Index l\<rparr>"

text \<open>The two closures of \<open>marshallSignDescriptors\<close>.\<close>

definition partialDescriptor :: "('pub \<Rightarrow> bytes) \<Rightarrow> 'pub KeyDescriptor \<Rightarrow> rpcKeyDescriptor" where
  "partialDescriptor SerializeCompressed d = (case kd_PubKey d of
       Some pub \<Rightarrow> \<lparr>rkd_RawKeyBytes = SerializeCompressed pub, rkd_KeyLoc = None\<rparr>
     | None \<Rightarrow> \<lparr>rkd_RawKeyBytes = [], rkd_KeyLoc = Some (key_locator (kd_Locator d))\<rparr>)"

definition fullDescriptor :: "('pub \<Rightarrow> bytes) \<Rightarrow> 'pub KeyDescriptor \<Rightarrow> rpcKeyDescriptor" where
  "fullDescriptor SerializeCompressed d =
     \<lparr>rkd_RawKeyBytes = (case kd_PubKey d of Some pub \<Rightarrow> SerializeCompressed pub | None \<Rightarrow> []),
      rkd_KeyLoc = (if loc_Family (kd_Locator d) \<noteq> 0 \<or> loc_Index (kd_Locator d) \<noteq> 0
                    then Some (key_locator (kd_Locator d)) else None)\<rparr>"

definition sign_descriptor ::
  "('tx, 'pub, 'priv) signer_fns \<Rightarrow> bool \<Rightarrow> ('pub, 'priv) SignDescriptor option
     \<Rightarrow> rpcSignDescriptor go" where
  "sign_descriptor fns fullDescriptors signDesc =
     go_bind (deref signDesc) (\<lambda>signDesc.
     let keyDesc = (if fullDescriptors
           then fullDescriptor (sf_SerializeCompressed fns) (sd_KeyDesc signDesc)
           else partialDescriptor (sf_SerializeCompressed fns) (sd_KeyDesc signDesc));
         doubleTweak = (case sd_DoubleTweak signDesc of None \<Rightarrow> []
           | Some k \<Rightarrow> sf_SerializePriv fns k)
     in go_bind (deref (sd_Output signDesc)) (\<lambda>output.
       Ok \<lparr>rsd_KeyDesc = keyDesc, rsd_SingleTweak = sd_SingleTweak signDesc,
           rsd_DoubleTweak = doubleTweak, rsd_TapTweak = sd_TapTweak signDesc,
           rsd_WitnessScript = sd_WitnessScript signDesc,
           rsd_SignMethod = MarshalSignMethod (sd_SignMethod signDesc),
           rsd_Output = \<lparr>rto_PkScript = txo_PkScript output, rto_Value = txo_Value output\<rparr>,
           rsd_Sighash = sd_HashType signDesc,
           rsd_InputIndex = ucast (sd_InputIndex signDesc)\<rparr>))"

definition marshallSignDescriptors ::
  "('tx, 'pub, 'priv) signer_fns \<Rightarrow> ('pub, 'priv) SignDescriptor option list \<Rightarrow> bool
     \<Rightarrow> rpcSignDescriptor list go" where
  "marshallSignDescriptors fns signDescriptors fullDescriptors =
     go_map (sign_descriptor fns fullDescriptors) signDescriptors"

definition marshallTxOut :: "TxOut option list \<Rightarrow> rpcTxOut list go" where
  "marshallTxOut outputs = go_map (\<lambda>output. go_bind (deref output) (\<lambda>output.
     Ok \<lparr>rto_PkScript = txo_PkScript output, rto_Value = txo_Value output\<rparr>)) outputs"

section \<open>The client\<close>

record signerClient =
  signer_mac :: serializedMacaroon
  signer_timeout :: i64

definition newSignerClient :: "serializedMacaroon \<Rightarrow> i64 \<Rightarrow> signerClient" where
  "newSignerClient signerMac timeout = \<lparr>signer_mac = signerMac, signer_timeout = timeout\<rparr>"

definition signer_RawClientWithMacAuth :: "signerClient \<Rightarrow> ctx \<Rightarrow> ctx \<times> i64" where
  "signer_RawClientWithMacAuth s parentCtx =
     (WithMacaroonAuth (signer_mac s) parentCtx, signer_timeout s)"

record rpcSignReq =
  rsr_RawTxBytes :: bytes
  rsr_SignDescs :: "rpcSignDescriptor list"
  rsr_PrevOutputs :: "rpcTxOut list"

record rpcSignMessageReq =
  rsm_Msg :: bytes
  rsm_KeyLoc :: rpcKeyLocator
  rsm_CompactSig :: bool
  rsm_SchnorrSig :: bool
  rsm_SchnorrSigTapTweak :: bytes

record rpcVerifyMessageReq =
  rvm_Msg :: bytes
  rvm_Signature :: bytes
  rvm_Pubkey :: bytes
  rvm_IsSchnorrSig :: bool

datatype rpcMuSig2Version = MUSIG2_VERSION_UNDEFINED | MUSIG2_VERSION_V040 | MUSIG2_VERSION_V100RC2

record rpcMuSig2SessionRequest =
  rms_KeyLoc :: rpcKeyLocator
  rms_AllSignerPubkeys :: "bytes list"
  rms_Version :: rpcMuSig2Version
  rms_OtherSignerPublicNonces :: "bytes list"
  rms_TaprootTweak :: "(bytes \<times> bool) option"
  rms_PregeneratedLocalNonce :: bytes

datatype (plugins only: size) signer_req =
    SignOutputRawReq rpcSignReq
  | ComputeInputScriptReq rpcSignReq
  | SignerSignMessageReq rpcSignMessageReq
  | SignerVerifyMessageReq rpcVerifyMessageReq
  | DeriveSharedKeyReq bytes "rpcKeyLocator option"
  | MuSig2CreateSessionReq rpcMuSig2SessionRequest
  | MuSig2RegisterNoncesReq bytes "bytes list"
  | MuSig2SignReq bytes bytes bool
  | MuSig2CombineSigReq bytes "bytes list"
  | MuSig2CleanupReq bytes
  | MuSig2RegisterCombinedNonceReq bytes bytes
  | MuSig2GetCombinedNonceReq bytes

text \<open>Every method of the file derives its context in this way.\<close>

definition signer_ctx :: "signerClient \<Rightarrow> ctx \<Rightarrow> ctx" where
  "signer_ctx s c = WithMacaroonAuth (signer_mac s) (TimeoutCtx c (signer_timeout s))"

definition sign_request ::
  "('tx, 'pub, 'priv) signer_fns \<Rightarrow> 'tx \<Rightarrow> ('pub, 'priv) SignDescriptor option list
     \<Rightarrow> TxOut option list \<Rightarrow> bool \<Rightarrow> rpcSignReq go" where
  "sign_request fns tx signDescriptors prevOutputs full =
     go_bind (encodeTx (sf_BtcEncode fns) tx) (\<lambda>txRaw.
     go_bind (marshallSignDescriptors fns signDescriptors full) (\<lambda>rpcSignDescs.
     go_bind (marshallTxOut prevOutputs) (\<lambda>rpcPrevOutputs.
       Ok \<lparr>rsr_RawTxBytes = txRaw, rsr_SignDescs = rpcSignDescs,
           rsr_PrevOutputs = rpcPrevOutputs\<rparr>)))"

definition signOutputRaw ::
  "signerClient \<Rightarrow> ('tx, 'pub, 'priv) signer_fns \<Rightarrow> (signer_req, rpcSignReq, bytes list) server
     \<Rightarrow> ctx \<Rightarrow> 'tx \<Rightarrow> ('pub, 'priv) SignDescriptor option list \<Rightarrow> TxOut option list \<Rightarrow> bool
     \<Rightarrow> (signer_req, bytes list) io" where
  "signOutputRaw s fns srv c tx signDescriptors prevOutputs full =
     io_bind (io_lift (sign_request fns tx signDescriptors prevOutputs full)) (\<lambda>req.
       rpc srv SignOutputRawReq (signer_ctx s c) req)"

definition SignOutputRaw ::
  "signerClient \<Rightarrow> ('tx, 'pub, 'priv) signer_fns \<Rightarrow> (signer_req, rpcSignReq, bytes list) server
     \<Rightarrow> ctx \<Rightarrow> 'tx \<Rightarrow> ('pub, 'priv) SignDescriptor option list \<Rightarrow> TxOut option list
     \<Rightarrow> (signer_req, bytes list) io" where
  "SignOutputRaw s fns srv c tx signDescriptors prevOutputs =
     signOutputRaw s fns srv c tx signDescriptors prevOutputs False"

definition SignOutputRawKeyLocator ::
  "signerClient \<Rightarrow> ('tx, 'pub, 'priv) signer_fns \<Rightarrow> (signer_req, rpcSignReq, bytes list) server
     \<Rightarrow> ctx \<Rightarrow> 'tx \<Rightarrow> ('pub, 'priv) SignDescriptor option list \<Rightarrow> TxOut option list
     \<Rightarrow> (signer_req, bytes list) io" where
  "SignOutputRawKeyLocator s fns srv c tx signDescriptors prevOutputs =
     signOutputRaw s fns srv c tx signDescriptors prevOutputs True"

text \<open>An input script of the answer: its signature script and its witness.\<close>

record Script =
  is_SigScript :: bytes
  is_Witness :: "bytes list"

definition ComputeInputScript ::
  "signerClient \<Rightarrow> ('tx, 'pub, 'priv) signer_fns
     \<Rightarrow> (signer_req, rpcSignReq, (bytes \<times> bytes list) list) server
     \<Rightarrow> ctx \<Rightarrow> 'tx \<Rightarrow> ('pub, 'priv) SignDescriptor option list \<Rightarrow> TxOut option list
     \<Rightarrow> (signer_req, Script list) io" where
  "ComputeInputScript s fns srv c tx signDescriptors prevOutputs =
     io_bind (io_lift (sign_request fns tx signDescriptors prevOutputs False)) (\<lambda>req.
     io_bind (rpc srv ComputeInputScriptReq (signer_ctx s c) req) (\<lambda>scripts.
       io_ret (map (\<lambda>(sig, wit). \<lparr>is_SigScript = sig, is_Witness = wit\<rparr>) scripts)))"

section \<open>Messages and shared keys\<close>

datatype SignMessageOption = SignCompact | SignSchnorr bytes

fun sign_message_option :: "rpcSignMessageReq \<Rightarrow> SignMessageOption \<Rightarrow> rpcSignMessageReq" where
  "sign_message_option req SignCompact = req\<lparr>rsm_CompactSig := True\<rparr>"
| "sign_message_option req (SignSchnorr taprootTweak) =
     req\<lparr>rsm_SchnorrSig := True, rsm_SchnorrSigTapTweak := taprootTweak\<rparr>"

definition SignMessage ::
  "signerClient \<Rightarrow> (signer_req, rpcSignMessageReq, bytes) server \<Rightarrow> ctx \<Rightarrow> bytes \<Rightarrow> KeyLocator
     \<Rightarrow> SignMessageOption list \<Rightarrow> (signer_req, bytes) io" where
  "SignMessage s srv c msg locator opts =
     rpc srv SignerSignMessageReq (signer_ctx s c)
       (foldl sign_message_option
          \<lparr>rsm_Msg = msg, rsm_KeyLoc = key_locator locator, rsm_CompactSig = False,
           rsm_SchnorrSig = False, rsm_SchnorrSigTapTweak = []\<rparr> opts)"

datatype VerifyMessageOption = VerifySchnorr

fun verify_message_option :: "rpcVerifyMessageReq \<Rightarrow> VerifyMessageOption \<Rightarrow> rpcVerifyMessageReq"
where
  "verify_message_option req VerifySchnorr = req\<lparr>rvm_IsSchnorrSig := True\<rparr>"

text \<open>A Schnorr signature is checked against the key without its first byte.\<close>

definition verify_request ::
  "bytes \<Rightarrow> bytes \<Rightarrow> bytes \<Rightarrow> VerifyMessageOption list \<Rightarrow> rpcVerifyMessageReq" where
  "verify_request msg sig pubkey opts =
     (let rpcIn = foldl verify_message_option
            \<lparr>rvm_Msg = msg, rvm_Signature = sig, rvm_Pubkey = pubkey, rvm_IsSchnorrSig = False\<rparr> opts
      in if rvm_IsSchnorrSig rpcIn then rpcIn\<lparr>rvm_Pubkey := drop 1 pubkey\<rparr> else rpcIn)"

definition VerifyMessage ::
  "signerClient \<Rightarrow> (signer_req, rpcVerifyMessageReq, bool) server \<Rightarrow> ctx \<Rightarrow> bytes \<Rightarrow> bytes \<Rightarrow> bytes
     \<Rightarrow> VerifyMessageOption list \<Rightarrow> (signer_req, bool) io" where
  "VerifyMessage s srv c msg sig pubkey opts =
     rpc srv SignerVerifyMessageReq (signer_ctx s c) (verify_request msg sig pubkey opts)"

definition DeriveSharedKey ::
  "signerClient \<Rightarrow> ('tx, 'pub, 'priv) signer_fns
     \<Rightarrow> (signer_req, bytes \<times> rpcKeyLocator option, bytes) server \<Rightarrow> ctx \<Rightarrow> 'pub option
     \<Rightarrow> KeyLocator option \<Rightarrow> (signer_req, bytes) io" where
  "DeriveSharedKey s fns srv c ephemeralPubKey keyLocator =
     io_bind (io_lift (deref ephemeralPubKey)) (\<lambda>ephemeralPubKey.
     io_bind (rpc srv (\<lambda>(p, l). DeriveSharedKeyReq p l) (signer_ctx s c)
       (sf_SerializeCompressed fns ephemeralPubKey, map_option key_locator keyLocator))
       (\<lambda>sharedKey. io_ret (copy_array 32 sharedKey)))"

section \<open>MuSig2\<close>

definition PubNonceSize :: nat where "PubNonceSize = 66"

text \<open>Nonces are arrays, so turning them into slices keeps them.\<close>

definition noncesToBytes :: "bytes list \<Rightarrow> bytes list" where
  "noncesToBytes nonces = map (\<lambda>n. n) nonces"

datatype MuSig2SessionOpts =
    MuSig2NonceOpt "bytes list"
  | MuSig2TaprootTweakOpt bytes bool
  | MuSig2LocalNonceOpt bytes

fun session_option :: "rpcMuSig2SessionRequest \<Rightarrow> MuSig2SessionOpts \<Rightarrow> rpcMuSig2SessionRequest" where
  "session_option s (MuSig2NonceOpt nonces) =
     s\<lparr>rms_OtherSignerPublicNonces := noncesToBytes nonces\<rparr>"
| "session_option s (MuSig2TaprootTweakOpt scriptRoot keySpendOnly) =
     s\<lparr>rms_TaprootTweak := Some (scriptRoot, keySpendOnly)\<rparr>"
| "session_option s (MuSig2LocalNonceOpt nonce) = s\<lparr>rms_PregeneratedLocalNonce := nonce\<rparr>"

datatype MuSig2Version = MuSig2Version040 | MuSig2Version100RC2 | MuSig2Version_other u8

fun marshallMuSig2Version :: "MuSig2Version \<Rightarrow> rpcMuSig2Version go" where
  "marshallMuSig2Version MuSig2Version040 = Ok MUSIG2_VERSION_V040"
| "marshallMuSig2Version MuSig2Version100RC2 = Ok MUSIG2_VERSION_V100RC2"
| "marshallMuSig2Version (MuSig2Version_other n) = Err (NewErr ''invalid MuSig2 version'')"

record rpcMuSig2SessionResponse =
  rmr_SessionId :: bytes
  rmr_CombinedKey :: bytes
  rmr_LocalPublicNonces :: bytes
  rmr_HaveAllNonces :: bool

record 'pub MuSig2SessionInfo =
  msi_SessionID :: bytes
  msi_PublicNonce :: bytes
  msi_CombinedKey :: 'pub
  msi_HaveAllNonces :: bool

definition session_request ::
  "MuSig2Version \<Rightarrow> KeyLocator option \<Rightarrow> bytes list \<Rightarrow> MuSig2SessionOpts list
     \<Rightarrow> rpcMuSig2SessionRequest go" where
  "session_request version signerLoc signers opts =
     go_bind (marshallMuSig2Version version) (\<lambda>rpcMuSig2Version.
     go_bind (deref signerLoc) (\<lambda>signerLoc.
       Ok (foldl session_option
         \<lparr>rms_KeyLoc = key_locator signerLoc, rms_AllSignerPubkeys = signers,
          rms_Version = rpcMuSig2Version, rms_OtherSignerPublicNonces = [],
          rms_TaprootTweak = None, rms_PregeneratedLocalNonce = []\<rparr> opts)))"

definition session_info ::
  "('tx, 'pub, 'priv) signer_fns \<Rightarrow> rpcMuSig2SessionResponse \<Rightarrow> 'pub MuSig2SessionInfo go" where
  "session_info fns resp =
     go_bind (go_wrap (FmtErr ''could not parse combined key: '')
                (sf_ParseSchnorr fns (rmr_CombinedKey resp))) (\<lambda>combinedKey.
       if length (rmr_LocalPublicNonces resp) \<noteq> PubNonceSize
       then Err (FmtVal ''unexpected local nonce size: ''
              (show_nat (length (rmr_LocalPublicNonces resp))))
       else if length (rmr_SessionId resp) \<noteq> 32
       then Err (FmtVal ''unexpected session ID length: '' (show_nat (length (rmr_SessionId resp))))
       else Ok \<lparr>msi_SessionID = copy_array 32 (rmr_SessionId resp),
                msi_PublicNonce = copy_array PubNonceSize (rmr_LocalPublicNonces resp),
                msi_CombinedKey = combinedKey,
                msi_HaveAllNonces = rmr_HaveAllNonces resp\<rparr>)"

definition MuSig2CreateSession ::
  "signerClient \<Rightarrow> ('tx, 'pub, 'priv) signer_fns
     \<Rightarrow> (signer_req, rpcMuSig2SessionRequest, rpcMuSig2SessionResponse) server \<Rightarrow> ctx
     \<Rightarrow> MuSig2Version \<Rightarrow> KeyLocator option \<Rightarrow> bytes list \<Rightarrow> MuSig2SessionOpts list
     \<Rightarrow> (signer_req, 'pub MuSig2SessionInfo) io" where
  "MuSig2CreateSession s fns srv c version signerLoc signers opts =
     io_bind (io_lift (session_request version signerLoc signers opts)) (\<lambda>req.
     io_bind (rpc srv MuSig2CreateSessionReq (signer_ctx s c) req) (\<lambda>resp.
       io_lift (session_info fns resp)))"

definition MuSig2RegisterNonces ::
  "signerClient \<Rightarrow> (signer_req, bytes \<times> bytes list, bool) server \<Rightarrow> ctx \<Rightarrow> bytes \<Rightarrow> bytes list
     \<Rightarrow> (signer_req, bool) io" where
  "MuSig2RegisterNonces s srv c sessionID nonces =
     rpc srv (\<lambda>(i, n). MuSig2RegisterNoncesReq i n) (signer_ctx s c) (sessionID, noncesToBytes nonces)"

definition MuSig2Sign ::
  "signerClient \<Rightarrow> (signer_req, bytes \<times> bytes \<times> bool, bytes) server \<Rightarrow> ctx \<Rightarrow> bytes \<Rightarrow> bytes \<Rightarrow> bool
     \<Rightarrow> (signer_req, bytes) io" where
  "MuSig2Sign s srv c sessionID message cleanup =
     rpc srv (\<lambda>(i, m, f). MuSig2SignReq i m f) (signer_ctx s c) (sessionID, message, cleanup)"

definition MuSig2CombineSig ::
  "signerClient \<Rightarrow> (signer_req, bytes \<times> bytes list, bool \<times> bytes) server \<Rightarrow> ctx \<Rightarrow> bytes
     \<Rightarrow> bytes list \<Rightarrow> (signer_req, bool \<times> bytes) io" where
  "MuSig2CombineSig s srv c sessionID otherPartialSigs =
     rpc srv (\<lambda>(i, p). MuSig2CombineSigReq i p) (signer_ctx s c) (sessionID, otherPartialSigs)"

definition MuSig2Cleanup ::
  "signerClient \<Rightarrow> (signer_req, bytes, unit) server \<Rightarrow> ctx \<Rightarrow> bytes \<Rightarrow> (signer_req, unit) io" where
  "MuSig2Cleanup s srv c sessionID = rpc srv MuSig2CleanupReq (signer_ctx s c) sessionID"

definition MuSig2RegisterCombinedNonce ::
  "signerClient \<Rightarrow> (signer_req, bytes \<times> bytes, unit) server \<Rightarrow> ctx \<Rightarrow> bytes \<Rightarrow> bytes
     \<Rightarrow> (signer_req, unit) io" where
  "MuSig2RegisterCombinedNonce s srv c sessionID combinedNonce =
     rpc srv (\<lambda>(i, n). MuSig2RegisterCombinedNonceReq i n) (signer_ctx s c) (sessionID, combinedNonce)"

definition combined_nonce :: "bytes \<Rightarrow> bytes go" where
  "combined_nonce nonce =
     (if length nonce \<noteq> 66
      then Err (FmtVal ''unexpected combined nonce size: '' (show_nat (length nonce)))
      else Ok (copy_array 66 nonce))"

definition MuSig2GetCombinedNonce ::
  "signerClient \<Rightarrow> (signer_req, bytes, bytes) server \<Rightarrow> ctx \<Rightarrow> bytes \<Rightarrow> (signer_req, bytes) io" where
  "MuSig2GetCombinedNonce s srv c sessionID =
     io_bind (rpc srv MuSig2GetCombinedNonceReq (signer_ctx s c) sessionID) (\<lambda>nonce.
       io_lift (combined_nonce nonce))"

section \<open>Facts\<close>

abbreviation signer_ok :: "signerClient \<Rightarrow> ctx \<Rightarrow> ctx \<Rightarrow> signer_req \<Rightarrow> bool" where
  "signer_ok s c c' q \<equiv> authed (signer_mac s) c c' \<and> bounded (signer_timeout s) c'"

lemma signer_ctx_ok [simp]:
  "authed (signer_mac s) c (signer_ctx s c)" "bounded (signer_timeout s) (signer_ctx s c)"
  by (simp_all add: signer_ctx_def)

lemma signer_calls:
  "calls_ok (signer_ok s c) (SignOutputRaw s fns s1 c tx ds outs)"
  "calls_ok (signer_ok s c) (SignOutputRawKeyLocator s fns s1 c tx ds outs)"
  "calls_ok (signer_ok s c) (ComputeInputScript s fns s2 c tx ds outs)"
  "calls_ok (signer_ok s c) (SignMessage s s3 c msg loc sopts)"
  "calls_ok (signer_ok s c) (VerifyMessage s s4 c msg sig pub vopts)"
  "calls_ok (signer_ok s c) (DeriveSharedKey s fns s5 c eph kloc)"
  by (auto simp: SignOutputRaw_def SignOutputRawKeyLocator_def signOutputRaw_def ComputeInputScript_def
      SignMessage_def VerifyMessage_def DeriveSharedKey_def intro!: rpc_intros)

lemma musig_calls:
  "calls_ok (signer_ok s c) (MuSig2CreateSession s fns s6 c ver sloc signers mopts)"
  "calls_ok (signer_ok s c) (MuSig2RegisterNonces s s7 c sid nonces)"
  "calls_ok (signer_ok s c) (MuSig2Sign s s8 c sid digest cleanup)"
  "calls_ok (signer_ok s c) (MuSig2CombineSig s s9 c sid sigs)"
  "calls_ok (signer_ok s c) (MuSig2Cleanup s s10 c sid)"
  "calls_ok (signer_ok s c) (MuSig2RegisterCombinedNonce s s11 c sid nonce)"
  "calls_ok (signer_ok s c) (MuSig2GetCombinedNonce s s12 c sid)"
  by (auto simp: MuSig2CreateSession_def MuSig2RegisterNonces_def MuSig2Sign_def MuSig2CombineSig_def
      MuSig2Cleanup_def MuSig2RegisterCombinedNonce_def MuSig2GetCombinedNonce_def
      intro!: rpc_intros)

text \<open>Which identification of the key the signer is sent.\<close>

lemma partialDescriptor_one:
  "(rkd_KeyLoc (partialDescriptor ser d) = None) = (kd_PubKey d \<noteq> None)"
  "kd_PubKey d = Some pub \<Longrightarrow> rkd_RawKeyBytes (partialDescriptor ser d) = ser pub"
  by (auto simp: partialDescriptor_def split: option.splits)

lemma fullDescriptor_parts:
  "rkd_KeyLoc (fullDescriptor ser d) = (if kd_Locator d = \<lparr>loc_Family = 0, loc_Index = 0\<rparr> then None
     else Some (key_locator (kd_Locator d)))"
  "kd_PubKey d = Some pub \<Longrightarrow> rkd_RawKeyBytes (fullDescriptor ser d) = ser pub"
  by (auto simp: fullDescriptor_def)

lemma key_locator_inj: "key_locator k = key_locator l \<Longrightarrow> k = l"
  by (simp add: key_locator_def)

section \<open>Main theorems\<close>

text \<open>How a request names a key: without its public key it is the locator alone; otherwise the full
  form adds a locator that is not zero to the public key.\<close>

definition names_key :: "('pub \<Rightarrow> bytes) \<Rightarrow> bool \<Rightarrow> 'pub KeyDescriptor \<Rightarrow> rpcKeyDescriptor \<Rightarrow> bool" where
  "names_key ser full d k \<longleftrightarrow>
     rkd_RawKeyBytes k = (case kd_PubKey d of Some pub \<Rightarrow> ser pub | None \<Rightarrow> [])
     \<and> (rkd_KeyLoc k = None \<or> rkd_KeyLoc k = Some \<lparr>rkl_KeyFamily = loc_Family (kd_Locator d),
            rkl_KeyIndex = loc_Index (kd_Locator d)\<rparr>)
     \<and> (rkd_KeyLoc k \<noteq> None \<longleftrightarrow>
          (if full then kd_Locator d \<noteq> \<lparr>loc_Family = 0, loc_Index = 0\<rparr> else kd_PubKey d = None))"

lemma descriptor_names_key:
  "names_key ser True d (fullDescriptor ser d)" "names_key ser False d (partialDescriptor ser d)"
  by (cases d; cases "kd_Locator d";
      auto simp: names_key_def fullDescriptor_def partialDescriptor_def key_locator_def split: option.split)+

text \<open>lnd's name of a sign method; a method the library does not know is sent as the default one.\<close>

definition names_method :: "SignMethod \<Rightarrow> rpcSignMethod \<Rightarrow> bool" where
  "names_method m r \<longleftrightarrow> (m, r) \<in> {(WitnessV0SignMethod, SIGN_METHOD_WITNESS_V0),
       (TaprootKeySpendBIP0086SignMethod, SIGN_METHOD_TAPROOT_KEY_SPEND_BIP0086),
       (TaprootKeySpendSignMethod, SIGN_METHOD_TAPROOT_KEY_SPEND),
       (TaprootScriptSpendSignMethod, SIGN_METHOD_TAPROOT_SCRIPT_SPEND)}
     \<or> (\<exists>n. m = SignMethod_other n \<and> r = SIGN_METHOD_WITNESS_V0)"

definition same_output :: "TxOut option \<Rightarrow> rpcTxOut \<Rightarrow> bool" where
  "same_output d r \<longleftrightarrow>
     (\<exists>out. d = Some out \<and> rto_PkScript r = txo_PkScript out \<and> rto_Value r = txo_Value out)"

definition describes ::
  "('tx, 'pub, 'priv) signer_fns \<Rightarrow> bool \<Rightarrow> ('pub, 'priv) SignDescriptor option \<Rightarrow> rpcSignDescriptor
     \<Rightarrow> bool" where
  "describes fns full d r \<longleftrightarrow> (\<exists>sd. d = Some sd
     \<and> names_key (sf_SerializeCompressed fns) full (sd_KeyDesc sd) (rsd_KeyDesc r)
     \<and> same_output (sd_Output sd) (rsd_Output r)
     \<and> rsd_WitnessScript r = sd_WitnessScript sd \<and> rsd_SingleTweak r = sd_SingleTweak sd
     \<and> rsd_DoubleTweak r = (case sd_DoubleTweak sd of None \<Rightarrow> [] | Some k \<Rightarrow> sf_SerializePriv fns k)
     \<and> rsd_TapTweak r = sd_TapTweak sd \<and> rsd_Sighash r = sd_HashType sd
     \<and> rsd_InputIndex r = ucast (sd_InputIndex sd)
     \<and> names_method (sd_SignMethod sd) (rsd_SignMethod r))"

lemma MarshalSignMethod_names: "names_method m (MarshalSignMethod m)"
  by (cases m) (auto simp: names_method_def)

lemma sign_descriptor_describes:
  assumes "sign_descriptor fns full d = Ok r"
  shows "describes fns full d r"
proof -
  from assms obtain sd out where sd: "d = Some sd" "sd_Output sd = Some out"
    by (auto simp: sign_descriptor_def Let_def deref_def split: option.splits)
  with assms have r: "r = \<lparr>rsd_KeyDesc = (if full
         then fullDescriptor (sf_SerializeCompressed fns) (sd_KeyDesc sd)
         else partialDescriptor (sf_SerializeCompressed fns) (sd_KeyDesc sd)),
       rsd_SingleTweak = sd_SingleTweak sd,
       rsd_DoubleTweak = (case sd_DoubleTweak sd of None \<Rightarrow> [] | Some k \<Rightarrow> sf_SerializePriv fns k),
       rsd_TapTweak = sd_TapTweak sd, rsd_WitnessScript = sd_WitnessScript sd,
       rsd_SignMethod = MarshalSignMethod (sd_SignMethod sd),
       rsd_Output = \<lparr>rto_PkScript = txo_PkScript out, rto_Value = txo_Value out\<rparr>,
       rsd_Sighash = sd_HashType sd, rsd_InputIndex = ucast (sd_InputIndex sd)\<rparr>"
    by (simp add: sign_descriptor_def Let_def deref_def)
  show ?thesis
    unfolding describes_def
    by (rule exI [of _ sd])
      (simp add: sd same_output_def r descriptor_names_key MarshalSignMethod_names)
qed

lemma marshallTxOut_same: "marshallTxOut outs = Ok rs \<Longrightarrow> list_all2 same_output outs rs"
  unfolding marshallTxOut_def go_map_Ok_iff
  by (auto elim!: list_all2_mono simp: same_output_def deref_def split: option.splits)

text \<open>C8: a signature is asked for in one call, authenticated and bounded, that carries the encoded
  transaction, the given previous outputs and one descriptor per given descriptor, in order, with its
  output, script, single, double and taproot tweak, hash type, input index and sign method.
  \<open>SignOutputRaw\<close> names each key in one way, by its public key when there is one and by its locator
  otherwise; \<open>SignOutputRawKeyLocator\<close> sends the public key and, unless it is zero, the locator. A
  transaction that does not encode asks for nothing.\<close>

theorem SignOutputRaw_request:
  "let sign = (if full then SignOutputRawKeyLocator s fns srv c tx descs prevOutputs
      else SignOutputRaw s fns srv c tx descs prevOutputs);
      rpcCtx = WithMacaroonAuth (signer_mac s) (TimeoutCtx c (signer_timeout s))
   in (sign h = (Ok sigs, h') \<longrightarrow> (\<exists>req. h' = h @ [(rpcCtx, SignOutputRawReq req)]
         \<and> srv h rpcCtx req = Ok sigs
         \<and> sf_BtcEncode fns tx = Ok (rsr_RawTxBytes req)
         \<and> list_all2 (describes fns full) descs (rsr_SignDescs req)
         \<and> list_all2 same_output prevOutputs (rsr_PrevOutputs req)))
     \<and> (\<not> is_ok (sf_BtcEncode fns tx) \<longrightarrow> \<not> is_ok (fst (sign h)) \<and> snd (sign h) = h)"
proof -
  let ?sign = "signOutputRaw s fns srv c tx descs prevOutputs full"
  have sign: "(if full then SignOutputRawKeyLocator s fns srv c tx descs prevOutputs
      else SignOutputRaw s fns srv c tx descs prevOutputs) = ?sign"
    by (simp add: SignOutputRaw_def SignOutputRawKeyLocator_def)
  show ?thesis
    unfolding Let_def sign signer_ctx_def [symmetric]
  proof (intro conjI impI)
    assume "?sign h = (Ok sigs, h')"
    then obtain req where req: "sign_request fns tx descs prevOutputs full = Ok req"
      "srv h (signer_ctx s c) req = Ok sigs" "h' = h @ [(signer_ctx s c, SignOutputRawReq req)]"
      unfolding signOutputRaw_def by (elim io_bind_OkE) (auto simp: io_eval)
    from req(1) have "sf_BtcEncode fns tx = Ok (rsr_RawTxBytes req)"
      "go_map (sign_descriptor fns full) descs = Ok (rsr_SignDescs req)"
      "list_all2 same_output prevOutputs (rsr_PrevOutputs req)"
      by (auto simp: sign_request_def encodeTx_def marshallSignDescriptors_def
          dest: marshallTxOut_same)
    with req show "\<exists>req. h' = h @ [(signer_ctx s c, SignOutputRawReq req)]
         \<and> srv h (signer_ctx s c) req = Ok sigs \<and> sf_BtcEncode fns tx = Ok (rsr_RawTxBytes req)
         \<and> list_all2 (describes fns full) descs (rsr_SignDescs req)
         \<and> list_all2 same_output prevOutputs (rsr_PrevOutputs req)"
      unfolding go_map_Ok_iff by (auto elim!: list_all2_mono dest: sign_descriptor_describes)
  next
    assume "\<not> is_ok (sf_BtcEncode fns tx)"
    then show "\<not> is_ok (fst (?sign h))" "snd (?sign h) = h"
      unfolding signOutputRaw_def sign_request_def encodeTx_def
      by (cases "sf_BtcEncode fns tx"; simp add: io_bind_def io_lift_def)+
  qed
qed

text \<open>C27: a MuSig2 session the client reports has a 32 byte id and a 66 byte public nonce, both lnd's
  own and not cut or padded, and a combined key that parsed; a combined nonce it reports has 66
  bytes. A session with an unknown version is refused without a call.\<close>

theorem MuSig2_sizes:
  "(MuSig2CreateSession s fns srv c version loc signers opts h = (Ok info, h') \<longrightarrow>
       length (msi_SessionID info) = 32 \<and> length (msi_PublicNonce info) = 66
       \<and> (\<exists>req resp. h' = h @ [(signer_ctx s c, MuSig2CreateSessionReq req)]
            \<and> srv h (signer_ctx s c) req = Ok resp
            \<and> msi_SessionID info = rmr_SessionId resp
            \<and> msi_PublicNonce info = rmr_LocalPublicNonces resp
            \<and> sf_ParseSchnorr fns (rmr_CombinedKey resp) = Ok (msi_CombinedKey info)))
   \<and> (MuSig2GetCombinedNonce s nsrv c sid h = (Ok nonce, h'') \<longrightarrow>
       length nonce = 66 \<and> nsrv h (signer_ctx s c) sid = Ok nonce)
   \<and> (\<exists>e. MuSig2CreateSession s fns srv c (MuSig2Version_other n) loc signers opts h = (Err e, h))"
proof (intro conjI impI)
  assume "MuSig2CreateSession s fns srv c version loc signers opts h = (Ok info, h')"
  then obtain req resp where req: "srv h (signer_ctx s c) req = Ok resp"
    "h' = h @ [(signer_ctx s c, MuSig2CreateSessionReq req)]" "session_info fns resp = Ok info"
    unfolding MuSig2CreateSession_def by (elim io_bind_OkE) (auto simp: io_eval)
  from req(3) have "length (rmr_SessionId resp) = 32" "length (rmr_LocalPublicNonces resp) = 66"
    "msi_SessionID info = rmr_SessionId resp" "msi_PublicNonce info = rmr_LocalPublicNonces resp"
    "sf_ParseSchnorr fns (rmr_CombinedKey resp) = Ok (msi_CombinedKey info)"
    by (auto simp: session_info_def PubNonceSize_def split: if_splits)
  with req show "length (msi_SessionID info) = 32" "length (msi_PublicNonce info) = 66"
    "\<exists>req resp. h' = h @ [(signer_ctx s c, MuSig2CreateSessionReq req)]
        \<and> srv h (signer_ctx s c) req = Ok resp \<and> msi_SessionID info = rmr_SessionId resp
        \<and> msi_PublicNonce info = rmr_LocalPublicNonces resp
        \<and> sf_ParseSchnorr fns (rmr_CombinedKey resp) = Ok (msi_CombinedKey info)"
    by auto
next
  assume "MuSig2GetCombinedNonce s nsrv c sid h = (Ok nonce, h'')"
  then show "length nonce = 66" "nsrv h (signer_ctx s c) sid = Ok nonce"
    unfolding MuSig2GetCombinedNonce_def
    by (elim io_bind_OkE; auto simp: io_eval combined_nonce_def split: if_splits)+
next
  show "\<exists>e. MuSig2CreateSession s fns srv c (MuSig2Version_other n) loc signers opts h = (Err e, h)"
    by (simp add: MuSig2CreateSession_def session_request_def go_simps)
qed

text \<open>Nothing is asserted of concrete keys in the witnesses: they are their own serialisations.\<close>

definition example_signer_fns :: "(bytes, bytes, bytes) signer_fns" where
  "example_signer_fns = \<lparr>sf_BtcEncode = Ok, sf_SerializeCompressed = id, sf_SerializePriv = id,
     sf_ParseSchnorr = Ok\<rparr>"

definition example_sign_desc :: "(bytes, bytes) SignDescriptor" where
  "example_sign_desc = \<lparr>sd_KeyDesc = \<lparr>kd_Locator = \<lparr>loc_Family = 1, loc_Index = 2\<rparr>, kd_PubKey = Some [3]\<rparr>,
     sd_SingleTweak = [], sd_DoubleTweak = Some [4, 4], sd_TapTweak = [], sd_WitnessScript = [9],
     sd_SignMethod = WitnessV0SignMethod, sd_Output = Some \<lparr>txo_PkScript = [5], txo_Value = 7\<rparr>,
     sd_HashType = 1, sd_InputIndex = 0\<rparr>"

theorem SignOutputRaw_request_witness:
  "\<exists>h' req. SignOutputRaw (newSignerClient ''ab'' 7) example_signer_fns (\<lambda>_ _ _. Ok [[1]]) BackgroundCtx [8]
       [Some example_sign_desc] [] [] = (Ok [[1]], h')
     \<and> h' = [(signer_ctx (newSignerClient ''ab'' 7) BackgroundCtx, SignOutputRawReq req)]
     \<and> list_all2 (describes example_signer_fns False) [Some example_sign_desc] (rsr_SignDescs req)
     \<and> map rsd_DoubleTweak (rsr_SignDescs req) = [[4, 4]]"
proof -
  let ?s = "newSignerClient ''ab'' 7" and ?srv = "\<lambda>_ _ _. Ok [[1 :: byte]]"
  let ?run = "SignOutputRaw ?s example_signer_fns ?srv BackgroundCtx [8] [Some example_sign_desc] []"
  have "\<exists>h'. ?run [] = (Ok [[1]], h')"
    by (simp add: SignOutputRaw_def signOutputRaw_def sign_request_def encodeTx_def
        example_signer_fns_def marshallSignDescriptors_def marshallTxOut_def sign_descriptor_def
        example_sign_desc_def deref_def Let_def go_simps)
  then obtain h' where run: "?run [] = (Ok [[1]], h')" by blast
  with SignOutputRaw_request [of False ?s example_signer_fns ?srv BackgroundCtx "[8]"
      "[Some example_sign_desc]" "[]" "[]" "[[1]]" h']
  show ?thesis
    by (auto simp: Let_def signer_ctx_def list_all2_Cons1 describes_def example_sign_desc_def
        example_signer_fns_def)
qed

theorem MuSig2_sizes_witness:
  "let resp = \<lparr>rmr_SessionId = replicate 32 1, rmr_CombinedKey = [2],
         rmr_LocalPublicNonces = replicate 66 3, rmr_HaveAllNonces = False\<rparr>;
       run = MuSig2CreateSession (newSignerClient ''ab'' 7) example_signer_fns (\<lambda>_ _ _. Ok resp)
         BackgroundCtx MuSig2Version100RC2 (Some \<lparr>loc_Family = 1, loc_Index = 2\<rparr>) [[4], [5]] [] []
   in \<exists>info h'. run = (Ok info, h') \<and> length (msi_SessionID info) = 32
        \<and> msi_PublicNonce info = replicate 66 3"
proof -
  let ?resp = "\<lparr>rmr_SessionId = replicate 32 1, rmr_CombinedKey = [2],
         rmr_LocalPublicNonces = replicate 66 3, rmr_HaveAllNonces = False\<rparr>"
  let ?run = "MuSig2CreateSession (newSignerClient ''ab'' 7) example_signer_fns (\<lambda>_ _ _. Ok ?resp)
         BackgroundCtx MuSig2Version100RC2 (Some \<lparr>loc_Family = 1, loc_Index = 2\<rparr>) [[4], [5]] [] []"
  obtain info h' where run: "?run = (Ok info, h')"
    by (simp add: MuSig2CreateSession_def session_request_def session_info_def PubNonceSize_def
        example_signer_fns_def deref_def go_simps)
  with MuSig2_sizes [of "newSignerClient ''ab'' 7" example_signer_fns "\<lambda>_ _ _. Ok ?resp"
      BackgroundCtx MuSig2Version100RC2 "Some \<lparr>loc_Family = 1, loc_Index = 2\<rparr>" "[[4], [5]]" "[]" "[]" info h'
      "\<lambda>_ _ _. Ok []" "[]" "[]" "[]" 0]
  show ?thesis by (auto simp: Let_def)
qed

end
