(* ===== verification/WalletKit.thy ===== *)
theory WalletKit
  imports Signer LightningTypes Network
begin

text \<open>
  \<open>walletkit_client.go\<close>: outputs and leases, keys and addresses, transactions and packages, fees and
  sweeps, PSBTs and imports.

  The codecs and parsers of other modules are fields of \<open>wallet_fns\<close>; \<open>wf_DecodeAddress\<close> is the
  parser of addresses for the chain of the client or, without parameters, for none. A nil pointer
  of a message or of the caller is None. Maps are lists of their entries in the order a run visits
  them.
\<close>

record ('tx, 'pub, 'addr, 'psbt) wallet_fns =
  wf_NewHash :: "bytes \<Rightarrow> bytes go"
  wf_NewHashFromStr :: "string \<Rightarrow> bytes go"
  wf_HashString :: "bytes \<Rightarrow> string"
  wf_ParsePubKey :: "bytes \<Rightarrow> 'pub go"
  wf_SerializeCompressed :: "'pub \<Rightarrow> bytes"
  wf_SerializeSchnorr :: "'pub \<Rightarrow> bytes"
  wf_DecodeAddress :: "string \<Rightarrow> 'addr go"
  wf_DecodeAddressNoChain :: "string \<Rightarrow> 'addr go"
  wf_BtcEncode :: "'tx \<Rightarrow> bytes go"
  wf_BtcDecode :: "bytes \<Rightarrow> 'tx go"
  wf_TxSerialize :: "'tx \<Rightarrow> bytes go"
  wf_TxDeserialize :: "bytes \<Rightarrow> 'tx go"
  wf_PsbtSerialize :: "'psbt \<Rightarrow> bytes go"
  wf_PsbtParse :: "bytes \<Rightarrow> 'psbt go"
  wf_FeePerVByte :: "i64 \<Rightarrow> i64"
  wf_float_u64 :: "int \<Rightarrow> u64"   \<comment> \<open>\<open>uint64\<close> of a negative \<open>float64\<close>, which Go leaves open\<close>

section \<open>Requests\<close>

record rpcOutPoint =
  rop_TxidBytes :: bytes
  rop_OutputIndex :: u32

definition rpc_outpoint :: "OutPoint \<Rightarrow> rpcOutPoint" where
  "rpc_outpoint op = \<lparr>rop_TxidBytes = op_Hash op, rop_OutputIndex = op_Index op\<rparr>"

record rpcListUnspentRequest =
  rlu_MinConfs :: i32
  rlu_MaxConfs :: i32
  rlu_Account :: string
  rlu_UnconfirmedOnly :: bool

record rpcLeaseOutputRequest =
  rlo_Id :: bytes
  rlo_Outpoint :: rpcOutPoint
  rlo_ExpirationSeconds :: u64

record rpcSendOutputsRequest =
  rso_Outputs :: "rpcTxOut list"
  rso_SatPerKw :: i64
  rso_Label :: string

record rpcBumpFeeRequest =
  rbf_Outpoint :: rpcOutPoint
  rbf_SatPerVbyte :: u64
  rbf_Immediate :: bool
  rbf_TargetConf :: u32
  rbf_Budget :: u64

datatype rpcAddressType =
    WITNESS_PUBKEY_HASH | NESTED_WITNESS_PUBKEY_HASH | TAPROOT_PUBKEY | AddressType_other i32

datatype rpcTapscript =
    ImportFullTree "(u32 \<times> bytes) list"
  | ImportPartialReveal "u32 \<times> bytes" bytes
  | ImportRootHashOnly bytes
  | ImportFullKeyOnly bool

datatype (plugins only: size) wallet_req =
    ListUnspentReq rpcListUnspentRequest
  | LeaseOutputReq rpcLeaseOutputRequest
  | ListLeasesReq
  | ReleaseOutputReq bytes rpcOutPoint
  | DeriveNextKeyReq i32
  | DeriveKeyReq rpcKeyLocator
  | NextAddrReq string rpcAddressType bool
  | GetTransactionReq string
  | RemoveTransactionReq string
  | PublishTransactionReq bytes string
  | SubmitPackageReq "bytes list" "u64 option"
  | SendOutputsReq rpcSendOutputsRequest
  | WalletEstimateFeeReq i32
  | ListSweepsReq bool i32
  | BumpFeeReq rpcBumpFeeRequest
  | ListAccountsReq string rpcAddressType
  | FundPsbtReq bytes
  | SignPsbtReq bytes
  | FinalizePsbtReq bytes string
  | ImportPublicKeyReq bytes rpcAddressType
  | ImportTapscriptReq bytes rpcTapscript

type_synonym ('q, 'r) wk_srv = "(wallet_req, 'q, 'r) server"

record walletKitClient =
  walletkit_mac :: serializedMacaroon
  walletkit_timeout :: i64
  walletkit_params :: chain_params

definition newWalletKitClient :: "serializedMacaroon \<Rightarrow> i64 \<Rightarrow> chain_params \<Rightarrow> walletKitClient" where
  "newWalletKitClient walletKitMac timeout chainParams =
     \<lparr>walletkit_mac = walletKitMac, walletkit_timeout = timeout, walletkit_params = chainParams\<rparr>"

definition walletkit_RawClientWithMacAuth :: "walletKitClient \<Rightarrow> ctx \<Rightarrow> ctx \<times> i64" where
  "walletkit_RawClientWithMacAuth m parentCtx =
     (WithMacaroonAuth (walletkit_mac m) parentCtx, walletkit_timeout m)"

text \<open>Every method of the file derives its context in this way.\<close>

definition walletkit_ctx :: "walletKitClient \<Rightarrow> ctx \<Rightarrow> ctx" where
  "walletkit_ctx m c = WithMacaroonAuth (walletkit_mac m) (TimeoutCtx c (walletkit_timeout m))"

section \<open>Outputs and leases\<close>

datatype lnAddressType = WitnessPubKey | NestedWitnessPubKey | TaprootPubkey | lnAddressType_other u8

datatype rpcUtxoAddressType =
    AddressType_WITNESS_PUBKEY_HASH | AddressType_NESTED_PUBKEY_HASH | AddressType_TAPROOT_PUBKEY
  | UtxoAddressType_other i32

record rpcUtxo =
  ru_AddressType :: rpcUtxoAddressType
  ru_AmountSat :: i64
  ru_PkScript :: string
  ru_Outpoint :: "rpcOutPoint option"
  ru_Confirmations :: i64

record Utxo =
  ut_AddressType :: lnAddressType
  ut_Value :: i64
  ut_Confirmations :: i64
  ut_PkScript :: bytes
  ut_OutPoint :: OutPoint

datatype ListUnspentOption = WithUnspentAccount string | WithUnspentUnconfirmedOnly

fun unspent_option :: "rpcListUnspentRequest \<Rightarrow> ListUnspentOption \<Rightarrow> rpcListUnspentRequest" where
  "unspent_option r (WithUnspentAccount account) = r\<lparr>rlu_Account := account\<rparr>"
| "unspent_option r WithUnspentUnconfirmedOnly = r\<lparr>rlu_UnconfirmedOnly := True\<rparr>"

fun utxo_address_type :: "rpcUtxoAddressType \<Rightarrow> lnAddressType go" where
  "utxo_address_type AddressType_WITNESS_PUBKEY_HASH = Ok WitnessPubKey"
| "utxo_address_type AddressType_NESTED_PUBKEY_HASH = Ok NestedWitnessPubKey"
| "utxo_address_type AddressType_TAPROOT_PUBKEY = Ok TaprootPubkey"
| "utxo_address_type (UtxoAddressType_other n) =
     Err (FmtVal ''invalid utxo address type '' (show_int (sint n)))"

definition unspent_utxo :: "('tx, 'pub, 'addr, 'psbt) wallet_fns \<Rightarrow> rpcUtxo \<Rightarrow> Utxo go" where
  "unspent_utxo fns utxo =
     go_bind (utxo_address_type (ru_AddressType utxo)) (\<lambda>addrType.
     go_bind (hex_decode (ru_PkScript utxo)) (\<lambda>pkScript.
     go_bind (deref (ru_Outpoint utxo)) (\<lambda>outpoint.
     go_bind (wf_NewHash fns (rop_TxidBytes outpoint)) (\<lambda>opHash.
       Ok \<lparr>ut_AddressType = addrType, ut_Value = ru_AmountSat utxo,
           ut_Confirmations = ru_Confirmations utxo, ut_PkScript = pkScript,
           ut_OutPoint = \<lparr>op_Hash = opHash, op_Index = rop_OutputIndex outpoint\<rparr>\<rparr>))))"

definition ListUnspent ::
  "walletKitClient \<Rightarrow> ('tx, 'pub, 'addr, 'psbt) wallet_fns \<Rightarrow> (rpcListUnspentRequest, rpcUtxo list) wk_srv
     \<Rightarrow> ctx \<Rightarrow> i32 \<Rightarrow> i32 \<Rightarrow> ListUnspentOption list \<Rightarrow> (wallet_req, Utxo list) io" where
  "ListUnspent m fns srv c minConfs maxConfs opts =
     io_bind (rpc srv ListUnspentReq (walletkit_ctx m c)
       (foldl unspent_option \<lparr>rlu_MinConfs = minConfs, rlu_MaxConfs = maxConfs, rlu_Account = [],
          rlu_UnconfirmedOnly = False\<rparr> opts)) (\<lambda>utxos.
       io_lift (go_map (unspent_utxo fns) utxos))"

text \<open>\<open>uint64(leaseTime.Seconds())\<close>.\<close>

definition lease_seconds :: "('tx, 'pub, 'addr, 'psbt) wallet_fns \<Rightarrow> i64 \<Rightarrow> u64" where
  "lease_seconds fns leaseTime = (let t = Seconds_trunc leaseTime
     in if t < 0 then wf_float_u64 fns t else word_of_int t)"

definition LeaseOutput ::
  "walletKitClient \<Rightarrow> ('tx, 'pub, 'addr, 'psbt) wallet_fns \<Rightarrow> (rpcLeaseOutputRequest, u64) wk_srv
     \<Rightarrow> ctx \<Rightarrow> bytes \<Rightarrow> OutPoint \<Rightarrow> i64 \<Rightarrow> (wallet_req, gotime) io" where
  "LeaseOutput m fns srv c lockID op leaseTime =
     io_bind (rpc srv LeaseOutputReq (walletkit_ctx m c)
       \<lparr>rlo_Id = lockID, rlo_Outpoint = rpc_outpoint op,
        rlo_ExpirationSeconds = lease_seconds fns leaseTime\<rparr>) (\<lambda>expiration.
       io_ret (time_Unix expiration 0))"

record rpcUtxoLease =
  rul_Id :: bytes
  rul_Outpoint :: "rpcOutPoint option"
  rul_Expiration :: u64
  rul_PkScript :: bytes
  rul_Value :: u64

record LeaseDescriptor =
  ld_LockID :: bytes
  ld_Outpoint :: OutPoint
  ld_Value :: i64
  ld_PkScript :: bytes
  ld_Expiration :: gotime

definition lease_descriptor ::
  "('tx, 'pub, 'addr, 'psbt) wallet_fns \<Rightarrow> rpcUtxoLease \<Rightarrow> LeaseDescriptor go" where
  "lease_descriptor fns leasedUtxo =
     go_bind (deref (rul_Outpoint leasedUtxo)) (\<lambda>outpoint.
     go_bind (wf_NewHash fns (rop_TxidBytes outpoint)) (\<lambda>txHash.
       if length (rul_Id leasedUtxo) \<noteq> 32 then Err (NewErr ''invalid lease lock id length'')
       else Ok \<lparr>ld_LockID = copy_array 32 (rul_Id leasedUtxo),
                ld_Outpoint = \<lparr>op_Hash = txHash, op_Index = rop_OutputIndex outpoint\<rparr>,
                ld_Value = rul_Value leasedUtxo,
                ld_PkScript = rul_PkScript leasedUtxo,
                ld_Expiration = time_Unix (rul_Expiration leasedUtxo) 0\<rparr>))"

definition ListLeases ::
  "walletKitClient \<Rightarrow> ('tx, 'pub, 'addr, 'psbt) wallet_fns \<Rightarrow> (unit, rpcUtxoLease list) wk_srv \<Rightarrow> ctx
     \<Rightarrow> (wallet_req, LeaseDescriptor list) io" where
  "ListLeases m fns srv c =
     io_bind (rpc srv (\<lambda>_. ListLeasesReq) (walletkit_ctx m c) ()) (\<lambda>lockedUtxos.
       io_lift (go_map (lease_descriptor fns) lockedUtxos))"

definition ReleaseOutput ::
  "walletKitClient \<Rightarrow> (bytes \<times> rpcOutPoint, unit) wk_srv \<Rightarrow> ctx \<Rightarrow> bytes \<Rightarrow> OutPoint
     \<Rightarrow> (wallet_req, unit) io" where
  "ReleaseOutput m srv c lockID op =
     rpc srv (\<lambda>(i, o'). ReleaseOutputReq i o') (walletkit_ctx m c) (lockID, rpc_outpoint op)"

section \<open>Keys and addresses\<close>

record rpcWalletKeyDescriptor =
  rwk_RawKeyBytes :: bytes
  rwk_KeyLoc :: "rpcKeyLocator option"

definition DeriveNextKey ::
  "walletKitClient \<Rightarrow> ('tx, 'pub, 'addr, 'psbt) wallet_fns \<Rightarrow> (i32, rpcWalletKeyDescriptor) wk_srv
     \<Rightarrow> ctx \<Rightarrow> i32 \<Rightarrow> (wallet_req, 'pub KeyDescriptor) io" where
  "DeriveNextKey m fns srv c family =
     io_bind (rpc srv DeriveNextKeyReq (walletkit_ctx m c) family) (\<lambda>resp.
     io_bind (io_lift (wf_ParsePubKey fns (rwk_RawKeyBytes resp))) (\<lambda>key.
     io_bind (io_lift (deref (rwk_KeyLoc resp))) (\<lambda>loc.
       io_ret \<lparr>kd_Locator = \<lparr>loc_Family = rkl_KeyFamily loc, loc_Index = rkl_KeyIndex loc\<rparr>,
               kd_PubKey = Some key\<rparr>)))"

definition DeriveKey ::
  "walletKitClient \<Rightarrow> ('tx, 'pub, 'addr, 'psbt) wallet_fns \<Rightarrow> (rpcKeyLocator, rpcWalletKeyDescriptor) wk_srv
     \<Rightarrow> ctx \<Rightarrow> KeyLocator option \<Rightarrow> (wallet_req, 'pub KeyDescriptor) io" where
  "DeriveKey m fns srv c inp =
     io_bind (io_lift (deref inp)) (\<lambda>inp.
     io_bind (rpc srv DeriveKeyReq (walletkit_ctx m c) (key_locator inp)) (\<lambda>resp.
     io_bind (io_lift (wf_ParsePubKey fns (rwk_RawKeyBytes resp))) (\<lambda>key.
       io_ret \<lparr>kd_Locator = inp, kd_PubKey = Some key\<rparr>)))"

definition NextAddr ::
  "walletKitClient \<Rightarrow> ('tx, 'pub, 'addr, 'psbt) wallet_fns \<Rightarrow> (string \<times> rpcAddressType \<times> bool, string) wk_srv
     \<Rightarrow> ctx \<Rightarrow> string \<Rightarrow> rpcAddressType \<Rightarrow> bool \<Rightarrow> (wallet_req, 'addr) io" where
  "NextAddr m fns srv c accountName addressType change =
     io_bind (rpc srv (\<lambda>(a, t, ch). NextAddrReq a t ch) (walletkit_ctx m c)
       (accountName, addressType, change)) (\<lambda>addr.
       io_lift (wf_DecodeAddressNoChain fns addr))"

section \<open>Transactions\<close>

definition GetTransaction ::
  "walletKitClient \<Rightarrow> ('tx, 'pub, 'addr, 'psbt) wallet_fns \<Rightarrow> ('a, 'scid, 'tx) ln_fns
     \<Rightarrow> (string, ('od, 'po) rpcTransaction) wk_srv \<Rightarrow> ctx \<Rightarrow> bytes
     \<Rightarrow> (wallet_req, ('tx, 'od, 'po) Transaction) io" where
  "GetTransaction m fns lfns srv c txid =
     io_bind (rpc srv GetTransactionReq (walletkit_ctx m c) (wf_HashString fns txid)) (\<lambda>resp.
       io_lift (unmarshallTransaction lfns resp))"

definition RemoveTransaction ::
  "walletKitClient \<Rightarrow> ('tx, 'pub, 'addr, 'psbt) wallet_fns \<Rightarrow> (string, unit) wk_srv \<Rightarrow> ctx \<Rightarrow> bytes
     \<Rightarrow> (wallet_req, unit) io" where
  "RemoveTransaction m fns srv c txid =
     rpc srv RemoveTransactionReq (walletkit_ctx m c) (wf_HashString fns txid)"

definition PublishTransaction ::
  "walletKitClient \<Rightarrow> ('tx, 'pub, 'addr, 'psbt) wallet_fns \<Rightarrow> (bytes \<times> string, unit) wk_srv \<Rightarrow> ctx \<Rightarrow> 'tx
     \<Rightarrow> string \<Rightarrow> (wallet_req, unit) io" where
  "PublishTransaction m fns srv c tx label =
     io_bind (io_lift (encodeTx (wf_BtcEncode fns) tx)) (\<lambda>txHex.
       rpc srv (\<lambda>(t, l). PublishTransactionReq t l) (walletkit_ctx m c) (txHex, label))"

record SubmitPackageTxResult =
  spt_Txid :: bytes
  spt_Err :: string

record SubmitPackageResult =
  spr_PackageMsg :: string
  spr_ReplacedTransactions :: "bytes list"
  spr_TxResults :: "string \<rightharpoonup> SubmitPackageTxResult"

record rpcSubmitPackageResponse =
  rpk_PackageMsg :: string
  rpk_ReplacedTransactions :: "string list"
  rpk_TxResults :: "(string \<times> string \<times> string) list"   \<comment> \<open>wtxid, txid and error\<close>

primrec package_results ::
  "(string \<Rightarrow> bytes go) \<Rightarrow> (string \<times> string \<times> string) list \<Rightarrow> (string \<rightharpoonup> SubmitPackageTxResult)
     \<Rightarrow> (string \<rightharpoonup> SubmitPackageTxResult) go" where
  "package_results NewHashFromStr [] m = Ok m"
| "package_results NewHashFromStr (r # rs) m = (case r of (wtxid, txid, err) \<Rightarrow>
     go_bind (NewHashFromStr txid) (\<lambda>h.
       package_results NewHashFromStr rs (m(wtxid \<mapsto> \<lparr>spt_Txid = h, spt_Err = err\<rparr>))))"

definition package_result ::
  "(string \<Rightarrow> bytes go) \<Rightarrow> rpcSubmitPackageResponse \<Rightarrow> SubmitPackageResult go" where
  "package_result NewHashFromStr resp =
     go_bind (go_map NewHashFromStr (rpk_ReplacedTransactions resp)) (\<lambda>replaced.
     go_bind (package_results NewHashFromStr (rpk_TxResults resp) Map.empty) (\<lambda>results.
       Ok \<lparr>spr_PackageMsg = rpk_PackageMsg resp, spr_ReplacedTransactions = replaced,
           spr_TxResults = results\<rparr>))"

definition SubmitPackage ::
  "walletKitClient \<Rightarrow> ('tx, 'pub, 'addr, 'psbt) wallet_fns
     \<Rightarrow> (bytes list \<times> u64 option, rpcSubmitPackageResponse) wk_srv \<Rightarrow> ctx \<Rightarrow> 'tx list \<Rightarrow> i64 option
     \<Rightarrow> (wallet_req, SubmitPackageResult) io" where
  "SubmitPackage m fns srv c txns maxFeeRate =
     io_bind (io_lift (go_map (wf_TxSerialize fns) txns)) (\<lambda>rawTxs.
     io_bind (rpc srv (\<lambda>(t, r). SubmitPackageReq t r) (walletkit_ctx m c) (rawTxs, maxFeeRate)) (\<lambda>resp.
       io_lift (package_result (wf_NewHashFromStr fns) resp)))"

definition SendOutputs ::
  "walletKitClient \<Rightarrow> ('tx, 'pub, 'addr, 'psbt) wallet_fns \<Rightarrow> (rpcSendOutputsRequest, bytes) wk_srv \<Rightarrow> ctx
     \<Rightarrow> TxOut option list \<Rightarrow> i64 \<Rightarrow> string \<Rightarrow> (wallet_req, 'tx) io" where
  "SendOutputs m fns srv c outputs feeRate label =
     io_bind (io_lift (marshallTxOut outputs)) (\<lambda>outs.
     io_bind (rpc srv SendOutputsReq (walletkit_ctx m c)
       \<lparr>rso_Outputs = outs, rso_SatPerKw = feeRate, rso_Label = label\<rparr>) (\<lambda>rawTx.
       io_lift (decodeTx (wf_BtcDecode fns) rawTx)))"

section \<open>Fees and sweeps\<close>

text \<open>The answer is the fee rate and the minimal relay fee.\<close>

definition EstimateFeeRate ::
  "walletKitClient \<Rightarrow> (i32, i64 \<times> i64) wk_srv \<Rightarrow> ctx \<Rightarrow> i32 \<Rightarrow> (wallet_req, i64) io" where
  "EstimateFeeRate m srv c confTarget =
     io_bind (rpc srv WalletEstimateFeeReq (walletkit_ctx m c) confTarget) (\<lambda>resp. io_ret (fst resp))"

definition MinRelayFee ::
  "walletKitClient \<Rightarrow> (i32, i64 \<times> i64) wk_srv \<Rightarrow> ctx \<Rightarrow> (wallet_req, i64) io" where
  "MinRelayFee m srv c =
     io_bind (rpc srv WalletEstimateFeeReq (walletkit_ctx m c) 6) (\<lambda>resp. io_ret (snd resp))"

datatype 'd rpcSweeps = Sweeps_Ids "string list" | Sweeps_Details "'d list" | Sweeps_none

text \<open>The ids are read through the getter, which gives nil for another kind of answer.\<close>

definition ListSweeps ::
  "walletKitClient \<Rightarrow> (bool \<times> i32, 'd rpcSweeps) wk_srv \<Rightarrow> ctx \<Rightarrow> i32 \<Rightarrow> (wallet_req, string list) io"
where
  "ListSweeps m srv c startHeight =
     io_bind (rpc srv (\<lambda>(v, h). ListSweepsReq v h) (walletkit_ctx m c) (False, startHeight)) (\<lambda>resp.
       io_lift (deref (case resp of Sweeps_Ids ids \<Rightarrow> Some ids | _ \<Rightarrow> None)))"

datatype rpcOutputScriptType =
    SCRIPT_TYPE_SCRIPT_HASH | SCRIPT_TYPE_WITNESS_V0_PUBKEY_HASH | SCRIPT_TYPE_WITNESS_V0_SCRIPT_HASH
  | SCRIPT_TYPE_PUBKEY | SCRIPT_TYPE_MULTISIG | SCRIPT_TYPE_NULLDATA | SCRIPT_TYPE_NON_STANDARD
  | SCRIPT_TYPE_WITNESS_UNKNOWN | SCRIPT_TYPE_WITNESS_V1_TAPROOT | SCRIPT_TYPE_other i32

datatype ScriptClass =
    ScriptHashTy | WitnessV0PubKeyHashTy | WitnessV0ScriptHashTy | PubKeyTy | MultiSigTy | NullDataTy
  | NonStandardTy | WitnessUnknownTy | WitnessV1TaprootTy

fun unmarshallOutputType :: "rpcOutputScriptType \<Rightarrow> ScriptClass" where
  "unmarshallOutputType SCRIPT_TYPE_SCRIPT_HASH = ScriptHashTy"
| "unmarshallOutputType SCRIPT_TYPE_WITNESS_V0_PUBKEY_HASH = WitnessV0PubKeyHashTy"
| "unmarshallOutputType SCRIPT_TYPE_WITNESS_V0_SCRIPT_HASH = WitnessV0ScriptHashTy"
| "unmarshallOutputType SCRIPT_TYPE_PUBKEY = PubKeyTy"
| "unmarshallOutputType SCRIPT_TYPE_MULTISIG = MultiSigTy"
| "unmarshallOutputType SCRIPT_TYPE_NULLDATA = NullDataTy"
| "unmarshallOutputType SCRIPT_TYPE_NON_STANDARD = NonStandardTy"
| "unmarshallOutputType SCRIPT_TYPE_WITNESS_UNKNOWN = WitnessUnknownTy"
| "unmarshallOutputType SCRIPT_TYPE_WITNESS_V1_TAPROOT = WitnessV1TaprootTy"
| "unmarshallOutputType (SCRIPT_TYPE_other n) = NonStandardTy"

record rpcOutputDetail =
  rod_OutputType :: rpcOutputScriptType
  rod_Address :: string
  rod_PkScript :: string
  rod_OutputIndex :: i64
  rod_Amount :: i64
  rod_IsOurAddress :: bool

record 'addr OutputDetail =
  od_OutputType :: ScriptClass
  od_Addresses :: "'addr list"
  od_PkScript :: bytes
  od_OutputIndex :: i64
  od_Value :: i64
  od_IsOurAddress :: bool

record rpcTransactionDetail =
  rtd_TxHash :: string
  rtd_Amount :: i64
  rtd_NumConfirmations :: i32
  rtd_BlockHash :: string
  rtd_BlockHeight :: i32
  rtd_TimeStamp :: i64
  rtd_TotalFees :: i64
  rtd_RawTxHex :: string
  rtd_Label :: string
  rtd_OutputDetails :: "rpcOutputDetail list"
  rtd_PreviousOutpoints :: "(string \<times> bool) list"

record 'addr TransactionDetail =
  td_Hash :: bytes
  td_Value :: i64
  td_NumConfirmations :: i32
  td_BlockHash :: "bytes option"
  td_BlockHeight :: i32
  td_Timestamp :: i64
  td_TotalFees :: i64
  td_OutputDetails :: "'addr OutputDetail list"
  td_RawTx :: bytes
  td_Label :: string
  td_PreviousOutpoints :: "(string \<times> bool) list"

definition output_detail ::
  "('tx, 'pub, 'addr, 'psbt) wallet_fns \<Rightarrow> rpcOutputDetail \<Rightarrow> 'addr OutputDetail go" where
  "output_detail fns d =
     go_bind (wf_DecodeAddress fns (rod_Address d)) (\<lambda>address.
     go_bind (hex_decode (rod_PkScript d)) (\<lambda>pkScript.
       Ok \<lparr>od_OutputType = unmarshallOutputType (rod_OutputType d), od_Addresses = [address],
           od_PkScript = pkScript, od_OutputIndex = rod_OutputIndex d, od_Value = rod_Amount d,
           od_IsOurAddress = rod_IsOurAddress d\<rparr>))"

definition UnmarshalTransactionDetail ::
  "('tx, 'pub, 'addr, 'psbt) wallet_fns \<Rightarrow> rpcTransactionDetail \<Rightarrow> 'addr TransactionDetail go" where
  "UnmarshalTransactionDetail fns tx =
     go_bind (go_map (output_detail fns) (rtd_OutputDetails tx)) (\<lambda>outputDetails.
     go_bind (if rtd_BlockHash tx \<noteq> []
              then go_bind (wf_NewHashFromStr fns (rtd_BlockHash tx)) (\<lambda>h. Ok (Some h))
              else Ok None) (\<lambda>blockHash.
     go_bind (wf_NewHashFromStr fns (rtd_TxHash tx)) (\<lambda>txHash.
     go_bind (hex_decode (rtd_RawTxHex tx)) (\<lambda>rawTx.
       Ok \<lparr>td_Hash = txHash, td_Value = rtd_Amount tx,
           td_NumConfirmations = rtd_NumConfirmations tx, td_BlockHash = blockHash,
           td_BlockHeight = rtd_BlockHeight tx, td_Timestamp = rtd_TimeStamp tx,
           td_TotalFees = rtd_TotalFees tx, td_OutputDetails = outputDetails, td_RawTx = rawTx,
           td_Label = rtd_Label tx, td_PreviousOutpoints = rtd_PreviousOutpoints tx\<rparr>))))"

definition ListSweepsVerbose ::
  "walletKitClient \<Rightarrow> ('tx, 'pub, 'addr, 'psbt) wallet_fns
     \<Rightarrow> (bool \<times> i32, rpcTransactionDetail rpcSweeps) wk_srv \<Rightarrow> ctx \<Rightarrow> i32
     \<Rightarrow> (wallet_req, 'addr TransactionDetail list) io" where
  "ListSweepsVerbose m fns srv c startHeight =
     io_bind (rpc srv (\<lambda>(v, h). ListSweepsReq v h) (walletkit_ctx m c) (True, startHeight)) (\<lambda>resp.
       case resp of
         Sweeps_Details rpcDetails \<Rightarrow> io_lift (go_map (UnmarshalTransactionDetail fns) rpcDetails)
       | _ \<Rightarrow> io_err (NewErr ''invalid transaction details''))"

datatype BumpFeeOption = WithImmediate | WithTargetConf u32 | WithBudget i64

fun bump_option :: "rpcBumpFeeRequest \<Rightarrow> BumpFeeOption \<Rightarrow> rpcBumpFeeRequest" where
  "bump_option r WithImmediate = r\<lparr>rbf_Immediate := True\<rparr>"
| "bump_option r (WithTargetConf targetConf) = r\<lparr>rbf_TargetConf := targetConf\<rparr>"
| "bump_option r (WithBudget budget) = r\<lparr>rbf_Budget := budget\<rparr>"

definition bump_request ::
  "('tx, 'pub, 'addr, 'psbt) wallet_fns \<Rightarrow> OutPoint \<Rightarrow> i64 \<Rightarrow> BumpFeeOption list
     \<Rightarrow> rpcBumpFeeRequest go" where
  "bump_request fns op feeRate opts =
     (let req = foldl bump_option
            \<lparr>rbf_Outpoint = rpc_outpoint op, rbf_SatPerVbyte = wf_FeePerVByte fns feeRate,
             rbf_Immediate = False, rbf_TargetConf = 0, rbf_Budget = 0\<rparr> opts
      in if feeRate \<noteq> 0 \<and> rbf_TargetConf req \<noteq> 0
         then Err (NewErr ([CHR ''c'', CHR ''a'', CHR ''n'', CHR 0x27, CHR ''t'']
                @ '' use target_conf if feeRate != 0''))
         else Ok req)"

definition BumpFee ::
  "walletKitClient \<Rightarrow> ('tx, 'pub, 'addr, 'psbt) wallet_fns \<Rightarrow> (rpcBumpFeeRequest, unit) wk_srv \<Rightarrow> ctx
     \<Rightarrow> OutPoint \<Rightarrow> i64 \<Rightarrow> BumpFeeOption list \<Rightarrow> (wallet_req, unit) io" where
  "BumpFee m fns srv c op feeRate opts =
     io_bind (io_lift (bump_request fns op feeRate opts)) (\<lambda>req.
       rpc srv BumpFeeReq (walletkit_ctx m c) req)"

definition ListAccounts ::
  "walletKitClient \<Rightarrow> (string \<times> rpcAddressType, 'account list) wk_srv \<Rightarrow> ctx \<Rightarrow> string \<Rightarrow> rpcAddressType
     \<Rightarrow> (wallet_req, 'account list) io" where
  "ListAccounts m srv c name addressType =
     rpc srv (\<lambda>(n, t). ListAccountsReq n t) (walletkit_ctx m c) (name, addressType)"

section \<open>PSBTs\<close>

text \<open>A fund request is an opaque message; the answer is the funded PSBT, the change index and the
  leases.\<close>

definition FundPsbt ::
  "walletKitClient \<Rightarrow> ('tx, 'pub, 'addr, 'psbt) wallet_fns \<Rightarrow> (bytes, bytes \<times> i32 \<times> rpcUtxoLease list) wk_srv
     \<Rightarrow> ctx \<Rightarrow> bytes \<Rightarrow> (wallet_req, 'psbt \<times> i32 \<times> rpcUtxoLease list) io" where
  "FundPsbt m fns srv c req =
     io_bind (rpc srv FundPsbtReq (walletkit_ctx m c) req) (\<lambda>(fundedPsbt, change, locked).
     io_bind (io_lift (wf_PsbtParse fns fundedPsbt)) (\<lambda>packet.
       io_ret (packet, change, locked)))"

definition SignPsbt ::
  "walletKitClient \<Rightarrow> ('tx, 'pub, 'addr, 'psbt) wallet_fns \<Rightarrow> (bytes, bytes) wk_srv \<Rightarrow> ctx \<Rightarrow> 'psbt
     \<Rightarrow> (wallet_req, 'psbt) io" where
  "SignPsbt m fns srv c packet =
     io_bind (io_lift (wf_PsbtSerialize fns packet)) (\<lambda>psbtBuf.
     io_bind (rpc srv SignPsbtReq (walletkit_ctx m c) psbtBuf) (\<lambda>signedPsbt.
       io_lift (wf_PsbtParse fns signedPsbt)))"

text \<open>The answer is the signed PSBT and the raw final transaction.\<close>

definition FinalizePsbt ::
  "walletKitClient \<Rightarrow> ('tx, 'pub, 'addr, 'psbt) wallet_fns \<Rightarrow> (bytes \<times> string, bytes \<times> bytes) wk_srv
     \<Rightarrow> ctx \<Rightarrow> 'psbt \<Rightarrow> string \<Rightarrow> (wallet_req, 'psbt \<times> 'tx) io" where
  "FinalizePsbt m fns srv c packet account =
     io_bind (io_lift (wf_PsbtSerialize fns packet)) (\<lambda>psbtBuf.
     io_bind (rpc srv (\<lambda>(p, a). FinalizePsbtReq p a) (walletkit_ctx m c) (psbtBuf, account))
       (\<lambda>(signedPsbt, rawFinalTx).
     io_bind (io_lift (wf_PsbtParse fns signedPsbt)) (\<lambda>finalizedPacket.
     io_bind (io_lift (wf_TxDeserialize fns rawFinalTx)) (\<lambda>finalTx.
       io_ret (finalizedPacket, finalTx)))))"

section \<open>Imports\<close>

fun import_address_type :: "lnAddressType \<Rightarrow> rpcAddressType go" where
  "import_address_type WitnessPubKey = Ok WITNESS_PUBKEY_HASH"
| "import_address_type NestedWitnessPubKey = Ok NESTED_WITNESS_PUBKEY_HASH"
| "import_address_type TaprootPubkey = Ok TAPROOT_PUBKEY"
| "import_address_type (lnAddressType_other n) =
     Err (FmtVal ''invalid utxo address type '' (show_nat (unat n)))"

definition ImportPublicKey ::
  "walletKitClient \<Rightarrow> ('tx, 'pub, 'addr, 'psbt) wallet_fns \<Rightarrow> (bytes \<times> rpcAddressType, unit) wk_srv \<Rightarrow> ctx
     \<Rightarrow> 'pub option \<Rightarrow> lnAddressType \<Rightarrow> (wallet_req, unit) io" where
  "ImportPublicKey m fns srv c pubKey addrType =
     io_bind (io_lift (import_address_type addrType)) (\<lambda>rpcAddrType.
     io_bind (io_lift (deref pubKey)) (\<lambda>pubKey.
       rpc srv (\<lambda>(k, t). ImportPublicKeyReq k t) (walletkit_ctx m c)
         (wf_SerializeCompressed fns pubKey, rpcAddrType)))"

record 'pub ControlBlock =
  cb_InternalKey :: 'pub
  cb_LeafVersion :: u8
  cb_InclusionProof :: bytes

datatype TapscriptType =
    TapscriptTypeFullTree | TapscriptTypePartialReveal | TaprootKeySpendRootHash
  | TaprootFullKeyOnly | TapscriptType_other u8

record 'pub Tapscript =
  ts_Type :: TapscriptType
  ts_ControlBlock :: "'pub ControlBlock option"
  ts_Leaves :: "(u8 \<times> bytes) list"
  ts_RevealedScript :: bytes
  ts_RootHash :: bytes
  ts_FullOutputKey :: 'pub

text \<open>The control block is read through on the branches that use it.\<close>

definition tapscript_request ::
  "('tx, 'pub, 'addr, 'psbt) wallet_fns \<Rightarrow> 'pub Tapscript \<Rightarrow> (bytes \<times> rpcTapscript) go" where
  "tapscript_request fns tapscript = (case ts_Type tapscript of
       TapscriptTypeFullTree \<Rightarrow> go_bind (deref (ts_ControlBlock tapscript)) (\<lambda>ctrlBlock.
         Ok (wf_SerializeSchnorr fns (cb_InternalKey ctrlBlock),
             ImportFullTree (map (\<lambda>(v, sc). (ucast v, sc)) (ts_Leaves tapscript))))
     | TapscriptTypePartialReveal \<Rightarrow> go_bind (deref (ts_ControlBlock tapscript)) (\<lambda>ctrlBlock.
         Ok (wf_SerializeSchnorr fns (cb_InternalKey ctrlBlock),
             ImportPartialReveal (ucast (cb_LeafVersion ctrlBlock), ts_RevealedScript tapscript)
               (cb_InclusionProof ctrlBlock)))
     | TaprootKeySpendRootHash \<Rightarrow> go_bind (deref (ts_ControlBlock tapscript)) (\<lambda>ctrlBlock.
         Ok (wf_SerializeSchnorr fns (cb_InternalKey ctrlBlock),
             ImportRootHashOnly (ts_RootHash tapscript)))
     | TaprootFullKeyOnly \<Rightarrow>
         Ok (wf_SerializeSchnorr fns (ts_FullOutputKey tapscript), ImportFullKeyOnly True)
     | TapscriptType_other n \<Rightarrow> Err (FmtVal ''invalid tapscript type <''
         (show_nat (unat n) @ ''>'')))"

definition ImportTaprootScript ::
  "walletKitClient \<Rightarrow> ('tx, 'pub, 'addr, 'psbt) wallet_fns \<Rightarrow> (bytes \<times> rpcTapscript, string) wk_srv
     \<Rightarrow> ctx \<Rightarrow> 'pub Tapscript option \<Rightarrow> (wallet_req, 'addr) io" where
  "ImportTaprootScript m fns srv c tapscript = (case tapscript of
       None \<Rightarrow> io_err (NewErr ''invalid tapscript'')
     | Some tapscript \<Rightarrow>
         io_bind (io_lift (tapscript_request fns tapscript)) (\<lambda>rpcReq.
         io_try (rpc srv (\<lambda>(k, sc). ImportTapscriptReq k sc) (walletkit_ctx m c) rpcReq) (\<lambda>res.
           io_bind (io_lift (go_wrap (FmtErr ''error importing tapscript into lnd: '') res)) (\<lambda>address.
             io_lift (go_wrap (FmtErr ''error parsing imported p2tr addr: '')
               (wf_DecodeAddress fns address))))))"

section \<open>Facts\<close>

abbreviation wallet_ok :: "walletKitClient \<Rightarrow> ctx \<Rightarrow> ctx \<Rightarrow> wallet_req \<Rightarrow> bool" where
  "wallet_ok m c c' q \<equiv> authed (walletkit_mac m) c c' \<and> bounded (walletkit_timeout m) c'"

lemma walletkit_ctx_ok [simp]:
  "authed (walletkit_mac m) c (walletkit_ctx m c)" "bounded (walletkit_timeout m) (walletkit_ctx m c)"
  by (simp_all add: walletkit_ctx_def)

lemma wallet_output_calls:
  "calls_ok (wallet_ok m c) (ListUnspent m fns s1 c mn mx uopts)"
  "calls_ok (wallet_ok m c) (LeaseOutput m fns s2 c lock op d)"
  "calls_ok (wallet_ok m c) (ListLeases m fns s3 c)"
  "calls_ok (wallet_ok m c) (ReleaseOutput m s4 c lock op)"
  "calls_ok (wallet_ok m c) (DeriveNextKey m fns s5 c family)"
  "calls_ok (wallet_ok m c) (DeriveKey m fns s6 c loc)"
  "calls_ok (wallet_ok m c) (NextAddr m fns s7 c name ty ch)"
  by (auto simp: ListUnspent_def LeaseOutput_def ListLeases_def ReleaseOutput_def DeriveNextKey_def
      DeriveKey_def NextAddr_def intro!: rpc_intros)

lemma wallet_tx_calls:
  "calls_ok (wallet_ok m c) (GetTransaction m fns lfns t1 c txid)"
  "calls_ok (wallet_ok m c) (RemoveTransaction m fns t2 c txid)"
  "calls_ok (wallet_ok m c) (PublishTransaction m fns t3 c tx label)"
  "calls_ok (wallet_ok m c) (SubmitPackage m fns t4 c txs rate)"
  "calls_ok (wallet_ok m c) (SendOutputs m fns t5 c outs fee label)"
  "calls_ok (wallet_ok m c) (EstimateFeeRate m t6 c conf)"
  "calls_ok (wallet_ok m c) (MinRelayFee m t6 c)"
  "calls_ok (wallet_ok m c) (ListSweeps m t7 c h)"
  by (auto simp: GetTransaction_def RemoveTransaction_def PublishTransaction_def SubmitPackage_def
      SendOutputs_def EstimateFeeRate_def MinRelayFee_def ListSweeps_def intro!: rpc_intros)

lemma calls_ok_sweeps [rpc_intros]:
  "(\<And>d. calls_ok P (f d)) \<Longrightarrow> calls_ok P m \<Longrightarrow>
     calls_ok P (case r of Sweeps_Details d \<Rightarrow> f d | _ \<Rightarrow> m)"
  by (cases r) simp_all

lemma wallet_psbt_calls:
  "calls_ok (wallet_ok m c) (ListSweepsVerbose m fns p1 c h)"
  "calls_ok (wallet_ok m c) (BumpFee m fns p2 c op fee bopts)"
  "calls_ok (wallet_ok m c) (ListAccounts m p3 c name ty)"
  "calls_ok (wallet_ok m c) (FundPsbt m fns p4 c fund)"
  "calls_ok (wallet_ok m c) (SignPsbt m fns p5 c psbt)"
  "calls_ok (wallet_ok m c) (FinalizePsbt m fns p6 c psbt account)"
  "calls_ok (wallet_ok m c) (ImportPublicKey m fns p7 c pub aty)"
  "calls_ok (wallet_ok m c) (ImportTaprootScript m fns p8 c ts)"
  by (auto simp: ListSweepsVerbose_def BumpFee_def ListAccounts_def FundPsbt_def SignPsbt_def
      FinalizePsbt_def ImportPublicKey_def ImportTaprootScript_def intro!: rpc_intros
      split: option.split)

section \<open>Main theorems\<close>

text \<open>The confirmation target the options leave.\<close>

definition target_confs :: "BumpFeeOption list \<Rightarrow> u32 list" where
  "target_confs opts = List.map_filter (\<lambda>opt. case opt of WithTargetConf t \<Rightarrow> Some t | _ \<Rightarrow> None) opts"

lemma bump_options_fields:
  "rbf_TargetConf (foldl bump_option r opts) = last (rbf_TargetConf r # target_confs opts)"
  "rbf_SatPerVbyte (foldl bump_option r opts) = rbf_SatPerVbyte r"
  "rbf_Outpoint (foldl bump_option r opts) = rbf_Outpoint r"
proof (induction opts arbitrary: r)
  case (Cons x opts)
  { case 1 show ?case by (cases x) (simp_all add: Cons.IH(1) target_confs_def List.map_filter_simps) }
  { case 2 show ?case by (cases x) (simp_all add: Cons.IH(2)) }
  { case 3 show ?case by (cases x) (simp_all add: Cons.IH(3)) }
qed (simp_all add: target_confs_def List.map_filter_simps)

text \<open>C31: a fee bump is refused without a call exactly when a fee rate and a confirmation target, the
  last one given, are both set; otherwise it is one authenticated call for the given output that
  carries the fee rate in satoshis per virtual byte and that target.\<close>

theorem BumpFee_conflict:
  "let target = last (0 # target_confs opts)
   in if feeRate \<noteq> 0 \<and> target \<noteq> 0
      then \<exists>err. BumpFee m fns srv c op feeRate opts h = (Err err, h)
      else \<exists>req. BumpFee m fns srv c op feeRate opts h
               = (srv h (walletkit_ctx m c) req, h @ [(walletkit_ctx m c, BumpFeeReq req)])
             \<and> rbf_Outpoint req = rpc_outpoint op \<and> rbf_TargetConf req = target
             \<and> rbf_SatPerVbyte req = wf_FeePerVByte fns feeRate"
  by (auto simp: BumpFee_def bump_request_def Let_def bump_options_fields go_simps)

text \<open>C26: a key the wallet derives can be handed to the signer. When lnd answers \<open>DeriveNextKey\<close> with the
  compressed serialisation of a key and its locator, and the parser gives back the key that was
  serialised in this form, the call returns the descriptor of that key. Both forms of signing send
  lnd's own key bytes back, the full form also lnd's own locator unless it is zero, and \<open>DeriveKey\<close>
  asks lnd for that locator and, answered with the same bytes, returns the same descriptor.\<close>

theorem derived_key_signs:
  assumes "\<And>k. wf_ParsePubKey fns (ser k) = Ok k"
    and "srv h (WithMacaroonAuth (walletkit_mac m) (TimeoutCtx c (walletkit_timeout m))) family
           = Ok \<lparr>rwk_RawKeyBytes = ser key, rwk_KeyLoc = Some loc\<rparr>"
  shows "let rpcCtx = WithMacaroonAuth (walletkit_mac m) (TimeoutCtx c (walletkit_timeout m));
             h' = h @ [(rpcCtx, DeriveNextKeyReq family)]
         in \<exists>d. DeriveNextKey m fns srv c family h = (Ok d, h') \<and> kd_PubKey d = Some key
     \<and> fullDescriptor ser d = \<lparr>rkd_RawKeyBytes = ser key,
         rkd_KeyLoc = (if loc = \<lparr>rkl_KeyFamily = 0, rkl_KeyIndex = 0\<rparr> then None else Some loc)\<rparr>
     \<and> partialDescriptor ser d = \<lparr>rkd_RawKeyBytes = ser key, rkd_KeyLoc = None\<rparr>
     \<and> snd (DeriveKey m fns ksrv c (Some (kd_Locator d)) h') = h' @ [(rpcCtx, DeriveKeyReq loc)]
     \<and> (\<forall>resp. ksrv h' rpcCtx loc = Ok resp \<and> rwk_RawKeyBytes resp = ser key \<longrightarrow>
          fst (DeriveKey m fns ksrv c (Some (kd_Locator d)) h') = Ok d)"
proof -
  let ?d = "\<lparr>kd_Locator = \<lparr>loc_Family = rkl_KeyFamily loc, loc_Index = rkl_KeyIndex loc\<rparr>,
      kd_PubKey = Some key\<rparr>"
  let ?h = "h @ [(walletkit_ctx m c, DeriveNextKeyReq family)]"
  have loc: "key_locator (kd_Locator ?d) = loc"
    by (simp add: key_locator_def)
  have "DeriveNextKey m fns srv c family h = (Ok ?d, ?h)"
    using assms by (simp add: DeriveNextKey_def walletkit_ctx_def io_bind_def io_eval deref_def)
  moreover have "snd (DeriveKey m fns ksrv c (Some (kd_Locator ?d)) ?h)
      = ?h @ [(walletkit_ctx m c, DeriveKeyReq loc)]"
    unfolding DeriveKey_def deref_simps using loc by (simp add: io_bind_def io_eval split: go.split)
  moreover have "fst (DeriveKey m fns ksrv c (Some (kd_Locator ?d)) ?h) = Ok ?d"
    if "ksrv ?h (walletkit_ctx m c) loc = Ok resp \<and> rwk_RawKeyBytes resp = ser key" for resp
    unfolding DeriveKey_def deref_simps using loc that assms(1) by (simp add: io_bind_def io_eval)
  moreover have "fullDescriptor ser ?d = \<lparr>rkd_RawKeyBytes = ser key,
      rkd_KeyLoc = (if loc = \<lparr>rkl_KeyFamily = 0, rkl_KeyIndex = 0\<rparr> then None else Some loc)\<rparr>"
    "partialDescriptor ser ?d = \<lparr>rkd_RawKeyBytes = ser key, rkd_KeyLoc = None\<rparr>"
    using loc by (cases loc; simp add: fullDescriptor_def partialDescriptor_def key_locator_def)+
  ultimately show ?thesis
    unfolding Let_def walletkit_ctx_def [symmetric]
    by (intro exI [of _ ?d]) auto
qed

definition example_wallet_fns :: "(bytes, bytes, unit, bytes) wallet_fns" where
  "example_wallet_fns = \<lparr>wf_NewHash = Ok, wf_NewHashFromStr = \<lambda>_. Ok [], wf_HashString = \<lambda>_. [],
     wf_ParsePubKey = Ok, wf_SerializeCompressed = id, wf_SerializeSchnorr = id,
     wf_DecodeAddress = \<lambda>_. Ok (), wf_DecodeAddressNoChain = \<lambda>_. Ok (), wf_BtcEncode = Ok,
     wf_BtcDecode = Ok, wf_TxSerialize = Ok, wf_TxDeserialize = Ok, wf_PsbtSerialize = Ok,
     wf_PsbtParse = Ok, wf_FeePerVByte = \<lambda>r. r, wf_float_u64 = word_of_int\<rparr>"

theorem derived_key_signs_witness:
  "let loc = \<lparr>rkl_KeyFamily = 5, rkl_KeyIndex = 2\<rparr>;
       srv = (\<lambda>_ _ _. Ok \<lparr>rwk_RawKeyBytes = [3], rwk_KeyLoc = Some loc\<rparr>);
       m = newWalletKitClient ''ab'' 7 RegressionNetParams
   in \<exists>d h'. DeriveNextKey m example_wallet_fns srv BackgroundCtx 5 [] = (Ok d, h')
        \<and> fullDescriptor id d = \<lparr>rkd_RawKeyBytes = [3], rkd_KeyLoc = Some loc\<rparr>"
proof -
  let ?loc = "\<lparr>rkl_KeyFamily = 5, rkl_KeyIndex = 2\<rparr>"
  let ?srv = "\<lambda>_ _ _. Ok \<lparr>rwk_RawKeyBytes = [3], rwk_KeyLoc = Some ?loc\<rparr>"
  let ?m = "newWalletKitClient ''ab'' 7 RegressionNetParams"
  have parse: "wf_ParsePubKey example_wallet_fns (id k) = Ok k" for k
    by (simp add: example_wallet_fns_def)
  from derived_key_signs [OF parse, where srv = ?srv and h = "[]" and m = ?m and c = BackgroundCtx and family = 5 and key = "[3]" and loc = ?loc
      and ksrv = "\<lambda>_ _ _. Err IoEOF"]
  show ?thesis by (auto simp: Let_def id_def)
qed

end
