(* ===== verification/LndServices.thy ===== *)
theory LndServices
  imports LndVersion StateClient ChainNotifier WtClient WalletKit LightningStreams
begin

text \<open>
  \<open>lnd_services.go\<close>: connecting to lnd, waiting for it to be ready and building the clients.

  The start-up runs in the log monad of \<open>Prelude\<close>; besides the remote calls its log holds the
  connection that was opened, its close and what \<open>Close\<close> waits for. A \<open>select\<close> loop is given the events
  it receives; the result None says that it has used them up and still waits.
\<close>

section \<open>Transport credentials\<close>

text \<open>\<open>pem.Decode\<close>, \<open>x509.ParseCertificate\<close>, \<open>credentials.NewClientTLSFromFile\<close>, \<open>os.Stat\<close> and
  \<open>btcutil.AppDataDir\<close> of lnd.\<close>

record 'cert tls_env =
  te_PemDecode :: "string \<Rightarrow> (string \<times> bytes) option"
  te_ParseCertificate :: "bytes \<Rightarrow> 'cert go"
  te_CertFromFile :: "string \<Rightarrow> 'cert go"
  te_Stat :: "string \<Rightarrow> go_error option"
  te_AppDataDir :: string

datatype 'cert creds =
    SkipVerifyTLS     \<comment> \<open>TLS that accepts any certificate, \<open>InsecureSkipVerify\<close>\<close>
  | SystemCertTLS     \<comment> \<open>TLS with the certificates of the system\<close>
  | CertTLS 'cert

definition defaultTLSCertPath :: "'cert tls_env \<Rightarrow> string" where
  "defaultTLSCertPath te = path_Join [te_AppDataDir te, ''tls.cert'']"

definition GetTLSCredentials ::
  "'cert tls_env \<Rightarrow> string \<Rightarrow> string \<Rightarrow> bool \<Rightarrow> bool \<Rightarrow> 'cert creds go" where
  "GetTLSCredentials te tlsData tlsPath insecure systemCert =
     (if tlsPath \<noteq> [] \<and> tlsData \<noteq> [] then Err (NewErr ''must set only one: TLSPath or TLSData'')
      else if insecure \<and> systemCert then
        Err (NewErr ''cannot set insecure and system cert at the same time'')
      else if insecure then Ok SkipVerifyTLS
      else if systemCert then Ok SystemCertTLS
      else if tlsData \<noteq> [] then (case te_PemDecode te tlsData of
          None \<Rightarrow> Err (NewErr ''failed to decode PEM block containing tls certificate'')
        | Some (ty, bs) \<Rightarrow>
            if ty \<noteq> ''CERTIFICATE''
            then Err (NewErr ''failed to decode PEM block containing tls certificate'')
            else go_bind (te_ParseCertificate te bs) (\<lambda>cert. Ok (CertTLS cert)))
      else if tlsPath \<noteq> [] then go_bind (te_CertFromFile te tlsPath) (\<lambda>cert. Ok (CertTLS cert))
      else case te_Stat te (defaultTLSCertPath te) of
          Some err \<Rightarrow> Err (FmtErr (concat [''couldn'', [CHR 0x27], ''t find out if default lnd TLS cert at '',
             defaultTLSCertPath te, '' exists: '']) err)
        | None \<Rightarrow> go_bind (go_wrap (FmtErr (concat [''couldn'', [CHR 0x27],
              ''t load default lnd TLS cert at '', defaultTLSCertPath te, '': '']))
              (te_CertFromFile te (defaultTLSCertPath te))) (\<lambda>cert. Ok (CertTLS cert)))"

section \<open>Errors of a locked or starting lnd\<close>

definition lnd13UnlockErrors :: "string list" where
  "lnd13UnlockErrors = [''waiting to start, RPC services not available'',
     ''wallet not created, create one to enable full RPC access'',
     ''wallet locked, unlock it to enable full RPC access'',
     ''the RPC server is in the process of starting up, but not yet ready to accept calls'']"

text \<open>A nil error is None.\<close>

definition IsUnlockError :: "(go_error \<Rightarrow> grpc_code option) \<Rightarrow> go_error option \<Rightarrow> bool" where
  "IsUnlockError FromError err = (case err of
       None \<Rightarrow> False
     | Some err \<Rightarrow> list_ex (\<lambda>lnd13Err. sublist lnd13Err (err_text err)) lnd13UnlockErrors
         \<or> FromError err = Some GrpcUnimplemented \<or> FromError err = Some GrpcUnavailable)"

definition chainNotifierStartupMessage :: string where
  "chainNotifierStartupMessage = ''chain notifier RPC is still in the process of starting''"

definition isChainNotifierStartingErr :: "(go_error \<Rightarrow> grpc_code option) \<Rightarrow> go_error option \<Rightarrow> bool"
where
  "isChainNotifierStartingErr FromError err = (case err of
       None \<Rightarrow> False
     | Some err \<Rightarrow> FromError err = Some GrpcUnavailable
         \<or> sublist chainNotifierStartupMessage (err_text err))"

section \<open>The log of a start-up\<close>

datatype waited = WaitLightning | WaitChainNotifier | WaitInvoices | WaitRouter

datatype (plugins only: size) startup_op =
    OpDial string
  | OpClose
  | OpWait waited
  | OpState state_req
  | OpVersion verrpc_req
  | OpLightning lightning_req
  | OpChain chain_req
  | OpPoll i64

text \<open>What surrounds the start-up; a server sees the whole log. \<open>se_Dial\<close> is the error of \<open>grpc.Dial\<close>.\<close>

record 'cert startup_env =
  se_tls :: "'cert tls_env"
  se_ReadFile :: "string \<Rightarrow> bytes go"
  se_Dial :: "string \<Rightarrow> 'cert creds \<Rightarrow> go_error option"
  se_FromError :: "go_error \<Rightarrow> grpc_code option"
  se_NewHashFromStr :: "string \<Rightarrow> bytes go"
  se_ParseHexColor :: "string \<Rightarrow> rgba go"
  se_state :: "(startup_op, unit, unit) server"
  se_info :: "(startup_op, unit, GetInfoResponse) server"
  se_version :: "(startup_op, unit, Version) server"
  se_epochs :: "(startup_op, unit, unit) server"

definition io_do :: "'d \<Rightarrow> ('d, unit) io" where
  "io_do op h = (Ok (), h @ [(BackgroundCtx, op)])"

text \<open>A method of a client inside the log of the start-up.\<close>

definition io_embed :: "('c \<Rightarrow> 'd) \<Rightarrow> ('d rpclog \<Rightarrow> ('c, 'a) io) \<Rightarrow> ('d, 'a) io" where
  "io_embed tag m h = (let (r, es) = m h [] in (r, h @ map (\<lambda>(c, q). (c, tag q)) es))"

text \<open>\<open>if err != nil { cleanup(); return nil, wrap(err) }\<close>.\<close>

definition on_err :: "('d, unit) io \<Rightarrow> (go_error \<Rightarrow> go_error) \<Rightarrow> ('d, 'a) io \<Rightarrow> ('d, 'a) io" where
  "on_err cleanup w m h = (case m h of
       (Err e, h') \<Rightarrow> (Err (w e), snd (cleanup h'))
     | r \<Rightarrow> r)"

definition io_some :: "('d, 'a) io \<Rightarrow> ('d, 'a option) io" where
  "io_some m = io_bind m (\<lambda>x. io_ret (Some x))"

text \<open>Go on when the first part has not stopped in a wait.\<close>

definition io_next :: "('d, 'a option) io \<Rightarrow> ('a \<Rightarrow> ('d, 'b option) io) \<Rightarrow> ('d, 'b option) io" where
  "io_next m f = io_bind m (\<lambda>r. case r of None \<Rightarrow> io_ret None | Some x \<Rightarrow> f x)"

section \<open>Waiting for the wallet\<close>

text \<open>What the \<open>select\<close> of \<open>getLndInfo\<close> receives: a state, the end of the states, an error, the end
  of the errors, or the end of the context.\<close>

datatype unlock_event =
    UState WalletState | UStateClosed | UErr go_error | UErrClosed | UCtxDone go_error

fun unlock_loop :: "('d, Info) io \<Rightarrow> unlock_event list \<Rightarrow> ('d, Info option) io" where
  "unlock_loop getInfo [] = io_ret None"
| "unlock_loop getInfo (ev # evs) = (case ev of
       UState state \<Rightarrow> if ReadyForGetInfo state then io_some getInfo else unlock_loop getInfo evs
     | UStateClosed \<Rightarrow> io_some getInfo
     | UErr err \<Rightarrow> io_err err
     | UErrClosed \<Rightarrow> io_some getInfo
     | UCtxDone err \<Rightarrow> io_err err)"

definition caller_ctx :: "ctx option \<Rightarrow> ctx" where
  "caller_ctx c = (case c of None \<Rightarrow> BackgroundCtx | Some c \<Rightarrow> c)"

definition lnd_info ::
  "'cert startup_env \<Rightarrow> ctx \<Rightarrow> serializedMacaroon \<Rightarrow> (startup_op, Info) io" where
  "lnd_info e c readonlyMac =
     io_bind (rpc (se_info e) (\<lambda>_. OpLightning GetInfoReq) (WithMacaroonAuth readonlyMac c) ())
       (\<lambda>info. io_lift (newInfo (se_NewHashFromStr e) (se_ParseHexColor e) info))"

definition getLndInfo ::
  "'cert startup_env \<Rightarrow> ctx option \<Rightarrow> serializedMacaroon \<Rightarrow> stateClient \<Rightarrow> bool \<Rightarrow> unlock_event list
     \<Rightarrow> (startup_op, Info option) io" where
  "getLndInfo e c readonlyMac stateClient waitForUnlocked evs =
     (let c = caller_ctx c in
      io_try (io_embed OpState (\<lambda>h. SubscribeState stateClient (\<lambda>_. se_state e h) c)) (\<lambda>res. case res of
          Err err \<Rightarrow> io_err (WrapErr ''error subscribing to lnd wallet state: ''
            (if IsUnlockError (se_FromError e) (Some err)
             then WrapErr ''lnd version incompatible, need at least v0.13.0-beta, got error on state subscription: '' err
             else err))
        | Panic p \<Rightarrow> io_lift (Panic p)
        | Ok _ \<Rightarrow>
            if \<not> waitForUnlocked then io_some (lnd_info e c readonlyMac)
            else unlock_loop (lnd_info e c readonlyMac) evs))"

section \<open>The configuration and the services\<close>

record LndServicesConfig =
  cfg_LndAddress :: string
  cfg_Network :: Network
  cfg_MacaroonDir :: string
  cfg_CustomMacaroonPath :: string
  cfg_CustomMacaroonHex :: string
  cfg_TLSPath :: string
  cfg_TLSData :: string
  cfg_Insecure :: bool
  cfg_SystemCert :: bool
  cfg_CheckVersion :: "Version option"
  cfg_BlockUntilChainSynced :: bool
  cfg_BlockUntilChainNotifier :: bool
  cfg_BlockUntilUnlocked :: bool
  cfg_CallerCtx :: "ctx option"
  cfg_RPCTimeout :: i64
  cfg_ChainSyncPollInterval :: i64

record LndServices =
  svc_Client :: lightningClient
  svc_WalletKit :: walletKitClient
  svc_ChainNotifier :: chainNotifierClient
  svc_ChainKit :: chainKitClient
  svc_Signer :: signerClient
  svc_Invoices :: invoicesClient
  svc_Router :: routerClient
  svc_Versioner :: versionerClient
  svc_State :: stateClient
  svc_WtClient :: wtClient
  svc_ChainParams :: chain_params
  svc_NodeAlias :: string
  svc_NodePubkey :: bytes
  svc_Version :: Version
  svc_macaroons :: macaroonPouch

definition chainSyncPollInterval :: i64 where "chainSyncPollInterval = 5 * Second"

definition WithMacaroonAuthForService :: "LndServices \<Rightarrow> ctx \<Rightarrow> LnrpcServiceMac \<Rightarrow> ctx go" where
  "WithMacaroonAuthForService s c service = (case svc_macaroons s service of
       None \<Rightarrow> Err (FmtVal ''unknown service '' service)
     | Some mac \<Rightarrow> Ok (WithMacaroonAuth mac c))"

section \<open>Waiting for the chain\<close>

text \<open>The poller's \<open>select\<close> after an answer that lnd is not synced: the timer fires (None) or the
  context is done.\<close>

fun chain_sync_loop ::
  "'cert startup_env \<Rightarrow> lightningClient \<Rightarrow> ctx \<Rightarrow> i64 \<Rightarrow> i64 \<Rightarrow> go_error option list
     \<Rightarrow> (startup_op, unit option) io" where
  "chain_sync_loop e client mainCtx timeout pollInterval waits =
     io_try (io_embed OpLightning (\<lambda>h. GetInfo client (se_NewHashFromStr e) (se_ParseHexColor e)
         (\<lambda>_. se_info e h) (TimeoutCtx mainCtx timeout))) (\<lambda>res. case res of
       Err err \<Rightarrow> io_err (FmtErr ''error in GetInfo call: '' err)
     | Panic p \<Rightarrow> io_lift (Panic p)
     | Ok info \<Rightarrow>
         if info_SyncedToChain info then io_ret (Some ())
         else case waits of
             [] \<Rightarrow> io_ret None
           | Some err # _ \<Rightarrow> io_err err
           | None # waits' \<Rightarrow> io_bind (io_do (OpPoll pollInterval)) (\<lambda>_.
               chain_sync_loop e client mainCtx timeout pollInterval waits'))"

definition waitForChainSync ::
  "'cert startup_env \<Rightarrow> LndServices \<Rightarrow> ctx option \<Rightarrow> i64 \<Rightarrow> i64 \<Rightarrow> go_error option list
     \<Rightarrow> (startup_op, unit option) io" where
  "waitForChainSync e s c timeout pollInterval waits =
     chain_sync_loop e (svc_Client s) (caller_ctx c) timeout pollInterval waits"

declare chain_sync_loop.simps [simp del]

text \<open>What one attempt to register with the chain notifier receives: the end of its context, a value
  of the error channel, or a block; and then, when it has to wait for the next attempt, the timer or
  the end of the caller's context.\<close>

datatype ntfn_event = NtfnDone go_error | NtfnErr "go_error option" | NtfnBlock i32

datatype attempt_result = AttemptOk | AttemptRetry | AttemptFail go_error

definition notifier_event ::
  "'cert startup_env \<Rightarrow> ntfn_event \<Rightarrow> go_error option \<Rightarrow> attempt_result" where
  "notifier_event e ev poll = (case ev of
       NtfnDone err \<Rightarrow> AttemptFail err
     | NtfnErr err \<Rightarrow>
         if isChainNotifierStartingErr (se_FromError e) err
         then (case poll of None \<Rightarrow> AttemptRetry | Some err \<Rightarrow> AttemptFail err)
         else (case err of None \<Rightarrow> AttemptOk | Some err \<Rightarrow> AttemptFail err)
     | NtfnBlock height \<Rightarrow> AttemptOk)"

text \<open>\<open>context.WithTimeout\<close> of a nil context panics.\<close>

definition register_epochs ::
  "'cert startup_env \<Rightarrow> chainNotifierClient \<Rightarrow> ctx option \<Rightarrow> i64
     \<Rightarrow> (startup_op, (u32, i32) sub) io" where
  "register_epochs e client c timeout =
     io_bind (io_lift (case c of None \<Rightarrow> Panic ''cannot create context from nil parent'' | Some c \<Rightarrow> Ok c))
       (\<lambda>c. io_embed OpChain (\<lambda>h. RegisterBlockEpochNtfn client (\<lambda>_. se_epochs e h)
              (TimeoutCtx c timeout)))"

fun chain_notifier_loop ::
  "'cert startup_env \<Rightarrow> chainNotifierClient \<Rightarrow> ctx option \<Rightarrow> i64 \<Rightarrow> i64
     \<Rightarrow> (ntfn_event \<times> go_error option) list \<Rightarrow> (startup_op, unit option) io" where
  "chain_notifier_loop e client c timeout pollInterval evs =
     io_try (register_epochs e client c timeout) (\<lambda>res. case res of
       Err err \<Rightarrow> io_err (WrapErr ''register block epoch ntfn: '' err)
     | Panic p \<Rightarrow> io_lift (Panic p)
     | Ok _ \<Rightarrow> (case evs of
           [] \<Rightarrow> io_ret None
         | (ev, poll) # evs' \<Rightarrow> (case notifier_event e ev poll of
               AttemptOk \<Rightarrow> io_ret (Some ())
             | AttemptFail err \<Rightarrow> io_err err
             | AttemptRetry \<Rightarrow> io_bind (io_do (OpPoll pollInterval)) (\<lambda>_.
                 chain_notifier_loop e client c timeout pollInterval evs'))))"

declare chain_notifier_loop.simps [simp del]

definition waitForChainNotifier ::
  "'cert startup_env \<Rightarrow> LndServices \<Rightarrow> ctx option \<Rightarrow> i64 \<Rightarrow> i64 \<Rightarrow> (ntfn_event \<times> go_error option) list
     \<Rightarrow> (startup_op, unit option) io" where
  "waitForChainNotifier e s c timeout pollInterval evs =
     chain_notifier_loop e (svc_ChainNotifier s) c timeout pollInterval evs"

section \<open>Starting up\<close>

definition default_macaroon_dir :: "string \<Rightarrow> Network \<Rightarrow> string go" where
  "default_macaroon_dir lndDir network =
     (if network \<in> {NetworkTestnet, NetworkTestnet4, NetworkMainnet, NetworkSimnet, NetworkSignet,
           NetworkRegtest}
      then Ok (path_Join [lndDir, ''data'', ''chain'', ''bitcoin'', network])
      else Err (FmtVal ''unsupported network: '' network))"

definition macaroon_dir :: "string \<Rightarrow> LndServicesConfig \<Rightarrow> string go" where
  "macaroon_dir lndDir cfg =
     (if 1 < length (filter (\<lambda>option. option \<noteq> [])
           [cfg_MacaroonDir cfg, cfg_CustomMacaroonPath cfg, cfg_CustomMacaroonHex cfg])
      then Err (NewErr ''must set only one: MacaroonDir, CustomMacaroonPath, or CustomMacaroonHex'')
      else if cfg_MacaroonDir cfg \<noteq> [] then Ok (cfg_MacaroonDir cfg)
      else default_macaroon_dir lndDir (cfg_Network cfg))"

definition getClientConn ::
  "'cert startup_env \<Rightarrow> LndServicesConfig \<Rightarrow> (startup_op, unit) io" where
  "getClientConn e cfg =
     io_bind (io_lift (go_wrap (FmtErr ''unable to get tls creds: '')
       (GetTLSCredentials (se_tls e) (cfg_TLSData cfg) (cfg_TLSPath cfg) (cfg_Insecure cfg)
          (cfg_SystemCert cfg)))) (\<lambda>creds.
     case se_Dial e (cfg_LndAddress cfg) creds of
       Some err \<Rightarrow> io_err (FmtErr ''unable to connect to RPC server: '' err)
     | None \<Rightarrow> io_do (OpDial (cfg_LndAddress cfg)))"

definition readonly_macaroon :: "'cert startup_env \<Rightarrow> LndServicesConfig \<Rightarrow> string \<Rightarrow> serializedMacaroon go"
where
  "readonly_macaroon e cfg macaroonDir =
     (if cfg_CustomMacaroonHex cfg \<noteq> [] then Ok (cfg_CustomMacaroonHex cfg)
      else loadMacaroon (se_ReadFile e) macaroonDir ReadOnlyServiceMac (cfg_CustomMacaroonPath cfg))"

definition cleanupConn :: "(startup_op, unit) io" where
  "cleanupConn = io_do OpClose"

definition cleanup :: "(startup_op, unit) io" where
  "cleanup =
     io_bind cleanupConn (\<lambda>_. io_bind (io_do (OpWait WaitLightning)) (\<lambda>_.
     io_bind (io_do (OpWait WaitChainNotifier)) (\<lambda>_. io_bind (io_do (OpWait WaitInvoices)) (\<lambda>_.
       io_do (OpWait WaitRouter)))))"

definition build_services ::
  "macaroonPouch \<Rightarrow> serializedMacaroon \<Rightarrow> i64 \<Rightarrow> chain_params \<Rightarrow> string \<times> bytes \<times> Version \<Rightarrow> LndServices"
where
  "build_services macaroons readonlyMac timeout chainParams node =
     (let router = newRouterClient (pouch_get macaroons RouterServiceMac) timeout
      in \<lparr>svc_Client = newLightningClient timeout (pouch_get macaroons AdminServiceMac) router,
          svc_WalletKit = newWalletKitClient (pouch_get macaroons WalletKitServiceMac) timeout
            chainParams,
          svc_ChainNotifier = newChainNotifierClient (pouch_get macaroons ChainNotifierServiceMac)
            timeout,
          svc_ChainKit = newChainKitClient (pouch_get macaroons ChainNotifierServiceMac) timeout,
          svc_Signer = newSignerClient (pouch_get macaroons SignerServiceMac) timeout,
          svc_Invoices = newInvoicesClient (pouch_get macaroons InvoiceServiceMac) timeout,
          svc_Router = router,
          svc_Versioner = newVersionerClient readonlyMac timeout,
          svc_State = newStateClient readonlyMac timeout,
          svc_WtClient = newWtClient (pouch_get macaroons WalletKitServiceMac) timeout,
          svc_ChainParams = chainParams,
          svc_NodeAlias = fst node, svc_NodePubkey = fst (snd node), svc_Version = snd (snd node),
          svc_macaroons = macaroons\<rparr>)"

record startup_events =
  ev_unlock :: "unlock_event list"
  ev_sync :: "go_error option list"
  ev_notifier :: "(ntfn_event \<times> go_error option) list"

text \<open>The waits at the end, each followed by the full cleanup when it fails.\<close>

definition chain_waits ::
  "'cert startup_env \<Rightarrow> LndServicesConfig \<Rightarrow> i64 \<Rightarrow> startup_events \<Rightarrow> LndServices
     \<Rightarrow> (startup_op, LndServices option) io" where
  "chain_waits e cfg timeout evs services =
     (let poll = (if cfg_ChainSyncPollInterval cfg = 0 then chainSyncPollInterval
                  else cfg_ChainSyncPollInterval cfg)
      in io_next (if cfg_BlockUntilChainSynced cfg
             then on_err cleanup (FmtErr ''error waiting for chain to be synced: '')
               (waitForChainSync e services (cfg_CallerCtx cfg) timeout poll (ev_sync evs))
             else io_ret (Some ())) (\<lambda>_.
         io_next (if cfg_BlockUntilChainNotifier cfg
             then on_err cleanup (WrapErr ''error waiting for chain notifier readiness: '')
               (waitForChainNotifier e services (cfg_CallerCtx cfg) timeout poll (ev_notifier evs))
             else io_ret (Some ())) (\<lambda>_.
         io_ret (Some services))))"

definition start_services ::
  "'cert startup_env \<Rightarrow> LndServicesConfig \<Rightarrow> startup_events \<Rightarrow> string \<Rightarrow> chain_params
     \<Rightarrow> serializedMacaroon \<Rightarrow> (startup_op, LndServices option) io" where
  "start_services e cfg evs macaroonDir chainParams readonlyMac =
     (let timeout = (if cfg_RPCTimeout cfg \<noteq> 0 then cfg_RPCTimeout cfg else default_RPCTimeout);
          checkVersion = (case cfg_CheckVersion cfg of None \<Rightarrow> minimalCompatibleVersion | Some v \<Rightarrow> v)
      in io_next (on_err cleanupConn id
             (getLndInfo e (cfg_CallerCtx cfg) readonlyMac (newStateClient readonlyMac timeout)
                (cfg_BlockUntilUnlocked cfg) (ev_unlock evs))) (\<lambda>info.
         io_bind (on_err cleanupConn id
             (io_embed OpVersion (\<lambda>h. checkLndCompatibility (se_FromError e) (\<lambda>_. se_version e h)
                readonlyMac info (cfg_Network cfg) checkVersion timeout))) (\<lambda>node.
         io_bind (on_err cleanupConn (FmtErr ''unable to obtain macaroons: '')
             (io_lift (newMacaroonPouch (se_ReadFile e) macaroonDir (cfg_CustomMacaroonPath cfg)
                (cfg_CustomMacaroonHex cfg)))) (\<lambda>macaroons.
         chain_waits e cfg timeout evs
           (build_services macaroons readonlyMac timeout chainParams node)))))"

definition NewLndServices ::
  "'cert startup_env \<Rightarrow> LndServicesConfig \<Rightarrow> startup_events \<Rightarrow> (startup_op, LndServices option) io" where
  "NewLndServices e cfg evs =
     io_bind (io_lift (macaroon_dir (te_AppDataDir (se_tls e)) cfg)) (\<lambda>macaroonDir.
     io_bind (getClientConn e cfg) (\<lambda>_.
     io_bind (io_lift (ChainParams (cfg_Network cfg))) (\<lambda>chainParams.
     io_bind (io_lift (readonly_macaroon e cfg macaroonDir)) (\<lambda>readonlyMac.
       start_services e cfg evs macaroonDir chainParams readonlyMac))))"

definition lnd_Close :: "(startup_op, unit) io" where
  "lnd_Close = cleanup"

end
