(* ===== verification/BasicClient.thy ===== *)
theory BasicClient
  imports LndServices
begin

text \<open>
  \<open>basic_client.go\<close>: a connection to lnd from a host, two paths and a network, with everything else an
  option that has a default. \<open>macaroon.UnmarshalBinary\<close>, \<open>macaroons.NewMacaroonCredential\<close> and
  \<open>grpc.Dial\<close> belong to other modules.
\<close>

record basicClientOptions =
  bco_macFilename :: string
  bco_tlsData :: string
  bco_macData :: string
  bco_insecure :: bool
  bco_systemCerts :: bool

text \<open>An option is a function that changes the set of options.\<close>

type_synonym BasicClientOption = "basicClientOptions \<Rightarrow> basicClientOptions"

definition defaultBasicClientOptions :: basicClientOptions where
  "defaultBasicClientOptions = \<lparr>bco_macFilename = AdminServiceMac, bco_tlsData = [],
     bco_macData = [], bco_insecure = False, bco_systemCerts = False\<rparr>"

definition MacFilename :: "string \<Rightarrow> BasicClientOption" where
  "MacFilename macFilename bc = bc\<lparr>bco_macFilename := macFilename\<rparr>"

definition TLSData :: "string \<Rightarrow> BasicClientOption" where
  "TLSData tlsData bc = bc\<lparr>bco_tlsData := tlsData\<rparr>"

definition MacaroonData :: "string \<Rightarrow> BasicClientOption" where
  "MacaroonData macData bc = bc\<lparr>bco_macData := macData\<rparr>"

definition Insecure :: BasicClientOption where
  "Insecure bc = bc\<lparr>bco_insecure := True\<rparr>"

definition SystemCerts :: BasicClientOption where
  "SystemCerts bc = bc\<lparr>bco_systemCerts := True\<rparr>"

primrec applyBasicClientOptions ::
  "BasicClientOption list \<Rightarrow> basicClientOptions \<Rightarrow> basicClientOptions" where
  "applyBasicClientOptions [] bc = bc"
| "applyBasicClientOptions (option # options) bc = applyBasicClientOptions options (option bc)"

record ('cert, 'mac, 'cred) basic_env =
  be_tls :: "'cert tls_env"
  be_ReadFile :: "string \<Rightarrow> bytes go"
  be_UnmarshalBinary :: "bytes \<Rightarrow> 'mac go"
  be_NewMacaroonCredential :: "'mac \<Rightarrow> 'cred go"
  be_Dial :: "string \<Rightarrow> 'cert creds \<Rightarrow> 'cred \<Rightarrow> go_error option"

definition basic_macaroon ::
  "('cert, 'mac, 'cred) basic_env \<Rightarrow> string \<Rightarrow> string \<Rightarrow> basicClientOptions \<Rightarrow> bytes go" where
  "basic_macaroon e macDir network bco =
     (if bco_macData bco \<noteq> [] then hex_decode (bco_macData bco)
      else let macDir = (if macDir = []
             then path_Join [te_AppDataDir (be_tls e), ''data'', ''chain'', ''bitcoin'', network]
             else macDir)
           in be_ReadFile e (path_Join [macDir, bco_macFilename bco]))"

definition parseTLSAndMacaroon ::
  "('cert, 'mac, 'cred) basic_env \<Rightarrow> string \<Rightarrow> string \<Rightarrow> string \<Rightarrow> BasicClientOption list
     \<Rightarrow> ('cert creds \<times> 'mac) go" where
  "parseTLSAndMacaroon e tlsPath macDir network basicOptions =
     (let bco = applyBasicClientOptions basicOptions defaultBasicClientOptions
      in go_bind (GetTLSCredentials (be_tls e) (bco_tlsData bco) tlsPath (bco_insecure bco)
           (bco_systemCerts bco)) (\<lambda>creds.
         go_bind (basic_macaroon e macDir network bco) (\<lambda>macBytes.
         go_bind (go_wrap (FmtErr ''unable to decode macaroon: '') (be_UnmarshalBinary e macBytes))
           (\<lambda>mac. Ok (creds, mac)))))"

text \<open>A connection: its host, transport credentials and the credential sent with every call.\<close>

datatype ('cert, 'cred) basic_conn = BasicConn string "'cert creds" 'cred

definition NewBasicConn ::
  "('cert, 'mac, 'cred) basic_env \<Rightarrow> string \<Rightarrow> string \<Rightarrow> string \<Rightarrow> string \<Rightarrow> BasicClientOption list
     \<Rightarrow> ('cert, 'cred) basic_conn go" where
  "NewBasicConn e lndHost tlsPath macDir network basicOptions =
     go_bind (parseTLSAndMacaroon e tlsPath macDir network basicOptions) (\<lambda>(creds, mac).
     go_bind (go_wrap (FmtErr ''error creating macaroon credential: '')
       (be_NewMacaroonCredential e mac)) (\<lambda>cred.
     case be_Dial e lndHost creds cred of
       Some err \<Rightarrow> Err (FmtErr ''unable to connect to RPC server: '' err)
     | None \<Rightarrow> Ok (BasicConn lndHost creds cred)))"

datatype ('cert, 'cred) basic_client = LightningClientOn "('cert, 'cred) basic_conn"

definition NewBasicClient ::
  "('cert, 'mac, 'cred) basic_env \<Rightarrow> string \<Rightarrow> string \<Rightarrow> string \<Rightarrow> string \<Rightarrow> BasicClientOption list
     \<Rightarrow> ('cert, 'cred) basic_client go" where
  "NewBasicClient e lndHost tlsPath macDir network basicOptions =
     go_bind (NewBasicConn e lndHost tlsPath macDir network basicOptions)
       (\<lambda>conn. Ok (LightningClientOn conn))"

section \<open>Lists of options\<close>

text \<open>The options the library offers, by name; the last one of a kind counts.\<close>

datatype basic_option = OMacFilename string | OTLSData string | OMacaroonData string | OInsecure
  | OSystemCerts

primrec option_fun :: "basic_option \<Rightarrow> BasicClientOption" where
  "option_fun (OMacFilename f) = MacFilename f"
| "option_fun (OTLSData d) = TLSData d"
| "option_fun (OMacaroonData d) = MacaroonData d"
| "option_fun OInsecure = Insecure"
| "option_fun OSystemCerts = SystemCerts"

fun mac_filename :: "basic_option \<Rightarrow> string option" where
  "mac_filename (OMacFilename f) = Some f" | "mac_filename _ = None"

fun tls_data :: "basic_option \<Rightarrow> string option" where
  "tls_data (OTLSData d) = Some d" | "tls_data _ = None"

fun mac_data :: "basic_option \<Rightarrow> string option" where
  "mac_data (OMacaroonData d) = Some d" | "mac_data _ = None"

definition last_of :: "'a \<Rightarrow> ('o \<Rightarrow> 'a option) \<Rightarrow> 'o list \<Rightarrow> 'a" where
  "last_of d f os = last (d # List.map_filter f os)"

lemma last_of_simps [simp]:
  "last_of d f [] = d"
  "last_of d f (x # os) = last_of (case f x of None \<Rightarrow> d | Some y \<Rightarrow> y) f os"
  by (auto simp: last_of_def List.map_filter_def split: option.split)

lemma apply_options_fields:
  "bco_macFilename (applyBasicClientOptions (map option_fun os) bc)
     = last_of (bco_macFilename bc) mac_filename os"
  "bco_tlsData (applyBasicClientOptions (map option_fun os) bc) = last_of (bco_tlsData bc) tls_data os"
  "bco_macData (applyBasicClientOptions (map option_fun os) bc) = last_of (bco_macData bc) mac_data os"
  "bco_insecure (applyBasicClientOptions (map option_fun os) bc)
     \<longleftrightarrow> bco_insecure bc \<or> OInsecure \<in> set os"
  "bco_systemCerts (applyBasicClientOptions (map option_fun os) bc)
     \<longleftrightarrow> bco_systemCerts bc \<or> OSystemCerts \<in> set os"
proof (induction os arbitrary: bc)
  case (Cons x os)
  { case 1 show ?case using Cons.IH(1) by (cases x) (simp_all add: MacFilename_def TLSData_def
      MacaroonData_def Insecure_def SystemCerts_def) }
  { case 2 show ?case using Cons.IH(2) by (cases x) (simp_all add: MacFilename_def TLSData_def
      MacaroonData_def Insecure_def SystemCerts_def) }
  { case 3 show ?case using Cons.IH(3) by (cases x) (simp_all add: MacFilename_def TLSData_def
      MacaroonData_def Insecure_def SystemCerts_def) }
  { case 4 show ?case using Cons.IH(4) by (cases x) (simp_all add: MacFilename_def TLSData_def
      MacaroonData_def Insecure_def SystemCerts_def) }
  { case 5 show ?case using Cons.IH(5) by (cases x) (simp_all add: MacFilename_def TLSData_def
      MacaroonData_def Insecure_def SystemCerts_def) }
qed simp_all

text \<open>Where the certificate comes from: PEM data, a file, or lnd's own file.\<close>

definition tls_cert :: "'cert tls_env \<Rightarrow> string \<Rightarrow> string \<Rightarrow> 'cert \<Rightarrow> bool" where
  "tls_cert te tlsData tlsPath cert \<longleftrightarrow>
     (if tlsData \<noteq> []
      then \<exists>der. te_PemDecode te tlsData = Some (''CERTIFICATE'', der) \<and> te_ParseCertificate te der = Ok cert
      else te_CertFromFile te (if tlsPath \<noteq> [] then tlsPath
             else path_Join [te_AppDataDir te, ''tls.cert'']) = Ok cert)"

lemma GetTLSCredentials_Ok:
  assumes "GetTLSCredentials te tlsData tlsPath insecure systemCert = Ok creds"
  shows "(tlsPath = [] \<or> tlsData = []) \<and> \<not> (insecure \<and> systemCert)
     \<and> (if insecure then creds = SkipVerifyTLS else if systemCert then creds = SystemCertTLS
        else \<exists>cert. creds = CertTLS cert \<and> tls_cert te tlsData tlsPath cert)"
  using assms
  by (auto simp: GetTLSCredentials_def tls_cert_def defaultTLSCertPath_def split: if_splits option.splits)

section \<open>Main theorems\<close>

text \<open>C18: a basic connection is what its arguments and options say: it goes to the given host, always
  over TLS; the server's certificate is not verified exactly when the insecure option is among the
  options, the system's certificates are used exactly when that option is, never both, and otherwise
  the certificate of the last TLS data option, of the given path or of lnd's default path, and never
  data and a path together. Its macaroon is decoded from the last macaroon option or, when there is
  none or it is empty, from the file named by the last file name option, \<open>admin.macaroon\<close> without one,
  in the given directory or lnd's directory of the network.\<close>

theorem NewBasicClient_options:
  assumes "NewBasicClient e lndHost tlsPath macDir network (map option_fun os)
    = Ok (LightningClientOn (BasicConn host creds cred))"
  shows "host = lndHost \<and> be_Dial e lndHost creds cred = None
     \<and> (creds = SkipVerifyTLS \<longleftrightarrow> OInsecure \<in> set os)
     \<and> (creds = SystemCertTLS \<longleftrightarrow> OSystemCerts \<in> set os)
     \<and> (\<forall>cert. creds = CertTLS cert \<longrightarrow> tls_cert (be_tls e) (last_of [] tls_data os) tlsPath cert)
     \<and> \<not> (OInsecure \<in> set os \<and> OSystemCerts \<in> set os)
     \<and> (tlsPath = [] \<or> last_of [] tls_data os = [])
     \<and> (let dir = (if macDir \<noteq> [] then macDir
              else path_Join [te_AppDataDir (be_tls e), ''data'', ''chain'', ''bitcoin'', network]);
            hex = last_of [] mac_data os
        in \<exists>bytes mac. (if hex \<noteq> [] then hex_decode hex
              else be_ReadFile e (path_Join [dir, last_of ''admin.macaroon'' mac_filename os])) = Ok bytes
           \<and> be_UnmarshalBinary e bytes = Ok mac \<and> be_NewMacaroonCredential e mac = Ok cred)"
proof -
  define bco where "bco = applyBasicClientOptions (map option_fun os) defaultBasicClientOptions"
  from assms obtain bytes mac where parts:
    "GetTLSCredentials (be_tls e) (bco_tlsData bco) tlsPath (bco_insecure bco)
       (bco_systemCerts bco) = Ok creds"
    "basic_macaroon e macDir network bco = Ok bytes" "be_UnmarshalBinary e bytes = Ok mac"
    "be_NewMacaroonCredential e mac = Ok cred" "be_Dial e lndHost creds cred = None" "host = lndHost"
    by (auto simp: NewBasicClient_def NewBasicConn_def parseTLSAndMacaroon_def Let_def bco_def
        split: option.splits)
  have fields: "bco_macFilename bco = last_of ''admin.macaroon'' mac_filename os"
    "bco_tlsData bco = last_of [] tls_data os" "bco_macData bco = last_of [] mac_data os"
    "bco_insecure bco \<longleftrightarrow> OInsecure \<in> set os" "bco_systemCerts bco \<longleftrightarrow> OSystemCerts \<in> set os"
    by (simp_all add: bco_def apply_options_fields defaultBasicClientOptions_def AdminServiceMac_def)
  from GetTLSCredentials_Ok [OF parts(1)] parts(2-) show ?thesis
    unfolding basic_macaroon_def fields Let_def by (auto split: if_splits)
qed

theorem NewBasicClient_options_witness:
  "let e = \<lparr>be_tls = \<lparr>te_PemDecode = \<lambda>_. None, te_ParseCertificate = \<lambda>_. Ok (),
         te_CertFromFile = \<lambda>_. Ok (), te_Stat = \<lambda>_. None, te_AppDataDir = ''/lnd''\<rparr>,
       be_ReadFile = \<lambda>f. if f = ''/d/b.macaroon'' then Ok [7] else Err (NewErr f),
       be_UnmarshalBinary = Ok, be_NewMacaroonCredential = Ok, be_Dial = \<lambda>_ _ _. None\<rparr>
   in \<exists>cred. NewBasicClient e ''h'' [] ''/d'' ''regtest''
          (map option_fun [OMacFilename ''a.macaroon'', OInsecure, OMacFilename ''b.macaroon''])
        = Ok (LightningClientOn (BasicConn ''h'' SkipVerifyTLS cred)) \<and> cred = [7]"
proof -
  let ?e = "\<lparr>be_tls = \<lparr>te_PemDecode = \<lambda>_. None, te_ParseCertificate = \<lambda>_. Ok (),
         te_CertFromFile = \<lambda>_. Ok (), te_Stat = \<lambda>_. None, te_AppDataDir = ''/lnd''\<rparr>,
       be_ReadFile = \<lambda>f. if f = ''/d/b.macaroon'' then Ok [7] else Err (NewErr f),
       be_UnmarshalBinary = Ok, be_NewMacaroonCredential = Ok, be_Dial = \<lambda>_ _ _. None\<rparr>"
  let ?os = "[OMacFilename ''a.macaroon'', OInsecure, OMacFilename ''b.macaroon'']"
  have path: "path_Join [''/d'', ''b.macaroon''] = ''/d/b.macaroon''"
    by (simp add: path_Join_def path_Clean_def)
  have run: "NewBasicClient ?e ''h'' [] ''/d'' ''regtest'' (map option_fun ?os)
      = Ok (LightningClientOn (BasicConn ''h'' SkipVerifyTLS [7]))"
    by (simp add: NewBasicClient_def NewBasicConn_def parseTLSAndMacaroon_def Let_def
        defaultBasicClientOptions_def MacFilename_def Insecure_def GetTLSCredentials_def
        basic_macaroon_def path)
  from NewBasicClient_options [OF run] run show ?thesis by simp
qed

end
