(* ===== verification/LndServicesFacts.thy ===== *)
theory LndServicesFacts
  imports LndServices
begin

text \<open>
  What the start-up of \<open>lnd_services.go\<close> guarantees: how often it opens and closes its connection, what
  lnd has told it when it succeeds, when it asks lnd for its info and when the wait for the chain
  returns.
\<close>

section \<open>Rules for logs\<close>

lemma calls_ok_embed [rpc_intros]:
  assumes "\<And>h. calls_ok (\<lambda>c q. P c (tag q)) (m h)"
  shows "calls_ok P (io_embed tag m)"
  unfolding calls_ok_def
proof
  fix h
  obtain r es where m: "m h [] = (r, es)" by fastforce
  with assms [of h] have "\<forall>(c, q) \<in> set es. P c (tag q)"
    unfolding calls_ok_def by (metis append_Nil snd_conv)
  with m show "\<exists>es. snd (io_embed tag m h) = h @ es \<and> (\<forall>(c, q) \<in> set es. P c q)"
    by (auto simp: io_embed_def)
qed

lemma calls_ok_do [rpc_intros]: "P BackgroundCtx op \<Longrightarrow> calls_ok P (io_do op)"
  by (auto simp: calls_ok_def io_do_def)

lemma calls_ok_some [rpc_intros]: "calls_ok P m \<Longrightarrow> calls_ok P (io_some m)"
  unfolding io_some_def by (intro rpc_intros)

lemma calls_ok_go [rpc_intros]:
  "(\<And>x. calls_ok P (f x)) \<Longrightarrow> (\<And>e. calls_ok P (g e)) \<Longrightarrow> (\<And>p. calls_ok P (k p)) \<Longrightarrow>
     calls_ok P (case r of Ok x \<Rightarrow> f x | Err e \<Rightarrow> g e | Panic p \<Rightarrow> k p)"
  by (cases r) simp_all

section \<open>The connection\<close>

text \<open>How often a log opens and closes the connection.\<close>

fun is_dial :: "startup_op \<Rightarrow> bool" where "is_dial (OpDial a) = True" | "is_dial _ = False"

definition dials :: "startup_op rpclog \<Rightarrow> nat" where
  "dials h = length (filter (is_dial \<circ> snd) h)"

definition closes :: "startup_op rpclog \<Rightarrow> nat" where
  "closes h = length (filter (\<lambda>(c, op). op = OpClose) h)"

lemma dials_simps [simp]:
  "dials [] = 0" "closes [] = 0" "dials (h @ h') = dials h + dials h'"
  "closes (h @ h') = closes h + closes h'"
  "dials ((c, op) # h) = (if is_dial op then 1 else 0) + dials h"
  "closes ((c, op) # h) = (if op = OpClose then 1 else 0) + closes h"
  by (simp_all add: dials_def closes_def)

abbreviation no_conn :: "ctx \<Rightarrow> startup_op \<Rightarrow> bool" where
  "no_conn c op \<equiv> \<not> is_dial op \<and> op \<noteq> OpClose"

lemma no_conn_log: "\<forall>(c, op) \<in> set es. no_conn c op \<Longrightarrow> dials es = 0 \<and> closes es = 0"
  by (induction es) auto

fun is_err :: "'a go \<Rightarrow> bool" where "is_err (Err e) = True" | "is_err _ = False"

text \<open>A step that opens no connection and closes the one there is exactly when it fails.\<close>

definition tidy :: "(startup_op, 'a) io \<Rightarrow> bool" where
  "tidy m \<longleftrightarrow> (\<forall>h. \<exists>es. snd (m h) = h @ es \<and> dials es = 0
     \<and> closes es = (if is_err (fst (m h)) then 1 else 0))"

lemma tidy_ret: "tidy (io_ret x)"
  by (simp add: tidy_def io_eval)

lemma tidy_bind:
  assumes "tidy m" and "\<And>x. tidy (f x)"
  shows "tidy (io_bind m f)"
  unfolding tidy_def
proof
  fix h
  obtain r h' where m: "m h = (r, h')" by fastforce
  from assms(1) m obtain es where es: "h' = h @ es" "dials es = 0"
    "closes es = (if is_err r then 1 else 0)"
    unfolding tidy_def by (metis fst_conv snd_conv)
  show "\<exists>es. snd (io_bind m f h) = h @ es \<and> dials es = 0
      \<and> closes es = (if is_err (fst (io_bind m f h)) then 1 else 0)"
  proof (cases r)
    case (Ok x)
    from assms(2) obtain es' where "snd (f x h') = h' @ es'" "dials es' = 0"
      "closes es' = (if is_err (fst (f x h')) then 1 else 0)"
      unfolding tidy_def by blast
    with es Ok m show ?thesis by (intro exI [of _ "es @ es'"]) (simp add: io_bind_def)
  qed (use es m in \<open>auto simp: io_bind_def\<close>)
qed

lemma tidy_next: "tidy m \<Longrightarrow> (\<And>x. tidy (f x)) \<Longrightarrow> tidy (io_next m f)"
  unfolding io_next_def by (intro tidy_bind) (auto simp: tidy_ret split: option.split)

lemma tidy_on_err:
  assumes "calls_ok no_conn m" and "\<And>h. \<exists>es. snd (clean h) = h @ es \<and> dials es = 0 \<and> closes es = 1"
  shows "tidy (on_err clean w m)"
  unfolding tidy_def
proof
  fix h
  obtain r h' where m: "m h = (r, h')" by fastforce
  from calls_okD [OF assms(1) m] obtain es where es: "h' = h @ es" "dials es = 0" "closes es = 0"
    using no_conn_log by blast
  obtain es' where "snd (clean h') = h' @ es'" "dials es' = 0" "closes es' = 1"
    using assms(2) by blast
  with es m show "\<exists>es. snd (on_err clean w m h) = h @ es \<and> dials es = 0
      \<and> closes es = (if is_err (fst (on_err clean w m h)) then 1 else 0)"
    by (cases r) (auto simp: on_err_def)
qed

lemma cleanup_closes:
  "\<exists>es. snd (cleanupConn h) = h @ es \<and> dials es = 0 \<and> closes es = 1"
  "\<exists>es. snd (cleanup h) = h @ es \<and> dials es = 0 \<and> closes es = 1"
  by (auto simp: cleanup_def cleanupConn_def io_do_def io_bind_def)

lemmas tidy_conn = tidy_on_err [OF _ cleanup_closes(1)] and tidy_full = tidy_on_err [OF _ cleanup_closes(2)]

lemma unlock_loop_calls [rpc_intros]: "calls_ok P m \<Longrightarrow> calls_ok P (unlock_loop m evs)"
  by (induction evs) (auto split: unlock_event.split intro!: rpc_intros)

lemma SubscribeState_calls: "calls_ok (\<lambda>c' q. q = SubscribeStateReq \<and> c' = c) (SubscribeState s srv c)"
  by (auto simp: SubscribeState_def intro!: rpc_intros)

lemma getLndInfo_no_conn: "calls_ok no_conn (getLndInfo e c mac s wait evs)"
  by (auto simp: getLndInfo_def lnd_info_def SubscribeState_def Let_def intro!: rpc_intros)

lemma chain_sync_no_conn: "calls_ok no_conn (chain_sync_loop e client c timeout poll waits)"
  by (induction waits) (subst chain_sync_loop.simps,
    auto simp: GetInfo_def intro!: rpc_intros split: option.split)+

lemma chain_notifier_no_conn: "calls_ok no_conn (chain_notifier_loop e client c timeout poll evs)"
  by (induction evs) (subst chain_notifier_loop.simps,
    auto simp: register_epochs_def RegisterBlockEpochNtfn_def intro!: rpc_intros
      split: attempt_result.split prod.split)+

lemma chain_waits_tidy: "tidy (chain_waits e cfg timeout evs services)"
  unfolding chain_waits_def Let_def waitForChainSync_def waitForChainNotifier_def
  by (intro tidy_next) (auto intro: tidy_ret tidy_full chain_sync_no_conn chain_notifier_no_conn)

lemma start_services_tidy: "tidy (start_services e cfg evs dir params mac)"
  unfolding start_services_def Let_def
  by (intro tidy_next tidy_bind tidy_conn chain_waits_tidy getLndInfo_no_conn)
    (auto simp: intro!: rpc_intros intro: calls_ok_mono [OF checkLndCompatibility_calls])

section \<open>Waiting for the chain\<close>

text \<open>The end of a log after a wait for the chain that succeeded.\<close>

definition lnd_answer :: "'cert startup_env \<Rightarrow> startup_op rpclog \<Rightarrow> ctx \<Rightarrow> Info go" where
  "lnd_answer e h c = go_bind (se_info e h c ()) (newInfo (se_NewHashFromStr e) (se_ParseHexColor e))"

definition sync_call :: "lightningClient \<Rightarrow> ctx \<Rightarrow> i64 \<Rightarrow> ctx" where
  "sync_call client mainCtx timeout = ln_ctx client (TimeoutCtx mainCtx timeout)"

lemma chain_sync_step:
  "io_embed OpLightning (\<lambda>h. GetInfo client (se_NewHashFromStr e) (se_ParseHexColor e)
       (\<lambda>_. se_info e h) (TimeoutCtx mainCtx timeout)) h
   = (lnd_answer e h (sync_call client mainCtx timeout),
      h @ [(sync_call client mainCtx timeout, OpLightning GetInfoReq)])"
  by (auto simp: io_embed_def GetInfo_def io_bind_def rpc_def io_lift_def lnd_answer_def sync_call_def
      split: go.split prod.split)

lemma chain_sync_eval:
  "chain_sync_loop e client mainCtx timeout poll waits h =
     (let c = sync_call client mainCtx timeout; h' = h @ [(c, OpLightning GetInfoReq)]
      in case lnd_answer e h c of
           Err err \<Rightarrow> (Err (FmtErr ''error in GetInfo call: '' err), h')
         | Panic p \<Rightarrow> (Panic p, h')
         | Ok info \<Rightarrow> if info_SyncedToChain info then (Ok (Some ()), h')
             else (case waits of
                 [] \<Rightarrow> (Ok None, h')
               | Some err # _ \<Rightarrow> (Err err, h')
               | None # waits' \<Rightarrow> chain_sync_loop e client mainCtx timeout poll waits'
                   (h' @ [(BackgroundCtx, OpPoll poll)])))"
  by (subst chain_sync_loop.simps)
    (simp add: io_try_def chain_sync_step Let_def io_eval io_bind_def io_do_def
      split: go.split list.split option.split)

text \<open>The log of \<open>k\<close> polls that found lnd not synced.\<close>

definition sync_polls :: "lightningClient \<Rightarrow> ctx \<Rightarrow> i64 \<Rightarrow> i64 \<Rightarrow> nat \<Rightarrow> startup_op rpclog" where
  "sync_polls client mainCtx timeout poll k = concat (replicate k
     [(sync_call client mainCtx timeout, OpLightning GetInfoReq), (BackgroundCtx, OpPoll poll)])"

definition still_syncing ::
  "'cert startup_env \<Rightarrow> startup_op rpclog \<Rightarrow> lightningClient \<Rightarrow> ctx \<Rightarrow> i64 \<Rightarrow> i64 \<Rightarrow> nat \<Rightarrow> bool" where
  "still_syncing e h client mainCtx timeout poll k \<longleftrightarrow>
     (\<forall>j < k. \<exists>info. lnd_answer e (h @ sync_polls client mainCtx timeout poll j)
         (sync_call client mainCtx timeout) = Ok info \<and> \<not> info_SyncedToChain info)"

lemma sync_polls_Suc:
  "sync_polls client mainCtx timeout poll (Suc k) =
     [(sync_call client mainCtx timeout, OpLightning GetInfoReq), (BackgroundCtx, OpPoll poll)]
       @ sync_polls client mainCtx timeout poll k"
  by (simp add: sync_polls_def)

lemma still_syncing_Suc:
  "still_syncing e h client mainCtx timeout poll (Suc k) \<Longrightarrow>
     (\<exists>info. lnd_answer e h (sync_call client mainCtx timeout) = Ok info \<and> \<not> info_SyncedToChain info)
     \<and> still_syncing e (h @ [(sync_call client mainCtx timeout, OpLightning GetInfoReq),
         (BackgroundCtx, OpPoll poll)]) client mainCtx timeout poll k"
proof
  assume s: "still_syncing e h client mainCtx timeout poll (Suc k)"
  from s [unfolded still_syncing_def, THEN spec, of 0]
  show "\<exists>info. lnd_answer e h (sync_call client mainCtx timeout) = Ok info
      \<and> \<not> info_SyncedToChain info"
    by (simp add: sync_polls_def)
  show "still_syncing e (h @ [(sync_call client mainCtx timeout, OpLightning GetInfoReq),
      (BackgroundCtx, OpPoll poll)]) client mainCtx timeout poll k"
    unfolding still_syncing_def
  proof (intro allI impI)
    fix j assume "j < k"
    with s [unfolded still_syncing_def, THEN spec, of "Suc j"]
    show "\<exists>info. lnd_answer e ((h @ [(sync_call client mainCtx timeout, OpLightning GetInfoReq),
        (BackgroundCtx, OpPoll poll)]) @ sync_polls client mainCtx timeout poll j)
        (sync_call client mainCtx timeout) = Ok info \<and> \<not> info_SyncedToChain info"
      by (simp add: sync_polls_Suc)
  qed
qed

text \<open>After \<open>k\<close> polls the loop is where it would be with the remaining events.\<close>

lemma chain_sync_polls:
  "still_syncing e h client mainCtx timeout poll k \<Longrightarrow>
     chain_sync_loop e client mainCtx timeout poll (replicate k None @ waits) h =
       chain_sync_loop e client mainCtx timeout poll waits
         (h @ sync_polls client mainCtx timeout poll k)"
proof (induction k arbitrary: h)
  case 0
  then show ?case by (simp add: sync_polls_def)
next
  case (Suc k)
  from still_syncing_Suc [OF Suc.prems] Suc.IH show ?case
    by (subst chain_sync_eval) (auto simp: Let_def sync_polls_Suc)
qed

lemma lnd_answer_synced:
  "lnd_answer e h c = Ok info \<Longrightarrow> info_SyncedToChain info \<Longrightarrow>
     \<exists>h0 c resp. prefix h0 (h @ es) \<and> se_info e h0 c () = Ok resp \<and> gir_SyncedToChain resp"
proof -
  assume a: "lnd_answer e h c = Ok info" "info_SyncedToChain info"
  then obtain resp where "se_info e h c () = Ok resp" "gir_SyncedToChain resp"
    by (auto simp: lnd_answer_def newInfo_def)
  moreover have "prefix h (h @ es)" by simp
  ultimately show ?thesis by blast
qed

lemma chain_sync_synced:
  "chain_sync_loop e client mainCtx timeout poll waits h = (Ok (Some ()), h') \<Longrightarrow>
     \<exists>h0 c resp. prefix h0 h' \<and> se_info e h0 c () = Ok resp \<and> gir_SyncedToChain resp"
proof (induction waits arbitrary: h)
  case Nil
  let ?c = "sync_call client mainCtx timeout"
  from Nil have "\<exists>info. lnd_answer e h ?c = Ok info \<and> info_SyncedToChain info
      \<and> h' = h @ [(?c, OpLightning GetInfoReq)]"
    by (subst (asm) chain_sync_eval) (auto simp: Let_def split: go.splits if_splits)
  with lnd_answer_synced show ?case by blast
next
  case (Cons w waits)
  let ?c = "sync_call client mainCtx timeout"
  show ?case
  proof (cases "\<exists>info. lnd_answer e h ?c = Ok info \<and> info_SyncedToChain info")
    case True
    with Cons.prems have "h' = h @ [(?c, OpLightning GetInfoReq)]"
      by (subst (asm) chain_sync_eval) (auto simp: Let_def)
    with True lnd_answer_synced show ?thesis by blast
  next
    case False
    with Cons.prems have "chain_sync_loop e client mainCtx timeout poll waits
        (h @ [(?c, OpLightning GetInfoReq), (BackgroundCtx, OpPoll poll)]) = (Ok (Some ()), h')"
      by (subst (asm) chain_sync_eval) (auto simp: Let_def split: go.splits option.splits if_splits)
    from Cons.IH [OF this] show ?thesis .
  qed
qed

lemma chain_notifier_needs_ctx:
  "chain_notifier_loop e client None timeout poll evs h =
     (Panic ''cannot create context from nil parent'', h)"
  by (subst chain_notifier_loop.simps)
    (simp add: register_epochs_def io_try_def io_bind_def io_lift_def)

section \<open>What a start-up leaves behind and what it has checked\<close>

text \<open>The connection of a start-up that got as far as dialling.\<close>

definition dialled :: "'cert startup_env \<Rightarrow> LndServicesConfig \<Rightarrow> bool" where
  "dialled e cfg \<longleftrightarrow> is_ok (macaroon_dir (te_AppDataDir (se_tls e)) cfg) \<and>
     (\<exists>creds. GetTLSCredentials (se_tls e) (cfg_TLSData cfg) (cfg_TLSPath cfg) (cfg_Insecure cfg)
        (cfg_SystemCert cfg) = Ok creds \<and> se_Dial e (cfg_LndAddress cfg) creds = None)"

definition leaves_connection :: "'cert startup_env \<Rightarrow> LndServicesConfig \<Rightarrow> bool" where
  "leaves_connection e cfg \<longleftrightarrow> (\<exists>dir. macaroon_dir (te_AppDataDir (se_tls e)) cfg = Ok dir
     \<and> (is_err (ChainParams (cfg_Network cfg)) \<or> is_err (readonly_macaroon e cfg dir)))"

lemma is_errE: "is_err r \<Longrightarrow> (\<And>e. r = Err e \<Longrightarrow> P) \<Longrightarrow> P"
  by (cases r) auto

lemma getClientConn_eval:
  "(\<exists>h'. getClientConn e cfg h = (Ok (), h') \<and> h' = h @ [(BackgroundCtx, OpDial (cfg_LndAddress cfg))]
      \<and> (\<exists>creds. GetTLSCredentials (se_tls e) (cfg_TLSData cfg) (cfg_TLSPath cfg) (cfg_Insecure cfg)
        (cfg_SystemCert cfg) = Ok creds \<and> se_Dial e (cfg_LndAddress cfg) creds = None))
   \<or> (\<exists>r. getClientConn e cfg h = (r, h) \<and> \<not> is_ok r
      \<and> (\<forall>creds. GetTLSCredentials (se_tls e) (cfg_TLSData cfg) (cfg_TLSPath cfg) (cfg_Insecure cfg)
        (cfg_SystemCert cfg) = Ok creds \<longrightarrow> se_Dial e (cfg_LndAddress cfg) creds \<noteq> None))"
  by (cases "GetTLSCredentials (se_tls e) (cfg_TLSData cfg) (cfg_TLSPath cfg) (cfg_Insecure cfg)
        (cfg_SystemCert cfg)")
    (auto simp: getClientConn_def io_bind_def io_lift_def io_err_def io_do_def split: option.split)

lemma macaroon_dir_no_panic [simp]: "macaroon_dir d cfg \<noteq> Panic p"
  by (simp add: macaroon_dir_def default_macaroon_dir_def)

lemma ChainParams_not_Panic [simp]: "ChainParams n \<noteq> Panic p"
  by (simp add: ChainParams_def)

text \<open>C6: a start-up that fails after it has opened the connection to lnd closes it again, once, in
  all cases but two: when the network has no chain parameters and when the read-only macaroon cannot
  be loaded, the function returns with the connection open. A start-up that succeeds or still waits
  has opened one connection and closed none.\<close>

theorem NewLndServices_connection:
  assumes "NewLndServices e cfg evs [] = (r, h)" and "\<And>p f. se_ReadFile e f \<noteq> Panic p"
  shows "(is_err r \<longrightarrow> dials h = (if dialled e cfg then 1 else 0)
       \<and> closes h = (if dialled e cfg \<and> \<not> leaves_connection e cfg then 1 else 0))
     \<and> (is_ok r \<longrightarrow> dialled e cfg \<and> dials h = 1 \<and> closes h = 0)"
proof (cases "macaroon_dir (te_AppDataDir (se_tls e)) cfg")
  case (Ok dir)
  let ?h1 = "[(BackgroundCtx, OpDial (cfg_LndAddress cfg))]"
  show ?thesis
  proof (cases "dialled e cfg")
    case True
    then have conn: "getClientConn e cfg [] = (Ok (), ?h1)"
      using getClientConn_eval [of e cfg "[]"] by (auto simp: dialled_def)
    show ?thesis
    proof (cases "leaves_connection e cfg")
      case leaves: True
      then have "h = ?h1 \<and> is_err r"
        using assms(1) Ok conn
        by (auto simp: NewLndServices_def io_bind_def io_lift_def leaves_connection_def elim!: is_errE
            split: go.splits)
      with True leaves show ?thesis by (cases r) auto
    next
      case tidy: False
      have "readonly_macaroon e cfg dir \<noteq> Panic p" for p
        using assms(2)
        by (auto simp: readonly_macaroon_def loadMacaroon_def newSerializedMacaroon_def go_bind_Panic_iff)
      with tidy Ok obtain params mac where pm: "ChainParams (cfg_Network cfg) = Ok params"
        "readonly_macaroon e cfg dir = Ok mac"
        unfolding leaves_connection_def
        by (cases "ChainParams (cfg_Network cfg)"; cases "readonly_macaroon e cfg dir") auto
      then have "start_services e cfg evs dir params mac ?h1 = (r, h)"
        using assms(1) Ok conn by (simp add: NewLndServices_def io_bind_def io_lift_def)
      with start_services_tidy [of e cfg evs dir params mac] obtain es where
        "h = ?h1 @ es" "dials es = 0" "closes es = (if is_err r then 1 else 0)"
        unfolding tidy_def by (metis fst_conv snd_conv)
      with True tidy show ?thesis by (cases r) auto
    qed
  next
    case False
    then have "\<exists>r. getClientConn e cfg [] = (r, []) \<and> \<not> is_ok r"
      using getClientConn_eval [of e cfg "[]"] Ok by (auto simp: dialled_def)
    with assms(1) Ok have "h = [] \<and> \<not> is_ok r"
      by (auto simp: NewLndServices_def io_bind_def io_lift_def split: go.splits)
    with False show ?thesis by simp
  qed
qed (use assms(1) in \<open>auto simp: NewLndServices_def io_bind_def io_lift_def dialled_def\<close>)

definition the_default :: "'a \<Rightarrow> 'a option \<Rightarrow> 'a" where
  "the_default d x = (case x of None \<Rightarrow> d | Some v \<Rightarrow> v)"

text \<open>What a step that succeeded went through.\<close>

lemma io_next_SomeE:
  assumes "io_next m f h = (Ok (Some y), h')"
  obtains x h1 where "m h = (Ok (Some x), h1)" "f x h1 = (Ok (Some y), h')"
  using assms unfolding io_next_def
  by (elim io_bind_OkE) (auto simp: io_eval split: option.splits)

lemma on_err_Ok: "on_err clean w m h = (Ok x, h') \<longleftrightarrow> m h = (Ok x, h')"
  by (auto simp: on_err_def split: prod.splits go.splits)

lemma io_embed_OkE:
  assumes "io_embed tag m h = (Ok x, h')"
  obtains es where "m h [] = (Ok x, es)" "prefix h h'"
  using assms by (auto simp: io_embed_def split: prod.splits)

text \<open>What lnd has answered during a start-up.\<close>

definition told_info :: "'cert startup_env \<Rightarrow> startup_op rpclog \<Rightarrow> Info \<Rightarrow> bool" where
  "told_info e h info \<longleftrightarrow> (\<exists>log c. prefix log h \<and> lnd_answer e log c = Ok info)"

definition told_version :: "'cert startup_env \<Rightarrow> startup_op rpclog \<Rightarrow> Version \<Rightarrow> bool" where
  "told_version e h v \<longleftrightarrow> (\<exists>log c. prefix log h \<and> se_version e log c () = Ok v)"

definition told_synced :: "'cert startup_env \<Rightarrow> startup_op rpclog \<Rightarrow> bool" where
  "told_synced e h \<longleftrightarrow>
     (\<exists>log c resp. prefix log h \<and> se_info e log c () = Ok resp \<and> gir_SyncedToChain resp)"

lemma told_mono:
  "prefix h h' \<Longrightarrow> told_info e h info \<Longrightarrow> told_info e h' info"
  "prefix h h' \<Longrightarrow> told_version e h v \<Longrightarrow> told_version e h' v"
  "prefix h h' \<Longrightarrow> told_synced e h \<Longrightarrow> told_synced e h'"
  unfolding told_info_def told_version_def told_synced_def by (meson prefix_order.trans)+

lemma lnd_info_told:
  assumes "lnd_info e c mac h = (Ok info, h')"
  shows "told_info e h' info"
proof -
  let ?c = "WithMacaroonAuth mac c"
  from assms have "lnd_answer e h ?c = Ok info \<and> h' = h @ [(?c, OpLightning GetInfoReq)]"
    by (auto simp: lnd_info_def io_bind_def rpc_def io_lift_def lnd_answer_def split: go.splits)
  then show ?thesis unfolding told_info_def by (meson prefixI)
qed

lemma unlock_loop_told:
  "unlock_loop (lnd_info e c mac) evs h = (Ok (Some info), h') \<Longrightarrow> told_info e h' info"
  by (induction evs)
    (auto simp: io_eval io_some_def io_bind_def dest: lnd_info_told
      split: unlock_event.splits if_splits go.splits prod.splits)

lemma getLndInfo_told:
  "getLndInfo e c mac client wait evs h = (Ok (Some info), h') \<Longrightarrow> told_info e h' info"
  by (auto simp: getLndInfo_def Let_def io_try_def io_eval io_some_def io_bind_def io_lift_def
      dest: lnd_info_told unlock_loop_told split: prod.splits go.splits if_splits)

lemma compat_version:
  "checkLndCompatibility FromError srv mac info network minVersion timeout h
     = (Ok (al, key, v), h') \<Longrightarrow> \<exists>c. srv h c () = Ok v"
  by (auto simp: checkLndCompatibility_def io_try_def checkVersionCompatibility_eval Let_def
      go_simps split: if_splits go.splits)

lemma tidy_prefix: "tidy m \<Longrightarrow> m h = (r, h') \<Longrightarrow> prefix h h'"
  unfolding tidy_def by (metis prefixI snd_conv)

lemma chain_waits_Some:
  assumes "chain_waits e cfg timeout evs services h = (Ok (Some s), h')"
  shows "s = services \<and> (cfg_BlockUntilChainSynced cfg \<longrightarrow> told_synced e h')
     \<and> (cfg_BlockUntilChainNotifier cfg \<longrightarrow> cfg_CallerCtx cfg \<noteq> None)"
proof -
  let ?poll = "if cfg_ChainSyncPollInterval cfg = 0 then chainSyncPollInterval
                  else cfg_ChainSyncPollInterval cfg"
  let ?sync = "if cfg_BlockUntilChainSynced cfg
      then on_err cleanup (FmtErr ''error waiting for chain to be synced: '')
        (waitForChainSync e services (cfg_CallerCtx cfg) timeout ?poll (ev_sync evs))
      else io_ret (Some ())"
  let ?ntfn = "if cfg_BlockUntilChainNotifier cfg
      then on_err cleanup (WrapErr ''error waiting for chain notifier readiness: '')
        (waitForChainNotifier e services (cfg_CallerCtx cfg) timeout ?poll (ev_notifier evs))
      else io_ret (Some ())"
  from assms obtain h1 where h1: "?sync h = (Ok (Some ()), h1)"
    "?ntfn h1 = (Ok (Some ()), h')" "s = services"
    unfolding chain_waits_def Let_def
    by (elim io_next_SomeE) (auto simp: io_eval)
  have "tidy ?ntfn"
    unfolding waitForChainNotifier_def
    by (auto intro!: tidy_ret tidy_full chain_notifier_no_conn)
  then have pre: "prefix h1 h'"
    using h1(2) by (rule tidy_prefix)
  have "told_synced e h1" if "cfg_BlockUntilChainSynced cfg"
    unfolding told_synced_def
    by (rule exE [OF chain_sync_synced]) (use h1(1) that in \<open>auto simp: on_err_Ok waitForChainSync_def\<close>)
  with pre have "told_synced e h'" if "cfg_BlockUntilChainSynced cfg"
    using that told_mono(3) by blast
  moreover have "cfg_CallerCtx cfg \<noteq> None" if "cfg_BlockUntilChainNotifier cfg"
    using h1(2) that
    by (cases "cfg_CallerCtx cfg")
      (simp_all add: waitForChainNotifier_def on_err_Ok chain_notifier_needs_ctx)
  ultimately show ?thesis using h1(3) by blast
qed

lemma start_services_Some:
  assumes "start_services e cfg evs dir params mac h = (Ok (Some s), h')"
  shows "\<exists>info v macaroons timeout h1.
       timeout = (if cfg_RPCTimeout cfg \<noteq> 0 then cfg_RPCTimeout cfg else default_RPCTimeout)
     \<and> s = build_services macaroons mac timeout params (info_Alias info, info_IdentityPubkey info, v)
     \<and> told_info e h' info \<and> told_version e h' v \<and> cfg_Network cfg = info_Network info
     \<and> version_num_of (the_default minimalCompatibleVersion (cfg_CheckVersion cfg)) \<le> version_num_of v
     \<and> set (BuildTags (the_default minimalCompatibleVersion (cfg_CheckVersion cfg)))
         \<subseteq> set (BuildTags v)
     \<and> newMacaroonPouch (se_ReadFile e) dir (cfg_CustomMacaroonPath cfg) (cfg_CustomMacaroonHex cfg)
         = Ok macaroons
     \<and> chain_waits e cfg timeout evs s h1 = (Ok (Some s), h')"
proof -
  let ?timeout = "if cfg_RPCTimeout cfg \<noteq> 0 then cfg_RPCTimeout cfg else default_RPCTimeout"
  let ?min = "the_default minimalCompatibleVersion (cfg_CheckVersion cfg)"
  from assms obtain info h1 node es h2 macaroons where
    info: "getLndInfo e (cfg_CallerCtx cfg) mac (newStateClient mac ?timeout)
      (cfg_BlockUntilUnlocked cfg) (ev_unlock evs) h = (Ok (Some info), h1)"
    and compat: "checkLndCompatibility (se_FromError e) (\<lambda>_. se_version e h1) mac info
       (cfg_Network cfg) ?min ?timeout [] = (Ok node, es)" and "prefix h1 h2"
    and pouch: "newMacaroonPouch (se_ReadFile e) dir (cfg_CustomMacaroonPath cfg)
      (cfg_CustomMacaroonHex cfg) = Ok macaroons"
    and waits: "chain_waits e cfg ?timeout evs (build_services macaroons mac ?timeout params node) h2
       = (Ok (Some s), h')"
    unfolding start_services_def Let_def the_default_def
    by (elim io_next_SomeE io_bind_OkE) (auto simp: on_err_Ok io_lift_Ok elim!: io_embed_OkE)
  then have pre: "prefix h1 h'"
    using tidy_prefix [OF chain_waits_tidy waits] by (meson prefix_order.trans)
  obtain al key v where node: "node = (al, key, v)" by (cases node)
  have "told_info e h' info" using told_mono(1) [OF pre getLndInfo_told [OF info]] .
  moreover have "told_version e h' v"
    using compat_version [OF compat [unfolded node]] pre unfolding told_version_def by blast
  ultimately show ?thesis
    using chain_waits_Some [OF waits] waits checkLndCompatibility_Ok [OF compat [unfolded node]] node
      pouch
    by (intro exI [of _ info] exI [of _ v] exI [of _ macaroons] exI [of _ ?timeout] exI [of _ h2]) simp
qed

text \<open>The macaroon that the configuration names for a service: the custom hex text, or the hex text of
  the custom file or of the service's own file in the macaroon directory.\<close>

definition configured_macaroon ::
  "'cert startup_env \<Rightarrow> LndServicesConfig \<Rightarrow> string \<Rightarrow> LnrpcServiceMac \<Rightarrow> serializedMacaroon \<Rightarrow> bool" where
  "configured_macaroon e cfg dir n mac \<longleftrightarrow>
     (if cfg_CustomMacaroonHex cfg \<noteq> [] then mac = cfg_CustomMacaroonHex cfg
      else \<exists>bs. se_ReadFile e (macaroon_file dir (cfg_CustomMacaroonPath cfg) n) = Ok bs
        \<and> mac = hex_encode bs)"

lemma configured_macaroon_unique:
  "configured_macaroon e cfg dir n mac \<Longrightarrow> configured_macaroon e cfg dir n mac' \<Longrightarrow> mac = mac'"
  by (auto simp: configured_macaroon_def split: if_splits)

lemma macaroon_dir_one_option:
  "macaroon_dir lndDir cfg = Ok dir \<Longrightarrow> cfg_CustomMacaroonPath cfg = [] \<or> cfg_CustomMacaroonHex cfg = []"
  by (auto simp: macaroon_dir_def split: if_splits)

lemma readonly_macaroon_configured:
  "readonly_macaroon e cfg dir = Ok mac \<Longrightarrow> configured_macaroon e cfg dir ReadOnlyServiceMac mac"
  by (auto simp: readonly_macaroon_def configured_macaroon_def loadMacaroon_file
      newSerializedMacaroon_Ok split: if_splits)

lemma pouch_configured:
  assumes pouch: "newMacaroonPouch (se_ReadFile e) dir (cfg_CustomMacaroonPath cfg)
      (cfg_CustomMacaroonHex cfg) = Ok macaroons"
    and one: "cfg_CustomMacaroonPath cfg = [] \<or> cfg_CustomMacaroonHex cfg = []"
    and n: "n \<in> set macaroonServices"
  shows "\<exists>mac. macaroons n = Some mac \<and> configured_macaroon e cfg dir n mac"
proof (cases "cfg_CustomMacaroonHex cfg = []")
  case True
  with pouch_from_files_aux [OF pouch _ n] show ?thesis by (auto simp: configured_macaroon_def)
next
  case False
  with pouch one have "macaroons = one_macaroon (cfg_CustomMacaroonHex cfg)"
    by (simp add: newMacaroonPouch_def custom_macaroon_def)
  with False n show ?thesis by (simp add: one_macaroon_apply configured_macaroon_def)
qed

lemmas services_credentials = newLightningClient_def newRouterClient_def newWalletKitClient_def
  newChainNotifierClient_def newChainKitClient_def newSignerClient_def newInvoicesClient_def
  newWtClient_def newVersionerClient_def newStateClient_def

lemma known_services:
  "{AdminServiceMac, InvoiceServiceMac, ChainNotifierServiceMac, WalletKitServiceMac, RouterServiceMac,
     SignerServiceMac, ReadOnlyServiceMac} \<subseteq> set macaroonServices"
  by (simp add: macaroonServices_def)

text \<open>C2: a start-up that succeeds has checked lnd and wired the clients: lnd is on the configured
  network and of a compatible version with the required build tags; the pouch holds, for the seven
  services and no other name, the macaroon that the configuration names; every client holds the
  macaroon of its service, the version and the state client the read-only one, and the same timeout;
  and, when asked to wait, lnd has said that its chain is synced and the caller has given a context for
  the wait for the chain notifier.\<close>

theorem NewLndServices_success:
  assumes "NewLndServices e cfg evs h0 = (Ok (Some s), h)"
  shows "(\<exists>info. told_info e h info \<and> cfg_Network cfg = info_Network info
        \<and> svc_NodeAlias s = info_Alias info \<and> svc_NodePubkey s = info_IdentityPubkey info)
     \<and> told_version e h (svc_Version s)
     \<and> (let minVersion = the_default minimalCompatibleVersion (cfg_CheckVersion cfg)
        in AssertVersionCompatible (svc_Version s) minVersion = Ok ()
           \<and> set (BuildTags minVersion) \<subseteq> set (BuildTags (svc_Version s)))
     \<and> (\<exists>dir mac. let timeout = (if cfg_RPCTimeout cfg \<noteq> 0 then cfg_RPCTimeout cfg else default_RPCTimeout)
        in macaroon_dir (te_AppDataDir (se_tls e)) cfg = Ok dir
           \<and> dom (svc_macaroons s) = set macaroonServices
           \<and> (\<forall>n \<in> set macaroonServices. svc_macaroons s n = Some (mac n)
                \<and> configured_macaroon e cfg dir n (mac n))
           \<and> ln_adminMac (svc_Client s) = mac AdminServiceMac \<and> ln_timeout (svc_Client s) = timeout
           \<and> router_mac (svc_Router s) = mac RouterServiceMac \<and> router_timeout (svc_Router s) = timeout
           \<and> walletkit_mac (svc_WalletKit s) = mac WalletKitServiceMac
           \<and> walletkit_timeout (svc_WalletKit s) = timeout
           \<and> chain_mac (svc_ChainNotifier s) = mac ChainNotifierServiceMac
           \<and> chain_timeout (svc_ChainNotifier s) = timeout
           \<and> kit_mac (svc_ChainKit s) = mac ChainNotifierServiceMac \<and> kit_timeout (svc_ChainKit s) = timeout
           \<and> signer_mac (svc_Signer s) = mac SignerServiceMac \<and> signer_timeout (svc_Signer s) = timeout
           \<and> invoices_mac (svc_Invoices s) = mac InvoiceServiceMac
           \<and> invoices_timeout (svc_Invoices s) = timeout
           \<and> wt_mac (svc_WtClient s) = mac WalletKitServiceMac \<and> wt_timeout (svc_WtClient s) = timeout
           \<and> ver_readonlyMac (svc_Versioner s) = mac ReadOnlyServiceMac
           \<and> ver_timeout (svc_Versioner s) = timeout
           \<and> state_readonlyMac (svc_State s) = mac ReadOnlyServiceMac
           \<and> state_timeout (svc_State s) = timeout)
     \<and> ln_router (svc_Client s) = svc_Router s \<and> walletkit_params (svc_WalletKit s) = svc_ChainParams s
     \<and> ChainParams (cfg_Network cfg) = Ok (svc_ChainParams s)
     \<and> (cfg_BlockUntilChainSynced cfg \<longrightarrow>
          told_synced e h)
     \<and> (cfg_BlockUntilChainNotifier cfg \<longrightarrow> cfg_CallerCtx cfg \<noteq> None)"
proof -
  from assms obtain dir params mac h1 where parts:
    "macaroon_dir (te_AppDataDir (se_tls e)) cfg = Ok dir" "readonly_macaroon e cfg dir = Ok mac"
    "ChainParams (cfg_Network cfg) = Ok params"
    "start_services e cfg evs dir params mac h1 = (Ok (Some s), h)"
    unfolding NewLndServices_def by (elim io_bind_OkE) (auto simp: io_lift_Ok)
  from start_services_Some [OF parts(4)] obtain info v macaroons timeout h2 where
    s: "timeout = (if cfg_RPCTimeout cfg \<noteq> 0 then cfg_RPCTimeout cfg else default_RPCTimeout)"
       "s = build_services macaroons mac timeout params (info_Alias info, info_IdentityPubkey info, v)"
    and pouch: "newMacaroonPouch (se_ReadFile e) dir (cfg_CustomMacaroonPath cfg)
       (cfg_CustomMacaroonHex cfg) = Ok macaroons"
    and ok: "cfg_Network cfg = info_Network info" "told_info e h info" "told_version e h v"
       "version_num_of (the_default minimalCompatibleVersion (cfg_CheckVersion cfg)) \<le> version_num_of v"
       "set (BuildTags (the_default minimalCompatibleVersion (cfg_CheckVersion cfg)))
         \<subseteq> set (BuildTags v)"
       "chain_waits e cfg timeout evs s h2 = (Ok (Some s), h)"
    by blast
  note holds = pouch_configured [OF pouch macaroon_dir_one_option [OF parts(1)]]
  then have macs: "\<forall>n \<in> set macaroonServices. macaroons n = Some (pouch_get macaroons n)
      \<and> configured_macaroon e cfg dir n (pouch_get macaroons n)"
    by (fastforce simp: pouch_get_def)
  have "ReadOnlyServiceMac \<in> set macaroonServices" using known_services by simp
  with macs have "configured_macaroon e cfg dir ReadOnlyServiceMac (pouch_get macaroons ReadOnlyServiceMac)"
    by blast
  then have readonly: "mac = pouch_get macaroons ReadOnlyServiceMac"
    by (rule configured_macaroon_unique [OF readonly_macaroon_configured [OF parts(2)]])
  have wired: "svc_Version s = v \<and> svc_NodeAlias s = info_Alias info
       \<and> svc_NodePubkey s = info_IdentityPubkey info \<and> svc_macaroons s = macaroons
       \<and> svc_ChainParams s = params \<and> ln_router (svc_Client s) = svc_Router s
       \<and> walletkit_params (svc_WalletKit s) = params"
    by (simp add: s(2) build_services_def Let_def newLightningClient_def newWalletKitClient_def)
  have "(\<exists>info. told_info e h info \<and> cfg_Network cfg = info_Network info
      \<and> svc_NodeAlias s = info_Alias info \<and> svc_NodePubkey s = info_IdentityPubkey info)"
    using ok(1,2) wired by blast
  moreover have "dom macaroons = set macaroonServices" using pouch by (rule pouch_dom_aux)
  ultimately show ?thesis
    using chain_waits_Some [OF ok(6)] ok(3-5) parts(1,3) wired macs
    unfolding Let_def s(1) [symmetric]
    by (intro conjI exI [of _ dir] exI [of _ "pouch_get macaroons"])
      (simp_all add: AssertVersionCompatible_cases s(2) build_services_def Let_def readonly
        services_credentials)
qed

section \<open>The wait for the wallet and the subscription it reads\<close>

text \<open>What the wait can receive from a subscription in the state \<open>s\<close>.\<close>

fun observes :: "(rpcWalletState, WalletState) gor \<Rightarrow> unlock_event \<Rightarrow> bool" where
  "observes s (UState state) = (state \<in> set (ch_sent (g_upd s)))"
| "observes s UStateClosed = ch_closed (g_upd s)"
| "observes s (UErr err) = (err \<in> set (ch_sent (g_err s)))"
| "observes s UErrClosed = ch_closed (g_err s)"
| "observes s (UCtxDone err) = (g_ctx s = Some err)"

lemma ReadyForGetInfo_source:
  "unmarshalWalletState ev = Ok st \<Longrightarrow> ReadyForGetInfo st \<Longrightarrow>
     ev = WalletState_RPC_ACTIVE \<or> ev = WalletState_SERVER_ACTIVE"
  by (cases ev) (auto simp: ReadyForGetInfo_def wallet_state_defs)

lemma state_update_source:
  assumes "reachable state_sub s" and u: "u \<in> set (ch_sent (g_upd s))"
  shows "\<exists>ev. RecvOk ev \<in> set (g_hist s) \<and> unmarshalWalletState ev = Ok u"
proof -
  obtain r where r: "r \<in> set (g_hist s)" "u \<in> set (emits (state_body r))"
    using state_stream.update_source [OF assms] by (auto simp: state_sub_def)
  show ?thesis
  proof (cases r)
    case (RecvOk ev)
    with r show ?thesis by (auto simp: state_emits split: go.splits)
  qed (use r in \<open>simp add: state_body_def\<close>)
qed

lemma ready_observed:
  assumes s: "reachable state_sub s" and ev: "observes s ev"
    and ready: "ev = UStateClosed \<or> ev = UErrClosed \<or> (\<exists>st. ev = UState st \<and> ReadyForGetInfo st)"
  shows "RecvOk WalletState_RPC_ACTIVE \<in> set (g_hist s)
       \<or> RecvOk WalletState_SERVER_ACTIVE \<in> set (g_hist s)"
proof -
  have "closes_after ReadyForGetInfo (sub_body state_sub r) False" for r
    by (cases r) (auto simp: state_sub_def state_body_def on_go_closes_after ReadyForGetInfo_def)
  then have closed: "ch_closed (g_upd s) \<or> ch_closed (g_err s) \<Longrightarrow> sent_final ReadyForGetInfo s"
    using closed_after_final [of state_sub ReadyForGetInfo] s by (simp add: state_sub_def)
  have "sent_final ReadyForGetInfo s"
    using ready ev closed unfolding sent_final_def by fastforce
  with state_update_source [OF s] ReadyForGetInfo_source show ?thesis
    unfolding sent_final_def by metis
qed

lemma unlock_loop_ready:
  assumes "unlock_loop m evs h = (r, h')" and "h' \<noteq> h"
  shows "\<exists>ev \<in> set evs. ev = UStateClosed \<or> ev = UErrClosed
     \<or> (\<exists>st. ev = UState st \<and> ReadyForGetInfo st)"
  using assms by (induction evs) (auto simp: io_eval split: unlock_event.splits if_splits)

text \<open>C9: with \<open>BlockUntilUnlocked\<close> the start-up asks lnd for its info only after lnd has said that it
  can answer: whatever the state subscription and its consumer have done, when the wait has received
  only what the subscription sent or closed, a \<open>GetInfo\<close> call in its log means that lnd has sent the
  state RPC_ACTIVE or SERVER_ACTIVE.\<close>

theorem getLndInfo_waits_for_ready:
  assumes "reachable state_sub s" and "\<forall>ev \<in> set evs. observes s ev"
    and "getLndInfo e c readonlyMac client True evs h = (r, h @ es)"
    and "(c', OpLightning GetInfoReq) \<in> set es"
  shows "RecvOk WalletState_RPC_ACTIVE \<in> set (g_hist s)
       \<or> RecvOk WalletState_SERVER_ACTIVE \<in> set (g_hist s)"
proof -
  let ?sub = "io_embed OpState (\<lambda>h. SubscribeState client (\<lambda>_. se_state e h) (caller_ctx c))"
  have sub: "?sub h = (case se_state e h (caller_ctx c) () of Ok _ \<Rightarrow> Ok state_sub
      | Err e \<Rightarrow> Err e | Panic p \<Rightarrow> Panic p, h @ [(caller_ctx c, OpState SubscribeStateReq)])"
    by (auto simp: io_embed_def SubscribeState_def rpc_def io_bind_def io_eval split: go.split)
  let ?h = "h @ [(caller_ctx c, OpState SubscribeStateReq)]"
  have "\<exists>r. unlock_loop (lnd_info e (caller_ctx c) readonlyMac) evs ?h = (r, h @ es)"
    using assms(3,4)
    by (auto simp: getLndInfo_def Let_def io_try_def sub io_eval io_lift_def split: go.splits)
  moreover have "h @ es \<noteq> ?h" using assms(4) by auto
  ultimately obtain ev where "ev \<in> set evs"
    "ev = UStateClosed \<or> ev = UErrClosed \<or> (\<exists>st. ev = UState st \<and> ReadyForGetInfo st)"
    using unlock_loop_ready by meson
  with assms(1,2) ready_observed show ?thesis by blast
qed

text \<open>C17: the wait for the chain returns: when lnd answers that it is synced at the poll after \<open>k\<close>
  polls that found it still syncing, the wait succeeds after exactly these \<open>k + 1\<close> calls with \<open>k\<close>
  pauses of the poll interval between them; when the context ends in a pause before that, it returns
  the context's error at that point.\<close>

theorem waitForChainSync_returns:
  assumes "still_syncing e h (svc_Client s) (caller_ctx c) timeout poll k"
  defines "call \<equiv> (sync_call (svc_Client s) (caller_ctx c) timeout, OpLightning GetInfoReq)"
    and "polls \<equiv> sync_polls (svc_Client s) (caller_ctx c) timeout poll"
  shows "((\<exists>info. lnd_answer e (h @ polls k) (fst call) = Ok info \<and> info_SyncedToChain info) \<longrightarrow>
        waitForChainSync e s c timeout poll (replicate k None @ waits) h
          = (Ok (Some ()), h @ polls k @ [call]))
     \<and> (\<forall>j < k. waitForChainSync e s c timeout poll (replicate j None @ Some err # waits) h
          = (Err err, h @ polls j @ [call]))"
proof (intro conjI allI impI)
  assume "\<exists>info. lnd_answer e (h @ polls k) (fst call) = Ok info \<and> info_SyncedToChain info"
  then show "waitForChainSync e s c timeout poll (replicate k None @ waits) h
      = (Ok (Some ()), h @ polls k @ [call])"
    unfolding waitForChainSync_def chain_sync_polls [OF assms(1)]
    by (subst chain_sync_eval) (auto simp: Let_def call_def polls_def)
next
  fix j assume j: "j < k"
  with assms(1) have polled: "still_syncing e h (svc_Client s) (caller_ctx c) timeout poll j"
    and "\<exists>info. lnd_answer e (h @ polls j) (fst call) = Ok info \<and> \<not> info_SyncedToChain info"
    by (auto simp: still_syncing_def polls_def call_def)
  then show "waitForChainSync e s c timeout poll (replicate j None @ Some err # waits) h
      = (Err err, h @ polls j @ [call])"
    unfolding waitForChainSync_def chain_sync_polls [OF polled]
    by (subst chain_sync_eval) (auto simp: Let_def call_def polls_def)
qed

section \<open>A concrete start-up\<close>

text \<open>A node on regtest that is synced after two polls, with empty macaroon files.\<close>

definition example_answer :: "bool \<Rightarrow> GetInfoResponse" where
  "example_answer synced = \<lparr>gir_Version = ''v'', gir_CommitHash = [], gir_IdentityPubkey = [],
     gir_Alias = ''alice'', gir_Color = ''c'', gir_NumPendingChannels = 0,
     gir_NumActiveChannels = 0, gir_NumInactiveChannels = 0, gir_NumPeers = 0, gir_BlockHeight = 1,
     gir_BlockHash = ''h'', gir_BestHeaderTimestamp = 0, gir_SyncedToChain = synced,
     gir_SyncedToGraph = True, gir_Chains = [NetworkRegtest], gir_Uris = []\<rparr>"

definition example_startup_env :: "(string \<Rightarrow> bytes go) \<Rightarrow> nat \<Rightarrow> unit startup_env" where
  "example_startup_env ReadFile n =
     \<lparr>se_tls = \<lparr>te_PemDecode = \<lambda>_. None, te_ParseCertificate = \<lambda>_. Ok (), te_CertFromFile = \<lambda>_. Ok (),
        te_Stat = \<lambda>_. None, te_AppDataDir = ''/lnd''\<rparr>,
      se_ReadFile = ReadFile, se_Dial = \<lambda>_ _. None, se_FromError = \<lambda>_. None,
      se_NewHashFromStr = \<lambda>_. Ok [],
      se_ParseHexColor = \<lambda>_. Ok \<lparr>rgba_R = 0, rgba_G = 0, rgba_B = 0, rgba_A = 0\<rparr>,
      se_state = \<lambda>_ _ _. Ok (), se_info = \<lambda>h _ _. Ok (example_answer (n \<le> length h)),
      se_version = \<lambda>_ _ _. Ok minimalCompatibleVersion, se_epochs = \<lambda>_ _ _. Ok ()\<rparr>"

definition example_start_config :: LndServicesConfig where
  "example_start_config = \<lparr>cfg_LndAddress = ''localhost'', cfg_Network = NetworkRegtest,
     cfg_MacaroonDir = ''/d'', cfg_CustomMacaroonPath = [], cfg_CustomMacaroonHex = [],
     cfg_TLSPath = [], cfg_TLSData = [], cfg_Insecure = True, cfg_SystemCert = False,
     cfg_CheckVersion = None, cfg_BlockUntilChainSynced = True, cfg_BlockUntilChainNotifier = False,
     cfg_BlockUntilUnlocked = True, cfg_CallerCtx = Some BackgroundCtx, cfg_RPCTimeout = 0,
     cfg_ChainSyncPollInterval = 0\<rparr>"

definition example_events :: startup_events where
  "example_events = \<lparr>ev_unlock = [UState WalletStateLocked, UState WalletStateRPCActive],
     ev_sync = [None, None], ev_notifier = []\<rparr>"

lemma example_info:
  "\<exists>info. newInfo (\<lambda>_. Ok []) (\<lambda>_. Ok \<lparr>rgba_R = 0, rgba_G = 0, rgba_B = 0, rgba_A = 0\<rparr>)
     (example_answer b) = Ok info \<and> info_Network info = NetworkRegtest \<and> info_Alias info = ''alice''
     \<and> info_SyncedToChain info = b"
  by (simp add: newInfo_def example_answer_def)

lemma example_getLndInfo:
  assumes "newInfo (\<lambda>_. Ok []) (\<lambda>_. Ok \<lparr>rgba_R = 0, rgba_G = 0, rgba_B = 0, rgba_A = 0\<rparr>)
     (example_answer (n \<le> Suc (length h))) = Ok info"
  shows "getLndInfo (example_startup_env R n) c mac client True (ev_unlock example_events) h =
     (Ok (Some info), h @ [(caller_ctx c, OpState SubscribeStateReq),
        (WithMacaroonAuth mac (caller_ctx c), OpLightning GetInfoReq)])"
  using assms
  by (simp add: getLndInfo_def Let_def io_try_def io_embed_def SubscribeState_def rpc_def io_bind_def
      io_eval example_startup_env_def example_events_def ReadyForGetInfo_def wallet_state_defs
      io_some_def lnd_info_def io_lift_def)

lemma example_compat:
  assumes "info_Network info = NetworkRegtest"
  shows "io_embed OpVersion (\<lambda>h. checkLndCompatibility (se_FromError (example_startup_env R n))
       (\<lambda>_. se_version (example_startup_env R n) h) mac info NetworkRegtest minimalCompatibleVersion t) h
     = (Ok (info_Alias info, info_IdentityPubkey info, minimalCompatibleVersion),
        h @ [(TimeoutCtx (WithMacaroonAuth mac BackgroundCtx) t, OpVersion GetVersionReq)])"
  using assms
  by (simp add: io_embed_def checkLndCompatibility_def checkVersionCompatibility_eval io_try_def
      io_eval Let_def example_startup_env_def newVersionerClient_def)

lemma example_answers:
  "\<exists>info. lnd_answer (example_startup_env R n) h c = Ok info \<and> info_Alias info = ''alice''
     \<and> info_Network info = NetworkRegtest \<and> info_SyncedToChain info = (n \<le> length h)"
  using example_info [of "n \<le> length h"] by (auto simp: lnd_answer_def example_startup_env_def)

lemma example_pouch:
  "\<exists>p. newMacaroonPouch (\<lambda>_. Ok [1]) dir [] [] = Ok p"
proof -
  have "is_ok (newMacaroonPouch (\<lambda>_. Ok [1]) dir [] [])"
    by (simp add: newMacaroonPouch_def custom_macaroon_def load_all_complete loadMacaroon_file)
  then show ?thesis by (cases "newMacaroonPouch (\<lambda>_. Ok [1]) dir [] []") auto
qed

lemma example_connected:
  "macaroon_dir d example_start_config = Ok ''/d''"
  "getClientConn (example_startup_env R n) example_start_config [] =
     (Ok (), [(BackgroundCtx, OpDial ''localhost'')])"
  "ChainParams (cfg_Network example_start_config) = Ok RegressionNetParams"
  by (simp_all add: macaroon_dir_def example_start_config_def getClientConn_def GetTLSCredentials_def
      example_startup_env_def io_bind_def io_lift_def io_do_def ChainParams_def network_defs)

lemma example_waits:
  "length h = 4 \<Longrightarrow> \<exists>s' h'. chain_waits (example_startup_env R 5) example_start_config t example_events s h
     = (Ok (Some s'), h')"
  using example_answers [of R 5 h "sync_call (svc_Client s) BackgroundCtx t"]
    example_answers [of R 5 "h @ [(sync_call (svc_Client s) BackgroundCtx t, OpLightning GetInfoReq),
      (BackgroundCtx, OpPoll chainSyncPollInterval)]" "sync_call (svc_Client s) BackgroundCtx t"]
  by (auto simp: chain_waits_def io_next_def io_bind_def on_err_def example_start_config_def
      example_events_def waitForChainSync_def caller_ctx_def chain_sync_eval Let_def io_eval)

lemma example_start:
  "\<exists>s h. NewLndServices (example_startup_env (\<lambda>_. Ok [1]) 5) example_start_config example_events []
     = (Ok (Some s), h)"
proof -
  let ?e = "example_startup_env (\<lambda>_. Ok [1]) 5" and ?mac = "hex_encode [1]"
  let ?h = "[(BackgroundCtx, OpDial ''localhost'')]"
  obtain info where info: "info_Network info = NetworkRegtest"
    "newInfo (\<lambda>_. Ok []) (\<lambda>_. Ok \<lparr>rgba_R = 0, rgba_G = 0, rgba_B = 0, rgba_A = 0\<rparr>)
       (example_answer (5 \<le> Suc (length ?h))) = Ok info"
    using example_info [of "5 \<le> Suc (length ?h)"] by auto
  obtain p where p: "newMacaroonPouch (\<lambda>_. Ok [1]) ''/d'' [] [] = Ok p" using example_pouch by blast
  have cfg: "cfg_CheckVersion example_start_config = None" "cfg_BlockUntilUnlocked example_start_config"
    "cfg_CustomMacaroonHex example_start_config = []" "cfg_CustomMacaroonPath example_start_config = []"
    "cfg_Network example_start_config = NetworkRegtest" "se_ReadFile ?e = (\<lambda>_. Ok [1])"
    by (simp_all add: example_start_config_def example_startup_env_def)
  have mac: "readonly_macaroon ?e example_start_config ''/d'' = Ok ?mac"
    by (simp add: readonly_macaroon_def cfg loadMacaroon_def newSerializedMacaroon_def)
  have "\<exists>s h'. start_services ?e example_start_config example_events ''/d'' RegressionNetParams ?mac ?h
      = (Ok (Some s), h')"
    unfolding start_services_def Let_def
    using example_getLndInfo [OF info(2)] example_waits
    by (simp add: io_next_def io_bind_def on_err_def cfg example_compat [OF info(1)] io_lift_def p)
  then show ?thesis
    using example_connected(1,2) example_connected(3) mac
    by (simp add: NewLndServices_def io_bind_def io_lift_def)
qed

theorem NewLndServices_success_witness:
  "\<exists>s h. NewLndServices (example_startup_env (\<lambda>_. Ok [1]) 5) example_start_config example_events []
       = (Ok (Some s), h) \<and> told_synced (example_startup_env (\<lambda>_. Ok [1]) 5) h
     \<and> state_readonlyMac (svc_State s) = hex_encode [1] \<and> state_timeout (svc_State s) = default_RPCTimeout
     \<and> signer_mac (svc_Signer s) = hex_encode [1] \<and> svc_macaroons s SignerServiceMac = Some (hex_encode [1])"
proof -
  obtain s h where s: "NewLndServices (example_startup_env (\<lambda>_. Ok [1]) 5) example_start_config
     example_events [] = (Ok (Some s), h)" using example_start by blast
  have cfg: "cfg_BlockUntilChainSynced example_start_config" "cfg_RPCTimeout example_start_config = 0"
    "cfg_CustomMacaroonHex example_start_config = []" "se_ReadFile (example_startup_env R n) = R" for R n
    by (simp_all add: example_start_config_def example_startup_env_def)
  from NewLndServices_success [OF s] have "told_synced (example_startup_env (\<lambda>_. Ok [1]) 5) h"
    using cfg(1) by blast
  moreover from NewLndServices_success [OF s] obtain mac where
    mac: "\<forall>n \<in> set macaroonServices. svc_macaroons s n = Some (mac n) \<and> mac n = hex_encode [1]"
    "state_readonlyMac (svc_State s) = mac ReadOnlyServiceMac" "signer_mac (svc_Signer s) = mac SignerServiceMac"
    "state_timeout (svc_State s) = default_RPCTimeout"
    unfolding Let_def configured_macaroon_def cfg by auto
  moreover have "ReadOnlyServiceMac \<in> set macaroonServices" "SignerServiceMac \<in> set macaroonServices"
    using known_services by blast+
  ultimately show ?thesis using s by (intro exI [of _ s] exI [of _ h]) simp
qed

theorem NewLndServices_connection_witness:
  "\<exists>r h. NewLndServices (example_startup_env (\<lambda>_. Err (NewErr ''no such file'')) 5) example_start_config
       example_events [] = (r, h) \<and> dials h = 1 \<and> closes h = 0"
proof -
  let ?e = "example_startup_env (\<lambda>_. Err (NewErr ''no such file'')) 5"
  let ?run = "NewLndServices ?e example_start_config example_events []"
  have cfg: "cfg_CustomMacaroonHex example_start_config = []" "cfg_Network example_start_config = NetworkRegtest"
    "se_ReadFile ?e = (\<lambda>_. Err (NewErr ''no such file''))"
    by (simp_all add: example_start_config_def example_startup_env_def)
  have mac: "\<exists>err. readonly_macaroon ?e example_start_config ''/d'' = Err err"
    by (simp add: readonly_macaroon_def cfg loadMacaroon_def newSerializedMacaroon_def)
  then have "is_err (fst ?run)"
    using example_connected by (auto simp: NewLndServices_def io_bind_def io_lift_def)
  moreover have "leaves_connection ?e example_start_config"
    using mac example_connected by (auto simp: leaves_connection_def)
  moreover have "dialled ?e example_start_config"
    using example_connected
    by (simp add: dialled_def example_start_config_def GetTLSCredentials_def example_startup_env_def
        macaroon_dir_def)
  ultimately show ?thesis
    using NewLndServices_connection [of ?e example_start_config example_events "fst ?run" "snd ?run"] cfg
    by (intro exI [of _ "fst ?run"] exI [of _ "snd ?run"]) simp
qed

theorem getLndInfo_waits_for_ready_witness:
  "\<exists>s. reachable state_sub s \<and> observes s (UState WalletStateServerActive)
     \<and> (\<exists>r es. getLndInfo (example_startup_env (\<lambda>_. Ok []) 0) None ''ab'' (newStateClient ''ab'' 1) True
             [UState WalletStateServerActive] [] = (r, es)
           \<and> (WithMacaroonAuth ''ab'' BackgroundCtx, OpLightning GetInfoReq) \<in> set es)
     \<and> (RecvOk WalletState_RPC_ACTIVE \<in> set (g_hist s)
          \<or> RecvOk WalletState_SERVER_ACTIVE \<in> set (g_hist s))"
proof -
  have "sub_body state_sub (RecvOk WalletState_SERVER_ACTIVE)
      = SendUpd WalletStateServerActive Return (CloseUpd (CloseErr Return))"
    by (simp add: state_sub_def state_body_def)
  from first_update [OF this] obtain s where s: "reachable state_sub s"
    "ch_sent (g_upd s) = [WalletStateServerActive]" by blast
  let ?run = "getLndInfo (example_startup_env (\<lambda>_. Ok []) 0) None ''ab'' (newStateClient ''ab'' 1) True
      [UState WalletStateServerActive] []"
  have es: "(WithMacaroonAuth ''ab'' BackgroundCtx, OpLightning GetInfoReq) \<in> set (snd ?run)"
    by (simp add: getLndInfo_def Let_def io_try_def io_embed_def SubscribeState_def rpc_def
        io_bind_def io_eval example_startup_env_def ReadyForGetInfo_def wallet_state_defs
        io_some_def lnd_info_def io_lift_def caller_ctx_def split: go.split)
  have "?run = (fst ?run, [] @ snd ?run)" by simp
  from getLndInfo_waits_for_ready [OF s(1) _ this es] s es show ?thesis
    by (intro exI [of _ s]) (simp, metis prod.collapse)
qed

definition example_services :: LndServices where
  "example_services = build_services Map.empty ''ab'' 7 RegressionNetParams
     (''alice'', [], minimalCompatibleVersion)"

theorem waitForChainSync_returns_witness:
  "let h = replicate 4 (BackgroundCtx, OpDial []); client = svc_Client example_services
   in waitForChainSync (example_startup_env (\<lambda>_. Ok []) 5) example_services None 7 3 [None, None] h
     = (Ok (Some ()), h @ sync_polls client BackgroundCtx 7 3 1
          @ [(sync_call client BackgroundCtx 7, OpLightning GetInfoReq)])"
proof -
  let ?e = "example_startup_env (\<lambda>_. Ok []) 5" and ?client = "svc_Client example_services"
  let ?h = "replicate 4 (BackgroundCtx, OpDial [])"
  have "still_syncing ?e ?h ?client (caller_ctx None) 7 3 1"
    using example_answers [of "\<lambda>_. Ok []" 5 ?h] by (auto simp: still_syncing_def sync_polls_def)
  from waitForChainSync_returns [OF this, of "[None]" CtxCanceled]
    example_answers [of "\<lambda>_. Ok []" 5 "?h @ sync_polls ?client BackgroundCtx 7 3 1"
      "sync_call ?client BackgroundCtx 7"]
  show ?thesis by (auto simp: Let_def caller_ctx_def sync_polls_def)
qed

end
