(* ===== verification/MacaroonService.thy ===== *)
theory MacaroonService
  imports MacaroonPouch "HOL-Library.Multiset"
begin

text \<open>
  \<open>macaroon_service.go\<close>: a service that keeps a macaroon database and a default macaroon on disk.

  The database, the oven and the checker are those of lnd and of the macaroon bakery, so their
  operations are fields of \<open>mac_env\<close>; the database is a state \<open>'db\<close> that they pass on. The files are
  a map from paths to contents, and the fields for the disk say which operations fail.
\<close>

record bakery_op =
  bop_Entity :: string
  bop_Action :: string

record ('db, 'mac, 'caveat) mac_env =
  me_NewService :: "unit go"
  me_extended :: bool                              \<comment> \<open>the store is an \<open>ExtendedRootKeyStore\<close>\<close>
  me_CreateUnlock :: "'db \<Rightarrow> bytes \<Rightarrow> unit go \<times> 'db"
  me_ChangePassword :: "'db \<Rightarrow> bytes \<Rightarrow> bytes \<Rightarrow> unit go \<times> 'db"
  me_DeriveSharedKey :: "bytes go"
  me_NewMacaroon :: "'caveat list \<Rightarrow> bakery_op list \<Rightarrow> 'mac go"
  me_Marshal :: "'mac \<Rightarrow> bytes go"
  me_Unmarshal :: "bytes \<Rightarrow> 'mac go"
  me_Allow :: "'mac \<Rightarrow> bakery_op list \<Rightarrow> unit go"
  me_Allowed :: "'mac \<Rightarrow> nat go"                   \<comment> \<open>the number of operations allowed\<close>
  me_CloseService :: "go_error option"
  me_CloseStore :: "go_error option"
  me_read_error :: "string \<Rightarrow> go_error option"
  me_write_error :: "string \<Rightarrow> go_error option"

text \<open>The required permissions are a Go map; they are listed in the order a run visits them.\<close>

record 'caveat MacaroonServiceConfig =
  mcfg_MacaroonLocation :: string
  mcfg_MacaroonPath :: string
  mcfg_StatelessInit :: bool
  mcfg_RequiredPerms :: "(string \<times> bakery_op list) list"
  mcfg_Caveats :: "'caveat list"
  mcfg_DBPassword :: bytes
  mcfg_LndClient :: bool           \<comment> \<open>the three fields are set\<close>
  mcfg_EphemeralKey :: bool
  mcfg_KeyLocator :: bool
  mcfg_RPCTimeout :: i64

definition NewMacaroonService ::
  "bool \<Rightarrow> 'caveat MacaroonServiceConfig \<Rightarrow> 'caveat MacaroonServiceConfig go" where
  "NewMacaroonService extendedKeyStore cfg =
     (if mcfg_MacaroonLocation cfg = [] then Err (NewErr ''no macaroon location provided'')
      else if mcfg_RPCTimeout cfg \<noteq> 0 \<and> sint (mcfg_RPCTimeout cfg) < 0 then
        Err (NewErr ''can't have a negative rpc timeout'')
      else
        let cfg = (if mcfg_RPCTimeout cfg = 0 then cfg\<lparr>mcfg_RPCTimeout := default_RPCTimeout\<rparr>
                   else cfg)
        in if \<not> mcfg_StatelessInit cfg \<and> mcfg_MacaroonPath cfg = [] then
             Err (NewErr ''a macaroon path must be given if we are not in stateless mode'')
           else if mcfg_RequiredPerms cfg = [] then
             Err (NewErr ''the required permissions must be set and contain elements'')
           else if mcfg_DBPassword cfg \<noteq> [] then Ok cfg
           else if \<not> extendedKeyStore then Ok cfg
           else if \<not> mcfg_LndClient cfg \<or> \<not> mcfg_EphemeralKey cfg \<or> \<not> mcfg_KeyLocator cfg then
             Err (NewErr ''must provide an LndClient, ephemeral key and key locator if no DBPassword is provided so that a shared key can be derived with LND'')
           else Ok cfg)"

section \<open>Permissions\<close>

text \<open>The map of maps is the list of its pairs; \<open>order\<close> is the order in which Go visits it.\<close>

definition extractPerms ::
  "((string \<times> string) list \<Rightarrow> (string \<times> string) list) \<Rightarrow> (string \<times> bakery_op list) list
     \<Rightarrow> bakery_op list" where
  "extractPerms order requiredPerms =
     (let pairs = fold (\<lambda>(m, perms) u.
            fold (\<lambda>p u. List.insert (bop_Entity p, bop_Action p) u) perms u) requiredPerms []
      in map (\<lambda>(e, a). \<lparr>bop_Entity = e, bop_Action = a\<rparr>) (order pairs))"

definition op_pair :: "bakery_op \<Rightarrow> string \<times> string" where
  "op_pair p = (bop_Entity p, bop_Action p)"

lemma fold_insert_ops:
  "set (fold (\<lambda>p u. List.insert (bop_Entity p, bop_Action p) u) perms u) = set u \<union> op_pair ` set perms
   \<and> (distinct u \<longrightarrow> distinct (fold (\<lambda>p u. List.insert (bop_Entity p, bop_Action p) u) perms u))"
  by (induction perms arbitrary: u) (auto simp: op_pair_def)

lemma fold_insert_perms:
  "set (fold (\<lambda>(m, perms) u. fold (\<lambda>p u. List.insert (bop_Entity p, bop_Action p) u) perms u) req u)
     = set u \<union> (\<Union>(m, perms) \<in> set req. op_pair ` set perms)
   \<and> (distinct u \<longrightarrow> distinct
       (fold (\<lambda>(m, perms) u. fold (\<lambda>p u. List.insert (bop_Entity p, bop_Action p) u) perms u) req u))"
proof (induction req arbitrary: u)
  case Nil
  show ?case by simp
next
  case (Cons r req)
  obtain m perms where r: "r = (m, perms)" by fastforce
  show ?case
    using fold_insert_ops [of perms u] Cons.IH by (auto simp: r)
qed

lemma extractPerms_aux:
  assumes "\<And>xs. mset (order xs) = mset xs"
  shows "op_pair ` set (extractPerms order req) = (\<Union>(m, perms) \<in> set req. op_pair ` set perms)
     \<and> distinct (extractPerms order req)"
proof -
  define u where "u = fold (\<lambda>(m, perms) u.
    fold (\<lambda>p u. List.insert (bop_Entity p, bop_Action p) u) perms u) req []"
  have "mset (order u) = mset u" by (rule assms)
  then have "set (order u) = set u" and "distinct (order u) \<longleftrightarrow> distinct u"
    using mset_eq_setD mset_eq_imp_distinct_iff by blast+
  moreover have "set u = (\<Union>(m, perms) \<in> set req. op_pair ` set perms)" "distinct u"
    using fold_insert_perms [of req "[]"] by (auto simp: u_def)
  moreover have "inj (\<lambda>(e, a). \<lparr>bop_Entity = e, bop_Action = a\<rparr>)" by (auto simp: inj_on_def)
  moreover have "op_pair (case p of (e, a) \<Rightarrow> \<lparr>bop_Entity = e, bop_Action = a\<rparr>) = p" for p
    by (cases p) (simp add: op_pair_def)
  ultimately show ?thesis
    by (auto simp: extractPerms_def u_def [symmetric] image_image distinct_map intro: inj_on_subset)
qed


section \<open>Starting the service\<close>












text \<open>Both are closed whatever happens; the error of the second close replaces that of the first.\<close>

definition Stop :: "('db, 'mac, 'caveat) mac_env \<Rightarrow> unit go" where
  "Stop env =
     (let shutdownErr = (case me_CloseService env of None \<Rightarrow> None | Some e \<Rightarrow> Some e);
          shutdownErr = (if me_extended env then
            (case me_CloseStore env of Some e \<Rightarrow> Some e | None \<Rightarrow> shutdownErr) else shutdownErr)
      in case shutdownErr of None \<Rightarrow> Ok () | Some e \<Rightarrow> Err e)"

section \<open>Interceptors\<close>

text \<open>The interceptor chain of lnd's \<open>rpcperms\<close>: a state that the calls pass on.\<close>

record ('chain, 'unary, 'stream) chain_env =
  ce_New :: 'chain
  ce_Start :: "'chain \<Rightarrow> unit go \<times> 'chain"
  ce_SetWalletUnlocked :: "'chain \<Rightarrow> 'chain"
  ce_AddMacaroonService :: "'chain \<Rightarrow> 'chain"
  ce_AddPermission :: "'chain \<Rightarrow> string \<Rightarrow> bakery_op list \<Rightarrow> unit go \<times> 'chain"
  ce_Unary :: "'chain \<Rightarrow> 'unary"
  ce_Stream :: "'chain \<Rightarrow> 'stream"

primrec add_permissions ::
  "('chain \<Rightarrow> string \<Rightarrow> bakery_op list \<Rightarrow> unit go \<times> 'chain) \<Rightarrow> (string \<times> bakery_op list) list
     \<Rightarrow> 'chain \<Rightarrow> 'chain go" where
  "add_permissions AddPermission [] chain = Ok chain"
| "add_permissions AddPermission (mp # rest) chain =
     (let (r, chain) = AddPermission chain (fst mp) (snd mp)
      in go_bind r (\<lambda>_. add_permissions AddPermission rest chain))"

definition Interceptors ::
  "('chain, 'unary, 'stream) chain_env \<Rightarrow> 'caveat MacaroonServiceConfig \<Rightarrow> ('unary \<times> 'stream) go" where
  "Interceptors ce cfg =
     (let (started, interceptor) = ce_Start ce (ce_New ce)
      in go_bind started (\<lambda>_.
         let interceptor = ce_AddMacaroonService ce (ce_SetWalletUnlocked ce interceptor)
         in go_bind (add_permissions (ce_AddPermission ce) (mcfg_RequiredPerms cfg) interceptor)
              (\<lambda>interceptor. Ok (ce_Unary ce interceptor, ce_Stream ce interceptor))))"

text \<open>With a chain that refuses only a method it knows already, as \<open>rpcperms\<close> does, and a map of
  required permissions every method ends up with its permissions.\<close>

lemma add_permissions_all:
  assumes "\<And>chain m ops. perms chain m = None \<Longrightarrow>
      \<exists>chain'. add chain m ops = (Ok (), chain') \<and> perms chain' = (perms chain)(m \<mapsto> ops)"
    and "distinct (map fst mps)" and "\<forall>m \<in> fst ` set mps. perms chain m = None"
  shows "\<exists>chain'. add_permissions add mps chain = Ok chain' \<and> perms chain' = perms chain ++ map_of mps"
  using assms(2,3)
proof (induction mps arbitrary: chain)
  case (Cons mp mps)
  from Cons.prems(2) have "perms chain (fst mp) = None" by simp
  from assms(1) [OF this, of "snd mp"] obtain chain1 where
    c1: "add chain (fst mp) (snd mp) = (Ok (), chain1)"
    "perms chain1 = (perms chain)(fst mp \<mapsto> snd mp)" by blast
  from Cons.prems c1(2) have "\<forall>m \<in> fst ` set mps. perms chain1 m = None"
    by (auto simp: image_iff)
  with Cons.prems(1) obtain chain' where "add_permissions add mps chain1 = Ok chain'"
    "perms chain' = perms chain1 ++ map_of mps"
    using Cons.IH [of chain1] by (metis distinct.simps(2) list.simps(9))
  moreover have "(perms chain)(fst mp \<mapsto> snd mp) ++ map_of mps = perms chain ++ map_of (mp # mps)"
    using Cons.prems(1) by (cases mp) (simp add: map_add_upd_left dom_map_of_conv_image_fst)
  ultimately show ?case using c1 by (simp del: map_of.simps)
qed simp

section \<open>The store\<close>

text \<open>
  \<open>NewBoltMacaroonStore\<close>, with the operations of \<open>kvdb\<close> and \<open>macaroons\<close> on a count of open
  databases: opening adds one, and the caller owns the handle only when it is returned.
\<close>

definition NewBoltMacaroonStore ::
  "'h go \<Rightarrow> ('h \<Rightarrow> 'rks go) \<Rightarrow> nat \<Rightarrow> ('rks \<times> 'h) go \<times> nat" where
  "NewBoltMacaroonStore GetBoltBackend NewRootKeyStorage openDbs = (case GetBoltBackend of
       Err err \<Rightarrow> (Err (WrapErr ''unable to open macaroon db: '' err), openDbs)
     | Panic p \<Rightarrow> (Panic p, openDbs)
     | Ok db \<Rightarrow> (case NewRootKeyStorage db of
         Err err \<Rightarrow> (Err (WrapErr ''unable to open init macaroon db: '' err), openDbs + 1)
       | Panic p \<Rightarrow> (Panic p, openDbs + 1)
       | Ok rks \<Rightarrow> (Ok (rks, db), openDbs + 1)))"

section \<open>Properties\<close>
















lemma NewMacaroonService_accepts:
  "is_ok (NewMacaroonService ext cfg) \<longleftrightarrow>
     mcfg_MacaroonLocation cfg \<noteq> [] \<and> 0 \<le> sint (mcfg_RPCTimeout cfg)
     \<and> (mcfg_StatelessInit cfg \<or> mcfg_MacaroonPath cfg \<noteq> []) \<and> mcfg_RequiredPerms cfg \<noteq> []
     \<and> (mcfg_DBPassword cfg \<noteq> [] \<or> \<not> ext
         \<or> mcfg_LndClient cfg \<and> mcfg_EphemeralKey cfg \<and> mcfg_KeyLocator cfg)"
  by (auto simp: NewMacaroonService_def Let_def)

lemma Stop_error:
  "Stop env = Ok () \<longleftrightarrow> me_CloseService env = None \<and> (me_extended env \<longrightarrow> me_CloseStore env = None)"
  by (auto simp: Stop_def Let_def split: option.splits)

text \<open>A root key storage that cannot be set up leaves the database open and the caller without its
  handle.\<close>

lemma NewBoltMacaroonStore_leaks:
  "NewRootKeyStorage db = Err e \<Longrightarrow>
     \<exists>e'. NewBoltMacaroonStore (Ok db) NewRootKeyStorage n = (Err e', n + 1)"
  by (simp add: NewBoltMacaroonStore_def)

section \<open>Main theorems\<close>






text \<open>C34: the permissions of the macaroon are, without repetition and in any order the maps are visited,
  exactly the operations the configuration requires for any method.\<close>

theorem extractPerms_exact:
  assumes "\<And>xs. mset (order xs) = mset xs"
  shows "op_pair ` set (extractPerms order req) = (\<Union>(m, perms) \<in> set req. op_pair ` set perms)
     \<and> distinct (extractPerms order req)"
  using assms by (rule extractPerms_aux)

theorem extractPerms_exact_witness:
  "op_pair ` set (extractPerms rev [(''a'', [\<lparr>bop_Entity = ''x'', bop_Action = ''r''\<rparr>]),
       (''b'', [\<lparr>bop_Entity = ''x'', bop_Action = ''r''\<rparr>, \<lparr>bop_Entity = ''x'', bop_Action = ''w''\<rparr>])])
     = {(''x'', ''r''), (''x'', ''w'')}"
proof -
  have rev: "mset (rev xs) = mset xs" for xs :: "(string \<times> string) list" by simp
  show ?thesis by (subst extractPerms_exact [OF rev, THEN conjunct1]) (auto simp: op_pair_def)
qed

text \<open>When the root key store cannot be set up on the database it has opened, \<open>NewBoltMacaroonStore\<close>
  reports the error and leaves the database open.\<close>

theorem NewBoltMacaroonStore_leaves_open:
  assumes "NewRootKeyStorage db = Err e"
  shows "\<exists>e'. NewBoltMacaroonStore (Ok db) NewRootKeyStorage n = (Err e', n + 1)"
  using assms by (rule NewBoltMacaroonStore_leaks)

theorem NewBoltMacaroonStore_leaves_open_witness:
  "\<exists>e'. NewBoltMacaroonStore (Ok ()) (\<lambda>_. Err (ExtErr ''bucket'')) 0 = (Err e', 1)"
  using NewBoltMacaroonStore_leaves_open [of "\<lambda>_. Err (ExtErr ''bucket'')" "()" "ExtErr ''bucket''" 0]
  by simp

end
