(* ===== verification/Spec2Isabelle.thy ===== *)
theory Spec2Isabelle
  imports Subscriptions BasicClient LndServicesFacts HtlcInterceptor MacaroonRecipes MacaroonService
begin

text \<open>
  A model of lndclient, a Go library that wraps the RPC clients of the Lightning daemon lnd.

  \<^bold>\<open>The program.\<close> \<open>NewLndServices\<close> (\<open>lnd_services.go\<close>) dials lnd, waits for its wallet, checks its network and
  version, loads one macaroon per service into a pouch (\<open>macaroon_pouch.go\<close>) and builds one client per
  subserver; \<open>NewBasicClient\<close> (\<open>basic_client.go\<close>) does the short form of this. A client turns the types of
  the caller into protobuf requests, attaches its macaroon and a timeout to the context, makes the
  call and turns the answer back; a subscription starts a goroutine that receives from a stream and
  forwards to two channels. \<open>macaroon_service.go\<close> is a macaroon store for programs built on the library,
  \<open>macaroon_recipes.go\<close> computes the permissions a set of its methods needs.

  \<^bold>\<open>Conventions.\<close> A fallible function returns \<open>'a go\<close>: a value, an error or a panic. An error of another
  module is a value the model does not look into; errors the library makes are terms of \<open>go_error\<close>. A
  method that talks to lnd is an \<open>io\<close>: it maps the log of the calls made so far to a result and the
  longer log, each entry the context and the request; lnd is a \<open>server\<close>, any function of the log, so
  every theorem about a method holds for every behaviour of lnd. A context is the list of macaroons
  and timeouts attached to it. Integers are words of their width, nil pointers are None, an index out
  of range or a nil dereference is a panic. Protobuf messages and types of other modules are records
  with the fields the library reads; their parsers, codecs, hashes and clocks are fields of records
  of parameters (\<open>ln_fns\<close>, \<open>signer_fns\<close>, \<open>wallet_fns\<close>, \<open>startup_env\<close> and others).

  \<^bold>\<open>Theories.\<close>
  \<^item> \<open>Prelude\<close>: the results, errors, contexts and the log monad, with the rules \<open>rpc_intros\<close> that prove
    what every call of a method satisfies. \<open>GoStd\<close>: hex, paths, decimal numbers, times of Go.
  \<^item> \<open>Streams\<close>: loops of goroutines as scripts of channel operations on a small-step machine. Its locale
    \<open>subscription\<close> turns a check of the loop body into no misuse of channels, one error, no loss, no
    leaked goroutine, and refinement of the sequential loop \<open>serve\<close>; each client interprets it.
    \<open>Reactions\<close>: what a subscription promises its consumer, message by message and without scripts.
    \<open>Interceptor\<close>: the machine of the two bidirectional interceptors and its locale \<open>interceptor\<close>.
  \<^item> \<open>Network\<close>, \<open>TxUtils\<close>, \<open>MacaroonPouch\<close>, \<open>Versioner\<close>, \<open>LndVersion\<close>, \<open>StateClient\<close>: \<open>network.go\<close>, \<open>tx_utils.go\<close>,
    \<open>macaroon_pouch.go\<close>, \<open>versioner_client.go\<close>, the version checks of \<open>lnd_services.go\<close>, \<open>state_client.go\<close>.
  \<^item> \<open>RouterTypes\<close>, \<open>Router\<close>, \<open>RouterFacts\<close>, \<open>HtlcInterceptor\<close>: \<open>router_client.go\<close>.
  \<^item> \<open>InvoiceTypes\<close>, \<open>Invoices\<close>: \<open>invoices_client.go\<close> and the invoice of \<open>lightning_client.go\<close>.
  \<^item> \<open>ChainNotifier\<close>, \<open>WtClient\<close>: \<open>chainnotifier_client.go\<close> with \<open>chainkit_client.go\<close>, \<open>wtclient_client.go\<close>.
  \<^item> \<open>LightningInfo\<close>, \<open>LightningTypes\<close>, \<open>Lightning\<close>, \<open>LightningGraph\<close>, \<open>LightningStreams\<close>: \<open>lightning_client.go\<close>,
    its data, unary methods, graph methods and subscriptions. \<open>Subscriptions\<close>: the reactions of the
    subscriptions of all clients, and that their loops carry them out.
  \<^item> \<open>Signer\<close>, \<open>WalletKit\<close>: \<open>signer_client.go\<close>, \<open>walletkit_client.go\<close>.
  \<^item> \<open>LndServices\<close>, \<open>LndServicesFacts\<close>, \<open>BasicClient\<close>: the start-up of \<open>lnd_services.go\<close> and \<open>basic_client.go\<close>.
  \<^item> \<open>MacaroonService\<close>, \<open>MacaroonRecipes\<close>: \<open>macaroon_service.go\<close>, \<open>macaroon_recipes.go\<close>.

  \<^bold>\<open>What the lemmas show.\<close> Each client has a lemma that every request of a method carries the client's
  macaroon and, for the unary methods, its timeout (\<open>..._calls\<close>), lemmas for its conversions in both
  directions and for the branches that fail or panic, and, with subscriptions, the interpretations of
  \<open>subscription\<close>, from which \<open>Reactions\<close> concludes that a loop follows the reactions it carries out. The start-up has a discipline \<open>tidy\<close>, kept by every step, that counts how often the
  connection is closed. The theorems of this theory compose the clients: all loops are well behaved,
  the simple ones are pipes, and the services of a start-up authenticate their requests.

  \<^bold>\<open>Bounds.\<close> The loops of the library that poll or wait are given the events they receive as lists and
  recurse on them, so no fuel is needed; a result None says that the loop still waits when its events
  are used up, and the theorems on termination say with which events it returns. The exit of
  goroutines is an inductive predicate over all schedules, proved with a well-founded order.

  \<^bold>\<open>Parameters and hypotheses.\<close> Of other modules the theorems assume only what they name: that reading a
  file does not panic, that the public key parser gives a key back from its compressed serialisation
  and that lnd sends that serialisation, that short channel ids are inverted by their integer form,
  that the macaroon checker allows only what a macaroon grants and counts it right and that a macaroon
  survives its encoding (\<open>bakery_laws\<close>), that the root key store opens with the password it was last
  given (\<open>store_laws\<close>), that the text of a hash has no colon and is parsed back, that ranging over a
  map visits its entries once each, and that a stream whose context has ended returns an error, as
  gRPC documents.

  \<^bold>\<open>Not modelled.\<close> Log lines and wait groups; the writes of \<open>NewLndServices\<close> to the defaults of the
  caller's configuration; the gRPC interceptors that \<open>MacaroonService.Interceptors\<close> builds from the
  \<open>macaroons\<close> package of lnd; \<open>log.go\<close> and \<open>tools\<close>, which hold no logic. The raw client that
  \<open>RawClientWithMacAuth\<close> returns is a third-party stub; the model keeps its context and timeout.
\<close>

section \<open>Pipes\<close>







section \<open>Requests of the services\<close>

text \<open>A method that, called with the context \<open>c\<close>, sends its requests with one macaroon more than \<open>c\<close> has,
  the given one, and limited by the given timeout.\<close>

definition sends_with :: "serializedMacaroon \<Rightarrow> i64 \<Rightarrow> ctx \<Rightarrow> ('q, 'a) io \<Rightarrow> bool" where
  "sends_with mac timeout c m \<longleftrightarrow> calls_ok (\<lambda>c' q. authed mac c c' \<and> bounded timeout c') m"

lemma services_clients:
  "let s = build_services macaroons readonlyMac timeout params node
   in signer_mac (svc_Signer s) = pouch_get macaroons SignerServiceMac \<and> signer_timeout (svc_Signer s) = timeout
     \<and> walletkit_mac (svc_WalletKit s) = pouch_get macaroons WalletKitServiceMac
     \<and> walletkit_timeout (svc_WalletKit s) = timeout
     \<and> kit_mac (svc_ChainKit s) = pouch_get macaroons ChainNotifierServiceMac
     \<and> kit_timeout (svc_ChainKit s) = timeout
     \<and> wt_mac (svc_WtClient s) = pouch_get macaroons WalletKitServiceMac \<and> wt_timeout (svc_WtClient s) = timeout
     \<and> ver_readonlyMac (svc_Versioner s) = readonlyMac \<and> ver_timeout (svc_Versioner s) = timeout
     \<and> ln_adminMac (svc_Client s) = pouch_get macaroons AdminServiceMac \<and> ln_timeout (svc_Client s) = timeout
     \<and> router_mac (svc_Router s) = pouch_get macaroons RouterServiceMac \<and> router_timeout (svc_Router s) = timeout
     \<and> invoices_mac (svc_Invoices s) = pouch_get macaroons InvoiceServiceMac
     \<and> invoices_timeout (svc_Invoices s) = timeout"
  by (simp add: build_services_def Let_def newSignerClient_def newWalletKitClient_def
      newChainKitClient_def newWtClient_def newVersionerClient_def newLightningClient_def
      newRouterClient_def newInvoicesClient_def)

lemma sends_with_service:
  fixes macaroons readonlyMac timeout params node
  defines "s \<equiv> build_services macaroons readonlyMac timeout params node"
  shows "calls_ok (signer_ok (svc_Signer s) c) m1 \<Longrightarrow>
      sends_with (pouch_get macaroons SignerServiceMac) timeout c m1"
    and "calls_ok (wallet_ok (svc_WalletKit s) c) m2 \<Longrightarrow>
      sends_with (pouch_get macaroons WalletKitServiceMac) timeout c m2"
    and "calls_ok (\<lambda>c' q. authed (kit_mac (svc_ChainKit s)) c c' \<and> bounded (kit_timeout (svc_ChainKit s)) c') m3
      \<Longrightarrow> sends_with (pouch_get macaroons ChainNotifierServiceMac) timeout c m3"
    and "calls_ok (wt_bounded (svc_WtClient s) c) m4 \<Longrightarrow>
      sends_with (pouch_get macaroons WalletKitServiceMac) timeout c m4"
    and "calls_ok (\<lambda>c' q. authed (ver_readonlyMac (svc_Versioner s)) c c'
        \<and> bounded (ver_timeout (svc_Versioner s)) c') m5 \<Longrightarrow> sends_with readonlyMac timeout c m5"
    and "calls_ok (ln_ok (svc_Client s) c) m6 \<Longrightarrow>
      sends_with (pouch_get macaroons AdminServiceMac) timeout c m6"
    and "calls_ok (router_bounded (svc_Router s) c) m7 \<Longrightarrow>
      sends_with (pouch_get macaroons RouterServiceMac) timeout c m7"
    and "calls_ok (invoices_bounded (svc_Invoices s) c) m8 \<Longrightarrow>
      sends_with (pouch_get macaroons InvoiceServiceMac) timeout c m8"
  using services_clients [of macaroons readonlyMac timeout params node]
  by (simp_all add: sends_with_def s_def Let_def)

text \<open>A method that adds the macaroon and no timeout.\<close>

definition sends_unlimited :: "serializedMacaroon \<Rightarrow> ctx \<Rightarrow> ('q, 'a) io \<Rightarrow> bool" where
  "sends_unlimited mac c m \<longleftrightarrow>
     calls_ok (\<lambda>c' q. authed mac c c' \<and> ctx_timeouts c' = ctx_timeouts c) m"

lemma unlimited_calls:
  fixes macaroons readonlyMac timeout params node
  defines "s \<equiv> build_services macaroons readonlyMac timeout params node"
  shows "sends_unlimited (pouch_get macaroons AdminServiceMac) c (ln_SignMessage (svc_Client s) d1 c msg)"
    and "sends_unlimited (pouch_get macaroons AdminServiceMac) c
      (ln_VerifyMessage (svc_Client s) d2 c msg sig)"
    and "calls_ok (\<lambda>c' q. c' = c) (ListAliases (svc_Client s) d3 c)"
  using services_clients [of macaroons readonlyMac timeout params node]
  by (auto simp: sends_unlimited_def s_def Let_def ln_SignMessage_def ln_VerifyMessage_def
      ListAliases_def intro!: rpc_intros)

section \<open>Main theorems\<close>

text \<open>C1: every subscription loop of the library but the one of transactions keeps its promises,
  whatever the stream, the consumer and the context do and in whatever order. It never sends on or
  closes a closed channel and reports at most one error. While its context lives it follows the
  reactions of its client to the messages received: it has handed out their updates, reported their
  errors and signalled their re-orgs, in order and without loss but for what it is about to send, at
  most one update of it; it goes on after every message whose reaction goes on, ends only at one that
  ends it, with the channels closed or open as that says, and panics only where a conversion does.
  After the end of its context it has handed out nothing else, and it exits even when nobody reads its
  channels.\<close>

theorem subscriptions_well_behaved:
  "well_behaved state_sub state_reaction
   \<and> well_behaved (trackPayment tfns) (payment_reaction tfns)
   \<and> well_behaved (htlc_events_sub :: ('ev, 'ev) sub) (forward_reaction True Ok)
   \<and> well_behaved (invoice_sub ifns) (invoice_reaction ifns)
   \<and> well_behaved (spend_sub cfns opts) (spend_reaction cfns opts)
   \<and> well_behaved (conf_sub cfns opts) (conf_reaction cfns opts)
   \<and> well_behaved epoch_sub (forward_reaction False Ok)
   \<and> well_behaved (channel_events_sub lfns) (forward_reaction False (getChannelEventUpdate lfns))
   \<and> well_behaved (backups_sub :: ('snap, 'snap) sub) (forward_reaction False Ok)
   \<and> well_behaved (open_stream_sub
        :: (('pend, 'opn, 'psbt) rpcOpenStatus \<times> bytes, ('pend, 'opn, 'psbt) OpenStatusUpdate) sub)
        (forward_reaction False (\<lambda>u. Ok (getOpenStatusUpdate u)))
   \<and> well_behaved (close_sub clfns) (close_reaction clfns)
   \<and> well_behaved (graph_sub gfns) (forward_reaction False (getGraphTopologyUpdate gfns))
   \<and> well_behaved (invoices_sub ivfns) (forward_reaction True (unmarshalInvoice ivfns))
   \<and> well_behaved (custom_messages_sub mfns) (custom_message_reaction mfns)"
  unfolding channel_events_sub_def backups_sub_def open_stream_sub_def graph_sub_def
  by (intro conjI
      keeps_promises [OF state_stream.subscription_axioms carried_out(1)]
      keeps_promises [OF payment_stream.subscription_axioms carried_out(2)]
      keeps_promises [OF invoice_stream.subscription_axioms carried_out(3)]
      keeps_promises [OF spend_stream.subscription_axioms carried_out(4)]
      keeps_promises [OF conf_stream.subscription_axioms carried_out(5)]
      keeps_promises [OF close_stream.subscription_axioms carried_out(6)]
      keeps_promises [OF forward_stream.subscription_axioms carried_out(7)]
      keeps_promises [OF invoices_stream.subscription_axioms carried_out(8)]
      keeps_promises [OF htlc_stream.subscription_axioms carried_out(9)]
      keeps_promises [OF epoch_stream.subscription_axioms carried_out(10)]
      keeps_promises [OF custom_messages_stream.subscription_axioms carried_out(11)])


text \<open>C7: the services of a start-up send every request of the signer, the wallet kit, the chain kit, the
  watchtower and the version client with the macaroon of that service added once to the caller's and
  limited by the configured timeout: the signer's, the wallet kit's, the chain notifier's, again the
  wallet kit's and the read-only macaroon.\<close>

theorem services_authenticate:
  "let s = build_services macaroons readonlyMac timeout params node; mac = pouch_get macaroons
   in sends_with (mac SignerServiceMac) timeout c (SignOutputRaw (svc_Signer s) sfns sig_s1 c tx ds outs)
      \<and> sends_with (mac SignerServiceMac) timeout c (SignOutputRawKeyLocator (svc_Signer s) sfns sig_s1 c tx ds outs)
      \<and> sends_with (mac SignerServiceMac) timeout c (ComputeInputScript (svc_Signer s) sfns sig_s2 c tx ds outs)
      \<and> sends_with (mac SignerServiceMac) timeout c (SignMessage (svc_Signer s) sig_s3 c msg loc sopts)
      \<and> sends_with (mac SignerServiceMac) timeout c (VerifyMessage (svc_Signer s) sig_s4 c msg sig pub vopts)
      \<and> sends_with (mac SignerServiceMac) timeout c (DeriveSharedKey (svc_Signer s) sfns sig_s5 c eph kloc)
      \<and> sends_with (mac SignerServiceMac) timeout c (MuSig2CreateSession (svc_Signer s) sfns sig_s6 c ver sloc signers mopts)
      \<and> sends_with (mac SignerServiceMac) timeout c (MuSig2RegisterNonces (svc_Signer s) sig_s7 c sid nonces)
      \<and> sends_with (mac SignerServiceMac) timeout c (MuSig2Sign (svc_Signer s) sig_s8 c sid digest cln)
      \<and> sends_with (mac SignerServiceMac) timeout c (MuSig2CombineSig (svc_Signer s) sig_s9 c sid sigs)
      \<and> sends_with (mac SignerServiceMac) timeout c (MuSig2Cleanup (svc_Signer s) sig_s10 c sid)
      \<and> sends_with (mac SignerServiceMac) timeout c (MuSig2RegisterCombinedNonce (svc_Signer s) sig_s11 c sid nonce)
      \<and> sends_with (mac SignerServiceMac) timeout c (MuSig2GetCombinedNonce (svc_Signer s) sig_s12 c sid)
      \<and> sends_with (mac WalletKitServiceMac) timeout c (ListUnspent (svc_WalletKit s) wfns wal_s1 c mn mx uopts)
      \<and> sends_with (mac WalletKitServiceMac) timeout c (LeaseOutput (svc_WalletKit s) wfns wal_s2 c lock op d)
      \<and> sends_with (mac WalletKitServiceMac) timeout c (ListLeases (svc_WalletKit s) wfns wal_s3 c)
      \<and> sends_with (mac WalletKitServiceMac) timeout c (ReleaseOutput (svc_WalletKit s) wal_s4 c lock op)
      \<and> sends_with (mac WalletKitServiceMac) timeout c (DeriveNextKey (svc_WalletKit s) wfns wal_s5 c family)
      \<and> sends_with (mac WalletKitServiceMac) timeout c (DeriveKey (svc_WalletKit s) wfns wal_s6 c dloc)
      \<and> sends_with (mac WalletKitServiceMac) timeout c (NextAddr (svc_WalletKit s) wfns wal_s7 c name ty ch)
      \<and> sends_with (mac WalletKitServiceMac) timeout c (GetTransaction (svc_WalletKit s) wfns lfns wal_t1 c txid)
      \<and> sends_with (mac WalletKitServiceMac) timeout c (RemoveTransaction (svc_WalletKit s) wfns wal_t2 c txid)
      \<and> sends_with (mac WalletKitServiceMac) timeout c (PublishTransaction (svc_WalletKit s) wfns wal_t3 c tx label)
      \<and> sends_with (mac WalletKitServiceMac) timeout c (SubmitPackage (svc_WalletKit s) wfns wal_t4 c txs rate)
      \<and> sends_with (mac WalletKitServiceMac) timeout c (SendOutputs (svc_WalletKit s) wfns wal_t5 c outs fee label)
      \<and> sends_with (mac WalletKitServiceMac) timeout c (EstimateFeeRate (svc_WalletKit s) wal_t6 c conf)
      \<and> sends_with (mac WalletKitServiceMac) timeout c (MinRelayFee (svc_WalletKit s) wal_t6 c)
      \<and> sends_with (mac WalletKitServiceMac) timeout c (ListSweeps (svc_WalletKit s) wal_t7 c h)
      \<and> sends_with (mac WalletKitServiceMac) timeout c (ListSweepsVerbose (svc_WalletKit s) wfns wal_p1 c h)
      \<and> sends_with (mac WalletKitServiceMac) timeout c (BumpFee (svc_WalletKit s) wfns wal_p2 c op fee bopts)
      \<and> sends_with (mac WalletKitServiceMac) timeout c (ListAccounts (svc_WalletKit s) wal_p3 c name ty)
      \<and> sends_with (mac WalletKitServiceMac) timeout c (FundPsbt (svc_WalletKit s) wfns wal_p4 c fund)
      \<and> sends_with (mac WalletKitServiceMac) timeout c (SignPsbt (svc_WalletKit s) wfns wal_p5 c psbt)
      \<and> sends_with (mac WalletKitServiceMac) timeout c (FinalizePsbt (svc_WalletKit s) wfns wal_p6 c psbt account)
      \<and> sends_with (mac WalletKitServiceMac) timeout c (ImportPublicKey (svc_WalletKit s) wfns wal_p7 c ipub aty)
      \<and> sends_with (mac WalletKitServiceMac) timeout c (ImportTaprootScript (svc_WalletKit s) wfns wal_p8 c ts)
      \<and> sends_with (mac ChainNotifierServiceMac) timeout c (GetBlock (svc_ChainKit s) dblk gsrv c hash)
      \<and> sends_with (mac ChainNotifierServiceMac) timeout c (GetBlockHeader (svc_ChainKit s) dh hsrv c hash)
      \<and> sends_with (mac ChainNotifierServiceMac) timeout c (GetBestBlock (svc_ChainKit s) tsrv c)
      \<and> sends_with (mac ChainNotifierServiceMac) timeout c (GetBlockHash (svc_ChainKit s) vsrv c height)
      \<and> sends_with (mac WalletKitServiceMac) timeout c (AddTower (svc_WtClient s) wt_s1 c pubkey address)
      \<and> sends_with (mac WalletKitServiceMac) timeout c (DeactivateTower (svc_WtClient s) wt_s2 c pubkey)
      \<and> sends_with (mac WalletKitServiceMac) timeout c (GetTowerInfo (svc_WtClient s) wt_s3 c pubkey i e)
      \<and> sends_with (mac WalletKitServiceMac) timeout c (ListTowers (svc_WtClient s) wt_s4 c i e)
      \<and> sends_with (mac WalletKitServiceMac) timeout c (wt_Policy (svc_WtClient s) wt_s5 c pt)
      \<and> sends_with (mac WalletKitServiceMac) timeout c (RemoveTower (svc_WtClient s) wt_s6 c pubkey address)
      \<and> sends_with (mac WalletKitServiceMac) timeout c (wt_Stats (svc_WtClient s) wt_s7 c)
      \<and> sends_with (mac WalletKitServiceMac) timeout c (TerminateSession (svc_WtClient s) wt_s8 c session)
      \<and> sends_with readonlyMac timeout c (GetVersion (svc_Versioner s) srv c)"
  unfolding Let_def
  by (intro conjI;
    ((rule sends_with_service(1), rule signer_calls musig_calls)
      | (rule sends_with_service(2), rule wallet_output_calls wallet_tx_calls wallet_psbt_calls)
      | (rule sends_with_service(3), rule kit_calls) | (rule sends_with_service(4), rule wt_calls)
      | (rule sends_with_service(5), rule GetVersion_calls)))

text \<open>C16: the lightning client sends the requests of its unary methods with the admin macaroon added once
  to the caller's and limited by the configured timeout, but for three: \<open>SignMessage\<close> and \<open>VerifyMessage\<close>
  attach the macaroon and no timeout, so that only the caller's limits hold, and \<open>ListAliases\<close> sends the
  caller's context as it is, with neither. The router's mission control and alias methods and the hold
  invoice methods send theirs with the router's and the invoices' macaroon and the timeout.\<close>

theorem lightning_authenticates:
  "let s = build_services macaroons readonlyMac timeout params node; mac = pouch_get macaroons
   in sends_with (mac AdminServiceMac) timeout c (ln_WalletBalance (svc_Client s) s1 c)
      \<and> sends_with (mac AdminServiceMac) timeout c (GetInfo (svc_Client s) H C s2 c)
      \<and> sends_with (mac AdminServiceMac) timeout c (EstimateFee (svc_Client s) aS s3 c addr amt conf)
      \<and> sends_with (mac AdminServiceMac) timeout c (EstimateFeeToP2WSH (svc_Client s) aS nW s3 c amt conf)
      \<and> sends_with (mac AdminServiceMac) timeout c (SendCoins (svc_Client s) aS s4 c addr amt all conf rate label)
      \<and> sends_with (mac AdminServiceMac) timeout c (ListTransactions (svc_Client s) fns s5 c h1 h2 topts)
      \<and> sends_with (mac AdminServiceMac) timeout c (AddInvoice (svc_Client s) hfns mh a1 c inp)
      \<and> sends_with (mac AdminServiceMac) timeout c (LookupInvoice (svc_Client s) ifns a2 c hash)
      \<and> sends_with (mac AdminServiceMac) timeout c (ListInvoices (svc_Client s) ifns a3 c lreq)
      \<and> sends_with (mac AdminServiceMac) timeout c (ListPayments (svc_Client s) mhs tfns a4 c preq)
      \<and> sends_with (mac AdminServiceMac) timeout c (DecodePaymentRequest (svc_Client s) fns a5 c payReq)
      \<and> sends_with (mac AdminServiceMac) timeout c (ForwardingHistory (svc_Client s) a6 c freq)
      \<and> sends_with (mac AdminServiceMac) timeout c (ListChannels (svc_Client s) fns b1 c act pub lopts)
      \<and> sends_with (mac AdminServiceMac) timeout c (ln_PendingChannels (svc_Client s) fns b2 c)
      \<and> sends_with (mac AdminServiceMac) timeout c (ClosedChannels (svc_Client s) fns b3 c)
      \<and> sends_with (mac AdminServiceMac) timeout c (ChannelBackup (svc_Client s) b4 c op)
      \<and> sends_with (mac AdminServiceMac) timeout c (ChannelBackups (svc_Client s) b5 c)
      \<and> sends_with (mac AdminServiceMac) timeout c (ln_ChannelBalance (svc_Client s) b6 c)
      \<and> sends_with (mac AdminServiceMac) timeout c (OpenChannel (svc_Client s) fns b7 c peer lsat psat priv oopts)
      \<and> sends_with (mac AdminServiceMac) timeout c (UpdateChanPolicy (svc_Client s) b8 c polreq cp)
      \<and> sends_with (mac AdminServiceMac) timeout c (GetChanInfo (svc_Client s) fns c1 c chan)
      \<and> sends_with (mac AdminServiceMac) timeout c (GetNodeInfo (svc_Client s) fns c2 c key incl)
      \<and> sends_with (mac AdminServiceMac) timeout c (DescribeGraph (svc_Client s) fns c3 c unann)
      \<and> sends_with (mac AdminServiceMac) timeout c (ln_NetworkInfo (svc_Client s) fa c4 c)
      \<and> sends_with (mac AdminServiceMac) timeout c (ListPeers (svc_Client s) fns nf c5 c)
      \<and> sends_with (mac AdminServiceMac) timeout c (Connect (svc_Client s) vS c6 c peer host perm)
      \<and> sends_with (mac AdminServiceMac) timeout c (QueryRoutes (svc_Client s) hfns fns c7 c qreq)
      \<and> sends_with (mac AdminServiceMac) timeout c (ListPermissions (svc_Client s) c8 c)
      \<and> sends_with (mac AdminServiceMac) timeout c (CheckMacaroonPermissions (svc_Client s) c9 c macaroon perms meth)
      \<and> sends_with (mac AdminServiceMac) timeout c (FundingStateStep (svc_Client s) c10 c fmsg)
      \<and> sends_with (mac AdminServiceMac) timeout c (SendCustomMessage (svc_Client s) c11 c cmsg)
      \<and> sends_unlimited (mac AdminServiceMac) c (ln_SignMessage (svc_Client s) d1 c msg)
      \<and> sends_unlimited (mac AdminServiceMac) c (ln_VerifyMessage (svc_Client s) d2 c msg sig)
      \<and> calls_ok (\<lambda>c' q. c' = c) (ListAliases (svc_Client s) d3 c)
      \<and> sends_with (mac RouterServiceMac) timeout c (QueryMissionControl (svc_Router s) nv ro_qsrv c)
      \<and> sends_with (mac RouterServiceMac) timeout c (ImportMissionControl (svc_Router s) ro_isrv c entries force)
      \<and> sends_with (mac RouterServiceMac) timeout c (ResetMissionControl (svc_Router s) ro_rsrv c)
      \<and> sends_with (mac RouterServiceMac) timeout c (UpdateChanStatus (svc_Router s) ro_usrv c channel action)
      \<and> sends_with (mac RouterServiceMac) timeout c (XAddLocalChanAlias (svc_Router s) toU ro_asrv c alias base)
      \<and> sends_with (mac RouterServiceMac) timeout c (XDeleteLocalChanAlias (svc_Router s) toU ro_asrv c alias base)
      \<and> sends_with (mac RouterServiceMac) timeout c (XFindBaseLocalChanAlias (svc_Router s) toU fromU ro_fsrv c alias)
      \<and> sends_with (mac InvoiceServiceMac) timeout c (SettleInvoice (svc_Invoices s) in_ssrv c preimage)
      \<and> sends_with (mac InvoiceServiceMac) timeout c (CancelInvoice (svc_Invoices s) in_csrv c hash)
      \<and> sends_with (mac InvoiceServiceMac) timeout c (AddHoldInvoice (svc_Invoices s) in_fns in_asrv c inp)"
  unfolding Let_def
  by (intro conjI;
    ((rule sends_with_service(6), rule wallet_calls invoice_payment_calls channel_calls graph_calls)
      | (rule sends_with_service(7), rule router_calls_bounded)
      | (rule sends_with_service(8), rule invoices_calls)
      | rule unlimited_calls))

end
